(* ===== verification/C_Layout.thy ===== *)
theory C_Layout
  imports Jailer_Prelude
begin

text \<open>
  C object types and their layout: sizes, alignments, bit positions of the members of an
  aggregate and the lookup of a member by name, anonymous aggregates included. The rules are
  those of the 64-bit little-endian ABI the BPF target shares with the kernels it runs on:
  a member starts at the next multiple of its alignment, a bit-field never straddles a
  storage unit of its declared type, an unnamed bit-field only reserves bits, and an
  aggregate is padded to a multiple of its alignment.
\<close>

section \<open>C object types\<close>

datatype cbase =
    TChar | TSChar | TUChar | TBool | TShort | TUShort | TInt | TUInt | TLong | TULong
  | TLLong | TULLong

datatype ctype =
    CBase cbase
  | CEnum "(string \<times> int) list"        \<comment> \<open>enumerators and their values\<close>
  | CPtr string                         \<comment> \<open>pointer, with the type it points to as written\<close>
  | CArr nat ctype
  | CStruct "cfield list"
  | CUnion "cfield list"
and cfield =
    Fld string ctype                    \<comment> \<open>member; the empty name is an anonymous aggregate\<close>
  | Bitf string ctype nat               \<comment> \<open>bit-field: name, declared type, width\<close>

primrec base_size :: "cbase \<Rightarrow> nat" where
  "base_size TChar = 1"
| "base_size TSChar = 1"
| "base_size TUChar = 1"
| "base_size TBool = 1"
| "base_size TShort = 2"
| "base_size TUShort = 2"
| "base_size TInt = 4"
| "base_size TUInt = 4"
| "base_size TLong = 8"
| "base_size TULong = 8"
| "base_size TLLong = 8"
| "base_size TULLong = 8"

lemma base_size_pos [simp]: "0 < base_size b"
  by (cases b) simp_all

section \<open>Sizes and alignments\<close>

text \<open>The least multiple of \<open>a\<close> that is not below \<open>n\<close>.\<close>

definition align_up :: "nat \<Rightarrow> nat \<Rightarrow> nat" where
  "align_up n a = (n + (a - 1)) - (n + (a - 1)) mod a"

lemma align_up_ge: "0 < a \<Longrightarrow> n \<le> align_up n a"
proof -
  assume a: "0 < a"
  have "n + (a - 1) = align_up n a + (n + (a - 1)) mod a"
    by (simp add: align_up_def mod_less_eq_dividend)
  moreover from a have "(n + (a - 1)) mod a \<le> a - 1"
    using mod_less_divisor [OF a, of "n + (a - 1)"] by linarith
  ultimately show ?thesis by linarith
qed

lemma align_up_dvd: "a dvd align_up n a"
  by (simp add: align_up_def minus_mod_eq_mult_div)

fun calign :: "ctype \<Rightarrow> nat" and faligns :: "cfield list \<Rightarrow> nat" where
  "calign (CBase b) = base_size b"
| "calign (CEnum es) = 4"
| "calign (CPtr p) = 8"
| "calign (CArr n t) = calign t"
| "calign (CStruct fs) = faligns fs"
| "calign (CUnion fs) = faligns fs"
| "faligns [] = 1"
| "faligns (Fld x t # fs) = max (calign t) (faligns fs)"
| "faligns (Bitf x t w # fs) = (if x = [] then faligns fs else max (calign t) (faligns fs))"

lemma calign_pos [simp]: "0 < calign t" and faligns_pos [simp]: "0 < faligns fs"
  by (induction t and fs rule: calign_faligns.induct) auto

text \<open>
  \<open>end_bits pos fs\<close> is the first free bit after placing the members \<open>fs\<close> of a structure
  from bit \<open>pos\<close> on; \<open>max_bytes\<close> is the size of the largest member of a union.
\<close>

fun csize :: "ctype \<Rightarrow> nat"
  and end_bits :: "nat \<Rightarrow> cfield list \<Rightarrow> nat"
  and max_bytes :: "cfield list \<Rightarrow> nat" where
  "csize (CBase b) = base_size b"
| "csize (CEnum es) = 4"
| "csize (CPtr p) = 8"
| "csize (CArr n t) = n * csize t"
| "csize (CStruct fs) = align_up ((end_bits 0 fs + 7) div 8) (faligns fs)"
| "csize (CUnion fs) = align_up (max_bytes fs) (faligns fs)"
| "end_bits pos [] = pos"
| "end_bits pos (Fld x t # fs) = end_bits (align_up pos (8 * calign t) + 8 * csize t) fs"
| "end_bits pos (Bitf x t w # fs) =
     end_bits ((if pos div (8 * csize t) = (pos + w - 1) div (8 * csize t) then pos
                else align_up pos (8 * calign t)) + w) fs"
| "max_bytes [] = 0"
| "max_bytes (Fld x t # fs) = max (csize t) (max_bytes fs)"
| "max_bytes (Bitf x t w # fs) = max ((w + 7) div 8) (max_bytes fs)"

section \<open>Member lookup\<close>

text \<open>
  \<open>member x t\<close> is the byte offset and the type of the member \<open>x\<close> of the aggregate \<open>t\<close>.
  The search enters anonymous aggregates, as member access in C does. Bit-fields have no
  address and are not found.
\<close>

fun cmember :: "string \<Rightarrow> ctype \<Rightarrow> (nat \<times> ctype) option"
  and smember :: "string \<Rightarrow> nat \<Rightarrow> cfield list \<Rightarrow> (nat \<times> ctype) option"
  and umember :: "string \<Rightarrow> cfield list \<Rightarrow> (nat \<times> ctype) option" where
  "cmember x (CStruct fs) = smember x 0 fs"
| "cmember x (CUnion fs) = umember x fs"
| "cmember x (CBase b) = None"
| "cmember x (CEnum es) = None"
| "cmember x (CPtr p) = None"
| "cmember x (CArr n t) = None"
| "smember x pos [] = None"
| "smember x pos (Fld y t # fs) =
     (let start = align_up pos (8 * calign t) in
      case (if y = x then Some (0, t) else if y = [] then cmember x t else None) of
        Some (off, t') \<Rightarrow> Some (start div 8 + off, t')
      | None \<Rightarrow> smember x (start + 8 * csize t) fs)"
| "smember x pos (Bitf y t w # fs) =
     smember x ((if pos div (8 * csize t) = (pos + w - 1) div (8 * csize t) then pos
                 else align_up pos (8 * calign t)) + w) fs"
| "umember x [] = None"
| "umember x (Fld y t # fs) =
     (case (if y = x then Some (0, t) else if y = [] then cmember x t else None) of
        Some r \<Rightarrow> Some r
      | None \<Rightarrow> umember x fs)"
| "umember x (Bitf y t w # fs) = umember x fs"

text \<open>\<open>offset_of t [x, y, z]\<close> is the offset of \<open>x.y.z\<close> in \<open>t\<close>, and the type found there.\<close>

fun offset_of :: "ctype \<Rightarrow> string list \<Rightarrow> (nat \<times> ctype) option" where
  "offset_of t [] = Some (0, t)"
| "offset_of t (x # xs) =
     (case cmember x t of
        None \<Rightarrow> None
      | Some (off, t') \<Rightarrow>
          (case offset_of t' xs of None \<Rightarrow> None | Some (off', t'') \<Rightarrow> Some (off + off', t'')))"

section \<open>Evaluating layouts\<close>

text \<open>
  Long aggregates are built from several lists of members; these rules evaluate them part by
  part.
\<close>

lemma end_bits_append: "end_bits pos (fs @ gs) = end_bits (end_bits pos fs) gs"
  by (induction fs arbitrary: pos) (simp, rename_tac f fs pos, case_tac f, simp_all)

lemma faligns_append: "faligns (fs @ gs) = max (faligns fs) (faligns gs)"
proof (induction fs)
  case Nil
  have "1 \<le> faligns gs" using faligns_pos [of gs] by linarith
  then show ?case by (simp add: max_def)
next
  case (Cons f fs)
  then show ?case by (cases f) (simp_all add: max.assoc)
qed

lemma max_bytes_append: "max_bytes (fs @ gs) = max (max_bytes fs) (max_bytes gs)"
  by (induction fs) (simp, rename_tac f fs, case_tac f, simp_all)

lemma smember_append:
  "smember x pos (fs @ gs) =
     (case smember x pos fs of Some r \<Rightarrow> Some r | None \<Rightarrow> smember x (end_bits pos fs) gs)"
proof (induction fs arbitrary: pos)
  case Nil
  then show ?case by simp
next
  case (Cons f fs)
  then show ?case
    by (cases f) (auto simp: Let_def smember.simps(2) split: option.splits if_splits)
qed

text \<open>Conditional steps of the member search, so that a lookup evaluates member by member.\<close>

lemma smember_here [layout]: "smember x pos (Fld x t # fs) = Some (align_up pos (8 * calign t) div 8, t)"
  by (simp add: Let_def)

lemma smember_skip [layout]:
  "y \<noteq> x \<Longrightarrow> y \<noteq> [] \<Longrightarrow>
     smember x pos (Fld y t # fs) = smember x (align_up pos (8 * calign t) + 8 * csize t) fs"
  by (simp add: Let_def)

lemma smember_anon [layout]:
  "x \<noteq> [] \<Longrightarrow> smember x pos (Fld [] t # fs) =
     (case cmember x t of
        Some (off, t') \<Rightarrow> Some (align_up pos (8 * calign t) div 8 + off, t')
      | None \<Rightarrow> smember x (align_up pos (8 * calign t) + 8 * csize t) fs)"
  by (simp add: Let_def)

declare smember.simps(2) [simp del]
declare align_up_def [layout] numeral_2_eq_2 [symmetric, layout]

section \<open>Members lie inside their aggregate\<close>

lemma end_bits_ge: "pos \<le> end_bits pos fs"
proof (induction fs arbitrary: pos)
  case Nil
  then show ?case by simp
next
  case (Cons f fs)
  show ?case
  proof (cases f)
    case (Fld x t)
    have "pos \<le> align_up pos (8 * calign t)" by (simp add: align_up_ge)
    also have "\<dots> \<le> end_bits (align_up pos (8 * calign t) + 8 * csize t) fs"
      using Cons.IH [of "align_up pos (8 * calign t) + 8 * csize t"] by linarith
    finally show ?thesis by (simp add: Fld)
  next
    case (Bitf x t w)
    let ?p = "if pos div (8 * csize t) = (pos + w - 1) div (8 * csize t) then pos
              else align_up pos (8 * calign t)"
    have "pos \<le> ?p" by (simp add: align_up_ge)
    also have "?p \<le> end_bits (?p + w) fs" using Cons.IH [of "?p + w"] by linarith
    finally show ?thesis by (simp add: Bitf)
  qed
qed

lemma start_div8: "align_up pos (8 * a) div 8 * 8 = align_up pos (8 * a)"
proof -
  have "8 dvd align_up pos (8 * a)"
    using align_up_dvd dvd_mult_left by blast
  then show ?thesis by simp
qed

lemma csize_struct_ge: "(end_bits 0 fs + 7) div 8 \<le> csize (CStruct fs)"
  by (simp add: align_up_ge)

lemma member_bounds:
  shows "cmember x t = Some (off, t') \<Longrightarrow> off + csize t' \<le> csize t"
    and "smember x pos fs = Some (off, t') \<Longrightarrow> 8 * (off + csize t') \<le> end_bits pos fs"
    and "umember x fs = Some (off, t') \<Longrightarrow> off + csize t' \<le> max_bytes fs"
proof (induction x t and x pos fs and x fs arbitrary: off t' and off t' and off t'
    rule: cmember_smember_umember.induct)
  case (1 x fs)
  then have "8 * (off + csize t') \<le> end_bits 0 fs" by simp
  then have "off + csize t' \<le> (end_bits 0 fs + 7) div 8"
    by (simp add: less_eq_div_iff_mult_less_eq)
  also have "\<dots> \<le> csize (CStruct fs)" by (rule csize_struct_ge)
  finally show ?case .
next
  case (2 x fs)
  then have "off + csize t' \<le> max_bytes fs" by simp
  also have "\<dots> \<le> csize (CUnion fs)" by (simp add: align_up_ge)
  finally show ?case .
next
  case (8 x pos y t fs)
  let ?s = "align_up pos (8 * calign t)"
  have tail: "?s + 8 * csize t \<le> end_bits (?s + 8 * csize t) fs" by (rule end_bits_ge)
  show ?case
  proof (cases "if y = x then Some (0, t) else if y = [] then cmember x t else None")
    case None
    with "8.prems" have "smember x (?s + 8 * csize t) fs = Some (off, t')"
      by (simp add: smember.simps(2) Let_def)
    then show ?thesis using "8.IH"(2) [OF refl None] by simp
  next
    case (Some r)
    obtain o' t1 where r: "r = (o', t1)" by (cases r)
    with Some "8.prems" have off: "off = ?s div 8 + o'" "t' = t1"
      by (simp_all add: smember.simps(2) Let_def)
    have "o' + csize t' \<le> csize t"
      using Some r off "8.IH"(1) by (auto split: if_splits)
    then show ?thesis using tail off start_div8 [of pos "calign t"] by simp
  qed
next
  case (11 x y t fs)
  show ?case
  proof (cases "if y = x then Some (0, t) else if y = [] then cmember x t else None")
    case None
    with "11.prems" have "umember x fs = Some (off, t')" by simp
    then show ?thesis using "11.IH"(2) [OF None] by (simp add: max.coboundedI2)
  next
    case (Some r)
    with "11.prems" have "r = (off, t')" by simp
    then have "off + csize t' \<le> csize t"
      using Some "11.IH"(1) by (auto split: if_splits)
    then show ?thesis by (simp add: max.coboundedI1)
  qed
qed simp_all

lemma offset_of_bounds: "offset_of t xs = Some (off, t') \<Longrightarrow> off + csize t' \<le> csize t"
proof (induction t xs arbitrary: off t' rule: offset_of.induct)
  case (1 t)
  then show ?case by simp
next
  case (2 t x xs)
  then obtain o1 t1 o2 where m: "cmember x t = Some (o1, t1)"
    and r: "offset_of t1 xs = Some (o2, t')" and off: "off = o1 + o2"
    by (auto split: option.splits)
  have "o2 + csize t' \<le> csize t1" using "2.IH" m r by blast
  moreover have "o1 + csize t1 \<le> csize t" using m by (rule member_bounds(1))
  ultimately show ?case by (simp add: off)
qed

end
