(* ===== verification/Vmlinux_Fs.thy ===== *)
theory Vmlinux_Fs
  imports C_Layout
begin

text \<open>
  The kernel types behind paths, from \<open>vmlinux.h\<close>: every type that the layout of
  \<open>struct path\<close>, \<open>dentry\<close>, \<open>mount\<close>, \<open>inode\<close>, \<open>file\<close>, \<open>fs_struct\<close> and
  \<open>linux_binprm\<close> depends on by value, in dependency order. A structure is
  \<open>struct_\<close> followed by its tag, a union \<open>union_\<close>, an enumeration \<open>enum_\<close>, a typedef
  \<open>td_\<close>. Each comes with its size and alignment, computed by the rules of
  \<open>C_Layout\<close> and stored in the collection \<open>layout\<close>.
\<close>

definition td___u8 :: ctype where
  "td___u8 = CBase TUChar"

lemma td___u8_layout [layout]: "csize td___u8 = 1" "calign td___u8 = 1"
  by (simp_all add: td___u8_def layout)

definition td_u8 :: ctype where
  "td_u8 = td___u8"

lemma td_u8_layout [layout]: "csize td_u8 = 1" "calign td_u8 = 1"
  by (simp_all add: td_u8_def layout)

definition td___u16 :: ctype where
  "td___u16 = CBase TUShort"

lemma td___u16_layout [layout]: "csize td___u16 = 2" "calign td___u16 = 2"
  by (simp_all add: td___u16_def layout)

definition td_u16 :: ctype where
  "td_u16 = td___u16"

lemma td_u16_layout [layout]: "csize td_u16 = 2" "calign td_u16 = 2"
  by (simp_all add: td_u16_def layout)

definition td___u32 :: ctype where
  "td___u32 = CBase TUInt"

lemma td___u32_layout [layout]: "csize td___u32 = 4" "calign td___u32 = 4"
  by (simp_all add: td___u32_def layout)

definition td_u32 :: ctype where
  "td_u32 = td___u32"

lemma td_u32_layout [layout]: "csize td_u32 = 4" "calign td_u32 = 4"
  by (simp_all add: td_u32_def layout)

definition td___u64 :: ctype where
  "td___u64 = CBase TULLong"

lemma td___u64_layout [layout]: "csize td___u64 = 8" "calign td___u64 = 8"
  by (simp_all add: td___u64_def layout)

definition td_u64 :: ctype where
  "td_u64 = td___u64"

lemma td_u64_layout [layout]: "csize td_u64 = 8" "calign td_u64 = 8"
  by (simp_all add: td_u64_def layout)

definition td_bool :: ctype where
  "td_bool = CBase TBool"

lemma td_bool_layout [layout]: "csize td_bool = 1" "calign td_bool = 1"
  by (simp_all add: td_bool_def layout)

definition struct_path :: ctype where
  "struct_path = CStruct [
     Fld ''mnt'' (CPtr ''struct vfsmount''),
     Fld ''dentry'' (CPtr ''struct dentry'')]"

lemma struct_path_layout [layout]: "csize struct_path = 16" "calign struct_path = 8"
  by (simp_all add: struct_path_def layout)

definition struct_qstr :: ctype where
  "struct_qstr = CStruct [
     Fld '''' (CUnion [
       Fld '''' (CStruct [
         Fld ''hash'' td_u32,
         Fld ''len'' td_u32]),
       Fld ''hash_len'' td_u64]),
     Fld ''name'' (CPtr ''const unsigned char'')]"

lemma struct_qstr_layout [layout]: "csize struct_qstr = 16" "calign struct_qstr = 8"
  by (simp_all add: struct_qstr_def layout)

definition struct_seqcount :: ctype where
  "struct_seqcount = CStruct [
     Fld ''sequence'' (CBase TUInt)]"

lemma struct_seqcount_layout [layout]: "csize struct_seqcount = 4" "calign struct_seqcount = 4"
  by (simp_all add: struct_seqcount_def layout)

definition td_seqcount_t :: ctype where
  "td_seqcount_t = struct_seqcount"

lemma td_seqcount_t_layout [layout]: "csize td_seqcount_t = 4" "calign td_seqcount_t = 4"
  by (simp_all add: td_seqcount_t_def layout)

definition struct_seqcount_spinlock :: ctype where
  "struct_seqcount_spinlock = CStruct [
     Fld ''seqcount'' td_seqcount_t]"

lemma struct_seqcount_spinlock_layout [layout]: "csize struct_seqcount_spinlock = 4" "calign struct_seqcount_spinlock = 4"
  by (simp_all add: struct_seqcount_spinlock_def layout)

definition td_seqcount_spinlock_t :: ctype where
  "td_seqcount_spinlock_t = struct_seqcount_spinlock"

lemma td_seqcount_spinlock_t_layout [layout]: "csize td_seqcount_spinlock_t = 4" "calign td_seqcount_spinlock_t = 4"
  by (simp_all add: td_seqcount_spinlock_t_def layout)

definition struct_hlist_bl_node :: ctype where
  "struct_hlist_bl_node = CStruct [
     Fld ''next'' (CPtr ''struct hlist_bl_node''),
     Fld ''pprev'' (CPtr ''struct hlist_bl_node *'')]"

lemma struct_hlist_bl_node_layout [layout]: "csize struct_hlist_bl_node = 16" "calign struct_hlist_bl_node = 8"
  by (simp_all add: struct_hlist_bl_node_def layout)

definition td_atomic_t :: ctype where
  "td_atomic_t = CStruct [
     Fld ''counter'' (CBase TInt)]"

lemma td_atomic_t_layout [layout]: "csize td_atomic_t = 4" "calign td_atomic_t = 4"
  by (simp_all add: td_atomic_t_def layout)

definition struct_qspinlock :: ctype where
  "struct_qspinlock = CStruct [
     Fld '''' (CUnion [
       Fld ''val'' td_atomic_t,
       Fld '''' (CStruct [
         Fld ''locked'' td_u8,
         Fld ''pending'' td_u8]),
       Fld '''' (CStruct [
         Fld ''locked_pending'' td_u16,
         Fld ''tail'' td_u16])])]"

lemma struct_qspinlock_layout [layout]: "csize struct_qspinlock = 4" "calign struct_qspinlock = 4"
  by (simp_all add: struct_qspinlock_def layout)

definition td_arch_spinlock_t :: ctype where
  "td_arch_spinlock_t = struct_qspinlock"

lemma td_arch_spinlock_t_layout [layout]: "csize td_arch_spinlock_t = 4" "calign td_arch_spinlock_t = 4"
  by (simp_all add: td_arch_spinlock_t_def layout)

definition struct_raw_spinlock :: ctype where
  "struct_raw_spinlock = CStruct [
     Fld ''raw_lock'' td_arch_spinlock_t]"

lemma struct_raw_spinlock_layout [layout]: "csize struct_raw_spinlock = 4" "calign struct_raw_spinlock = 4"
  by (simp_all add: struct_raw_spinlock_def layout)

definition struct_spinlock :: ctype where
  "struct_spinlock = CStruct [
     Fld '''' (CUnion [
       Fld ''rlock'' struct_raw_spinlock])]"

lemma struct_spinlock_layout [layout]: "csize struct_spinlock = 4" "calign struct_spinlock = 4"
  by (simp_all add: struct_spinlock_def layout)

definition td_spinlock_t :: ctype where
  "td_spinlock_t = struct_spinlock"

lemma td_spinlock_t_layout [layout]: "csize td_spinlock_t = 4" "calign td_spinlock_t = 4"
  by (simp_all add: td_spinlock_t_def layout)

definition struct_lockref :: ctype where
  "struct_lockref = CStruct [
     Fld '''' (CUnion [
       Fld ''lock_count'' td___u64,
       Fld '''' (CStruct [
         Fld ''lock'' td_spinlock_t,
         Fld ''count'' (CBase TInt)])])]"

lemma struct_lockref_layout [layout]: "csize struct_lockref = 8" "calign struct_lockref = 8"
  by (simp_all add: struct_lockref_def layout)

definition struct_list_head :: ctype where
  "struct_list_head = CStruct [
     Fld ''next'' (CPtr ''struct list_head''),
     Fld ''prev'' (CPtr ''struct list_head'')]"

lemma struct_list_head_layout [layout]: "csize struct_list_head = 16" "calign struct_list_head = 8"
  by (simp_all add: struct_list_head_def layout)

definition struct_hlist_node :: ctype where
  "struct_hlist_node = CStruct [
     Fld ''next'' (CPtr ''struct hlist_node''),
     Fld ''pprev'' (CPtr ''struct hlist_node *'')]"

lemma struct_hlist_node_layout [layout]: "csize struct_hlist_node = 16" "calign struct_hlist_node = 8"
  by (simp_all add: struct_hlist_node_def layout)

definition struct_hlist_head :: ctype where
  "struct_hlist_head = CStruct [
     Fld ''first'' (CPtr ''struct hlist_node'')]"

lemma struct_hlist_head_layout [layout]: "csize struct_hlist_head = 8" "calign struct_hlist_head = 8"
  by (simp_all add: struct_hlist_head_def layout)

definition struct_callback_head :: ctype where
  "struct_callback_head = CStruct [
     Fld ''next'' (CPtr ''struct callback_head''),
     Fld ''func'' (CPtr ''function'')]"

lemma struct_callback_head_layout [layout]: "csize struct_callback_head = 16" "calign struct_callback_head = 8"
  by (simp_all add: struct_callback_head_def layout)

definition struct_dentry :: ctype where
  "struct_dentry = CStruct [
     Fld ''d_flags'' (CBase TUInt),
     Fld ''d_seq'' td_seqcount_spinlock_t,
     Fld ''d_hash'' struct_hlist_bl_node,
     Fld ''d_parent'' (CPtr ''struct dentry''),
     Fld ''d_name'' struct_qstr,
     Fld ''d_inode'' (CPtr ''struct inode''),
     Fld ''d_iname'' (CArr 40 (CBase TUChar)),
     Fld ''d_lockref'' struct_lockref,
     Fld ''d_op'' (CPtr ''const struct dentry_operations''),
     Fld ''d_sb'' (CPtr ''struct super_block''),
     Fld ''d_time'' (CBase TULong),
     Fld ''d_fsdata'' (CPtr ''void''),
     Fld '''' (CUnion [
       Fld ''d_lru'' struct_list_head,
       Fld ''d_wait'' (CPtr ''wait_queue_head_t'')]),
     Fld ''d_sib'' struct_hlist_node,
     Fld ''d_children'' struct_hlist_head,
     Fld ''d_u'' (CUnion [
       Fld ''d_alias'' struct_hlist_node,
       Fld ''d_in_lookup_hash'' struct_hlist_bl_node,
       Fld ''d_rcu'' struct_callback_head])]"

lemma struct_dentry_layout [layout]: "csize struct_dentry = 192" "calign struct_dentry = 8"
  by (simp_all add: struct_dentry_def layout)

definition struct_vfsmount :: ctype where
  "struct_vfsmount = CStruct [
     Fld ''mnt_root'' (CPtr ''struct dentry''),
     Fld ''mnt_sb'' (CPtr ''struct super_block''),
     Fld ''mnt_flags'' (CBase TInt),
     Fld ''mnt_idmap'' (CPtr ''struct mnt_idmap'')]"

lemma struct_vfsmount_layout [layout]: "csize struct_vfsmount = 32" "calign struct_vfsmount = 8"
  by (simp_all add: struct_vfsmount_def layout)

definition struct_rb_node :: ctype where
  "struct_rb_node = CStruct [
     Fld ''__rb_parent_color'' (CBase TULong),
     Fld ''rb_right'' (CPtr ''struct rb_node''),
     Fld ''rb_left'' (CPtr ''struct rb_node'')]"

lemma struct_rb_node_layout [layout]: "csize struct_rb_node = 24" "calign struct_rb_node = 8"
  by (simp_all add: struct_rb_node_def layout)

definition struct_llist_node :: ctype where
  "struct_llist_node = CStruct [
     Fld ''next'' (CPtr ''struct llist_node'')]"

lemma struct_llist_node_layout [layout]: "csize struct_llist_node = 8" "calign struct_llist_node = 8"
  by (simp_all add: struct_llist_node_def layout)

definition struct_mount :: ctype where
  "struct_mount = CStruct [
     Fld ''mnt_hash'' struct_hlist_node,
     Fld ''mnt_parent'' (CPtr ''struct mount''),
     Fld ''mnt_mountpoint'' (CPtr ''struct dentry''),
     Fld ''mnt'' struct_vfsmount,
     Fld '''' (CUnion [
       Fld ''mnt_node'' struct_rb_node,
       Fld ''mnt_rcu'' struct_callback_head,
       Fld ''mnt_llist'' struct_llist_node]),
     Fld ''mnt_pcp'' (CPtr ''struct mnt_pcp''),
     Fld ''mnt_mounts'' struct_list_head,
     Fld ''mnt_child'' struct_list_head,
     Fld ''mnt_instance'' struct_list_head,
     Fld ''mnt_devname'' (CPtr ''const char''),
     Fld ''mnt_list'' struct_list_head,
     Fld ''mnt_expire'' struct_list_head,
     Fld ''mnt_share'' struct_list_head,
     Fld ''mnt_slave_list'' struct_list_head,
     Fld ''mnt_slave'' struct_list_head,
     Fld ''mnt_master'' (CPtr ''struct mount''),
     Fld ''mnt_ns'' (CPtr ''struct mnt_namespace''),
     Fld ''mnt_mp'' (CPtr ''struct mountpoint''),
     Fld '''' (CUnion [
       Fld ''mnt_mp_list'' struct_hlist_node,
       Fld ''mnt_umount'' struct_hlist_node]),
     Fld ''mnt_umounting'' struct_list_head,
     Fld ''mnt_fsnotify_marks'' (CPtr ''struct fsnotify_mark_connector''),
     Fld ''mnt_fsnotify_mask'' td___u32,
     Fld ''mnt_id'' (CBase TInt),
     Fld ''mnt_id_unique'' td_u64,
     Fld ''mnt_group_id'' (CBase TInt),
     Fld ''mnt_expiry_mark'' (CBase TInt),
     Fld ''mnt_pins'' struct_hlist_head,
     Fld ''mnt_stuck_children'' struct_hlist_head]"

lemma struct_mount_layout [layout]: "csize struct_mount = 336" "calign struct_mount = 8"
  by (simp_all add: struct_mount_def layout)

definition struct_fs_struct :: ctype where
  "struct_fs_struct = CStruct [
     Fld ''users'' (CBase TInt),
     Fld ''lock'' td_spinlock_t,
     Fld ''seq'' td_seqcount_spinlock_t,
     Fld ''umask'' (CBase TInt),
     Fld ''in_exec'' (CBase TInt),
     Fld ''root'' struct_path,
     Fld ''pwd'' struct_path]"

lemma struct_fs_struct_layout [layout]: "csize struct_fs_struct = 56" "calign struct_fs_struct = 8"
  by (simp_all add: struct_fs_struct_def layout)

definition td_umode_t :: ctype where
  "td_umode_t = CBase TUShort"

lemma td_umode_t_layout [layout]: "csize td_umode_t = 2" "calign td_umode_t = 2"
  by (simp_all add: td_umode_t_def layout)

definition td___kernel_uid32_t :: ctype where
  "td___kernel_uid32_t = CBase TUInt"

lemma td___kernel_uid32_t_layout [layout]: "csize td___kernel_uid32_t = 4" "calign td___kernel_uid32_t = 4"
  by (simp_all add: td___kernel_uid32_t_def layout)

definition td_uid_t :: ctype where
  "td_uid_t = td___kernel_uid32_t"

lemma td_uid_t_layout [layout]: "csize td_uid_t = 4" "calign td_uid_t = 4"
  by (simp_all add: td_uid_t_def layout)

definition td_kuid_t :: ctype where
  "td_kuid_t = CStruct [
     Fld ''val'' td_uid_t]"

lemma td_kuid_t_layout [layout]: "csize td_kuid_t = 4" "calign td_kuid_t = 4"
  by (simp_all add: td_kuid_t_def layout)

definition td___kernel_gid32_t :: ctype where
  "td___kernel_gid32_t = CBase TUInt"

lemma td___kernel_gid32_t_layout [layout]: "csize td___kernel_gid32_t = 4" "calign td___kernel_gid32_t = 4"
  by (simp_all add: td___kernel_gid32_t_def layout)

definition td_gid_t :: ctype where
  "td_gid_t = td___kernel_gid32_t"

lemma td_gid_t_layout [layout]: "csize td_gid_t = 4" "calign td_gid_t = 4"
  by (simp_all add: td_gid_t_def layout)

definition td_kgid_t :: ctype where
  "td_kgid_t = CStruct [
     Fld ''val'' td_gid_t]"

lemma td_kgid_t_layout [layout]: "csize td_kgid_t = 4" "calign td_kgid_t = 4"
  by (simp_all add: td_kgid_t_def layout)

definition td___kernel_dev_t :: ctype where
  "td___kernel_dev_t = td_u32"

lemma td___kernel_dev_t_layout [layout]: "csize td___kernel_dev_t = 4" "calign td___kernel_dev_t = 4"
  by (simp_all add: td___kernel_dev_t_def layout)

definition td_dev_t :: ctype where
  "td_dev_t = td___kernel_dev_t"

lemma td_dev_t_layout [layout]: "csize td_dev_t = 4" "calign td_dev_t = 4"
  by (simp_all add: td_dev_t_def layout)

definition td___kernel_loff_t :: ctype where
  "td___kernel_loff_t = CBase TLLong"

lemma td___kernel_loff_t_layout [layout]: "csize td___kernel_loff_t = 8" "calign td___kernel_loff_t = 8"
  by (simp_all add: td___kernel_loff_t_def layout)

definition td_loff_t :: ctype where
  "td_loff_t = td___kernel_loff_t"

lemma td_loff_t_layout [layout]: "csize td_loff_t = 8" "calign td_loff_t = 8"
  by (simp_all add: td_loff_t_def layout)

definition td___s64 :: ctype where
  "td___s64 = CBase TLLong"

lemma td___s64_layout [layout]: "csize td___s64 = 8" "calign td___s64 = 8"
  by (simp_all add: td___s64_def layout)

definition td_time64_t :: ctype where
  "td_time64_t = td___s64"

lemma td_time64_t_layout [layout]: "csize td_time64_t = 8" "calign td_time64_t = 8"
  by (simp_all add: td_time64_t_def layout)

definition struct_timespec64 :: ctype where
  "struct_timespec64 = CStruct [
     Fld ''tv_sec'' td_time64_t,
     Fld ''tv_nsec'' (CBase TLong)]"

lemma struct_timespec64_layout [layout]: "csize struct_timespec64 = 16" "calign struct_timespec64 = 8"
  by (simp_all add: struct_timespec64_def layout)

definition td_blkcnt_t :: ctype where
  "td_blkcnt_t = td_u64"

lemma td_blkcnt_t_layout [layout]: "csize td_blkcnt_t = 8" "calign td_blkcnt_t = 8"
  by (simp_all add: td_blkcnt_t_def layout)

definition td_s64 :: ctype where
  "td_s64 = td___s64"

lemma td_s64_layout [layout]: "csize td_s64 = 8" "calign td_s64 = 8"
  by (simp_all add: td_s64_def layout)

definition td_atomic64_t :: ctype where
  "td_atomic64_t = CStruct [
     Fld ''counter'' td_s64]"

lemma td_atomic64_t_layout [layout]: "csize td_atomic64_t = 8" "calign td_atomic64_t = 8"
  by (simp_all add: td_atomic64_t_def layout)

definition td_atomic_long_t :: ctype where
  "td_atomic_long_t = td_atomic64_t"

lemma td_atomic_long_t_layout [layout]: "csize td_atomic_long_t = 8" "calign td_atomic_long_t = 8"
  by (simp_all add: td_atomic_long_t_def layout)

definition struct_optimistic_spin_queue :: ctype where
  "struct_optimistic_spin_queue = CStruct [
     Fld ''tail'' td_atomic_t]"

lemma struct_optimistic_spin_queue_layout [layout]: "csize struct_optimistic_spin_queue = 4" "calign struct_optimistic_spin_queue = 4"
  by (simp_all add: struct_optimistic_spin_queue_def layout)

definition td_raw_spinlock_t :: ctype where
  "td_raw_spinlock_t = struct_raw_spinlock"

lemma td_raw_spinlock_t_layout [layout]: "csize td_raw_spinlock_t = 4" "calign td_raw_spinlock_t = 4"
  by (simp_all add: td_raw_spinlock_t_def layout)

definition struct_rw_semaphore :: ctype where
  "struct_rw_semaphore = CStruct [
     Fld ''count'' td_atomic_long_t,
     Fld ''owner'' td_atomic_long_t,
     Fld ''osq'' struct_optimistic_spin_queue,
     Fld ''wait_lock'' td_raw_spinlock_t,
     Fld ''wait_list'' struct_list_head]"

lemma struct_rw_semaphore_layout [layout]: "csize struct_rw_semaphore = 40" "calign struct_rw_semaphore = 8"
  by (simp_all add: struct_rw_semaphore_def layout)

definition td_gfp_t :: ctype where
  "td_gfp_t = CBase TUInt"

lemma td_gfp_t_layout [layout]: "csize td_gfp_t = 4" "calign td_gfp_t = 4"
  by (simp_all add: td_gfp_t_def layout)

definition struct_xarray :: ctype where
  "struct_xarray = CStruct [
     Fld ''xa_lock'' td_spinlock_t,
     Fld ''xa_flags'' td_gfp_t,
     Fld ''xa_head'' (CPtr ''void'')]"

lemma struct_xarray_layout [layout]: "csize struct_xarray = 16" "calign struct_xarray = 8"
  by (simp_all add: struct_xarray_def layout)

definition struct_rb_root :: ctype where
  "struct_rb_root = CStruct [
     Fld ''rb_node'' (CPtr ''struct rb_node'')]"

lemma struct_rb_root_layout [layout]: "csize struct_rb_root = 8" "calign struct_rb_root = 8"
  by (simp_all add: struct_rb_root_def layout)

definition struct_rb_root_cached :: ctype where
  "struct_rb_root_cached = CStruct [
     Fld ''rb_root'' struct_rb_root,
     Fld ''rb_leftmost'' (CPtr ''struct rb_node'')]"

lemma struct_rb_root_cached_layout [layout]: "csize struct_rb_root_cached = 16" "calign struct_rb_root_cached = 8"
  by (simp_all add: struct_rb_root_cached_def layout)

definition td_errseq_t :: ctype where
  "td_errseq_t = td_u32"

lemma td_errseq_t_layout [layout]: "csize td_errseq_t = 4" "calign td_errseq_t = 4"
  by (simp_all add: td_errseq_t_def layout)

definition struct_address_space :: ctype where
  "struct_address_space = CStruct [
     Fld ''host'' (CPtr ''struct inode''),
     Fld ''i_pages'' struct_xarray,
     Fld ''invalidate_lock'' struct_rw_semaphore,
     Fld ''gfp_mask'' td_gfp_t,
     Fld ''i_mmap_writable'' td_atomic_t,
     Fld ''i_mmap'' struct_rb_root_cached,
     Fld ''nrpages'' (CBase TULong),
     Fld ''writeback_index'' (CBase TULong),
     Fld ''a_ops'' (CPtr ''const struct address_space_operations''),
     Fld ''flags'' (CBase TULong),
     Fld ''i_mmap_rwsem'' struct_rw_semaphore,
     Fld ''wb_err'' td_errseq_t,
     Fld ''i_private_lock'' td_spinlock_t,
     Fld ''i_private_list'' struct_list_head,
     Fld ''i_private_data'' (CPtr ''void'')]"

lemma struct_address_space_layout [layout]: "csize struct_address_space = 192" "calign struct_address_space = 8"
  by (simp_all add: struct_address_space_def layout)

definition struct_inode :: ctype where
  "struct_inode = CStruct [
     Fld ''i_mode'' td_umode_t,
     Fld ''i_opflags'' (CBase TUShort),
     Fld ''i_uid'' td_kuid_t,
     Fld ''i_lru'' struct_list_head,
     Fld ''i_gid'' td_kgid_t,
     Fld ''i_flags'' (CBase TUInt),
     Fld ''i_acl'' (CPtr ''struct posix_acl''),
     Fld ''i_default_acl'' (CPtr ''struct posix_acl''),
     Fld ''i_op'' (CPtr ''const struct inode_operations''),
     Fld ''i_sb'' (CPtr ''struct super_block''),
     Fld ''i_mapping'' (CPtr ''struct address_space''),
     Fld ''i_security'' (CPtr ''void''),
     Fld ''i_ino'' (CBase TULong),
     Fld '''' (CUnion [
       Fld ''i_nlink'' (CBase TUInt),
       Fld ''__i_nlink'' (CBase TUInt)]),
     Fld ''i_rdev'' td_dev_t,
     Fld ''i_size'' td_loff_t,
     Fld ''__i_atime'' struct_timespec64,
     Fld ''__i_mtime'' struct_timespec64,
     Fld ''__i_ctime'' struct_timespec64,
     Fld ''i_lock'' td_spinlock_t,
     Fld ''i_bytes'' (CBase TUShort),
     Fld ''i_blkbits'' td_u8,
     Fld ''i_write_hint'' td_u8,
     Fld ''i_blocks'' td_blkcnt_t,
     Fld ''i_state'' (CBase TULong),
     Fld ''i_rwsem'' struct_rw_semaphore,
     Fld ''dirtied_when'' (CBase TULong),
     Fld ''dirtied_time_when'' (CBase TULong),
     Fld ''i_hash'' struct_hlist_node,
     Fld ''i_io_list'' struct_list_head,
     Fld ''i_wb'' (CPtr ''struct bdi_writeback''),
     Fld ''i_wb_frn_winner'' (CBase TInt),
     Fld ''i_wb_frn_avg_time'' td_u16,
     Fld ''i_wb_frn_history'' td_u16,
     Fld ''i_sb_list'' struct_list_head,
     Fld ''i_wb_list'' struct_list_head,
     Fld '''' (CUnion [
       Fld ''i_dentry'' struct_hlist_head,
       Fld ''i_rcu'' struct_callback_head]),
     Fld ''i_version'' td_atomic64_t,
     Fld ''i_sequence'' td_atomic64_t,
     Fld ''i_count'' td_atomic_t,
     Fld ''i_dio_count'' td_atomic_t,
     Fld ''i_writecount'' td_atomic_t,
     Fld ''i_readcount'' td_atomic_t,
     Fld '''' (CUnion [
       Fld ''i_fop'' (CPtr ''const struct file_operations''),
       Fld ''free_inode'' (CPtr ''function'')]),
     Fld ''i_flctx'' (CPtr ''struct file_lock_context''),
     Fld ''i_data'' struct_address_space,
     Fld ''i_devices'' struct_list_head,
     Fld '''' (CUnion [
       Fld ''i_pipe'' (CPtr ''struct pipe_inode_info''),
       Fld ''i_cdev'' (CPtr ''struct cdev''),
       Fld ''i_link'' (CPtr ''char''),
       Fld ''i_dir_seq'' (CBase TUInt)]),
     Fld ''i_generation'' td___u32,
     Fld ''i_fsnotify_mask'' td___u32,
     Fld ''i_fsnotify_marks'' (CPtr ''struct fsnotify_mark_connector''),
     Fld ''i_crypt_info'' (CPtr ''struct fscrypt_inode_info''),
     Fld ''i_verity_info'' (CPtr ''struct fsverity_info''),
     Fld ''i_private'' (CPtr ''void'')]"

lemma struct_inode_layout [layout]: "csize struct_inode = 632" "calign struct_inode = 8"
  by (simp_all add: struct_inode_def layout)

definition td_fmode_t :: ctype where
  "td_fmode_t = CBase TUInt"

lemma td_fmode_t_layout [layout]: "csize td_fmode_t = 4" "calign td_fmode_t = 4"
  by (simp_all add: td_fmode_t_def layout)

definition struct_mutex :: ctype where
  "struct_mutex = CStruct [
     Fld ''owner'' td_atomic_long_t,
     Fld ''wait_lock'' td_raw_spinlock_t,
     Fld ''osq'' struct_optimistic_spin_queue,
     Fld ''wait_list'' struct_list_head]"

lemma struct_mutex_layout [layout]: "csize struct_mutex = 32" "calign struct_mutex = 8"
  by (simp_all add: struct_mutex_def layout)

definition struct_qrwlock :: ctype where
  "struct_qrwlock = CStruct [
     Fld '''' (CUnion [
       Fld ''cnts'' td_atomic_t,
       Fld '''' (CStruct [
         Fld ''wlocked'' td_u8,
         Fld ''__lstate'' (CArr 3 td_u8)])]),
     Fld ''wait_lock'' td_arch_spinlock_t]"

lemma struct_qrwlock_layout [layout]: "csize struct_qrwlock = 8" "calign struct_qrwlock = 4"
  by (simp_all add: struct_qrwlock_def layout)

definition td_arch_rwlock_t :: ctype where
  "td_arch_rwlock_t = struct_qrwlock"

lemma td_arch_rwlock_t_layout [layout]: "csize td_arch_rwlock_t = 8" "calign td_arch_rwlock_t = 4"
  by (simp_all add: td_arch_rwlock_t_def layout)

definition td_rwlock_t :: ctype where
  "td_rwlock_t = CStruct [
     Fld ''raw_lock'' td_arch_rwlock_t]"

lemma td_rwlock_t_layout [layout]: "csize td_rwlock_t = 8" "calign td_rwlock_t = 4"
  by (simp_all add: td_rwlock_t_def layout)

definition enum_pid_type :: ctype where
  "enum_pid_type = CEnum [
     (''PIDTYPE_PID'', 0),
     (''PIDTYPE_TGID'', 1),
     (''PIDTYPE_PGID'', 2),
     (''PIDTYPE_SID'', 3),
     (''PIDTYPE_MAX'', 4)]"

lemma enum_pid_type_layout [layout]: "csize enum_pid_type = 4" "calign enum_pid_type = 4"
  by (simp_all add: enum_pid_type_def layout)

definition struct_fown_struct :: ctype where
  "struct_fown_struct = CStruct [
     Fld ''lock'' td_rwlock_t,
     Fld ''pid'' (CPtr ''struct pid''),
     Fld ''pid_type'' enum_pid_type,
     Fld ''uid'' td_kuid_t,
     Fld ''euid'' td_kuid_t,
     Fld ''signum'' (CBase TInt)]"

lemma struct_fown_struct_layout [layout]: "csize struct_fown_struct = 32" "calign struct_fown_struct = 8"
  by (simp_all add: struct_fown_struct_def layout)

definition struct_file_ra_state :: ctype where
  "struct_file_ra_state = CStruct [
     Fld ''start'' (CBase TULong),
     Fld ''size'' (CBase TUInt),
     Fld ''async_size'' (CBase TUInt),
     Fld ''ra_pages'' (CBase TUInt),
     Fld ''mmap_miss'' (CBase TUInt),
     Fld ''prev_pos'' td_loff_t]"

lemma struct_file_ra_state_layout [layout]: "csize struct_file_ra_state = 32" "calign struct_file_ra_state = 8"
  by (simp_all add: struct_file_ra_state_def layout)

definition struct_file :: ctype where
  "struct_file = CStruct [
     Fld '''' (CUnion [
       Fld ''f_task_work'' struct_callback_head,
       Fld ''f_llist'' struct_llist_node,
       Fld ''f_iocb_flags'' (CBase TUInt)]),
     Fld ''f_lock'' td_spinlock_t,
     Fld ''f_mode'' td_fmode_t,
     Fld ''f_count'' td_atomic_long_t,
     Fld ''f_pos_lock'' struct_mutex,
     Fld ''f_pos'' td_loff_t,
     Fld ''f_flags'' (CBase TUInt),
     Fld ''f_owner'' struct_fown_struct,
     Fld ''f_cred'' (CPtr ''const struct cred''),
     Fld ''f_ra'' struct_file_ra_state,
     Fld ''f_path'' struct_path,
     Fld ''f_inode'' (CPtr ''struct inode''),
     Fld ''f_op'' (CPtr ''const struct file_operations''),
     Fld ''f_version'' td_u64,
     Fld ''f_security'' (CPtr ''void''),
     Fld ''private_data'' (CPtr ''void''),
     Fld ''f_ep'' (CPtr ''struct hlist_head''),
     Fld ''f_mapping'' (CPtr ''struct address_space''),
     Fld ''f_wb_err'' td_errseq_t,
     Fld ''f_sb_err'' td_errseq_t]"

lemma struct_file_layout [layout]: "csize struct_file = 232" "calign struct_file = 8"
  by (simp_all add: struct_file_def layout)

definition td___kernel_ulong_t :: ctype where
  "td___kernel_ulong_t = CBase TULong"

lemma td___kernel_ulong_t_layout [layout]: "csize td___kernel_ulong_t = 8" "calign td___kernel_ulong_t = 8"
  by (simp_all add: td___kernel_ulong_t_def layout)

definition struct_rlimit :: ctype where
  "struct_rlimit = CStruct [
     Fld ''rlim_cur'' td___kernel_ulong_t,
     Fld ''rlim_max'' td___kernel_ulong_t]"

lemma struct_rlimit_layout [layout]: "csize struct_rlimit = 16" "calign struct_rlimit = 8"
  by (simp_all add: struct_rlimit_def layout)

definition struct_linux_binprm :: ctype where
  "struct_linux_binprm = CStruct [
     Fld ''vma'' (CPtr ''struct vm_area_struct''),
     Fld ''vma_pages'' (CBase TULong),
     Fld ''mm'' (CPtr ''struct mm_struct''),
     Fld ''p'' (CBase TULong),
     Fld ''argmin'' (CBase TULong),
     Bitf ''have_execfd'' (CBase TUInt) 1,
     Bitf ''execfd_creds'' (CBase TUInt) 1,
     Bitf ''secureexec'' (CBase TUInt) 1,
     Bitf ''point_of_no_return'' (CBase TUInt) 1,
     Bitf ''comm_from_dentry'' (CBase TUInt) 1,
     Fld ''executable'' (CPtr ''struct file''),
     Fld ''interpreter'' (CPtr ''struct file''),
     Fld ''file'' (CPtr ''struct file''),
     Fld ''cred'' (CPtr ''struct cred''),
     Fld ''unsafe'' (CBase TInt),
     Fld ''per_clear'' (CBase TUInt),
     Fld ''argc'' (CBase TInt),
     Fld ''envc'' (CBase TInt),
     Fld ''filename'' (CPtr ''const char''),
     Fld ''interp'' (CPtr ''const char''),
     Fld ''fdpath'' (CPtr ''const char''),
     Fld ''interp_flags'' (CBase TUInt),
     Fld ''execfd'' (CBase TInt),
     Fld ''loader'' (CBase TULong),
     Fld ''exec'' (CBase TULong),
     Fld ''rlim_stack'' struct_rlimit,
     Fld ''buf'' (CArr 256 (CBase TChar))]"

lemma struct_linux_binprm_layout [layout]: "csize struct_linux_binprm = 416" "calign struct_linux_binprm = 8"
  by (simp_all add: struct_linux_binprm_def layout)

end
