(* ===== verification/Vmlinux_Net.thy ===== *)
theory Vmlinux_Net
  imports Vmlinux_Fs
begin

text \<open>
  The kernel types behind socket addresses, from \<open>vmlinux.h\<close>: \<open>struct sockaddr\<close> and its
  IPv4 and IPv6 forms, \<open>struct socket\<close>, \<open>struct msghdr\<close> and what they embed. Naming and
  layout facts are as in \<open>Vmlinux_Fs\<close>.
\<close>

definition td___be16 :: ctype where
  "td___be16 = td___u16"

lemma td___be16_layout [layout]: "csize td___be16 = 2" "calign td___be16 = 2"
  by (simp_all add: td___be16_def layout)

definition td___kernel_sa_family_t :: ctype where
  "td___kernel_sa_family_t = CBase TUShort"

lemma td___kernel_sa_family_t_layout [layout]: "csize td___kernel_sa_family_t = 2" "calign td___kernel_sa_family_t = 2"
  by (simp_all add: td___kernel_sa_family_t_def layout)

definition td_sa_family_t :: ctype where
  "td_sa_family_t = td___kernel_sa_family_t"

lemma td_sa_family_t_layout [layout]: "csize td_sa_family_t = 2" "calign td_sa_family_t = 2"
  by (simp_all add: td_sa_family_t_def layout)

definition struct_sockaddr :: ctype where
  "struct_sockaddr = CStruct [
     Fld ''sa_family'' td_sa_family_t,
     Fld '''' (CUnion [
       Fld ''sa_data_min'' (CArr 14 (CBase TChar)),
       Fld '''' (CStruct [
         Fld ''__empty_sa_data'' (CStruct []),
         Fld ''sa_data'' (CArr 0 (CBase TChar))])])]"

lemma struct_sockaddr_layout [layout]: "csize struct_sockaddr = 16" "calign struct_sockaddr = 2"
  by (simp_all add: struct_sockaddr_def layout)

definition td___be32 :: ctype where
  "td___be32 = td___u32"

lemma td___be32_layout [layout]: "csize td___be32 = 4" "calign td___be32 = 4"
  by (simp_all add: td___be32_def layout)

definition struct_in_addr :: ctype where
  "struct_in_addr = CStruct [
     Fld ''s_addr'' td___be32]"

lemma struct_in_addr_layout [layout]: "csize struct_in_addr = 4" "calign struct_in_addr = 4"
  by (simp_all add: struct_in_addr_def layout)

definition struct_sockaddr_in :: ctype where
  "struct_sockaddr_in = CStruct [
     Fld ''sin_family'' td___kernel_sa_family_t,
     Fld ''sin_port'' td___be16,
     Fld ''sin_addr'' struct_in_addr,
     Fld ''__pad'' (CArr 8 (CBase TUChar))]"

lemma struct_sockaddr_in_layout [layout]: "csize struct_sockaddr_in = 16" "calign struct_sockaddr_in = 4"
  by (simp_all add: struct_sockaddr_in_def layout)

definition struct_in6_addr :: ctype where
  "struct_in6_addr = CStruct [
     Fld ''in6_u'' (CUnion [
       Fld ''u6_addr8'' (CArr 16 td___u8),
       Fld ''u6_addr16'' (CArr 8 td___be16),
       Fld ''u6_addr32'' (CArr 4 td___be32)])]"

lemma struct_in6_addr_layout [layout]: "csize struct_in6_addr = 16" "calign struct_in6_addr = 4"
  by (simp_all add: struct_in6_addr_def layout)

definition struct_sockaddr_in6 :: ctype where
  "struct_sockaddr_in6 = CStruct [
     Fld ''sin6_family'' (CBase TUShort),
     Fld ''sin6_port'' td___be16,
     Fld ''sin6_flowinfo'' td___be32,
     Fld ''sin6_addr'' struct_in6_addr,
     Fld ''sin6_scope_id'' td___u32]"

lemma struct_sockaddr_in6_layout [layout]: "csize struct_sockaddr_in6 = 28" "calign struct_sockaddr_in6 = 4"
  by (simp_all add: struct_sockaddr_in6_def layout)

definition td_socket_state :: ctype where
  "td_socket_state = CEnum [
     (''SS_FREE'', 0),
     (''SS_UNCONNECTED'', 1),
     (''SS_CONNECTING'', 2),
     (''SS_CONNECTED'', 3),
     (''SS_DISCONNECTING'', 4)]"

lemma td_socket_state_layout [layout]: "csize td_socket_state = 4" "calign td_socket_state = 4"
  by (simp_all add: td_socket_state_def layout)

definition struct_wait_queue_head :: ctype where
  "struct_wait_queue_head = CStruct [
     Fld ''lock'' td_spinlock_t,
     Fld ''head'' struct_list_head]"

lemma struct_wait_queue_head_layout [layout]: "csize struct_wait_queue_head = 24" "calign struct_wait_queue_head = 8"
  by (simp_all add: struct_wait_queue_head_def layout)

definition td_wait_queue_head_t :: ctype where
  "td_wait_queue_head_t = struct_wait_queue_head"

lemma td_wait_queue_head_t_layout [layout]: "csize td_wait_queue_head_t = 24" "calign td_wait_queue_head_t = 8"
  by (simp_all add: td_wait_queue_head_t_def layout)

definition struct_socket_wq :: ctype where
  "struct_socket_wq = CStruct [
     Fld ''wait'' td_wait_queue_head_t,
     Fld ''fasync_list'' (CPtr ''struct fasync_struct''),
     Fld ''flags'' (CBase TULong),
     Fld ''rcu'' struct_callback_head,
     Bitf '''' (CBase TLong) 64]"

lemma struct_socket_wq_layout [layout]: "csize struct_socket_wq = 64" "calign struct_socket_wq = 8"
  by (simp_all add: struct_socket_wq_def layout)

definition struct_socket :: ctype where
  "struct_socket = CStruct [
     Fld ''state'' td_socket_state,
     Fld ''type'' (CBase TShort),
     Fld ''flags'' (CBase TULong),
     Fld ''file'' (CPtr ''struct file''),
     Fld ''sk'' (CPtr ''struct sock''),
     Fld ''ops'' (CPtr ''const struct proto_ops''),
     Bitf '''' (CBase TLong) 64,
     Bitf '''' (CBase TLong) 64,
     Bitf '''' (CBase TLong) 64,
     Fld ''wq'' struct_socket_wq]"

lemma struct_socket_layout [layout]: "csize struct_socket = 128" "calign struct_socket = 8"
  by (simp_all add: struct_socket_def layout)

definition td___kernel_size_t :: ctype where
  "td___kernel_size_t = td___kernel_ulong_t"

lemma td___kernel_size_t_layout [layout]: "csize td___kernel_size_t = 8" "calign td___kernel_size_t = 8"
  by (simp_all add: td___kernel_size_t_def layout)

definition td_size_t :: ctype where
  "td_size_t = td___kernel_size_t"

lemma td_size_t_layout [layout]: "csize td_size_t = 8" "calign td_size_t = 8"
  by (simp_all add: td_size_t_def layout)

definition struct_iovec :: ctype where
  "struct_iovec = CStruct [
     Fld ''iov_base'' (CPtr ''void''),
     Fld ''iov_len'' td___kernel_size_t]"

lemma struct_iovec_layout [layout]: "csize struct_iovec = 16" "calign struct_iovec = 8"
  by (simp_all add: struct_iovec_def layout)

definition struct_iov_iter :: ctype where
  "struct_iov_iter = CStruct [
     Fld ''iter_type'' td_u8,
     Fld ''nofault'' td_bool,
     Fld ''data_source'' td_bool,
     Fld ''iov_offset'' td_size_t,
     Fld '''' (CUnion [
       Fld ''__ubuf_iovec'' struct_iovec,
       Fld '''' (CStruct [
         Fld '''' (CUnion [
           Fld ''__iov'' (CPtr ''const struct iovec''),
           Fld ''kvec'' (CPtr ''const struct kvec''),
           Fld ''bvec'' (CPtr ''const struct bio_vec''),
           Fld ''xarray'' (CPtr ''struct xarray''),
           Fld ''ubuf'' (CPtr ''void'')]),
         Fld ''count'' td_size_t])]),
     Fld '''' (CUnion [
       Fld ''nr_segs'' (CBase TULong),
       Fld ''xarray_start'' td_loff_t])]"

lemma struct_iov_iter_layout [layout]: "csize struct_iov_iter = 40" "calign struct_iov_iter = 8"
  by (simp_all add: struct_iov_iter_def layout)

definition struct_msghdr :: ctype where
  "struct_msghdr = CStruct [
     Fld ''msg_name'' (CPtr ''void''),
     Fld ''msg_namelen'' (CBase TInt),
     Fld ''msg_inq'' (CBase TInt),
     Fld ''msg_iter'' struct_iov_iter,
     Fld '''' (CUnion [
       Fld ''msg_control'' (CPtr ''void''),
       Fld ''msg_control_user'' (CPtr ''void'')]),
     Bitf ''msg_control_is_user'' td_bool 1,
     Bitf ''msg_get_inq'' td_bool 1,
     Fld ''msg_flags'' (CBase TUInt),
     Fld ''msg_controllen'' td___kernel_size_t,
     Fld ''msg_iocb'' (CPtr ''struct kiocb''),
     Fld ''msg_ubuf'' (CPtr ''struct ubuf_info''),
     Fld ''sg_from_iter'' (CPtr ''function'')]"

lemma struct_msghdr_layout [layout]: "csize struct_msghdr = 104" "calign struct_msghdr = 8"
  by (simp_all add: struct_msghdr_def layout)

definition enum_sock_type :: ctype where
  "enum_sock_type = CEnum [
     (''SOCK_STREAM'', 1),
     (''SOCK_DGRAM'', 2),
     (''SOCK_RAW'', 3),
     (''SOCK_RDM'', 4),
     (''SOCK_SEQPACKET'', 5),
     (''SOCK_DCCP'', 6),
     (''SOCK_PACKET'', 10)]"

lemma enum_sock_type_layout [layout]: "csize enum_sock_type = 4" "calign enum_sock_type = 4"
  by (simp_all add: enum_sock_type_def layout)

end
