(* ===== verification/Vmlinux_Task.thy ===== *)
theory Vmlinux_Task
  imports Vmlinux_Net
begin

text \<open>
  The kernel types behind tasks and the \<open>bpf\<close> system call, from \<open>vmlinux.h\<close>:
  \<open>struct task_struct\<close> with everything it embeds, \<open>union bpf_attr\<close>, and the map types and
  commands of the \<open>bpf\<close> interface, with the two unnamed enumerations of map creation
  and local storage flags. The two long aggregates are split at member boundaries;
  the parts are joined by list append. Naming and layout facts are as in \<open>Vmlinux_Fs\<close>.
\<close>

definition struct_thread_info :: ctype where
  "struct_thread_info = CStruct [
     Fld ''flags'' (CBase TULong),
     Fld ''syscall_work'' (CBase TULong),
     Fld ''status'' td_u32,
     Fld ''cpu'' td_u32]"

lemma struct_thread_info_layout [layout]: "csize struct_thread_info = 24" "calign struct_thread_info = 8"
  by (simp_all add: struct_thread_info_def layout)

definition struct_refcount_struct :: ctype where
  "struct_refcount_struct = CStruct [
     Fld ''refs'' td_atomic_t]"

lemma struct_refcount_struct_layout [layout]: "csize struct_refcount_struct = 4" "calign struct_refcount_struct = 4"
  by (simp_all add: struct_refcount_struct_def layout)

definition td_refcount_t :: ctype where
  "td_refcount_t = struct_refcount_struct"

lemma td_refcount_t_layout [layout]: "csize td_refcount_t = 4" "calign td_refcount_t = 4"
  by (simp_all add: td_refcount_t_def layout)

definition struct___call_single_node :: ctype where
  "struct___call_single_node = CStruct [
     Fld ''llist'' struct_llist_node,
     Fld '''' (CUnion [
       Fld ''u_flags'' (CBase TUInt),
       Fld ''a_flags'' td_atomic_t]),
     Fld ''src'' td_u16,
     Fld ''dst'' td_u16]"

lemma struct___call_single_node_layout [layout]: "csize struct___call_single_node = 16" "calign struct___call_single_node = 8"
  by (simp_all add: struct___call_single_node_def layout)

definition struct_load_weight :: ctype where
  "struct_load_weight = CStruct [
     Fld ''weight'' (CBase TULong),
     Fld ''inv_weight'' td_u32]"

lemma struct_load_weight_layout [layout]: "csize struct_load_weight = 16" "calign struct_load_weight = 8"
  by (simp_all add: struct_load_weight_def layout)

definition struct_sched_avg :: ctype where
  "struct_sched_avg = CStruct [
     Fld ''last_update_time'' td_u64,
     Fld ''load_sum'' td_u64,
     Fld ''runnable_sum'' td_u64,
     Fld ''util_sum'' td_u32,
     Fld ''period_contrib'' td_u32,
     Fld ''load_avg'' (CBase TULong),
     Fld ''runnable_avg'' (CBase TULong),
     Fld ''util_avg'' (CBase TULong),
     Fld ''util_est'' (CBase TUInt)]"

lemma struct_sched_avg_layout [layout]: "csize struct_sched_avg = 64" "calign struct_sched_avg = 8"
  by (simp_all add: struct_sched_avg_def layout)

definition struct_sched_entity :: ctype where
  "struct_sched_entity = CStruct [
     Fld ''load'' struct_load_weight,
     Fld ''run_node'' struct_rb_node,
     Fld ''deadline'' td_u64,
     Fld ''min_vruntime'' td_u64,
     Fld ''group_node'' struct_list_head,
     Fld ''on_rq'' (CBase TUInt),
     Fld ''exec_start'' td_u64,
     Fld ''sum_exec_runtime'' td_u64,
     Fld ''prev_sum_exec_runtime'' td_u64,
     Fld ''vruntime'' td_u64,
     Fld ''vlag'' td_s64,
     Fld ''slice'' td_u64,
     Fld ''nr_migrations'' td_u64,
     Fld ''depth'' (CBase TInt),
     Fld ''parent'' (CPtr ''struct sched_entity''),
     Fld ''cfs_rq'' (CPtr ''struct cfs_rq''),
     Fld ''my_q'' (CPtr ''struct cfs_rq''),
     Fld ''runnable_weight'' (CBase TULong),
     Bitf '''' (CBase TLong) 64,
     Bitf '''' (CBase TLong) 64,
     Fld ''avg'' struct_sched_avg]"

lemma struct_sched_entity_layout [layout]: "csize struct_sched_entity = 256" "calign struct_sched_entity = 8"
  by (simp_all add: struct_sched_entity_def layout)

definition struct_sched_rt_entity :: ctype where
  "struct_sched_rt_entity = CStruct [
     Fld ''run_list'' struct_list_head,
     Fld ''timeout'' (CBase TULong),
     Fld ''watchdog_stamp'' (CBase TULong),
     Fld ''time_slice'' (CBase TUInt),
     Fld ''on_rq'' (CBase TUShort),
     Fld ''on_list'' (CBase TUShort),
     Fld ''back'' (CPtr ''struct sched_rt_entity'')]"

lemma struct_sched_rt_entity_layout [layout]: "csize struct_sched_rt_entity = 48" "calign struct_sched_rt_entity = 8"
  by (simp_all add: struct_sched_rt_entity_def layout)

definition td_ktime_t :: ctype where
  "td_ktime_t = td_s64"

lemma td_ktime_t_layout [layout]: "csize td_ktime_t = 8" "calign td_ktime_t = 8"
  by (simp_all add: td_ktime_t_def layout)

definition struct_timerqueue_node :: ctype where
  "struct_timerqueue_node = CStruct [
     Fld ''node'' struct_rb_node,
     Fld ''expires'' td_ktime_t]"

lemma struct_timerqueue_node_layout [layout]: "csize struct_timerqueue_node = 32" "calign struct_timerqueue_node = 8"
  by (simp_all add: struct_timerqueue_node_def layout)

definition struct_hrtimer :: ctype where
  "struct_hrtimer = CStruct [
     Fld ''node'' struct_timerqueue_node,
     Fld ''_softexpires'' td_ktime_t,
     Fld ''function'' (CPtr ''function''),
     Fld ''base'' (CPtr ''struct hrtimer_clock_base''),
     Fld ''state'' td_u8,
     Fld ''is_rel'' td_u8,
     Fld ''is_soft'' td_u8,
     Fld ''is_hard'' td_u8]"

lemma struct_hrtimer_layout [layout]: "csize struct_hrtimer = 64" "calign struct_hrtimer = 8"
  by (simp_all add: struct_hrtimer_def layout)

definition td_dl_server_has_tasks_f :: ctype where
  "td_dl_server_has_tasks_f = CPtr ''function''"

lemma td_dl_server_has_tasks_f_layout [layout]: "csize td_dl_server_has_tasks_f = 8" "calign td_dl_server_has_tasks_f = 8"
  by (simp_all add: td_dl_server_has_tasks_f_def layout)

definition td_dl_server_pick_f :: ctype where
  "td_dl_server_pick_f = CPtr ''function''"

lemma td_dl_server_pick_f_layout [layout]: "csize td_dl_server_pick_f = 8" "calign td_dl_server_pick_f = 8"
  by (simp_all add: td_dl_server_pick_f_def layout)

definition struct_sched_dl_entity :: ctype where
  "struct_sched_dl_entity = CStruct [
     Fld ''rb_node'' struct_rb_node,
     Fld ''dl_runtime'' td_u64,
     Fld ''dl_deadline'' td_u64,
     Fld ''dl_period'' td_u64,
     Fld ''dl_bw'' td_u64,
     Fld ''dl_density'' td_u64,
     Fld ''runtime'' td_s64,
     Fld ''deadline'' td_u64,
     Fld ''flags'' (CBase TUInt),
     Bitf ''dl_throttled'' (CBase TUInt) 1,
     Bitf ''dl_yielded'' (CBase TUInt) 1,
     Bitf ''dl_non_contending'' (CBase TUInt) 1,
     Bitf ''dl_overrun'' (CBase TUInt) 1,
     Bitf ''dl_server'' (CBase TUInt) 1,
     Fld ''dl_timer'' struct_hrtimer,
     Fld ''inactive_timer'' struct_hrtimer,
     Fld ''rq'' (CPtr ''struct rq''),
     Fld ''server_has_tasks'' td_dl_server_has_tasks_f,
     Fld ''server_pick'' td_dl_server_pick_f,
     Fld ''pi_se'' (CPtr ''struct sched_dl_entity'')]"

lemma struct_sched_dl_entity_layout [layout]: "csize struct_sched_dl_entity = 248" "calign struct_sched_dl_entity = 8"
  by (simp_all add: struct_sched_dl_entity_def layout)

definition struct_uclamp_se :: ctype where
  "struct_uclamp_se = CStruct [
     Bitf ''value'' (CBase TUInt) 11,
     Bitf ''bucket_id'' (CBase TUInt) 3,
     Bitf ''active'' (CBase TUInt) 1,
     Bitf ''user_defined'' (CBase TUInt) 1]"

lemma struct_uclamp_se_layout [layout]: "csize struct_uclamp_se = 4" "calign struct_uclamp_se = 4"
  by (simp_all add: struct_uclamp_se_def layout)

definition struct_sched_statistics :: ctype where
  "struct_sched_statistics = CStruct [
     Fld ''wait_start'' td_u64,
     Fld ''wait_max'' td_u64,
     Fld ''wait_count'' td_u64,
     Fld ''wait_sum'' td_u64,
     Fld ''iowait_count'' td_u64,
     Fld ''iowait_sum'' td_u64,
     Fld ''sleep_start'' td_u64,
     Fld ''sleep_max'' td_u64,
     Fld ''sum_sleep_runtime'' td_s64,
     Fld ''block_start'' td_u64,
     Fld ''block_max'' td_u64,
     Fld ''sum_block_runtime'' td_s64,
     Fld ''exec_max'' td_s64,
     Fld ''slice_max'' td_u64,
     Fld ''nr_migrations_cold'' td_u64,
     Fld ''nr_failed_migrations_affine'' td_u64,
     Fld ''nr_failed_migrations_running'' td_u64,
     Fld ''nr_failed_migrations_hot'' td_u64,
     Fld ''nr_forced_migrations'' td_u64,
     Fld ''nr_wakeups'' td_u64,
     Fld ''nr_wakeups_sync'' td_u64,
     Fld ''nr_wakeups_migrate'' td_u64,
     Fld ''nr_wakeups_local'' td_u64,
     Fld ''nr_wakeups_remote'' td_u64,
     Fld ''nr_wakeups_affine'' td_u64,
     Fld ''nr_wakeups_affine_attempts'' td_u64,
     Fld ''nr_wakeups_passive'' td_u64,
     Fld ''nr_wakeups_idle'' td_u64,
     Fld ''core_forceidle_sum'' td_u64,
     Bitf '''' (CBase TLong) 64,
     Bitf '''' (CBase TLong) 64,
     Bitf '''' (CBase TLong) 64]"

lemma struct_sched_statistics_layout [layout]: "csize struct_sched_statistics = 256" "calign struct_sched_statistics = 8"
  by (simp_all add: struct_sched_statistics_def layout)

definition struct_cpumask :: ctype where
  "struct_cpumask = CStruct [
     Fld ''bits'' (CArr 128 (CBase TULong))]"

lemma struct_cpumask_layout [layout]: "csize struct_cpumask = 1024" "calign struct_cpumask = 8"
  by (simp_all add: struct_cpumask_def layout)

definition td_cpumask_t :: ctype where
  "td_cpumask_t = struct_cpumask"

lemma td_cpumask_t_layout [layout]: "csize td_cpumask_t = 1024" "calign td_cpumask_t = 8"
  by (simp_all add: td_cpumask_t_def layout)

definition union_rcu_special :: ctype where
  "union_rcu_special = CUnion [
     Fld ''b'' (CStruct [
       Fld ''blocked'' td_u8,
       Fld ''need_qs'' td_u8,
       Fld ''exp_hint'' td_u8,
       Fld ''need_mb'' td_u8]),
     Fld ''s'' td_u32]"

lemma union_rcu_special_layout [layout]: "csize union_rcu_special = 4" "calign union_rcu_special = 4"
  by (simp_all add: union_rcu_special_def layout)

definition struct_sched_info :: ctype where
  "struct_sched_info = CStruct [
     Fld ''pcount'' (CBase TULong),
     Fld ''run_delay'' (CBase TULLong),
     Fld ''last_arrival'' (CBase TULLong),
     Fld ''last_queued'' (CBase TULLong)]"

lemma struct_sched_info_layout [layout]: "csize struct_sched_info = 32" "calign struct_sched_info = 8"
  by (simp_all add: struct_sched_info_def layout)

definition struct_plist_node :: ctype where
  "struct_plist_node = CStruct [
     Fld ''prio'' (CBase TInt),
     Fld ''prio_list'' struct_list_head,
     Fld ''node_list'' struct_list_head]"

lemma struct_plist_node_layout [layout]: "csize struct_plist_node = 40" "calign struct_plist_node = 8"
  by (simp_all add: struct_plist_node_def layout)

definition td___kernel_clockid_t :: ctype where
  "td___kernel_clockid_t = CBase TInt"

lemma td___kernel_clockid_t_layout [layout]: "csize td___kernel_clockid_t = 4" "calign td___kernel_clockid_t = 4"
  by (simp_all add: td___kernel_clockid_t_def layout)

definition td_clockid_t :: ctype where
  "td_clockid_t = td___kernel_clockid_t"

lemma td_clockid_t_layout [layout]: "csize td_clockid_t = 4" "calign td_clockid_t = 4"
  by (simp_all add: td_clockid_t_def layout)

definition enum_timespec_type :: ctype where
  "enum_timespec_type = CEnum [
     (''TT_NONE'', 0),
     (''TT_NATIVE'', 1),
     (''TT_COMPAT'', 2)]"

lemma enum_timespec_type_layout [layout]: "csize enum_timespec_type = 4" "calign enum_timespec_type = 4"
  by (simp_all add: enum_timespec_type_def layout)

definition struct_restart_block :: ctype where
  "struct_restart_block = CStruct [
     Fld ''arch_data'' (CBase TULong),
     Fld ''fn'' (CPtr ''function''),
     Fld '''' (CUnion [
       Fld ''futex'' (CStruct [
         Fld ''uaddr'' (CPtr ''u32''),
         Fld ''val'' td_u32,
         Fld ''flags'' td_u32,
         Fld ''bitset'' td_u32,
         Fld ''time'' td_u64,
         Fld ''uaddr2'' (CPtr ''u32'')]),
       Fld ''nanosleep'' (CStruct [
         Fld ''clockid'' td_clockid_t,
         Fld ''type'' enum_timespec_type,
         Fld '''' (CUnion [
           Fld ''rmtp'' (CPtr ''struct __kernel_timespec''),
           Fld ''compat_rmtp'' (CPtr ''struct old_timespec32'')]),
         Fld ''expires'' td_u64]),
       Fld ''poll'' (CStruct [
         Fld ''ufds'' (CPtr ''struct pollfd''),
         Fld ''nfds'' (CBase TInt),
         Fld ''has_timeout'' (CBase TInt),
         Fld ''tv_sec'' (CBase TULong),
         Fld ''tv_nsec'' (CBase TULong)])])]"

lemma struct_restart_block_layout [layout]: "csize struct_restart_block = 56" "calign struct_restart_block = 8"
  by (simp_all add: struct_restart_block_def layout)

definition td___kernel_pid_t :: ctype where
  "td___kernel_pid_t = CBase TInt"

lemma td___kernel_pid_t_layout [layout]: "csize td___kernel_pid_t = 4" "calign td___kernel_pid_t = 4"
  by (simp_all add: td___kernel_pid_t_def layout)

definition td_pid_t :: ctype where
  "td_pid_t = td___kernel_pid_t"

lemma td_pid_t_layout [layout]: "csize td_pid_t = 4" "calign td_pid_t = 4"
  by (simp_all add: td_pid_t_def layout)

definition struct_prev_cputime :: ctype where
  "struct_prev_cputime = CStruct [
     Fld ''utime'' td_u64,
     Fld ''stime'' td_u64,
     Fld ''lock'' td_raw_spinlock_t]"

lemma struct_prev_cputime_layout [layout]: "csize struct_prev_cputime = 24" "calign struct_prev_cputime = 8"
  by (simp_all add: struct_prev_cputime_def layout)

definition enum_vtime_state :: ctype where
  "enum_vtime_state = CEnum [
     (''VTIME_INACTIVE'', 0),
     (''VTIME_IDLE'', 1),
     (''VTIME_SYS'', 2),
     (''VTIME_USER'', 3),
     (''VTIME_GUEST'', 4)]"

lemma enum_vtime_state_layout [layout]: "csize enum_vtime_state = 4" "calign enum_vtime_state = 4"
  by (simp_all add: enum_vtime_state_def layout)

definition struct_vtime :: ctype where
  "struct_vtime = CStruct [
     Fld ''seqcount'' td_seqcount_t,
     Fld ''starttime'' (CBase TULLong),
     Fld ''state'' enum_vtime_state,
     Fld ''cpu'' (CBase TUInt),
     Fld ''utime'' td_u64,
     Fld ''stime'' td_u64,
     Fld ''gtime'' td_u64]"

lemma struct_vtime_layout [layout]: "csize struct_vtime = 48" "calign struct_vtime = 8"
  by (simp_all add: struct_vtime_def layout)

definition struct_timerqueue_head :: ctype where
  "struct_timerqueue_head = CStruct [
     Fld ''rb_root'' struct_rb_root_cached]"

lemma struct_timerqueue_head_layout [layout]: "csize struct_timerqueue_head = 16" "calign struct_timerqueue_head = 8"
  by (simp_all add: struct_timerqueue_head_def layout)

definition struct_posix_cputimer_base :: ctype where
  "struct_posix_cputimer_base = CStruct [
     Fld ''nextevt'' td_u64,
     Fld ''tqhead'' struct_timerqueue_head]"

lemma struct_posix_cputimer_base_layout [layout]: "csize struct_posix_cputimer_base = 24" "calign struct_posix_cputimer_base = 8"
  by (simp_all add: struct_posix_cputimer_base_def layout)

definition struct_posix_cputimers :: ctype where
  "struct_posix_cputimers = CStruct [
     Fld ''bases'' (CArr 3 struct_posix_cputimer_base),
     Fld ''timers_active'' (CBase TUInt),
     Fld ''expiry_active'' (CBase TUInt)]"

lemma struct_posix_cputimers_layout [layout]: "csize struct_posix_cputimers = 80" "calign struct_posix_cputimers = 8"
  by (simp_all add: struct_posix_cputimers_def layout)

definition struct_posix_cputimers_work :: ctype where
  "struct_posix_cputimers_work = CStruct [
     Fld ''work'' struct_callback_head,
     Fld ''mutex'' struct_mutex,
     Fld ''scheduled'' (CBase TUInt)]"

lemma struct_posix_cputimers_work_layout [layout]: "csize struct_posix_cputimers_work = 56" "calign struct_posix_cputimers_work = 8"
  by (simp_all add: struct_posix_cputimers_work_def layout)

definition struct_sysv_sem :: ctype where
  "struct_sysv_sem = CStruct [
     Fld ''undo_list'' (CPtr ''struct sem_undo_list'')]"

lemma struct_sysv_sem_layout [layout]: "csize struct_sysv_sem = 8" "calign struct_sysv_sem = 8"
  by (simp_all add: struct_sysv_sem_def layout)

definition struct_sysv_shm :: ctype where
  "struct_sysv_shm = CStruct [
     Fld ''shm_clist'' struct_list_head]"

lemma struct_sysv_shm_layout [layout]: "csize struct_sysv_shm = 16" "calign struct_sysv_shm = 8"
  by (simp_all add: struct_sysv_shm_def layout)

definition td_sigset_t :: ctype where
  "td_sigset_t = CStruct [
     Fld ''sig'' (CArr 1 (CBase TULong))]"

lemma td_sigset_t_layout [layout]: "csize td_sigset_t = 8" "calign td_sigset_t = 8"
  by (simp_all add: td_sigset_t_def layout)

definition struct_sigpending :: ctype where
  "struct_sigpending = CStruct [
     Fld ''list'' struct_list_head,
     Fld ''signal'' td_sigset_t]"

lemma struct_sigpending_layout [layout]: "csize struct_sigpending = 24" "calign struct_sigpending = 8"
  by (simp_all add: struct_sigpending_def layout)

definition struct_seccomp :: ctype where
  "struct_seccomp = CStruct [
     Fld ''mode'' (CBase TInt),
     Fld ''filter_count'' td_atomic_t,
     Fld ''filter'' (CPtr ''struct seccomp_filter'')]"

lemma struct_seccomp_layout [layout]: "csize struct_seccomp = 16" "calign struct_seccomp = 8"
  by (simp_all add: struct_seccomp_def layout)

definition struct_syscall_user_dispatch :: ctype where
  "struct_syscall_user_dispatch = CStruct [
     Fld ''selector'' (CPtr ''char''),
     Fld ''offset'' (CBase TULong),
     Fld ''len'' (CBase TULong),
     Fld ''on_dispatch'' td_bool]"

lemma struct_syscall_user_dispatch_layout [layout]: "csize struct_syscall_user_dispatch = 32" "calign struct_syscall_user_dispatch = 8"
  by (simp_all add: struct_syscall_user_dispatch_def layout)

definition struct_wake_q_node :: ctype where
  "struct_wake_q_node = CStruct [
     Fld ''next'' (CPtr ''struct wake_q_node'')]"

lemma struct_wake_q_node_layout [layout]: "csize struct_wake_q_node = 8" "calign struct_wake_q_node = 8"
  by (simp_all add: struct_wake_q_node_def layout)

definition struct_task_io_accounting :: ctype where
  "struct_task_io_accounting = CStruct [
     Fld ''rchar'' td_u64,
     Fld ''wchar'' td_u64,
     Fld ''syscr'' td_u64,
     Fld ''syscw'' td_u64,
     Fld ''read_bytes'' td_u64,
     Fld ''write_bytes'' td_u64,
     Fld ''cancelled_write_bytes'' td_u64]"

lemma struct_task_io_accounting_layout [layout]: "csize struct_task_io_accounting = 56" "calign struct_task_io_accounting = 8"
  by (simp_all add: struct_task_io_accounting_def layout)

definition td_nodemask_t :: ctype where
  "td_nodemask_t = CStruct [
     Fld ''bits'' (CArr 16 (CBase TULong))]"

lemma td_nodemask_t_layout [layout]: "csize td_nodemask_t = 128" "calign td_nodemask_t = 8"
  by (simp_all add: td_nodemask_t_def layout)

definition struct_arch_tlbflush_unmap_batch :: ctype where
  "struct_arch_tlbflush_unmap_batch = CStruct [
     Fld ''cpumask'' struct_cpumask]"

lemma struct_arch_tlbflush_unmap_batch_layout [layout]: "csize struct_arch_tlbflush_unmap_batch = 1024" "calign struct_arch_tlbflush_unmap_batch = 8"
  by (simp_all add: struct_arch_tlbflush_unmap_batch_def layout)

definition struct_tlbflush_unmap_batch :: ctype where
  "struct_tlbflush_unmap_batch = CStruct [
     Fld ''arch'' struct_arch_tlbflush_unmap_batch,
     Fld ''flush_required'' td_bool,
     Fld ''writable'' td_bool]"

lemma struct_tlbflush_unmap_batch_layout [layout]: "csize struct_tlbflush_unmap_batch = 1032" "calign struct_tlbflush_unmap_batch = 8"
  by (simp_all add: struct_tlbflush_unmap_batch_def layout)

definition struct_page_frag :: ctype where
  "struct_page_frag = CStruct [
     Fld ''page'' (CPtr ''struct page''),
     Fld ''offset'' td___u32,
     Fld ''size'' td___u32]"

lemma struct_page_frag_layout [layout]: "csize struct_page_frag = 16" "calign struct_page_frag = 8"
  by (simp_all add: struct_page_frag_def layout)

definition struct_latency_record :: ctype where
  "struct_latency_record = CStruct [
     Fld ''backtrace'' (CArr 12 (CBase TULong)),
     Fld ''count'' (CBase TUInt),
     Fld ''time'' (CBase TULong),
     Fld ''max'' (CBase TULong)]"

lemma struct_latency_record_layout [layout]: "csize struct_latency_record = 120" "calign struct_latency_record = 8"
  by (simp_all add: struct_latency_record_def layout)

definition struct_kmap_ctrl :: ctype where
  "struct_kmap_ctrl = CStruct []"

lemma struct_kmap_ctrl_layout [layout]: "csize struct_kmap_ctrl = 0" "calign struct_kmap_ctrl = 1"
  by (simp_all add: struct_kmap_ctrl_def layout)

definition struct_timer_list :: ctype where
  "struct_timer_list = CStruct [
     Fld ''entry'' struct_hlist_node,
     Fld ''expires'' (CBase TULong),
     Fld ''function'' (CPtr ''function''),
     Fld ''flags'' td_u32]"

lemma struct_timer_list_layout [layout]: "csize struct_timer_list = 40" "calign struct_timer_list = 8"
  by (simp_all add: struct_timer_list_def layout)

definition struct_llist_head :: ctype where
  "struct_llist_head = CStruct [
     Fld ''first'' (CPtr ''struct llist_node'')]"

lemma struct_llist_head_layout [layout]: "csize struct_llist_head = 8" "calign struct_llist_head = 8"
  by (simp_all add: struct_llist_head_def layout)

definition struct_da_monitor :: ctype where
  "struct_da_monitor = CStruct [
     Fld ''monitoring'' td_bool,
     Fld ''curr_state'' (CBase TUInt)]"

lemma struct_da_monitor_layout [layout]: "csize struct_da_monitor = 8" "calign struct_da_monitor = 4"
  by (simp_all add: struct_da_monitor_def layout)

definition union_rv_task_monitor :: ctype where
  "union_rv_task_monitor = CUnion [
     Fld ''da_mon'' struct_da_monitor]"

lemma union_rv_task_monitor_layout [layout]: "csize union_rv_task_monitor = 8" "calign union_rv_task_monitor = 4"
  by (simp_all add: union_rv_task_monitor_def layout)

definition struct_desc_struct :: ctype where
  "struct_desc_struct = CStruct [
     Fld ''limit0'' td_u16,
     Fld ''base0'' td_u16,
     Bitf ''base1'' td_u16 8,
     Bitf ''type'' td_u16 4,
     Bitf ''s'' td_u16 1,
     Bitf ''dpl'' td_u16 2,
     Bitf ''p'' td_u16 1,
     Bitf ''limit1'' td_u16 4,
     Bitf ''avl'' td_u16 1,
     Bitf ''l'' td_u16 1,
     Bitf ''d'' td_u16 1,
     Bitf ''g'' td_u16 1,
     Bitf ''base2'' td_u16 8]"

lemma struct_desc_struct_layout [layout]: "csize struct_desc_struct = 8" "calign struct_desc_struct = 2"
  by (simp_all add: struct_desc_struct_def layout)

definition struct_thread_shstk :: ctype where
  "struct_thread_shstk = CStruct [
     Fld ''base'' td_u64,
     Fld ''size'' td_u64]"

lemma struct_thread_shstk_layout [layout]: "csize struct_thread_shstk = 16" "calign struct_thread_shstk = 8"
  by (simp_all add: struct_thread_shstk_def layout)

definition struct_fpu_state_perm :: ctype where
  "struct_fpu_state_perm = CStruct [
     Fld ''__state_perm'' td_u64,
     Fld ''__state_size'' (CBase TUInt),
     Fld ''__user_state_size'' (CBase TUInt)]"

lemma struct_fpu_state_perm_layout [layout]: "csize struct_fpu_state_perm = 16" "calign struct_fpu_state_perm = 8"
  by (simp_all add: struct_fpu_state_perm_def layout)

definition struct_fregs_state :: ctype where
  "struct_fregs_state = CStruct [
     Fld ''cwd'' td_u32,
     Fld ''swd'' td_u32,
     Fld ''twd'' td_u32,
     Fld ''fip'' td_u32,
     Fld ''fcs'' td_u32,
     Fld ''foo'' td_u32,
     Fld ''fos'' td_u32,
     Fld ''st_space'' (CArr 20 td_u32),
     Fld ''status'' td_u32]"

lemma struct_fregs_state_layout [layout]: "csize struct_fregs_state = 112" "calign struct_fregs_state = 4"
  by (simp_all add: struct_fregs_state_def layout)

definition struct_fxregs_state :: ctype where
  "struct_fxregs_state = CStruct [
     Fld ''cwd'' td_u16,
     Fld ''swd'' td_u16,
     Fld ''twd'' td_u16,
     Fld ''fop'' td_u16,
     Fld '''' (CUnion [
       Fld '''' (CStruct [
         Fld ''rip'' td_u64,
         Fld ''rdp'' td_u64]),
       Fld '''' (CStruct [
         Fld ''fip'' td_u32,
         Fld ''fcs'' td_u32,
         Fld ''foo'' td_u32,
         Fld ''fos'' td_u32])]),
     Fld ''mxcsr'' td_u32,
     Fld ''mxcsr_mask'' td_u32,
     Fld ''st_space'' (CArr 32 td_u32),
     Fld ''xmm_space'' (CArr 64 td_u32),
     Fld ''padding'' (CArr 12 td_u32),
     Fld '''' (CUnion [
       Fld ''padding1'' (CArr 12 td_u32),
       Fld ''sw_reserved'' (CArr 12 td_u32)])]"

lemma struct_fxregs_state_layout [layout]: "csize struct_fxregs_state = 512" "calign struct_fxregs_state = 8"
  by (simp_all add: struct_fxregs_state_def layout)

definition struct_swregs_state :: ctype where
  "struct_swregs_state = CStruct [
     Fld ''cwd'' td_u32,
     Fld ''swd'' td_u32,
     Fld ''twd'' td_u32,
     Fld ''fip'' td_u32,
     Fld ''fcs'' td_u32,
     Fld ''foo'' td_u32,
     Fld ''fos'' td_u32,
     Fld ''st_space'' (CArr 20 td_u32),
     Fld ''ftop'' td_u8,
     Fld ''changed'' td_u8,
     Fld ''lookahead'' td_u8,
     Fld ''no_update'' td_u8,
     Fld ''rm'' td_u8,
     Fld ''alimit'' td_u8,
     Fld ''info'' (CPtr ''struct math_emu_info''),
     Fld ''entry_eip'' td_u32]"

lemma struct_swregs_state_layout [layout]: "csize struct_swregs_state = 136" "calign struct_swregs_state = 8"
  by (simp_all add: struct_swregs_state_def layout)

definition struct_xstate_header :: ctype where
  "struct_xstate_header = CStruct [
     Fld ''xfeatures'' td_u64,
     Fld ''xcomp_bv'' td_u64,
     Fld ''reserved'' (CArr 6 td_u64)]"

lemma struct_xstate_header_layout [layout]: "csize struct_xstate_header = 64" "calign struct_xstate_header = 8"
  by (simp_all add: struct_xstate_header_def layout)

definition struct_xregs_state :: ctype where
  "struct_xregs_state = CStruct [
     Fld ''i387'' struct_fxregs_state,
     Fld ''header'' struct_xstate_header,
     Fld ''extended_state_area'' (CArr 0 td_u8)]"

lemma struct_xregs_state_layout [layout]: "csize struct_xregs_state = 576" "calign struct_xregs_state = 8"
  by (simp_all add: struct_xregs_state_def layout)

definition union_fpregs_state :: ctype where
  "union_fpregs_state = CUnion [
     Fld ''fsave'' struct_fregs_state,
     Fld ''fxsave'' struct_fxregs_state,
     Fld ''soft'' struct_swregs_state,
     Fld ''xsave'' struct_xregs_state,
     Fld ''__padding'' (CArr 4096 td_u8)]"

lemma union_fpregs_state_layout [layout]: "csize union_fpregs_state = 4096" "calign union_fpregs_state = 8"
  by (simp_all add: union_fpregs_state_def layout)

definition struct_fpstate :: ctype where
  "struct_fpstate = CStruct [
     Fld ''size'' (CBase TUInt),
     Fld ''user_size'' (CBase TUInt),
     Fld ''xfeatures'' td_u64,
     Fld ''user_xfeatures'' td_u64,
     Fld ''xfd'' td_u64,
     Bitf ''is_valloc'' (CBase TUInt) 1,
     Bitf ''is_guest'' (CBase TUInt) 1,
     Bitf ''is_confidential'' (CBase TUInt) 1,
     Bitf ''in_use'' (CBase TUInt) 1,
     Bitf '''' (CBase TLong) 64,
     Bitf '''' (CBase TLong) 64,
     Bitf '''' (CBase TLong) 64,
     Fld ''regs'' union_fpregs_state]"

lemma struct_fpstate_layout [layout]: "csize struct_fpstate = 4160" "calign struct_fpstate = 8"
  by (simp_all add: struct_fpstate_def layout)

definition struct_fpu :: ctype where
  "struct_fpu = CStruct [
     Fld ''last_cpu'' (CBase TUInt),
     Fld ''avx512_timestamp'' (CBase TULong),
     Fld ''fpstate'' (CPtr ''struct fpstate''),
     Fld ''__task_fpstate'' (CPtr ''struct fpstate''),
     Fld ''perm'' struct_fpu_state_perm,
     Fld ''guest_perm'' struct_fpu_state_perm,
     Fld ''__fpstate'' struct_fpstate]"

lemma struct_fpu_layout [layout]: "csize struct_fpu = 4224" "calign struct_fpu = 8"
  by (simp_all add: struct_fpu_def layout)

definition struct_thread_struct :: ctype where
  "struct_thread_struct = CStruct [
     Fld ''tls_array'' (CArr 3 struct_desc_struct),
     Fld ''sp'' (CBase TULong),
     Fld ''es'' (CBase TUShort),
     Fld ''ds'' (CBase TUShort),
     Fld ''fsindex'' (CBase TUShort),
     Fld ''gsindex'' (CBase TUShort),
     Fld ''fsbase'' (CBase TULong),
     Fld ''gsbase'' (CBase TULong),
     Fld ''ptrace_bps'' (CArr 4 (CPtr ''struct perf_event'')),
     Fld ''virtual_dr6'' (CBase TULong),
     Fld ''ptrace_dr7'' (CBase TULong),
     Fld ''cr2'' (CBase TULong),
     Fld ''trap_nr'' (CBase TULong),
     Fld ''error_code'' (CBase TULong),
     Fld ''io_bitmap'' (CPtr ''struct io_bitmap''),
     Fld ''iopl_emul'' (CBase TULong),
     Bitf ''iopl_warn'' (CBase TUInt) 1,
     Fld ''pkru'' td_u32,
     Fld ''features'' (CBase TULong),
     Fld ''features_locked'' (CBase TULong),
     Fld ''shstk'' struct_thread_shstk,
     Bitf '''' (CBase TLong) 64,
     Fld ''fpu'' struct_fpu]"

lemma struct_thread_struct_layout [layout]: "csize struct_thread_struct = 4416" "calign struct_thread_struct = 8"
  by (simp_all add: struct_thread_struct_def layout)

definition struct_task_struct_members_1 :: "cfield list" where
  "struct_task_struct_members_1 = [
     Fld ''thread_info'' struct_thread_info,
     Fld ''__state'' (CBase TUInt),
     Fld ''saved_state'' (CBase TUInt),
     Fld ''stack'' (CPtr ''void''),
     Fld ''usage'' td_refcount_t,
     Fld ''flags'' (CBase TUInt),
     Fld ''ptrace'' (CBase TUInt),
     Fld ''on_cpu'' (CBase TInt),
     Fld ''wake_entry'' struct___call_single_node,
     Fld ''wakee_flips'' (CBase TUInt),
     Fld ''wakee_flip_decay_ts'' (CBase TULong),
     Fld ''last_wakee'' (CPtr ''struct task_struct''),
     Fld ''recent_used_cpu'' (CBase TInt),
     Fld ''wake_cpu'' (CBase TInt),
     Fld ''on_rq'' (CBase TInt),
     Fld ''prio'' (CBase TInt),
     Fld ''static_prio'' (CBase TInt),
     Fld ''normal_prio'' (CBase TInt),
     Fld ''rt_priority'' (CBase TUInt),
     Fld ''se'' struct_sched_entity,
     Fld ''rt'' struct_sched_rt_entity,
     Fld ''dl'' struct_sched_dl_entity,
     Fld ''dl_server'' (CPtr ''struct sched_dl_entity''),
     Fld ''sched_class'' (CPtr ''const struct sched_class''),
     Fld ''core_node'' struct_rb_node,
     Fld ''core_cookie'' (CBase TULong),
     Fld ''core_occupation'' (CBase TUInt),
     Fld ''sched_task_group'' (CPtr ''struct task_group''),
     Fld ''uclamp_req'' (CArr 2 struct_uclamp_se),
     Fld ''uclamp'' (CArr 2 struct_uclamp_se),
     Bitf '''' (CBase TLong) 64,
     Fld ''stats'' struct_sched_statistics,
     Fld ''preempt_notifiers'' struct_hlist_head,
     Fld ''btrace_seq'' (CBase TUInt),
     Fld ''policy'' (CBase TUInt),
     Fld ''nr_cpus_allowed'' (CBase TInt),
     Fld ''cpus_ptr'' (CPtr ''const cpumask_t''),
     Fld ''user_cpus_ptr'' (CPtr ''cpumask_t''),
     Fld ''cpus_mask'' td_cpumask_t,
     Fld ''migration_pending'' (CPtr ''void''),
     Fld ''migration_disabled'' (CBase TUShort),
     Fld ''migration_flags'' (CBase TUShort),
     Fld ''rcu_read_lock_nesting'' (CBase TInt),
     Fld ''rcu_read_unlock_special'' union_rcu_special,
     Fld ''rcu_node_entry'' struct_list_head,
     Fld ''rcu_blocked_node'' (CPtr ''struct rcu_node''),
     Fld ''rcu_tasks_nvcsw'' (CBase TULong),
     Fld ''rcu_tasks_holdout'' td_u8,
     Fld ''rcu_tasks_idx'' td_u8,
     Fld ''rcu_tasks_idle_cpu'' (CBase TInt),
     Fld ''rcu_tasks_holdout_list'' struct_list_head,
     Fld ''rcu_tasks_exit_cpu'' (CBase TInt),
     Fld ''rcu_tasks_exit_list'' struct_list_head,
     Fld ''trc_reader_nesting'' (CBase TInt),
     Fld ''trc_ipi_to_cpu'' (CBase TInt),
     Fld ''trc_reader_special'' union_rcu_special,
     Fld ''trc_holdout_list'' struct_list_head,
     Fld ''trc_blkd_node'' struct_list_head,
     Fld ''trc_blkd_cpu'' (CBase TInt),
     Fld ''sched_info'' struct_sched_info,
     Fld ''tasks'' struct_list_head,
     Fld ''pushable_tasks'' struct_plist_node,
     Fld ''pushable_dl_tasks'' struct_rb_node,
     Fld ''mm'' (CPtr ''struct mm_struct''),
     Fld ''active_mm'' (CPtr ''struct mm_struct''),
     Fld ''faults_disabled_mapping'' (CPtr ''struct address_space''),
     Fld ''exit_state'' (CBase TInt),
     Fld ''exit_code'' (CBase TInt),
     Fld ''exit_signal'' (CBase TInt),
     Fld ''pdeath_signal'' (CBase TInt),
     Fld ''jobctl'' (CBase TULong),
     Fld ''personality'' (CBase TUInt),
     Bitf ''sched_reset_on_fork'' (CBase TUInt) 1,
     Bitf ''sched_contributes_to_load'' (CBase TUInt) 1,
     Bitf ''sched_migrated'' (CBase TUInt) 1,
     Bitf ''sched_task_hot'' (CBase TUInt) 1,
     Bitf '''' (CBase TLong) 28,
     Bitf ''sched_remote_wakeup'' (CBase TUInt) 1,
     Bitf ''sched_rt_mutex'' (CBase TUInt) 1,
     Bitf ''in_execve'' (CBase TUInt) 1,
     Bitf ''in_iowait'' (CBase TUInt) 1,
     Bitf ''restore_sigmask'' (CBase TUInt) 1,
     Bitf ''in_user_fault'' (CBase TUInt) 1,
     Bitf ''in_lru_fault'' (CBase TUInt) 1,
     Bitf ''no_cgroup_migration'' (CBase TUInt) 1,
     Bitf ''frozen'' (CBase TUInt) 1,
     Bitf ''use_memdelay'' (CBase TUInt) 1,
     Bitf ''in_memstall'' (CBase TUInt) 1,
     Bitf ''in_eventfd'' (CBase TUInt) 1,
     Bitf ''pasid_activated'' (CBase TUInt) 1,
     Bitf ''reported_split_lock'' (CBase TUInt) 1,
     Bitf ''in_thrashing'' (CBase TUInt) 1,
     Fld ''atomic_flags'' (CBase TULong),
     Fld ''restart_block'' struct_restart_block,
     Fld ''pid'' td_pid_t,
     Fld ''tgid'' td_pid_t,
     Fld ''stack_canary'' (CBase TULong),
     Fld ''real_parent'' (CPtr ''struct task_struct''),
     Fld ''parent'' (CPtr ''struct task_struct''),
     Fld ''children'' struct_list_head,
     Fld ''sibling'' struct_list_head,
     Fld ''group_leader'' (CPtr ''struct task_struct''),
     Fld ''ptraced'' struct_list_head,
     Fld ''ptrace_entry'' struct_list_head,
     Fld ''thread_pid'' (CPtr ''struct pid''),
     Fld ''pid_links'' (CArr 4 struct_hlist_node),
     Fld ''thread_node'' struct_list_head,
     Fld ''vfork_done'' (CPtr ''struct completion''),
     Fld ''set_child_tid'' (CPtr ''int''),
     Fld ''clear_child_tid'' (CPtr ''int''),
     Fld ''worker_private'' (CPtr ''void''),
     Fld ''utime'' td_u64,
     Fld ''stime'' td_u64,
     Fld ''gtime'' td_u64,
     Fld ''prev_cputime'' struct_prev_cputime,
     Fld ''vtime'' struct_vtime,
     Fld ''tick_dep_mask'' td_atomic_t,
     Fld ''nvcsw'' (CBase TULong),
     Fld ''nivcsw'' (CBase TULong),
     Fld ''start_time'' td_u64,
     Fld ''start_boottime'' td_u64,
     Fld ''min_flt'' (CBase TULong),
     Fld ''maj_flt'' (CBase TULong),
     Fld ''posix_cputimers'' struct_posix_cputimers]"

lemma struct_task_struct_members_1_layout [layout]:
  "end_bits 0 struct_task_struct_members_1 = 23552"
  "faligns struct_task_struct_members_1 = 8"
  by (simp_all add: struct_task_struct_members_1_def layout)

definition struct_task_struct_members_2 :: "cfield list" where
  "struct_task_struct_members_2 = [
     Fld ''posix_cputimers_work'' struct_posix_cputimers_work,
     Fld ''ptracer_cred'' (CPtr ''const struct cred''),
     Fld ''real_cred'' (CPtr ''const struct cred''),
     Fld ''cred'' (CPtr ''const struct cred''),
     Fld ''cached_requested_key'' (CPtr ''struct key''),
     Fld ''comm'' (CArr 16 (CBase TChar)),
     Fld ''nameidata'' (CPtr ''struct nameidata''),
     Fld ''sysvsem'' struct_sysv_sem,
     Fld ''sysvshm'' struct_sysv_shm,
     Fld ''last_switch_count'' (CBase TULong),
     Fld ''last_switch_time'' (CBase TULong),
     Fld ''fs'' (CPtr ''struct fs_struct''),
     Fld ''files'' (CPtr ''struct files_struct''),
     Fld ''io_uring'' (CPtr ''struct io_uring_task''),
     Fld ''nsproxy'' (CPtr ''struct nsproxy''),
     Fld ''signal'' (CPtr ''struct signal_struct''),
     Fld ''sighand'' (CPtr ''struct sighand_struct''),
     Fld ''blocked'' td_sigset_t,
     Fld ''real_blocked'' td_sigset_t,
     Fld ''saved_sigmask'' td_sigset_t,
     Fld ''pending'' struct_sigpending,
     Fld ''sas_ss_sp'' (CBase TULong),
     Fld ''sas_ss_size'' td_size_t,
     Fld ''sas_ss_flags'' (CBase TUInt),
     Fld ''task_works'' (CPtr ''struct callback_head''),
     Fld ''audit_context'' (CPtr ''struct audit_context''),
     Fld ''loginuid'' td_kuid_t,
     Fld ''sessionid'' (CBase TUInt),
     Fld ''seccomp'' struct_seccomp,
     Fld ''syscall_dispatch'' struct_syscall_user_dispatch,
     Fld ''parent_exec_id'' td_u64,
     Fld ''self_exec_id'' td_u64,
     Fld ''alloc_lock'' td_spinlock_t,
     Fld ''pi_lock'' td_raw_spinlock_t,
     Fld ''wake_q'' struct_wake_q_node,
     Fld ''pi_waiters'' struct_rb_root_cached,
     Fld ''pi_top_task'' (CPtr ''struct task_struct''),
     Fld ''pi_blocked_on'' (CPtr ''struct rt_mutex_waiter''),
     Fld ''in_ubsan'' (CBase TUInt),
     Fld ''journal_info'' (CPtr ''void''),
     Fld ''bio_list'' (CPtr ''struct bio_list''),
     Fld ''plug'' (CPtr ''struct blk_plug''),
     Fld ''reclaim_state'' (CPtr ''struct reclaim_state''),
     Fld ''io_context'' (CPtr ''struct io_context''),
     Fld ''capture_control'' (CPtr ''struct capture_control''),
     Fld ''ptrace_message'' (CBase TULong),
     Fld ''last_siginfo'' (CPtr ''kernel_siginfo_t''),
     Fld ''ioac'' struct_task_io_accounting,
     Fld ''psi_flags'' (CBase TUInt),
     Fld ''acct_rss_mem1'' td_u64,
     Fld ''acct_vm_mem1'' td_u64,
     Fld ''acct_timexpd'' td_u64,
     Fld ''mems_allowed'' td_nodemask_t,
     Fld ''mems_allowed_seq'' td_seqcount_spinlock_t,
     Fld ''cpuset_mem_spread_rotor'' (CBase TInt),
     Fld ''cpuset_slab_spread_rotor'' (CBase TInt),
     Fld ''cgroups'' (CPtr ''struct css_set''),
     Fld ''cg_list'' struct_list_head,
     Fld ''closid'' td_u32,
     Fld ''rmid'' td_u32,
     Fld ''robust_list'' (CPtr ''struct robust_list_head''),
     Fld ''compat_robust_list'' (CPtr ''struct compat_robust_list_head''),
     Fld ''pi_state_list'' struct_list_head,
     Fld ''pi_state_cache'' (CPtr ''struct futex_pi_state''),
     Fld ''futex_exit_mutex'' struct_mutex,
     Fld ''futex_state'' (CBase TUInt),
     Fld ''perf_event_ctxp'' (CPtr ''struct perf_event_context''),
     Fld ''perf_event_mutex'' struct_mutex,
     Fld ''perf_event_list'' struct_list_head,
     Fld ''mempolicy'' (CPtr ''struct mempolicy''),
     Fld ''il_prev'' (CBase TShort),
     Fld ''pref_node_fork'' (CBase TShort),
     Fld ''numa_scan_seq'' (CBase TInt),
     Fld ''numa_scan_period'' (CBase TUInt),
     Fld ''numa_scan_period_max'' (CBase TUInt),
     Fld ''numa_preferred_nid'' (CBase TInt),
     Fld ''numa_migrate_retry'' (CBase TULong),
     Fld ''node_stamp'' td_u64,
     Fld ''last_task_numa_placement'' td_u64,
     Fld ''last_sum_exec_runtime'' td_u64,
     Fld ''numa_work'' struct_callback_head,
     Fld ''numa_group'' (CPtr ''struct numa_group''),
     Fld ''numa_faults'' (CPtr ''long unsigned int''),
     Fld ''total_numa_faults'' (CBase TULong),
     Fld ''numa_faults_locality'' (CArr 3 (CBase TULong)),
     Fld ''numa_pages_migrated'' (CBase TULong),
     Fld ''rseq'' (CPtr ''struct rseq''),
     Fld ''rseq_len'' td_u32,
     Fld ''rseq_sig'' td_u32,
     Fld ''rseq_event_mask'' (CBase TULong),
     Fld ''mm_cid'' (CBase TInt),
     Fld ''last_mm_cid'' (CBase TInt),
     Fld ''migrate_from_cpu'' (CBase TInt),
     Fld ''mm_cid_active'' (CBase TInt),
     Fld ''cid_work'' struct_callback_head,
     Fld ''tlb_ubc'' struct_tlbflush_unmap_batch,
     Fld ''splice_pipe'' (CPtr ''struct pipe_inode_info''),
     Fld ''task_frag'' struct_page_frag,
     Fld ''delays'' (CPtr ''struct task_delay_info''),
     Fld ''nr_dirtied'' (CBase TInt),
     Fld ''nr_dirtied_pause'' (CBase TInt),
     Fld ''dirty_paused_when'' (CBase TULong),
     Fld ''latency_record_count'' (CBase TInt),
     Fld ''latency_record'' (CArr 32 struct_latency_record),
     Fld ''timer_slack_ns'' td_u64,
     Fld ''default_timer_slack_ns'' td_u64,
     Fld ''curr_ret_stack'' (CBase TInt),
     Fld ''curr_ret_depth'' (CBase TInt),
     Fld ''ret_stack'' (CPtr ''struct ftrace_ret_stack''),
     Fld ''ftrace_timestamp'' (CBase TULLong),
     Fld ''trace_overrun'' td_atomic_t,
     Fld ''tracing_graph_pause'' td_atomic_t,
     Fld ''trace_recursion'' (CBase TULong),
     Fld ''memcg_in_oom'' (CPtr ''struct mem_cgroup''),
     Fld ''memcg_oom_gfp_mask'' td_gfp_t,
     Fld ''memcg_oom_order'' (CBase TInt),
     Fld ''memcg_nr_pages_over_high'' (CBase TUInt),
     Fld ''active_memcg'' (CPtr ''struct mem_cgroup''),
     Fld ''objcg'' (CPtr ''struct obj_cgroup''),
     Fld ''throttle_disk'' (CPtr ''struct gendisk''),
     Fld ''utask'' (CPtr ''struct uprobe_task''),
     Fld ''sequential_io'' (CBase TUInt),
     Fld ''sequential_io_avg'' (CBase TUInt),
     Fld ''kmap_ctrl'' struct_kmap_ctrl,
     Fld ''rcu'' struct_callback_head]"

lemma struct_task_struct_members_2_layout [layout]:
  "end_bits 23552 struct_task_struct_members_2 = 72640"
  "faligns struct_task_struct_members_2 = 8"
  by (simp_all add: struct_task_struct_members_2_def layout)

definition struct_task_struct_members_3 :: "cfield list" where
  "struct_task_struct_members_3 = [
     Fld ''rcu_users'' td_refcount_t,
     Fld ''pagefault_disabled'' (CBase TInt),
     Fld ''oom_reaper_list'' (CPtr ''struct task_struct''),
     Fld ''oom_reaper_timer'' struct_timer_list,
     Fld ''stack_vm_area'' (CPtr ''struct vm_struct''),
     Fld ''stack_refcount'' td_refcount_t,
     Fld ''patch_state'' (CBase TInt),
     Fld ''security'' (CPtr ''void''),
     Fld ''bpf_storage'' (CPtr ''struct bpf_local_storage''),
     Fld ''bpf_ctx'' (CPtr ''struct bpf_run_ctx''),
     Fld ''mce_vaddr'' (CPtr ''void''),
     Fld ''mce_kflags'' td___u64,
     Fld ''mce_addr'' td_u64,
     Bitf ''mce_ripv'' td___u64 1,
     Bitf ''mce_whole_page'' td___u64 1,
     Bitf ''__mce_reserved'' td___u64 62,
     Fld ''mce_kill_me'' struct_callback_head,
     Fld ''mce_count'' (CBase TInt),
     Fld ''kretprobe_instances'' struct_llist_head,
     Fld ''rethooks'' struct_llist_head,
     Fld ''l1d_flush_kill'' struct_callback_head,
     Fld ''rv'' (CArr 1 union_rv_task_monitor),
     Fld ''user_event_mm'' (CPtr ''struct user_event_mm''),
     Fld ''thread'' struct_thread_struct]"

lemma struct_task_struct_members_3_layout [layout]:
  "end_bits 72640 struct_task_struct_members_3 = 109568"
  "faligns struct_task_struct_members_3 = 8"
  by (simp_all add: struct_task_struct_members_3_def layout)

definition struct_task_struct :: ctype where
  "struct_task_struct = CStruct (struct_task_struct_members_1 @ struct_task_struct_members_2 @ struct_task_struct_members_3)"

lemma struct_task_struct_layout [layout]: "csize struct_task_struct = 13696" "calign struct_task_struct = 8"
  by (simp_all add: struct_task_struct_def layout end_bits_append faligns_append max_bytes_append)

definition td___s32 :: ctype where
  "td___s32 = CBase TInt"

lemma td___s32_layout [layout]: "csize td___s32 = 4" "calign td___s32 = 4"
  by (simp_all add: td___s32_def layout)

definition union_bpf_attr_members_1 :: "cfield list" where
  "union_bpf_attr_members_1 = [
     Fld '''' (CStruct [
       Fld ''map_type'' td___u32,
       Fld ''key_size'' td___u32,
       Fld ''value_size'' td___u32,
       Fld ''max_entries'' td___u32,
       Fld ''map_flags'' td___u32,
       Fld ''inner_map_fd'' td___u32,
       Fld ''numa_node'' td___u32,
       Fld ''map_name'' (CArr 16 (CBase TChar)),
       Fld ''map_ifindex'' td___u32,
       Fld ''btf_fd'' td___u32,
       Fld ''btf_key_type_id'' td___u32,
       Fld ''btf_value_type_id'' td___u32,
       Fld ''btf_vmlinux_value_type_id'' td___u32,
       Fld ''map_extra'' td___u64]),
     Fld '''' (CStruct [
       Fld ''map_fd'' td___u32,
       Fld ''key'' td___u64,
       Fld '''' (CUnion [
         Fld ''value'' td___u64,
         Fld ''next_key'' td___u64]),
       Fld ''flags'' td___u64]),
     Fld ''batch'' (CStruct [
       Fld ''in_batch'' td___u64,
       Fld ''out_batch'' td___u64,
       Fld ''keys'' td___u64,
       Fld ''values'' td___u64,
       Fld ''count'' td___u32,
       Fld ''map_fd'' td___u32,
       Fld ''elem_flags'' td___u64,
       Fld ''flags'' td___u64]),
     Fld '''' (CStruct [
       Fld ''prog_type'' td___u32,
       Fld ''insn_cnt'' td___u32,
       Fld ''insns'' td___u64,
       Fld ''license'' td___u64,
       Fld ''log_level'' td___u32,
       Fld ''log_size'' td___u32,
       Fld ''log_buf'' td___u64,
       Fld ''kern_version'' td___u32,
       Fld ''prog_flags'' td___u32,
       Fld ''prog_name'' (CArr 16 (CBase TChar)),
       Fld ''prog_ifindex'' td___u32,
       Fld ''expected_attach_type'' td___u32,
       Fld ''prog_btf_fd'' td___u32,
       Fld ''func_info_rec_size'' td___u32,
       Fld ''func_info'' td___u64,
       Fld ''func_info_cnt'' td___u32,
       Fld ''line_info_rec_size'' td___u32,
       Fld ''line_info'' td___u64,
       Fld ''line_info_cnt'' td___u32,
       Fld ''attach_btf_id'' td___u32,
       Fld '''' (CUnion [
         Fld ''attach_prog_fd'' td___u32,
         Fld ''attach_btf_obj_fd'' td___u32]),
       Fld ''core_relo_cnt'' td___u32,
       Fld ''fd_array'' td___u64,
       Fld ''core_relos'' td___u64,
       Fld ''core_relo_rec_size'' td___u32,
       Fld ''log_true_size'' td___u32]),
     Fld '''' (CStruct [
       Fld ''pathname'' td___u64,
       Fld ''bpf_fd'' td___u32,
       Fld ''file_flags'' td___u32,
       Fld ''path_fd'' td___s32]),
     Fld '''' (CStruct [
       Fld '''' (CUnion [
         Fld ''target_fd'' td___u32,
         Fld ''target_ifindex'' td___u32]),
       Fld ''attach_bpf_fd'' td___u32,
       Fld ''attach_type'' td___u32,
       Fld ''attach_flags'' td___u32,
       Fld ''replace_bpf_fd'' td___u32,
       Fld '''' (CUnion [
         Fld ''relative_fd'' td___u32,
         Fld ''relative_id'' td___u32]),
       Fld ''expected_revision'' td___u64]),
     Fld ''test'' (CStruct [
       Fld ''prog_fd'' td___u32,
       Fld ''retval'' td___u32,
       Fld ''data_size_in'' td___u32,
       Fld ''data_size_out'' td___u32,
       Fld ''data_in'' td___u64,
       Fld ''data_out'' td___u64,
       Fld ''repeat'' td___u32,
       Fld ''duration'' td___u32,
       Fld ''ctx_size_in'' td___u32,
       Fld ''ctx_size_out'' td___u32,
       Fld ''ctx_in'' td___u64,
       Fld ''ctx_out'' td___u64,
       Fld ''flags'' td___u32,
       Fld ''cpu'' td___u32,
       Fld ''batch_size'' td___u32]),
     Fld '''' (CStruct [
       Fld '''' (CUnion [
         Fld ''start_id'' td___u32,
         Fld ''prog_id'' td___u32,
         Fld ''map_id'' td___u32,
         Fld ''btf_id'' td___u32,
         Fld ''link_id'' td___u32]),
       Fld ''next_id'' td___u32,
       Fld ''open_flags'' td___u32]),
     Fld ''info'' (CStruct [
       Fld ''bpf_fd'' td___u32,
       Fld ''info_len'' td___u32,
       Fld ''info'' td___u64])]"

lemma union_bpf_attr_members_1_layout [layout]:
  "max_bytes union_bpf_attr_members_1 = 144"
  "faligns union_bpf_attr_members_1 = 8"
  by (simp_all add: union_bpf_attr_members_1_def layout)

definition union_bpf_attr_members_2 :: "cfield list" where
  "union_bpf_attr_members_2 = [
     Fld ''query'' (CStruct [
       Fld '''' (CUnion [
         Fld ''target_fd'' td___u32,
         Fld ''target_ifindex'' td___u32]),
       Fld ''attach_type'' td___u32,
       Fld ''query_flags'' td___u32,
       Fld ''attach_flags'' td___u32,
       Fld ''prog_ids'' td___u64,
       Fld '''' (CUnion [
         Fld ''prog_cnt'' td___u32,
         Fld ''count'' td___u32]),
       Fld ''prog_attach_flags'' td___u64,
       Fld ''link_ids'' td___u64,
       Fld ''link_attach_flags'' td___u64,
       Fld ''revision'' td___u64]),
     Fld ''raw_tracepoint'' (CStruct [
       Fld ''name'' td___u64,
       Fld ''prog_fd'' td___u32]),
     Fld '''' (CStruct [
       Fld ''btf'' td___u64,
       Fld ''btf_log_buf'' td___u64,
       Fld ''btf_size'' td___u32,
       Fld ''btf_log_size'' td___u32,
       Fld ''btf_log_level'' td___u32,
       Fld ''btf_log_true_size'' td___u32]),
     Fld ''task_fd_query'' (CStruct [
       Fld ''pid'' td___u32,
       Fld ''fd'' td___u32,
       Fld ''flags'' td___u32,
       Fld ''buf_len'' td___u32,
       Fld ''buf'' td___u64,
       Fld ''prog_id'' td___u32,
       Fld ''fd_type'' td___u32,
       Fld ''probe_offset'' td___u64,
       Fld ''probe_addr'' td___u64]),
     Fld ''link_create'' (CStruct [
       Fld '''' (CUnion [
         Fld ''prog_fd'' td___u32,
         Fld ''map_fd'' td___u32]),
       Fld '''' (CUnion [
         Fld ''target_fd'' td___u32,
         Fld ''target_ifindex'' td___u32]),
       Fld ''attach_type'' td___u32,
       Fld ''flags'' td___u32,
       Fld '''' (CUnion [
         Fld ''target_btf_id'' td___u32,
         Fld '''' (CStruct [
           Fld ''iter_info'' td___u64,
           Fld ''iter_info_len'' td___u32]),
         Fld ''perf_event'' (CStruct [
           Fld ''bpf_cookie'' td___u64]),
         Fld ''kprobe_multi'' (CStruct [
           Fld ''flags'' td___u32,
           Fld ''cnt'' td___u32,
           Fld ''syms'' td___u64,
           Fld ''addrs'' td___u64,
           Fld ''cookies'' td___u64]),
         Fld ''tracing'' (CStruct [
           Fld ''target_btf_id'' td___u32,
           Fld ''cookie'' td___u64]),
         Fld ''netfilter'' (CStruct [
           Fld ''pf'' td___u32,
           Fld ''hooknum'' td___u32,
           Fld ''priority'' td___s32,
           Fld ''flags'' td___u32]),
         Fld ''tcx'' (CStruct [
           Fld '''' (CUnion [
             Fld ''relative_fd'' td___u32,
             Fld ''relative_id'' td___u32]),
           Fld ''expected_revision'' td___u64]),
         Fld ''uprobe_multi'' (CStruct [
           Fld ''path'' td___u64,
           Fld ''offsets'' td___u64,
           Fld ''ref_ctr_offsets'' td___u64,
           Fld ''cookies'' td___u64,
           Fld ''cnt'' td___u32,
           Fld ''flags'' td___u32,
           Fld ''pid'' td___u32]),
         Fld ''netkit'' (CStruct [
           Fld '''' (CUnion [
             Fld ''relative_fd'' td___u32,
             Fld ''relative_id'' td___u32]),
           Fld ''expected_revision'' td___u64])])]),
     Fld ''link_update'' (CStruct [
       Fld ''link_fd'' td___u32,
       Fld '''' (CUnion [
         Fld ''new_prog_fd'' td___u32,
         Fld ''new_map_fd'' td___u32]),
       Fld ''flags'' td___u32,
       Fld '''' (CUnion [
         Fld ''old_prog_fd'' td___u32,
         Fld ''old_map_fd'' td___u32])]),
     Fld ''link_detach'' (CStruct [
       Fld ''link_fd'' td___u32]),
     Fld ''enable_stats'' (CStruct [
       Fld ''type'' td___u32]),
     Fld ''iter_create'' (CStruct [
       Fld ''link_fd'' td___u32,
       Fld ''flags'' td___u32])]"

lemma union_bpf_attr_members_2_layout [layout]:
  "max_bytes union_bpf_attr_members_2 = 64"
  "faligns union_bpf_attr_members_2 = 8"
  by (simp_all add: union_bpf_attr_members_2_def layout)

definition union_bpf_attr_members_3 :: "cfield list" where
  "union_bpf_attr_members_3 = [
     Fld ''prog_bind_map'' (CStruct [
       Fld ''prog_fd'' td___u32,
       Fld ''map_fd'' td___u32,
       Fld ''flags'' td___u32])]"

lemma union_bpf_attr_members_3_layout [layout]:
  "max_bytes union_bpf_attr_members_3 = 12"
  "faligns union_bpf_attr_members_3 = 4"
  by (simp_all add: union_bpf_attr_members_3_def layout)

definition union_bpf_attr :: ctype where
  "union_bpf_attr = CUnion (union_bpf_attr_members_1 @ union_bpf_attr_members_2 @ union_bpf_attr_members_3)"

lemma union_bpf_attr_layout [layout]: "csize union_bpf_attr = 144" "calign union_bpf_attr = 8"
  by (simp_all add: union_bpf_attr_def layout end_bits_append faligns_append max_bytes_append)

definition enum_bpf_map_type :: ctype where
  "enum_bpf_map_type = CEnum [
     (''BPF_MAP_TYPE_UNSPEC'', 0),
     (''BPF_MAP_TYPE_HASH'', 1),
     (''BPF_MAP_TYPE_ARRAY'', 2),
     (''BPF_MAP_TYPE_PROG_ARRAY'', 3),
     (''BPF_MAP_TYPE_PERF_EVENT_ARRAY'', 4),
     (''BPF_MAP_TYPE_PERCPU_HASH'', 5),
     (''BPF_MAP_TYPE_PERCPU_ARRAY'', 6),
     (''BPF_MAP_TYPE_STACK_TRACE'', 7),
     (''BPF_MAP_TYPE_CGROUP_ARRAY'', 8),
     (''BPF_MAP_TYPE_LRU_HASH'', 9),
     (''BPF_MAP_TYPE_LRU_PERCPU_HASH'', 10),
     (''BPF_MAP_TYPE_LPM_TRIE'', 11),
     (''BPF_MAP_TYPE_ARRAY_OF_MAPS'', 12),
     (''BPF_MAP_TYPE_HASH_OF_MAPS'', 13),
     (''BPF_MAP_TYPE_DEVMAP'', 14),
     (''BPF_MAP_TYPE_SOCKMAP'', 15),
     (''BPF_MAP_TYPE_CPUMAP'', 16),
     (''BPF_MAP_TYPE_XSKMAP'', 17),
     (''BPF_MAP_TYPE_SOCKHASH'', 18),
     (''BPF_MAP_TYPE_CGROUP_STORAGE_DEPRECATED'', 19),
     (''BPF_MAP_TYPE_CGROUP_STORAGE'', 19),
     (''BPF_MAP_TYPE_REUSEPORT_SOCKARRAY'', 20),
     (''BPF_MAP_TYPE_PERCPU_CGROUP_STORAGE_DEPRECATED'', 21),
     (''BPF_MAP_TYPE_PERCPU_CGROUP_STORAGE'', 21),
     (''BPF_MAP_TYPE_QUEUE'', 22),
     (''BPF_MAP_TYPE_STACK'', 23),
     (''BPF_MAP_TYPE_SK_STORAGE'', 24),
     (''BPF_MAP_TYPE_DEVMAP_HASH'', 25),
     (''BPF_MAP_TYPE_STRUCT_OPS'', 26),
     (''BPF_MAP_TYPE_RINGBUF'', 27),
     (''BPF_MAP_TYPE_INODE_STORAGE'', 28),
     (''BPF_MAP_TYPE_TASK_STORAGE'', 29),
     (''BPF_MAP_TYPE_BLOOM_FILTER'', 30),
     (''BPF_MAP_TYPE_USER_RINGBUF'', 31),
     (''BPF_MAP_TYPE_CGRP_STORAGE'', 32)]"

lemma enum_bpf_map_type_layout [layout]: "csize enum_bpf_map_type = 4" "calign enum_bpf_map_type = 4"
  by (simp_all add: enum_bpf_map_type_def layout)

definition enum_bpf_cmd :: ctype where
  "enum_bpf_cmd = CEnum [
     (''BPF_MAP_CREATE'', 0),
     (''BPF_MAP_LOOKUP_ELEM'', 1),
     (''BPF_MAP_UPDATE_ELEM'', 2),
     (''BPF_MAP_DELETE_ELEM'', 3),
     (''BPF_MAP_GET_NEXT_KEY'', 4),
     (''BPF_PROG_LOAD'', 5),
     (''BPF_OBJ_PIN'', 6),
     (''BPF_OBJ_GET'', 7),
     (''BPF_PROG_ATTACH'', 8),
     (''BPF_PROG_DETACH'', 9),
     (''BPF_PROG_TEST_RUN'', 10),
     (''BPF_PROG_RUN'', 10),
     (''BPF_PROG_GET_NEXT_ID'', 11),
     (''BPF_MAP_GET_NEXT_ID'', 12),
     (''BPF_PROG_GET_FD_BY_ID'', 13),
     (''BPF_MAP_GET_FD_BY_ID'', 14),
     (''BPF_OBJ_GET_INFO_BY_FD'', 15),
     (''BPF_PROG_QUERY'', 16),
     (''BPF_RAW_TRACEPOINT_OPEN'', 17),
     (''BPF_BTF_LOAD'', 18),
     (''BPF_BTF_GET_FD_BY_ID'', 19),
     (''BPF_TASK_FD_QUERY'', 20),
     (''BPF_MAP_LOOKUP_AND_DELETE_ELEM'', 21),
     (''BPF_MAP_FREEZE'', 22),
     (''BPF_BTF_GET_NEXT_ID'', 23),
     (''BPF_MAP_LOOKUP_BATCH'', 24),
     (''BPF_MAP_LOOKUP_AND_DELETE_BATCH'', 25),
     (''BPF_MAP_UPDATE_BATCH'', 26),
     (''BPF_MAP_DELETE_BATCH'', 27),
     (''BPF_LINK_CREATE'', 28),
     (''BPF_LINK_UPDATE'', 29),
     (''BPF_LINK_GET_FD_BY_ID'', 30),
     (''BPF_LINK_GET_NEXT_ID'', 31),
     (''BPF_ENABLE_STATS'', 32),
     (''BPF_ITER_CREATE'', 33),
     (''BPF_LINK_DETACH'', 34),
     (''BPF_PROG_BIND_MAP'', 35)]"

lemma enum_bpf_cmd_layout [layout]: "csize enum_bpf_cmd = 4" "calign enum_bpf_cmd = 4"
  by (simp_all add: enum_bpf_cmd_def layout)

definition enum_bpf_map_create_flags :: ctype where
  "enum_bpf_map_create_flags = CEnum [
     (''BPF_F_NO_PREALLOC'', 1),
     (''BPF_F_NO_COMMON_LRU'', 2),
     (''BPF_F_NUMA_NODE'', 4),
     (''BPF_F_RDONLY'', 8),
     (''BPF_F_WRONLY'', 16),
     (''BPF_F_STACK_BUILD_ID'', 32),
     (''BPF_F_ZERO_SEED'', 64),
     (''BPF_F_RDONLY_PROG'', 128),
     (''BPF_F_WRONLY_PROG'', 256),
     (''BPF_F_CLONE'', 512),
     (''BPF_F_MMAPABLE'', 1024),
     (''BPF_F_PRESERVE_ELEMS'', 2048),
     (''BPF_F_INNER_MAP'', 4096),
     (''BPF_F_LINK'', 8192),
     (''BPF_F_PATH_FD'', 16384)]"

lemma enum_bpf_map_create_flags_layout [layout]: "csize enum_bpf_map_create_flags = 4" "calign enum_bpf_map_create_flags = 4"
  by (simp_all add: enum_bpf_map_create_flags_def layout)

definition enum_bpf_local_storage_flags :: ctype where
  "enum_bpf_local_storage_flags = CEnum [
     (''BPF_LOCAL_STORAGE_GET_F_CREATE'', 1),
     (''BPF_SK_STORAGE_GET_F_CREATE'', 1)]"

lemma enum_bpf_local_storage_flags_layout [layout]: "csize enum_bpf_local_storage_flags = 4" "calign enum_bpf_local_storage_flags = 4"
  by (simp_all add: enum_bpf_local_storage_flags_def layout)

end
