(* ===== verification/Bpf_Types.thy ===== *)
theory Bpf_Types
  imports Vmlinux_Task
begin

text \<open>
  The constants, the structures and the map declarations of \<open>main.bpf.c\<close>. A structure
  appears twice: as a record, which the programs compute with (without the explicit
  \<open>_pad\<close> members, which every initialiser leaves zero), and as a C type
  (\<open>struct_\<close> followed by its tag), which fixes the bytes a map compares. The map
  declarations are the values of type \<open>map_def\<close> named after the maps.
\<close>

section \<open>Constants\<close>

definition PROTO_TCP :: u8 where "PROTO_TCP = 6"
definition PROTO_UDP :: u8 where "PROTO_UDP = 17"
definition AF_INET :: u16 where "AF_INET = 2"
definition AF_INET6 :: u16 where "AF_INET6 = 10"

definition PATH_STATE_ROOT :: u64 where "PATH_STATE_ROOT = 0"
definition PATH_STATE_ACCEPT :: u64 where "PATH_STATE_ACCEPT = 0xFFFFFFFFFFFFFFFE"
definition PATH_STATE_REJECT :: u64 where "PATH_STATE_REJECT = 0xFFFFFFFFFFFFFFFF"

definition AUDIT_HOOK_FILE_OPEN :: u32 where "AUDIT_HOOK_FILE_OPEN = 1"
definition AUDIT_HOOK_SOCKET_BIND :: u32 where "AUDIT_HOOK_SOCKET_BIND = 2"
definition AUDIT_HOOK_SOCKET_CONNECT :: u32 where "AUDIT_HOOK_SOCKET_CONNECT = 3"
definition AUDIT_HOOK_BPRM_CHECK :: u32 where "AUDIT_HOOK_BPRM_CHECK = 4"
definition AUDIT_HOOK_PATH_RENAME :: u32 where "AUDIT_HOOK_PATH_RENAME = 5"
definition AUDIT_DECISION_DENY :: u32 where "AUDIT_DECISION_DENY = 0"
definition AUDIT_DECISION_ALLOW :: u32 where "AUDIT_DECISION_ALLOW = 1"

definition MAX_CGROUP_DEPTH :: nat where "MAX_CGROUP_DEPTH = 8"
definition MAX_COMPONENTS :: nat where "MAX_COMPONENTS = 16"
definition MAX_COMPONENT_HASH_LEN :: nat where "MAX_COMPONENT_HASH_LEN = 64"
definition MAX_PATH_WALK_STEPS :: nat where "MAX_PATH_WALK_STEPS = 32"

definition FNV1A64_OFFSET_BASIS :: u64 where "FNV1A64_OFFSET_BASIS = 0xcbf29ce484222325"
definition FNV1A64_PRIME :: u64 where "FNV1A64_PRIME = 0x00000100000001b3"

section \<open>Structures as records\<close>

record process_info =
  pi_pod_id :: u64
  pi_role_id :: u32
  pi_stack_depth :: u8
  pi_flags :: u8

record net_rule_key =
  nrk_role_id :: u32
  nrk_port :: u16
  nrk_protocol :: u8
  nrk_direction :: u8

record path_state_key =
  psk_role_id :: u32
  psk_state :: u64
  psk_component_hash :: u64

record path_state_value =
  psv_next_state :: u64
  psv_is_terminal :: u8
  psv_decision :: u8
  psv_wildcard :: u8

record path_cache_key =
  pck_role_id :: u32
  pck_dentry :: u64
  pck_mnt :: u64
  pck_inode :: u64
  pck_root_dentry :: u64
  pck_root_mnt :: u64

record path_cache_value =
  pcv_decision :: u8
  pcv_generation :: u32

record exec_enrollment_value =
  eev_pod_id :: u64
  eev_role_id :: u32

record ip_rule_key =
  irk_role_id :: u32
  irk_ip_addr :: u32
  irk_prefix_len :: u8
  irk_direction :: u8

record proxy_config =
  pc_proxy_ip :: u32
  pc_proxy_port :: u16
  pc_require_proxy :: u8

record domain_rule_key =
  drk_role_id :: u32
  drk_domain_hash :: u64

record dns_cache_key =
  dck_role_id :: u32
  dck_ip_addr :: u32

record dns_cache_value =
  dcv_domain_hash :: u64
  dcv_timestamp :: u64

record audit_event =
  ae_timestamp :: u64
  ae_pid :: u32
  ae_role_id :: u32
  ae_decision :: u32
  ae_hook_type :: u32
  ae_context :: u64
  ae_pod_id :: u64

text \<open>\<open>hashes\<close> always has \<open>MAX_COMPONENTS\<close> entries; slots at and above \<open>count\<close> are leftovers.\<close>

record path_components =
  pcs_hashes :: "u64 list"
  pcs_count :: u8
  pcs_truncated :: u8

section \<open>Structures as C types\<close>

definition struct_process_info :: ctype where
  "struct_process_info = CStruct [
     Fld ''pod_id'' td_u64, Fld ''role_id'' td_u32, Fld ''stack_depth'' td_u8, Fld ''flags'' td_u8]"

definition struct_net_rule_key :: ctype where
  "struct_net_rule_key = CStruct [
     Fld ''role_id'' td_u32, Fld ''port'' td_u16, Fld ''protocol'' td_u8, Fld ''direction'' td_u8]"

definition struct_path_state_key :: ctype where
  "struct_path_state_key = CStruct [
     Fld ''role_id'' td_u32, Fld ''state'' td_u64, Fld ''component_hash'' td_u64]"

definition struct_path_state_value :: ctype where
  "struct_path_state_value = CStruct [
     Fld ''next_state'' td_u64, Fld ''is_terminal'' td_u8, Fld ''decision'' td_u8,
     Fld ''wildcard'' td_u8, Fld ''_pad'' td_u8]"

definition struct_path_cache_key :: ctype where
  "struct_path_cache_key = CStruct [
     Fld ''role_id'' td_u32, Fld ''dentry'' td_u64, Fld ''mnt'' td_u64, Fld ''inode'' td_u64,
     Fld ''root_dentry'' td_u64, Fld ''root_mnt'' td_u64]"

definition struct_path_cache_value :: ctype where
  "struct_path_cache_value = CStruct [
     Fld ''decision'' td_u8, Fld ''_pad'' (CArr 3 td_u8), Fld ''generation'' td_u32]"

definition struct_exec_enrollment_value :: ctype where
  "struct_exec_enrollment_value = CStruct [
     Fld ''pod_id'' td_u64, Fld ''role_id'' td_u32, Fld ''_pad'' td_u32]"

definition struct_ip_rule_key :: ctype where
  "struct_ip_rule_key = CStruct [
     Fld ''role_id'' td_u32, Fld ''ip_addr'' td_u32, Fld ''prefix_len'' td_u8,
     Fld ''direction'' td_u8, Fld ''_pad'' (CArr 2 td_u8)]"

definition struct_proxy_config :: ctype where
  "struct_proxy_config = CStruct [
     Fld ''proxy_ip'' td_u32, Fld ''proxy_port'' td_u16, Fld ''require_proxy'' td_u8,
     Fld ''_pad'' td_u8]"

definition struct_domain_rule_key :: ctype where
  "struct_domain_rule_key = CStruct [Fld ''role_id'' td_u32, Fld ''domain_hash'' td_u64]"

definition struct_dns_cache_key :: ctype where
  "struct_dns_cache_key = CStruct [Fld ''role_id'' td_u32, Fld ''ip_addr'' td_u32]"

definition struct_dns_cache_value :: ctype where
  "struct_dns_cache_value = CStruct [Fld ''domain_hash'' td_u64, Fld ''timestamp'' td_u64]"

definition struct_audit_event :: ctype where
  "struct_audit_event = CStruct [
     Fld ''timestamp'' td_u64, Fld ''pid'' td_u32, Fld ''role_id'' td_u32,
     Fld ''decision'' td_u32, Fld ''hook_type'' td_u32, Fld ''context'' td_u64,
     Fld ''pod_id'' td_u64]"

definition struct_path_components :: ctype where
  "struct_path_components = CStruct [
     Fld ''hashes'' (CArr MAX_COMPONENTS td_u64), Fld ''count'' td_u8, Fld ''truncated'' td_u8]"

lemmas bpf_struct_defs =
  struct_process_info_def struct_net_rule_key_def struct_path_state_key_def
  struct_path_state_value_def struct_path_cache_key_def struct_path_cache_value_def
  struct_exec_enrollment_value_def struct_ip_rule_key_def struct_proxy_config_def
  struct_domain_rule_key_def struct_dns_cache_key_def struct_dns_cache_value_def
  struct_audit_event_def struct_path_components_def MAX_COMPONENTS_def

lemma bpf_struct_layout [layout]:
  "csize struct_process_info = 16" "calign struct_process_info = 8"
  "csize struct_net_rule_key = 8" "csize struct_path_state_key = 24"
  "csize struct_path_state_value = 16" "csize struct_path_cache_key = 48"
  "csize struct_path_cache_value = 8" "csize struct_exec_enrollment_value = 16"
  "csize struct_ip_rule_key = 12" "csize struct_proxy_config = 8"
  "csize struct_domain_rule_key = 16" "csize struct_dns_cache_key = 8"
  "csize struct_dns_cache_value = 16" "csize struct_audit_event = 40"
  "csize struct_path_components = 136"
  by (simp_all add: bpf_struct_defs layout)

section \<open>Map declarations\<close>

definition enum_value :: "ctype \<Rightarrow> string \<Rightarrow> int option" where
  "enum_value t x = (case t of CEnum es \<Rightarrow> map_of es x | _ \<Rightarrow> None)"

record map_def =
  md_type :: string         \<comment> \<open>an enumerator of \<open>enum bpf_map_type\<close>\<close>
  md_key :: ctype
  md_value :: ctype
  md_max_entries :: nat
  md_flags :: "string list"

definition map_task_storage :: map_def where
  "map_task_storage = \<lparr>md_type = ''BPF_MAP_TYPE_TASK_STORAGE'', md_key = CBase TInt,
     md_value = struct_process_info, md_max_entries = 0, md_flags = [''BPF_F_NO_PREALLOC'']\<rparr>"

definition map_role_flags :: map_def where
  "map_role_flags = \<lparr>md_type = ''BPF_MAP_TYPE_HASH'', md_key = td_u32, md_value = td_u8,
     md_max_entries = 1024, md_flags = []\<rparr>"

definition map_network_rules :: map_def where
  "map_network_rules = \<lparr>md_type = ''BPF_MAP_TYPE_HASH'', md_key = struct_net_rule_key,
     md_value = td_u8, md_max_entries = 4096, md_flags = []\<rparr>"

definition map_pending_enrollments :: map_def where
  "map_pending_enrollments = \<lparr>md_type = ''BPF_MAP_TYPE_HASH'', md_key = td_u32,
     md_value = struct_process_info, md_max_entries = 4096, md_flags = []\<rparr>"

definition map_path_states :: map_def where
  "map_path_states = \<lparr>md_type = ''BPF_MAP_TYPE_HASH'', md_key = struct_path_state_key,
     md_value = struct_path_state_value, md_max_entries = 16384, md_flags = []\<rparr>"

definition map_exec_states :: map_def where
  "map_exec_states = \<lparr>md_type = ''BPF_MAP_TYPE_HASH'', md_key = struct_path_state_key,
     md_value = struct_path_state_value, md_max_entries = 4096, md_flags = []\<rparr>"

definition map_path_decision_cache :: map_def where
  "map_path_decision_cache = \<lparr>md_type = ''BPF_MAP_TYPE_LRU_HASH'', md_key = struct_path_cache_key,
     md_value = struct_path_cache_value, md_max_entries = 4096, md_flags = []\<rparr>"

definition map_cache_generation :: map_def where
  "map_cache_generation = \<lparr>md_type = ''BPF_MAP_TYPE_ARRAY'', md_key = td_u32, md_value = td_u32,
     md_max_entries = 1, md_flags = []\<rparr>"

definition map_exec_enrollment :: map_def where
  "map_exec_enrollment = \<lparr>md_type = ''BPF_MAP_TYPE_HASH'', md_key = td_u64,
     md_value = struct_exec_enrollment_value, md_max_entries = 1024, md_flags = []\<rparr>"

definition map_cgroup_enrollment :: map_def where
  "map_cgroup_enrollment = \<lparr>md_type = ''BPF_MAP_TYPE_HASH'', md_key = td_u64,
     md_value = struct_exec_enrollment_value, md_max_entries = 1024, md_flags = []\<rparr>"

definition map_ip_rules :: map_def where
  "map_ip_rules = \<lparr>md_type = ''BPF_MAP_TYPE_HASH'', md_key = struct_ip_rule_key,
     md_value = td_u8, md_max_entries = 4096, md_flags = []\<rparr>"

definition map_proxy_config :: map_def where
  "map_proxy_config = \<lparr>md_type = ''BPF_MAP_TYPE_HASH'', md_key = td_u32,
     md_value = struct_proxy_config, md_max_entries = 256, md_flags = []\<rparr>"

definition map_domain_rules :: map_def where
  "map_domain_rules = \<lparr>md_type = ''BPF_MAP_TYPE_HASH'', md_key = struct_domain_rule_key,
     md_value = td_u8, md_max_entries = 4096, md_flags = []\<rparr>"

definition map_dns_cache :: map_def where
  "map_dns_cache = \<lparr>md_type = ''BPF_MAP_TYPE_HASH'', md_key = struct_dns_cache_key,
     md_value = struct_dns_cache_value, md_max_entries = 8192, md_flags = []\<rparr>"

definition map_audit_events :: map_def where
  "map_audit_events = \<lparr>md_type = ''BPF_MAP_TYPE_PERF_EVENT_ARRAY'', md_key = td_u32,
     md_value = td_u32, md_max_entries = 0, md_flags = []\<rparr>"

definition map_path_buf :: map_def where
  "map_path_buf = \<lparr>md_type = ''BPF_MAP_TYPE_PERCPU_ARRAY'', md_key = td_u32,
     md_value = struct_path_components, md_max_entries = 1, md_flags = []\<rparr>"

definition bpf_map_defs :: "map_def list" where
  "bpf_map_defs = [map_task_storage, map_role_flags, map_network_rules, map_pending_enrollments,
     map_path_states, map_exec_states, map_path_decision_cache, map_cache_generation,
     map_exec_enrollment, map_cgroup_enrollment, map_ip_rules, map_proxy_config,
     map_domain_rules, map_dns_cache, map_audit_events, map_path_buf]"

lemmas map_defs =
  bpf_map_defs_def map_task_storage_def map_role_flags_def map_network_rules_def
  map_pending_enrollments_def map_path_states_def map_exec_states_def map_path_decision_cache_def
  map_cache_generation_def map_exec_enrollment_def map_cgroup_enrollment_def map_ip_rules_def
  map_proxy_config_def map_domain_rules_def map_dns_cache_def map_audit_events_def map_path_buf_def

end
