(* ===== verification/Kernel_Env.thy ===== *)
theory Kernel_Env
  imports Bpf_Types
begin

text \<open>
  What a BPF program sees of the kernel: the results of the helpers it calls, the field
  offsets CO-RE relocation patches into it, and, built from both, the accessors that
  \<open>BPF_CORE_READ\<close> and \<open>bpf_probe_read_kernel\<close> expand to in \<open>main.bpf.c\<close>.

  The kernel is not part of the program, so its answers are the fields of \<open>kenv\<close>, one
  value per hook invocation. Only the C side is defined here: which address is read, how many
  bytes, and how they are assembled into an integer.
\<close>

section \<open>Relocated field offsets\<close>

text \<open>
  \<open>vmlinux.h\<close> applies \<open>preserve_access_index\<close> to every record, so each field access in the
  programs is patched at load time to the offset of that field in the running kernel. A
  \<open>core_relo\<close> holds those offsets; \<open>vmlinux_relo\<close> are the ones of \<open>vmlinux.h\<close> itself.
\<close>

record core_relo =
  o_d_parent :: u64
  o_d_name_len :: u64
  o_d_name_name :: u64
  o_d_inode :: u64
  o_mnt :: u64
  o_mnt_mnt_root :: u64
  o_mnt_parent :: u64
  o_mnt_mountpoint :: u64
  o_task_fs :: u64
  o_fs_root_dentry :: u64
  o_fs_root_mnt :: u64
  o_f_path_dentry :: u64
  o_f_path_mnt :: u64
  o_f_inode :: u64
  o_i_ino :: u64
  o_bprm_file :: u64
  o_sock_type :: u64
  o_sa_family :: u64
  o_sin_port :: u64
  o_sin_addr_s_addr :: u64
  o_sin6_port :: u64

definition core_field_offset :: "ctype \<Rightarrow> string list \<Rightarrow> u64" where
  "core_field_offset t path = (case offset_of t path of Some (off, _) \<Rightarrow> of_nat off | None \<Rightarrow> 0)"

definition vmlinux_relo :: core_relo where
  "vmlinux_relo = \<lparr>
     o_d_parent = core_field_offset struct_dentry [''d_parent''],
     o_d_name_len = core_field_offset struct_dentry [''d_name'', ''len''],
     o_d_name_name = core_field_offset struct_dentry [''d_name'', ''name''],
     o_d_inode = core_field_offset struct_dentry [''d_inode''],
     o_mnt = core_field_offset struct_mount [''mnt''],
     o_mnt_mnt_root = core_field_offset struct_mount [''mnt'', ''mnt_root''],
     o_mnt_parent = core_field_offset struct_mount [''mnt_parent''],
     o_mnt_mountpoint = core_field_offset struct_mount [''mnt_mountpoint''],
     o_task_fs = core_field_offset struct_task_struct [''fs''],
     o_fs_root_dentry = core_field_offset struct_fs_struct [''root'', ''dentry''],
     o_fs_root_mnt = core_field_offset struct_fs_struct [''root'', ''mnt''],
     o_f_path_dentry = core_field_offset struct_file [''f_path'', ''dentry''],
     o_f_path_mnt = core_field_offset struct_file [''f_path'', ''mnt''],
     o_f_inode = core_field_offset struct_file [''f_inode''],
     o_i_ino = core_field_offset struct_inode [''i_ino''],
     o_bprm_file = core_field_offset struct_linux_binprm [''file''],
     o_sock_type = core_field_offset struct_socket [''type''],
     o_sa_family = core_field_offset struct_sockaddr [''sa_family''],
     o_sin_port = core_field_offset struct_sockaddr_in [''sin_port''],
     o_sin_addr_s_addr = core_field_offset struct_sockaddr_in [''sin_addr'', ''s_addr''],
     o_sin6_port = core_field_offset struct_sockaddr_in6 [''sin6_port'']\<rparr>"

section \<open>Helpers and execution context\<close>

text \<open>
  The context of one hook invocation.

  \<^item> \<open>k_probe_read n p\<close>: the \<open>n\<close> bytes \<open>bpf_probe_read_kernel\<close> stores when asked for address \<open>p\<close>;
  \<^item> \<open>k_relo\<close>: the relocated offsets;
  \<^item> \<open>k_task\<close>, \<open>k_pid_tgid\<close>, \<open>k_ktime\<close>, \<open>k_cgroup_id\<close>: \<open>bpf_get_current_task_btf\<close>,
    \<open>bpf_get_current_pid_tgid\<close>, \<open>bpf_ktime_get_ns\<close>, \<open>bpf_get_current_cgroup_id\<close>;
  \<^item> \<open>k_ancestor lvl\<close>: \<open>bpf_get_current_ancestor_cgroup_id(lvl)\<close>;
  \<^item> \<open>k_storage_alloc t\<close>: whether \<open>bpf_task_storage_get\<close> can allocate an entry for task \<open>t\<close>;
  \<^item> \<open>k_lru_ok\<close> and \<open>k_lru_keep\<close>: whether an update of the LRU map succeeds, and which of the
    other entries survive it.
\<close>

record kenv =
  k_probe_read :: "nat \<Rightarrow> u64 \<Rightarrow> u8 list"
  k_relo :: core_relo
  k_task :: u64
  k_pid_tgid :: u64
  k_ktime :: u64
  k_cgroup_id :: u64
  k_ancestor :: "nat \<Rightarrow> u64"
  k_storage_alloc :: "u64 \<Rightarrow> bool"
  k_lru_ok :: bool
  k_lru_keep :: "path_cache_key \<Rightarrow> bool"

definition core_read_u64 :: "kenv \<Rightarrow> u64 \<Rightarrow> u64" where
  "core_read_u64 k p = le_word (k_probe_read k 8 p)"

definition core_read_u32 :: "kenv \<Rightarrow> u64 \<Rightarrow> u32" where
  "core_read_u32 k p = le_word (k_probe_read k 4 p)"

definition core_read_u16 :: "kenv \<Rightarrow> u64 \<Rightarrow> u16" where
  "core_read_u16 k p = le_word (k_probe_read k 2 p)"

definition core_read_u8 :: "kenv \<Rightarrow> u64 \<Rightarrow> u8" where
  "core_read_u8 k p = le_word (k_probe_read k 1 p)"

section \<open>Field accessors\<close>

definition d_parent :: "kenv \<Rightarrow> u64 \<Rightarrow> u64" where
  "d_parent k d = core_read_u64 k (d + o_d_parent (k_relo k))"

definition d_name_len :: "kenv \<Rightarrow> u64 \<Rightarrow> u32" where
  "d_name_len k d = core_read_u32 k (d + o_d_name_len (k_relo k))"

definition d_name_name :: "kenv \<Rightarrow> u64 \<Rightarrow> u64" where
  "d_name_name k d = core_read_u64 k (d + o_d_name_name (k_relo k))"

definition d_inode :: "kenv \<Rightarrow> u64 \<Rightarrow> u64" where
  "d_inode k d = core_read_u64 k (d + o_d_inode (k_relo k))"

definition mnt_root :: "kenv \<Rightarrow> u64 \<Rightarrow> u64" where
  "mnt_root k m = core_read_u64 k (m + o_mnt_mnt_root (k_relo k))"

definition mnt_parent :: "kenv \<Rightarrow> u64 \<Rightarrow> u64" where
  "mnt_parent k m = core_read_u64 k (m + o_mnt_parent (k_relo k))"

definition mnt_mountpoint :: "kenv \<Rightarrow> u64 \<Rightarrow> u64" where
  "mnt_mountpoint k m = core_read_u64 k (m + o_mnt_mountpoint (k_relo k))"

definition f_path_dentry :: "kenv \<Rightarrow> u64 \<Rightarrow> u64" where
  "f_path_dentry k f = core_read_u64 k (f + o_f_path_dentry (k_relo k))"

definition f_path_mnt :: "kenv \<Rightarrow> u64 \<Rightarrow> u64" where
  "f_path_mnt k f = core_read_u64 k (f + o_f_path_mnt (k_relo k))"

definition f_inode :: "kenv \<Rightarrow> u64 \<Rightarrow> u64" where
  "f_inode k f = core_read_u64 k (f + o_f_inode (k_relo k))"

definition i_ino :: "kenv \<Rightarrow> u64 \<Rightarrow> u64" where
  "i_ino k i = core_read_u64 k (i + o_i_ino (k_relo k))"

definition bprm_file :: "kenv \<Rightarrow> u64 \<Rightarrow> u64" where
  "bprm_file k b = core_read_u64 k (b + o_bprm_file (k_relo k))"

definition current_pid :: "kenv \<Rightarrow> u32" where
  "current_pid k = ucast (drop_bit 32 (k_pid_tgid k))"

section \<open>Mounts and the task's root\<close>

definition real_mount :: "kenv \<Rightarrow> u64 \<Rightarrow> u64" where
  "real_mount k vfsmnt = (if vfsmnt = 0 then 0 else vfsmnt - o_mnt (k_relo k))"

definition mount_vfs :: "kenv \<Rightarrow> u64 \<Rightarrow> u64" where
  "mount_vfs k mnt = (if mnt = 0 then 0 else mnt + o_mnt (k_relo k))"

record fs_root =
  fr_dentry :: u64
  fr_mnt :: u64

definition task_fs_root :: "kenv \<Rightarrow> u64 \<Rightarrow> fs_root" where
  "task_fs_root k task =
     (let fs = core_read_u64 k (task + o_task_fs (k_relo k)) in
      \<lparr>fr_dentry = core_read_u64 k (fs + o_fs_root_dentry (k_relo k)),
       fr_mnt = core_read_u64 k (fs + o_fs_root_mnt (k_relo k))\<rparr>)"

lemma real_mount_mount_vfs:
  "m + o_mnt (k_relo k) \<noteq> 0 \<Longrightarrow> real_mount k (mount_vfs k m) = m"
  by (simp add: real_mount_def mount_vfs_def)

lemma mount_vfs_real_mount:
  "v \<noteq> o_mnt (k_relo k) \<Longrightarrow> mount_vfs k (real_mount k v) = v"
  by (simp add: real_mount_def mount_vfs_def)

section \<open>The offsets of vmlinux.h\<close>

lemma task_struct_fs: "offset_of struct_task_struct [''fs''] = Some (3096, CPtr ''struct fs_struct'')"
  by (simp add: struct_task_struct_def smember_append struct_task_struct_members_1_def
      struct_task_struct_members_2_def layout)

lemmas path_types =
  struct_dentry_def struct_qstr_def struct_mount_def struct_vfsmount_def struct_fs_struct_def
  struct_path_def struct_file_def struct_inode_def struct_linux_binprm_def

lemmas net_types =
  struct_socket_def struct_sockaddr_def struct_sockaddr_in_def struct_in_addr_def
  struct_sockaddr_in6_def

lemma vmlinux_offsets:
  "offset_of struct_dentry [''d_parent''] = Some (24, CPtr ''struct dentry'')"
  "offset_of struct_dentry [''d_name'', ''len''] = Some (36, td_u32)"
  "offset_of struct_dentry [''d_name'', ''name''] = Some (40, CPtr ''const unsigned char'')"
  "offset_of struct_dentry [''d_inode''] = Some (48, CPtr ''struct inode'')"
  "offset_of struct_mount [''mnt''] = Some (32, struct_vfsmount)"
  "offset_of struct_mount [''mnt'', ''mnt_root''] = Some (32, CPtr ''struct dentry'')"
  "offset_of struct_mount [''mnt_parent''] = Some (16, CPtr ''struct mount'')"
  "offset_of struct_mount [''mnt_mountpoint''] = Some (24, CPtr ''struct dentry'')"
  "offset_of struct_fs_struct [''root'', ''dentry''] = Some (32, CPtr ''struct dentry'')"
  "offset_of struct_fs_struct [''root'', ''mnt''] = Some (24, CPtr ''struct vfsmount'')"
  "offset_of struct_file [''f_path'', ''dentry''] = Some (160, CPtr ''struct dentry'')"
  "offset_of struct_file [''f_path'', ''mnt''] = Some (152, CPtr ''struct vfsmount'')"
  "offset_of struct_file [''f_inode''] = Some (168, CPtr ''struct inode'')"
  "offset_of struct_inode [''i_ino''] = Some (80, CBase TULong)"
  "offset_of struct_linux_binprm [''file''] = Some (64, CPtr ''struct file'')"
  "offset_of struct_socket [''type''] = Some (4, CBase TShort)"
  "offset_of struct_sockaddr [''sa_family''] = Some (0, td_sa_family_t)"
  "offset_of struct_sockaddr_in [''sin_port''] = Some (2, td___be16)"
  "offset_of struct_sockaddr_in [''sin_addr'', ''s_addr''] = Some (4, td___be32)"
  "offset_of struct_sockaddr_in6 [''sin6_port''] = Some (2, td___be16)"
  by (simp_all add: path_types net_types layout)

lemma vmlinux_relo_eq:
  "vmlinux_relo = \<lparr>
     o_d_parent = 24, o_d_name_len = 36, o_d_name_name = 40, o_d_inode = 48,
     o_mnt = 32, o_mnt_mnt_root = 32, o_mnt_parent = 16, o_mnt_mountpoint = 24,
     o_task_fs = 3096, o_fs_root_dentry = 32, o_fs_root_mnt = 24,
     o_f_path_dentry = 160, o_f_path_mnt = 152, o_f_inode = 168, o_i_ino = 80,
     o_bprm_file = 64, o_sock_type = 4, o_sa_family = 0, o_sin_port = 2,
     o_sin_addr_s_addr = 4, o_sin6_port = 2\<rparr>"
  unfolding vmlinux_relo_def core_field_offset_def vmlinux_offsets task_struct_fs by simp

section \<open>Properties\<close>

text \<open>The reads of the programs: the record, the member path and the bytes read.\<close>

definition core_accesses :: "(ctype \<times> string list \<times> nat) list" where
  "core_accesses = [
     (struct_dentry, [''d_parent''], 8), (struct_dentry, [''d_name'', ''len''], 4),
     (struct_dentry, [''d_name'', ''name''], 8), (struct_dentry, [''d_inode''], 8),
     (struct_mount, [''mnt'', ''mnt_root''], 8), (struct_mount, [''mnt_parent''], 8),
     (struct_mount, [''mnt_mountpoint''], 8), (struct_task_struct, [''fs''], 8),
     (struct_fs_struct, [''root'', ''dentry''], 8), (struct_fs_struct, [''root'', ''mnt''], 8),
     (struct_file, [''f_path'', ''dentry''], 8), (struct_file, [''f_path'', ''mnt''], 8),
     (struct_file, [''f_inode''], 8), (struct_inode, [''i_ino''], 8),
     (struct_linux_binprm, [''file''], 8), (struct_socket, [''type''], 2),
     (struct_sockaddr, [''sa_family''], 2), (struct_sockaddr_in, [''sin_port''], 2),
     (struct_sockaddr_in, [''sin_addr'', ''s_addr''], 4), (struct_sockaddr_in6, [''sin6_port''], 2)]"

definition read_in_bounds :: "ctype \<Rightarrow> string list \<Rightarrow> nat \<Rightarrow> bool" where
  "read_in_bounds t path n \<longleftrightarrow>
     (case offset_of t path of Some (off, u) \<Rightarrow> csize u = n \<and> off + n \<le> csize t | None \<Rightarrow> False)"

lemma read_in_boundsI: "offset_of t path = Some (off, u) \<Longrightarrow> csize u = n \<Longrightarrow> read_in_bounds t path n"
  using offset_of_bounds [of t path off u] by (simp add: read_in_bounds_def)

lemmas vmlinux_reads = vmlinux_offsets [THEN read_in_boundsI] task_struct_fs [THEN read_in_boundsI]



end
