(* ===== verification/Bpf_State.thy ===== *)
theory Bpf_State
  imports Kernel_Env
begin

text \<open>
  The state the programs of \<open>main.bpf.c\<close> share: their maps, with the audit events handed to
  \<open>bpf_perf_event_output\<close> as a log. The hash and array maps are partial functions, and
  looking a key up is applying them. \<open>path_buf\<close> is the slot of the CPU the hook runs on. A
  hook invocation runs to completion on one state.
\<close>

record bpf_state =
  task_storage :: "u64 \<rightharpoonup> process_info"
  role_flags :: "u32 \<rightharpoonup> u8"
  network_rules :: "net_rule_key \<rightharpoonup> u8"
  pending_enrollments :: "u32 \<rightharpoonup> process_info"
  path_states :: "path_state_key \<rightharpoonup> path_state_value"
  exec_states :: "path_state_key \<rightharpoonup> path_state_value"
  path_decision_cache :: "path_cache_key \<rightharpoonup> path_cache_value"
  cache_generation :: "u32 \<rightharpoonup> u32"
  exec_enrollment :: "u64 \<rightharpoonup> exec_enrollment_value"
  cgroup_enrollment :: "u64 \<rightharpoonup> exec_enrollment_value"
  ip_rules :: "ip_rule_key \<rightharpoonup> u8"
  proxy_configs :: "u32 \<rightharpoonup> proxy_config"
  domain_rules :: "domain_rule_key \<rightharpoonup> u8"
  dns_cache :: "dns_cache_key \<rightharpoonup> dns_cache_value"
  audit_events :: "audit_event list"
  path_buf :: "u32 \<rightharpoonup> path_components"

section \<open>Helpers that touch the maps\<close>

definition zero_info :: process_info where
  "zero_info = \<lparr>pi_pod_id = 0, pi_role_id = 0, pi_stack_depth = 0, pi_flags = 0\<rparr>"

text \<open>
  \<open>bpf_task_storage_get\<close> with \<open>BPF_LOCAL_STORAGE_GET_F_CREATE\<close>: the entry of the task, created
  zero-filled where it is missing and can be allocated. Without the flag the lookup is an
  application of \<open>task_storage\<close>.
\<close>

definition task_storage_get_create ::
  "kenv \<Rightarrow> u64 \<Rightarrow> bpf_state \<Rightarrow> process_info option \<times> bpf_state" where
  "task_storage_get_create k task s =
     (case task_storage s task of
        Some info \<Rightarrow> (Some info, s)
      | None \<Rightarrow>
          if k_storage_alloc k task
          then (Some zero_info, s\<lparr>task_storage := (task_storage s)(task \<mapsto> zero_info)\<rparr>)
          else (None, s))"

text \<open>Writing through the pointer that \<open>bpf_task_storage_get\<close> returned.\<close>

definition set_info :: "u64 \<Rightarrow> process_info \<Rightarrow> bpf_state \<Rightarrow> bpf_state" where
  "set_info task info s = s\<lparr>task_storage := (task_storage s)(task \<mapsto> info)\<rparr>"

text \<open>\<open>bpf_map_update_elem\<close> on the LRU map.\<close>

definition cache_update ::
  "kenv \<Rightarrow> path_cache_key \<Rightarrow> path_cache_value \<Rightarrow> bpf_state \<Rightarrow> bpf_state" where
  "cache_update k key v s =
     (if k_lru_ok k
      then s\<lparr>path_decision_cache :=
              (\<lambda>x. if k_lru_keep k x then path_decision_cache s x else None)(key \<mapsto> v)\<rparr>
      else s)"

definition emit_audit_event ::
  "kenv \<Rightarrow> u32 \<Rightarrow> u32 \<Rightarrow> u64 \<Rightarrow> u32 \<Rightarrow> u32 \<Rightarrow> u64 \<Rightarrow> bpf_state \<Rightarrow> bpf_state" where
  "emit_audit_event k pid role_id pod_id decision hook_type context s =
     s\<lparr>audit_events := audit_events s @ [\<lparr>ae_timestamp = k_ktime k, ae_pid = pid,
        ae_role_id = role_id, ae_decision = decision, ae_hook_type = hook_type,
        ae_context = context, ae_pod_id = pod_id\<rparr>]\<rparr>"

declare task_storage_get_create_def [hook_defs] set_info_def [hook_defs]
  cache_update_def [hook_defs] emit_audit_event_def [hook_defs]

text \<open>The events that a hook appended to the log.\<close>

definition new_events :: "bpf_state \<Rightarrow> bpf_state \<Rightarrow> audit_event list" where
  "new_events s s' = drop (length (audit_events s)) (audit_events s')"

end
