(* ===== verification/Path_Walk.thy ===== *)
theory Path_Walk
  imports Component_Hash
begin

text \<open>
  \<open>collect_path_components\<close>: the walk from a \<open>struct path\<close> up to the task's root that collects
  component hashes, crossing mount boundaries on the way. The specification is the relation
  \<open>resolves\<close>, an unbounded walk over the same dentries and mounts; the bounded loop computes
  exactly its hashes or reports the path as truncated.
\<close>

section \<open>The walk\<close>

definition push_component :: "kenv \<Rightarrow> u64 \<Rightarrow> path_components \<Rightarrow> path_components" where
  "push_component k dentry buf =
     (let len = d_name_len k dentry; name = d_name_name k dentry in
      if 0 < len \<and> name \<noteq> 0 then
        let idx = pcs_count buf in
        if unat idx < MAX_COMPONENTS
        then buf\<lparr>pcs_hashes := (pcs_hashes buf)[unat idx := hash_component k name len],
                 pcs_count := idx + 1\<rparr>
        else buf
      else buf)"

text \<open>The loop, with the number of passes left; the flag says whether the root was reached.\<close>

fun walk_loop ::
  "nat \<Rightarrow> kenv \<Rightarrow> fs_root \<Rightarrow> u64 \<Rightarrow> u64 \<Rightarrow> u64 \<Rightarrow> path_components \<Rightarrow> bool \<times> path_components" where
  "walk_loop 0 k root dentry mnt vfsmnt buf = (False, buf)"
| "walk_loop (Suc n) k root dentry mnt vfsmnt buf =
     (if dentry = fr_dentry root \<and> vfsmnt = fr_mnt root then (True, buf)
      else if dentry = mnt_root k mnt then
        let parent = mnt_parent k mnt in
        if parent = 0 \<or> parent = mnt then (True, buf)
        else
          let dentry' = mnt_mountpoint k mnt; vfsmnt' = mount_vfs k parent in
          if dentry' = 0 \<or> vfsmnt' = 0 then (False, buf)
          else walk_loop n k root dentry' parent vfsmnt' buf
      else
        let parent = d_parent k dentry in
        if parent = 0 \<or> parent = dentry then (False, buf)
        else if MAX_COMPONENTS \<le> unat (pcs_count buf) then (False, buf)
        else walk_loop n k root parent mnt vfsmnt (push_component k dentry buf))"

definition collect_path_components ::
  "kenv \<Rightarrow> u64 \<Rightarrow> u64 \<Rightarrow> fs_root \<Rightarrow> path_components \<Rightarrow> int \<times> path_components" where
  "collect_path_components k dentry vfsmnt root buf =
     (let buf = buf\<lparr>pcs_count := 0, pcs_truncated := 0\<rparr>;
          mnt = real_mount k vfsmnt in
      if dentry = 0 \<or> mnt = 0 then (0, buf)
      else
        let (reached_root, buf) = walk_loop MAX_PATH_WALK_STEPS k root dentry mnt vfsmnt buf;
            buf = (if reached_root then buf else buf\<lparr>pcs_truncated := 1\<rparr>)
        in (uint (pcs_count buf), buf))"

section \<open>Buffers\<close>

definition wf_components :: "path_components \<Rightarrow> bool" where
  "wf_components buf \<longleftrightarrow>
     length (pcs_hashes buf) = MAX_COMPONENTS \<and> unat (pcs_count buf) \<le> MAX_COMPONENTS"

text \<open>The collected hashes, leaf first.\<close>

definition collected :: "path_components \<Rightarrow> u64 list" where
  "collected buf = take (unat (pcs_count buf)) (pcs_hashes buf)"

definition has_name :: "kenv \<Rightarrow> u64 \<Rightarrow> bool" where
  "has_name k d \<longleftrightarrow> 0 < d_name_len k d \<and> d_name_name k d \<noteq> 0"

definition dentry_hash :: "kenv \<Rightarrow> u64 \<Rightarrow> u64" where
  "dentry_hash k d = hash_component k (d_name_name k d) (d_name_len k d)"

lemma push_component_unnamed: "\<not> has_name k d \<Longrightarrow> push_component k d buf = buf"
  by (auto simp: push_component_def has_name_def Let_def)

lemma push_component_truncated [simp]: "pcs_truncated (push_component k d buf) = pcs_truncated buf"
  by (simp add: push_component_def Let_def)

lemma push_component_named:
  assumes "has_name k d" and "wf_components buf" and "unat (pcs_count buf) < MAX_COMPONENTS"
  shows "wf_components (push_component k d buf)"
    and "unat (pcs_count (push_component k d buf)) = Suc (unat (pcs_count buf))"
    and "collected (push_component k d buf) = collected buf @ [dentry_hash k d]"
proof -
  let ?n = "unat (pcs_count buf)"
  have n: "?n < 16" using assms(3) by (simp add: MAX_COMPONENTS_def)
  have step: "push_component k d buf =
      buf\<lparr>pcs_hashes := (pcs_hashes buf)[?n := dentry_hash k d], pcs_count := pcs_count buf + 1\<rparr>"
    using assms by (simp add: push_component_def has_name_def dentry_hash_def Let_def)
  show cnt: "unat (pcs_count (push_component k d buf)) = Suc ?n"
    using n unfolding step by (simp add: unat_word_ariths)
  show "wf_components (push_component k d buf)"
    using assms cnt by (simp add: wf_components_def step)
  show "collected (push_component k d buf) = collected buf @ [dentry_hash k d]"
    using assms cnt by (simp add: collected_def step wf_components_def take_Suc_update)
qed

lemma wf_push_component:
  "wf_components buf \<Longrightarrow> unat (pcs_count buf) < MAX_COMPONENTS \<Longrightarrow> wf_components (push_component k d buf)"
  by (cases "has_name k d") (simp_all add: push_component_named push_component_unnamed)

lemma wf_walk_loop:
  "wf_components buf \<Longrightarrow> wf_components (snd (walk_loop n k root d m v buf))"
  by (induction n k root d m v buf rule: walk_loop.induct)
    (auto simp: Let_def wf_push_component not_le)

lemma walk_loop_truncated [simp]:
  "pcs_truncated (snd (walk_loop n k root d m v buf)) = pcs_truncated buf"
  by (induction n k root d m v buf rule: walk_loop.induct) (auto simp: Let_def)

section \<open>Specification: unbounded resolution\<close>

text \<open>
  A resolution is a list of moves: out of a mount to where it hangs in its parent mount, or from
  a dentry to its parent. \<open>resolves k root ms d m v\<close>: from dentry \<open>d\<close> in mount \<open>m\<close> (whose
  \<open>vfsmount\<close> is \<open>v\<close>) the moves \<open>ms\<close> end at the task's root or at the global root.
\<close>

datatype path_move = Cross | Climb u64

inductive resolves :: "kenv \<Rightarrow> fs_root \<Rightarrow> path_move list \<Rightarrow> u64 \<Rightarrow> u64 \<Rightarrow> u64 \<Rightarrow> bool"
  for k root where
  at_root: "d = fr_dentry root \<and> v = fr_mnt root \<Longrightarrow> resolves k root [] d m v"
| global_root:
    "\<not> (d = fr_dentry root \<and> v = fr_mnt root) \<Longrightarrow> d = mnt_root k m \<Longrightarrow>
     mnt_parent k m = 0 \<or> mnt_parent k m = m \<Longrightarrow> resolves k root [] d m v"
| cross:
    "\<not> (d = fr_dentry root \<and> v = fr_mnt root) \<Longrightarrow> d = mnt_root k m \<Longrightarrow>
     \<not> (mnt_parent k m = 0 \<or> mnt_parent k m = m) \<Longrightarrow>
     \<not> (mnt_mountpoint k m = 0 \<or> mount_vfs k (mnt_parent k m) = 0) \<Longrightarrow>
     resolves k root ms (mnt_mountpoint k m) (mnt_parent k m) (mount_vfs k (mnt_parent k m)) \<Longrightarrow>
     resolves k root (Cross # ms) d m v"
| climb:
    "\<not> (d = fr_dentry root \<and> v = fr_mnt root) \<Longrightarrow> d \<noteq> mnt_root k m \<Longrightarrow>
     \<not> (d_parent k d = 0 \<or> d_parent k d = d) \<Longrightarrow>
     resolves k root ms (d_parent k d) m v \<Longrightarrow>
     resolves k root (Climb d # ms) d m v"

text \<open>The path that a resolution spells: the named dentries it climbs out of, leaf first.\<close>

fun path_dentries :: "kenv \<Rightarrow> path_move list \<Rightarrow> u64 list" where
  "path_dentries k [] = []"
| "path_dentries k (Cross # ms) = path_dentries k ms"
| "path_dentries k (Climb d # ms) = (if has_name k d then d # path_dentries k ms else path_dentries k ms)"

text \<open>Starting with \<open>c\<close> components, there is a free slot at every climb.\<close>

fun has_room :: "kenv \<Rightarrow> nat \<Rightarrow> path_move list \<Rightarrow> bool" where
  "has_room k c [] = True"
| "has_room k c (Cross # ms) = has_room k c ms"
| "has_room k c (Climb d # ms) =
     (c < MAX_COMPONENTS \<and> has_room k (if has_name k d then Suc c else c) ms)"

lemma has_room_bound: "has_room k c ms \<Longrightarrow> c \<le> MAX_COMPONENTS \<Longrightarrow> c + length (path_dentries k ms) \<le> MAX_COMPONENTS"
  by (induction k c ms rule: has_room.induct) (auto split: if_splits)

text \<open>Where every dentry has a name, as in a mounted file system, only the number matters.\<close>

lemma has_room_named:
  assumes "\<And>d. Climb d \<in> set ms \<Longrightarrow> has_name k d" and "c + length (path_dentries k ms) \<le> MAX_COMPONENTS"
  shows "has_room k c ms"
  using assms by (induction k c ms rule: has_room.induct) auto

lemma resolves_deterministic:
  "resolves k root ms d m v \<Longrightarrow> resolves k root ms' d m v \<Longrightarrow> ms = ms'"
proof (induction arbitrary: ms' rule: resolves.induct)
  case (at_root d v m)
  from at_root.prems at_root.hyps show ?case by cases blast+
next
  case (global_root d v m)
  from global_root.prems global_root.hyps show ?case by cases blast+
next
  case (cross d v m ms)
  from cross.prems cross.hyps cross.IH show ?case by cases blast+
next
  case (climb d v m ms)
  from climb.prems climb.hyps climb.IH show ?case by cases blast+
qed

section \<open>The loop computes the resolution\<close>

lemma walk_loop_cross:
  "\<not> (d = fr_dentry root \<and> v = fr_mnt root) \<Longrightarrow> d = mnt_root k m \<Longrightarrow>
   \<not> (mnt_parent k m = 0 \<or> mnt_parent k m = m) \<Longrightarrow>
   \<not> (mnt_mountpoint k m = 0 \<or> mount_vfs k (mnt_parent k m) = 0) \<Longrightarrow>
   walk_loop (Suc n) k root d m v buf =
   walk_loop n k root (mnt_mountpoint k m) (mnt_parent k m) (mount_vfs k (mnt_parent k m)) buf"
  by (auto simp: Let_def)

lemma walk_loop_climb:
  "\<not> (d = fr_dentry root \<and> v = fr_mnt root) \<Longrightarrow> d \<noteq> mnt_root k m \<Longrightarrow>
   \<not> (d_parent k d = 0 \<or> d_parent k d = d) \<Longrightarrow> unat (pcs_count buf) < MAX_COMPONENTS \<Longrightarrow>
   walk_loop (Suc n) k root d m v buf =
   walk_loop n k root (d_parent k d) m v (push_component k d buf)"
  by (auto simp: Let_def)

text \<open>A pass crosses, climbs, or ends the walk without touching the buffer.\<close>

lemma walk_loop_cases:
  obtains (cross) "\<not> (d = fr_dentry root \<and> v = fr_mnt root)" "d = mnt_root k m"
      "\<not> (mnt_parent k m = 0 \<or> mnt_parent k m = m)"
      "\<not> (mnt_mountpoint k m = 0 \<or> mount_vfs k (mnt_parent k m) = 0)"
    | (climb) "\<not> (d = fr_dentry root \<and> v = fr_mnt root)" "d \<noteq> mnt_root k m"
      "\<not> (d_parent k d = 0 \<or> d_parent k d = d)" "unat (c :: u8) < MAX_COMPONENTS"
    | (stop) r where "\<And>n b. pcs_count b = c \<Longrightarrow> walk_loop (Suc n) k root d m v b = (r, b)"
proof (cases "d = fr_dentry root \<and> v = fr_mnt root")
  case True
  show ?thesis by (rule stop [of True]) (simp only: walk_loop.simps eqTrueI [OF True] if_True)
next
  case root: False
  show ?thesis
  proof (cases "d = mnt_root k m")
    case at: True
    consider "mnt_parent k m = 0 \<or> mnt_parent k m = m"
      | "\<not> (mnt_parent k m = 0 \<or> mnt_parent k m = m)" "mnt_mountpoint k m = 0 \<or> mount_vfs k (mnt_parent k m) = 0"
      | "\<not> (mnt_parent k m = 0 \<or> mnt_parent k m = m)" "\<not> (mnt_mountpoint k m = 0 \<or> mount_vfs k (mnt_parent k m) = 0)"
      by blast
    then show ?thesis
    proof cases
      case 1
      show ?thesis
        by (rule stop [of True]) (simp only: walk_loop.simps root eqTrueI [OF at] 1 Let_def if_True if_False)
    next
      case 2
      show ?thesis
        by (rule stop [of False]) (simp only: walk_loop.simps root eqTrueI [OF at] 2 Let_def if_True if_False)
    next
      case 3
      show ?thesis by (rule cross) (fact root at 3)+
    qed
  next
    case below: False
    consider "d_parent k d = 0 \<or> d_parent k d = d" | "MAX_COMPONENTS \<le> unat c"
      | "\<not> (d_parent k d = 0 \<or> d_parent k d = d)" "unat c < MAX_COMPONENTS"
      by (meson not_le)
    then show ?thesis
    proof cases
      case 3
      show ?thesis by (rule climb) (fact root below 3)+
    qed (rule stop [of False], simp add: root below Let_def del: not_gr_zero)+
  qed
qed

lemma walk_loop_complete:
  assumes "resolves k root ms d m v" and "length ms < fuel"
    and "wf_components buf" and "has_room k (unat (pcs_count buf)) ms"
  shows "\<exists>buf'. walk_loop fuel k root d m v buf = (True, buf') \<and>
    collected buf' = collected buf @ map (dentry_hash k) (path_dentries k ms)"
  using assms
proof (induction arbitrary: fuel buf rule: resolves.induct)
  case (at_root d v m)
  then show ?case by (cases fuel) simp_all
next
  case (global_root d v m)
  then show ?case by (cases fuel) (simp_all add: Let_def)
next
  case (cross d v m ms)
  then obtain f where f: "fuel = Suc f" "length ms < f" by (cases fuel) auto
  with cross.prems cross.IH [of f buf] walk_loop_cross [OF cross.hyps(1-4)]
  show ?case by (simp del: walk_loop.simps)
next
  case (climb d v m ms)
  then obtain f where f: "fuel = Suc f" "length ms < f" by (cases fuel) auto
  from climb.prems(3) have room: "unat (pcs_count buf) < MAX_COMPONENTS" by simp
  let ?buf = "push_component k d buf"
  have wf: "wf_components ?buf" using climb.prems(2) room by (rule wf_push_component)
  have step: "walk_loop fuel k root d m v buf = walk_loop f k root (d_parent k d) m v ?buf"
    unfolding f(1) using climb.hyps(1-3) room by (rule walk_loop_climb)
  show ?case
  proof (cases "has_name k d")
    case True
    note push = push_component_named [OF True climb.prems(2) room]
    with climb.prems(3) True have "has_room k (unat (pcs_count ?buf)) ms" by simp
    from climb.IH [OF f(2) wf this] step push(3) True show ?thesis by auto
  next
    case False
    note same = push_component_unnamed [OF False, of buf]
    with climb.prems(3) False have "has_room k (unat (pcs_count ?buf)) ms" by simp
    from climb.IH [OF f(2) wf this] step same False show ?thesis by auto
  qed
qed

lemma walk_loop_sound:
  assumes "fst (walk_loop fuel k root d m v buf)" and "wf_components buf"
  shows "\<exists>ms. resolves k root ms d m v \<and> length ms < fuel \<and> has_room k (unat (pcs_count buf)) ms"
  using assms
proof (induction fuel k root d m v buf rule: walk_loop.induct)
  case (1 k root d m v buf)
  then show ?case by simp
next
  case (2 n k root d m v buf)
  consider (top) "resolves k root [] d m v"
    | (cross) "\<not> (d = fr_dentry root \<and> v = fr_mnt root)" "d = mnt_root k m"
        "\<not> (mnt_parent k m = 0 \<or> mnt_parent k m = m)"
        "\<not> (mnt_mountpoint k m = 0 \<or> mount_vfs k (mnt_parent k m) = 0)"
    | (climb) "\<not> (d = fr_dentry root \<and> v = fr_mnt root)" "d \<noteq> mnt_root k m"
        "\<not> (d_parent k d = 0 \<or> d_parent k d = d)" "unat (pcs_count buf) < MAX_COMPONENTS"
    using "2.prems"(1) by (fastforce simp: Let_def not_le intro: resolves.intros split: if_splits)
  then show ?case
  proof cases
    case top
    then show ?thesis by (intro exI [of _ "[]"]) simp
  next
    case cross
    with "2.prems"(1) have "fst (walk_loop n k root (mnt_mountpoint k m) (mnt_parent k m)
        (mount_vfs k (mnt_parent k m)) buf)" using walk_loop_cross by metis
    then obtain ms where "resolves k root ms (mnt_mountpoint k m) (mnt_parent k m)
        (mount_vfs k (mnt_parent k m))" "length ms < n" "has_room k (unat (pcs_count buf)) ms"
      using "2.IH"(1) "2.prems"(2) cross by blast
    then show ?thesis using cross resolves.cross
      by (intro exI [of _ "Cross # ms"]) simp
  next
    case climb
    let ?buf = "push_component k d buf"
    have wf: "wf_components ?buf" using "2.prems"(2) climb(4) by (rule wf_push_component)
    from climb "2.prems"(1) have "fst (walk_loop n k root (d_parent k d) m v ?buf)"
      using walk_loop_climb by metis
    then obtain ms where ms: "resolves k root ms (d_parent k d) m v" "length ms < n"
        "has_room k (unat (pcs_count ?buf)) ms"
      using "2.IH"(2) wf climb by fastforce
    then have "has_room k (unat (pcs_count buf)) (Climb d # ms)"
      using climb(4) "2.prems"(2) push_component_named(2) push_component_unnamed
      by (cases "has_name k d") simp_all
    with ms climb resolves.climb show ?thesis
      by (intro exI [of _ "Climb d # ms"]) simp
  qed
qed

section \<open>The collected path\<close>

text \<open>
  What a reader of the buffer sees: the collected hashes and the truncation mark. The hook gets
  a buffer with leftovers of an earlier path; nothing of it is visible afterwards.
\<close>

definition view :: "path_components \<Rightarrow> u64 list \<times> u8" where
  "view buf = (collected buf, pcs_truncated buf)"

lemma length_collected: "wf_components buf \<Longrightarrow> length (collected buf) = unat (pcs_count buf)"
  by (simp add: collected_def wf_components_def)

lemma view_count:
  "wf_components b \<Longrightarrow> wf_components c \<Longrightarrow> view b = view c \<Longrightarrow> pcs_count b = pcs_count c"
  by (metis view_def length_collected prod.inject word_unat_eq_iff)

lemma view_push_component:
  assumes "wf_components b" and "wf_components c" and "view b = view c"
    and "unat (pcs_count b) < MAX_COMPONENTS"
  shows "view (push_component k d b) = view (push_component k d c)"
proof (cases "has_name k d")
  case True
  have "unat (pcs_count c) < MAX_COMPONENTS" using assms view_count by metis
  then show ?thesis
    using True assms by (simp add: view_def push_component_named(3))
next
  case False
  then show ?thesis using assms by (simp add: push_component_unnamed)
qed

lemma view_walk_loop:
  assumes "wf_components b" and "wf_components c" and "view b = view c"
  shows "fst (walk_loop n k root d m v b) = fst (walk_loop n k root d m v c) \<and>
     view (snd (walk_loop n k root d m v b)) = view (snd (walk_loop n k root d m v c))"
  using assms
proof (induction n arbitrary: d m v b c)
  case 0
  then show ?case by simp
next
  case (Suc n)
  have cnt: "pcs_count c = pcs_count b" using Suc.prems by (metis view_count)
  have push: "wf_components (push_component k d b)" "wf_components (push_component k d c)"
      "view (push_component k d b) = view (push_component k d c)"
    if b: "unat (pcs_count b) < MAX_COMPONENTS"
  proof -
    from b cnt have c: "unat (pcs_count c) < MAX_COMPONENTS" by simp
    show "wf_components (push_component k d b)" "wf_components (push_component k d c)"
      using Suc.prems(1,2) b c by (blast intro: wf_push_component)+
    show "view (push_component k d b) = view (push_component k d c)"
      using Suc.prems b by (rule view_push_component)
  qed
  show ?case
  proof (cases rule: walk_loop_cases [where k = k and root = root and d = d and m = m and v = v
        and c = "pcs_count b"])
    case cross
    show ?thesis unfolding walk_loop_cross [OF cross] by (rule Suc.IH) (fact Suc.prems)+
  next
    case climb
    have climb': "unat (pcs_count c) < MAX_COMPONENTS" using climb(4) cnt by simp
    show ?thesis
      unfolding walk_loop_climb [OF climb] walk_loop_climb [OF climb(1-3) climb']
      by (rule Suc.IH) (fact push [OF climb(4)])+
  next
    case (stop r)
    show ?thesis unfolding stop [OF refl] stop [OF cnt] using Suc.prems(3) by simp
  qed
qed

lemma view_collect:
  assumes "wf_components b" and "wf_components c"
  shows "fst (collect_path_components k d v root b) = fst (collect_path_components k d v root c)"
    and "view (snd (collect_path_components k d v root b)) =
         view (snd (collect_path_components k d v root c))"
    and "wf_components (snd (collect_path_components k d v root b))"
proof -
  let ?r = "\<lambda>b. b\<lparr>pcs_count := 0, pcs_truncated := 0\<rparr> :: path_components"
  let ?w = "\<lambda>b. walk_loop MAX_PATH_WALK_STEPS k root d (real_mount k v) v (?r b)"
  have wf: "wf_components (?r b)" "wf_components (?r c)" "view (?r b) = view (?r c)"
    using assms by (simp_all add: wf_components_def view_def collected_def)
  have w: "fst (?w b) = fst (?w c)" "view (snd (?w b)) = view (snd (?w c))"
    using view_walk_loop [OF wf] by simp_all
  have wfw: "wf_components (snd (?w b))" "wf_components (snd (?w c))"
    using wf by (simp_all add: wf_walk_loop)
  have cnt: "pcs_count (snd (?w b)) = pcs_count (snd (?w c))"
    using wfw w(2) by (rule view_count)
  show "fst (collect_path_components k d v root b) = fst (collect_path_components k d v root c)"
    using w cnt by (simp add: collect_path_components_def Let_def split_beta)
  show "view (snd (collect_path_components k d v root b)) =
      view (snd (collect_path_components k d v root c))"
    using w cnt wf by (simp add: collect_path_components_def Let_def split_beta view_def collected_def)
  show "wf_components (snd (collect_path_components k d v root b))"
    using wfw wf by (simp add: collect_path_components_def Let_def split_beta wf_components_def)
qed

text \<open>
  The bounded walk against the unbounded one: the path is complete exactly when the task's root
  is reached within the bounds, and then the buffer holds the hashes of its components.
\<close>

lemma collect_complete:
  assumes "d \<noteq> 0" and "real_mount k v \<noteq> 0" and "wf_components buf"
    and "resolves k root ms d (real_mount k v) v"
    and "length ms < MAX_PATH_WALK_STEPS" and "has_room k 0 ms"
  shows "view (snd (collect_path_components k d v root buf)) = (map (dentry_hash k) (path_dentries k ms), 0)"
proof -
  let ?b = "buf\<lparr>pcs_count := 0, pcs_truncated := 0\<rparr>"
  have wf: "wf_components ?b" using assms(3) by (simp add: wf_components_def)
  have emp: "collected ?b = []" by (simp add: collected_def)
  obtain b' where b': "walk_loop MAX_PATH_WALK_STEPS k root d (real_mount k v) v ?b = (True, b')"
      "collected b' = map (dentry_hash k) (path_dentries k ms)"
    using walk_loop_complete [OF assms(4,5) wf] assms(6) emp by auto
  have "pcs_truncated b' = 0"
    using walk_loop_truncated [of MAX_PATH_WALK_STEPS k root d "real_mount k v" v ?b] b'(1) by simp
  with b' assms(1,2) show ?thesis
    by (simp add: collect_path_components_def Let_def view_def)
qed

lemma collect_sound:
  assumes "d \<noteq> 0" and "real_mount k v \<noteq> 0" and "wf_components buf"
    and "pcs_truncated (snd (collect_path_components k d v root buf)) = 0"
  shows "\<exists>ms. resolves k root ms d (real_mount k v) v \<and> length ms < MAX_PATH_WALK_STEPS \<and> has_room k 0 ms"
proof -
  let ?b = "buf\<lparr>pcs_count := 0, pcs_truncated := 0\<rparr>"
  have wf: "wf_components ?b" using assms(3) by (simp add: wf_components_def)
  have "fst (walk_loop MAX_PATH_WALK_STEPS k root d (real_mount k v) v ?b)"
    using assms by (auto simp: collect_path_components_def Let_def split_beta split: if_splits)
  from walk_loop_sound [OF this wf] show ?thesis by simp
qed

lemma collect_truncated_cases:
  "pcs_truncated (snd (collect_path_components k d v root buf)) = 0 \<or>
   pcs_truncated (snd (collect_path_components k d v root buf)) = 1"
  using walk_loop_truncated
    [of MAX_PATH_WALK_STEPS k root d "real_mount k v" v "buf\<lparr>pcs_count := 0, pcs_truncated := 0\<rparr>"]
  by (simp add: collect_path_components_def Let_def split_beta)

end
