(* ===== verification/Verdict.thy ===== *)
theory Verdict
  imports Bpf_State
begin

text \<open>
  The rule checks of \<open>main.bpf.c\<close> share a convention: 1 is an explicit allow, \<open>-13\<close>
  (\<open>-EACCES\<close>) an explicit deny, 0 means that no rule applies and the role default decides.
  The convention is the locale \<open>verdict_source\<close>; every rule check is an interpretation of it.
  The hooks combine a verdict with a role flag in two differently written ways, which agree on
  every verdict.
\<close>

definition allowed :: "int \<Rightarrow> bool \<Rightarrow> bool" where
  "allowed verdict dflt \<longleftrightarrow> verdict = 1 \<or> (verdict = 0 \<and> dflt)"

locale verdict_source =
  fixes decide :: "'a \<Rightarrow> int"
  assumes verdict: "decide x = 1 \<or> decide x = 0 \<or> decide x = - 13"
begin

lemma explicit: "decide x \<noteq> 0 \<Longrightarrow> decide x \<noteq> 1 \<Longrightarrow> decide x = - 13"
  using verdict [of x] by blast

text \<open>The form of \<open>file_open\<close> and \<open>bprm_check_security\<close>: the verdict first, then the flag.\<close>

lemma verdict_first:
  "(if decide x \<noteq> 0 then (if decide x = 1 then a else b) else if dflt then a else b) =
   (if allowed (decide x) dflt then a else b)"
  using verdict [of x] by (auto simp: allowed_def)

text \<open>The form of \<open>socket_bind\<close> and \<open>socket_connect\<close>: the flag first, then the verdict.\<close>

lemma flag_first:
  "(if \<not> dflt then (if decide x = 1 then a else b) else if decide x = - 13 then b else a) =
   (if allowed (decide x) dflt then a else b)"
  using verdict [of x] by (auto simp: allowed_def)

end

end
