(* ===== verification/Path_Rules.thy ===== *)
theory Path_Rules
  imports Path_Walk Verdict
begin

text \<open>
  \<open>check_path_state_machine\<close>: the walk of a rule table over the collected hashes. The reference
  is \<open>rule_verdict\<close>, a recursion over the components from the root down; the loop with its
  masked array index computes the same verdict.
\<close>

section \<open>The table walk\<close>

type_synonym path_table = "path_state_key \<rightharpoonup> path_state_value"

definition value_verdict :: "path_state_value \<Rightarrow> int" where
  "value_verdict v = (if psv_decision v \<noteq> 0 then 1 else - 13)"

definition transition_lookup :: "path_table \<Rightarrow> u32 \<Rightarrow> u64 \<Rightarrow> u64 \<Rightarrow> path_state_value option" where
  "transition_lookup states role_id state hash =
     (case states \<lparr>psk_role_id = role_id, psk_state = state, psk_component_hash = hash\<rparr> of
        Some v \<Rightarrow> Some v
      | None \<Rightarrow> states \<lparr>psk_role_id = role_id, psk_state = state, psk_component_hash = 0\<rparr>)"

text \<open>
  The loop: \<open>Inl\<close> is a \<open>return\<close> out of it, \<open>Inr\<close> the state it is left with. The arguments are
  the passes left and the loop counter \<open>i\<close>.
\<close>

fun state_loop ::
  "path_table \<Rightarrow> u32 \<Rightarrow> u64 list \<Rightarrow> u8 \<Rightarrow> nat \<Rightarrow> nat \<Rightarrow> u64 \<Rightarrow> int + u64" where
  "state_loop states role_id hashes count 0 i state = Inr state"
| "state_loop states role_id hashes count (Suc n) i state =
     (if unat count \<le> i then Inr state
      else
        let idx = (of_int (uint count - 1 - int i) :: u32) in
        if of_nat MAX_COMPONENTS \<le> idx then Inr state
        else
          let idx = idx AND (of_nat MAX_COMPONENTS - 1) in
          case transition_lookup states role_id state (hashes ! unat idx) of
            None \<Rightarrow> Inl 0
          | Some val \<Rightarrow>
              if psv_is_terminal val \<noteq> 0 then Inl (value_verdict val)
              else state_loop states role_id hashes count n (Suc i) (psv_next_state val))"

definition check_path_state_machine :: "path_table \<Rightarrow> u32 \<Rightarrow> path_components \<Rightarrow> int" where
  "check_path_state_machine states role_id buf =
     (if pcs_count buf = 0 then 0
      else if pcs_truncated buf \<noteq> 0 then 0
      else
        let count = (if of_nat MAX_COMPONENTS < pcs_count buf then of_nat MAX_COMPONENTS
                     else pcs_count buf) in
        case state_loop states role_id (pcs_hashes buf) count MAX_COMPONENTS 0 PATH_STATE_ROOT of
          Inl r \<Rightarrow> r
        | Inr state \<Rightarrow>
            (case states \<lparr>psk_role_id = role_id, psk_state = state, psk_component_hash = 0\<rparr> of
               Some final \<Rightarrow> if psv_is_terminal final \<noteq> 0 then value_verdict final else 0
             | None \<Rightarrow> 0))"

section \<open>Reference semantics of a rule table\<close>

fun rule_verdict :: "path_table \<Rightarrow> u32 \<Rightarrow> u64 \<Rightarrow> u64 list \<Rightarrow> int" where
  "rule_verdict states role_id state [] =
     (case states \<lparr>psk_role_id = role_id, psk_state = state, psk_component_hash = 0\<rparr> of
        Some v \<Rightarrow> if psv_is_terminal v \<noteq> 0 then value_verdict v else 0
      | None \<Rightarrow> 0)"
| "rule_verdict states role_id state (h # hs) =
     (case transition_lookup states role_id state h of
        None \<Rightarrow> 0
      | Some v \<Rightarrow>
          if psv_is_terminal v \<noteq> 0 then value_verdict v
          else rule_verdict states role_id (psv_next_state v) hs)"

lemma mask_index: "n < 16 \<Longrightarrow> (of_nat n :: u32) AND 15 = of_nat n"
proof -
  assume n: "n < 16"
  have "(of_nat n :: u32) AND mask 4 = take_bit 4 (of_nat n)"
    by (simp add: take_bit_eq_mask)
  also have "\<dots> = of_nat (take_bit 4 n)" by (simp add: take_bit_of_nat)
  also have "take_bit 4 n = n" using n by (simp add: take_bit_nat_eq_self)
  finally show ?thesis by (simp add: mask_eq_exp_minus_1)
qed

lemma state_loop_step:
  assumes "i < unat count" and "unat count \<le> MAX_COMPONENTS"
  shows "state_loop states role_id hashes count (Suc n) i state =
    (case transition_lookup states role_id state (hashes ! (unat count - 1 - i)) of
       None \<Rightarrow> Inl 0
     | Some val \<Rightarrow>
         if psv_is_terminal val \<noteq> 0 then Inl (value_verdict val)
         else state_loop states role_id hashes count n (Suc i) (psv_next_state val))"
proof -
  define j where "j = unat count - 1 - i"
  have j: "j < 16" using assms by (simp add: j_def MAX_COMPONENTS_def)
  have "uint count - 1 - int i = int j" using assms(1) by (simp add: j_def of_nat_diff)
  then have idx: "(of_int (uint count - 1 - int i) :: u32) = of_nat j"
    by (simp only: of_int_of_nat_eq)
  have small: "\<not> of_nat MAX_COMPONENTS \<le> (of_nat j :: u32)"
    using j by (simp add: MAX_COMPONENTS_def word_le_nat_alt unat_of_nat take_bit_nat_eq_self)
  have masked: "unat ((of_nat j :: u32) AND (of_nat MAX_COMPONENTS - 1)) = j"
    using j by (simp add: MAX_COMPONENTS_def mask_index unat_of_nat take_bit_nat_eq_self)
  show ?thesis
    unfolding state_loop.simps idx Let_def masked if_not_P [OF small]
    using assms(1) by (simp add: j_def)
qed

lemma state_loop_verdict:
  assumes "unat count \<le> MAX_COMPONENTS" and "unat count \<le> length hashes" and "unat count \<le> i + n"
    and "i \<le> unat count"
  shows "(case state_loop states role_id hashes count n i state of
      Inl r \<Rightarrow> r
    | Inr st \<Rightarrow> rule_verdict states role_id st []) =
    rule_verdict states role_id state (drop i (rev (take (unat count) hashes)))"
  using assms(3,4)
proof (induction n arbitrary: i state)
  case 0
  then show ?case using assms(2) by simp
next
  case (Suc n)
  show ?case
  proof (cases "i < unat count")
    case False
    then show ?thesis using assms(2) by simp
  next
    case True
    let ?l = "rev (take (unat count) hashes)"
    have "drop i ?l = hashes ! (unat count - 1 - i) # drop (Suc i) ?l"
      using True assms(2) by (simp add: Cons_nth_drop_Suc [symmetric] rev_nth_take)
    then show ?thesis
      using True Suc.IH [of "Suc i"] Suc.prems assms(1)
      by (simp add: state_loop_step del: state_loop.simps split: option.splits)
  qed
qed

text \<open>The loop over the array computes the reference verdict of the path, root first.\<close>

lemma check_eq_rule_verdict:
  assumes "wf_components buf"
  shows "check_path_state_machine states role_id buf =
    (if collected buf = [] \<or> pcs_truncated buf \<noteq> 0 then 0
     else rule_verdict states role_id PATH_STATE_ROOT (rev (collected buf)))"
proof -
  have cnt: "unat (pcs_count buf) \<le> MAX_COMPONENTS" "length (pcs_hashes buf) = MAX_COMPONENTS"
    using assms by (simp_all add: wf_components_def)
  then have clamp: "\<not> of_nat MAX_COMPONENTS < pcs_count buf"
    by (simp add: word_less_nat_alt MAX_COMPONENTS_def)
  have empty: "collected buf = [] \<longleftrightarrow> pcs_count buf = 0"
    using length_collected [OF assms] by (metis length_0_conv unat_eq_zero)
  have "(case state_loop states role_id (pcs_hashes buf) (pcs_count buf) MAX_COMPONENTS 0 PATH_STATE_ROOT of
      Inl r \<Rightarrow> r | Inr st \<Rightarrow> rule_verdict states role_id st []) =
      rule_verdict states role_id PATH_STATE_ROOT (rev (collected buf))"
    using cnt by (subst state_loop_verdict) (simp_all add: collected_def)
  then show ?thesis
    using clamp by (simp add: check_path_state_machine_def empty Let_def cong: sum.case_cong)
qed

lemma check_view:
  assumes "wf_components b" and "wf_components c" and "view b = view c"
  shows "check_path_state_machine states role_id b = check_path_state_machine states role_id c"
  using assms by (simp add: check_eq_rule_verdict view_def)

section \<open>Verdicts\<close>

lemma value_verdict_cases: "value_verdict v = 1 \<or> value_verdict v = - 13"
  by (simp add: value_verdict_def)

lemma rule_verdict_cases:
  "rule_verdict states role_id state hs = 1 \<or> rule_verdict states role_id state hs = 0 \<or>
   rule_verdict states role_id state hs = - 13"
  by (induction hs arbitrary: state) (auto simp: value_verdict_def split: option.splits)

lemma state_loop_Inl_cases:
  "state_loop states role_id hashes count n i state = Inl r \<Longrightarrow> r = 1 \<or> r = 0 \<or> r = - 13"
  by (induction n arbitrary: i state)
    (auto simp: Let_def value_verdict_def split: if_splits option.splits)

lemma check_verdict_cases:
  "check_path_state_machine states role_id buf = 1 \<or> check_path_state_machine states role_id buf = 0 \<or>
   check_path_state_machine states role_id buf = - 13"
  by (auto simp: check_path_state_machine_def Let_def value_verdict_def
      dest: state_loop_Inl_cases split: sum.splits option.splits)

interpretation path_rules: verdict_source "\<lambda>(states, role_id, buf). check_path_state_machine states role_id buf"
  by unfold_locales (use check_verdict_cases in auto)

section \<open>How rules apply\<close>

text \<open>A decision taken at a prefix holds for everything below it.\<close>

lemma rule_verdict_prefix:
  assumes "transition_lookup states role_id state h = Some v" and "psv_is_terminal v \<noteq> 0"
  shows "rule_verdict states role_id state (h # hs) = value_verdict v"
  using assms by simp

text \<open>Only the role's own entries matter.\<close>

lemma rule_verdict_role:
  assumes "\<And>key. psk_role_id key = role_id \<Longrightarrow> states key = states' key"
  shows "rule_verdict states role_id state hs = rule_verdict states' role_id state hs"
  by (induction hs arbitrary: state) (simp_all add: assms transition_lookup_def split: option.splits)

end
