(* ===== verification/Sample.thy ===== *)
theory Sample
  imports Path_Rules
begin

text \<open>
  A concrete kernel for the scenarios of the development: one task whose root is the root of
  mount \<open>0x30000\<close>, the file \<open>/etc/shadow\<close> in it, a second mount \<open>0x31000\<close> on \<open>/data\<close> with the
  file \<open>/data/f\<close>, and an IPv4 and an IPv6 socket address. Memory is given field by field, at the
  offsets of \<open>vmlinux.h\<close>; a read of anything else delivers zeros.
\<close>

section \<open>A memory of fields\<close>

type_synonym field = "u64 \<times> u64"

fun field_value :: "field list \<Rightarrow> u64 \<Rightarrow> u64" where
  "field_value [] p = 0"
| "field_value ((a, v) # fs) p = (if p = a then v else field_value fs p)"

definition fields_read :: "field list \<Rightarrow> nat \<Rightarrow> u64 \<Rightarrow> u8 list" where
  "fields_read fs n p = le_bytes n (field_value fs p)"

lemma le_word_le_bytes_trunc:
  fixes w :: u64
  assumes "LENGTH('a::len) = 8 * n"
  shows "(le_word (le_bytes n w) :: 'a word) = ucast w"
proof (rule bit_word_eqI)
  fix i
  assume i: "i < LENGTH('a)"
  then have "i div 8 < n" using assms by (simp add: less_mult_imp_div_less mult.commute)
  moreover have "8 * (i div 8) + i mod 8 = i" by simp
  ultimately show "bit (le_word (le_bytes n w) :: 'a word) i \<longleftrightarrow> bit (ucast w :: 'a word) i"
    using i by (simp add: bit_le_word le_bytes_def bit_ucast_iff bit_drop_bit_eq)
qed

lemma fields_core_read:
  assumes "k_probe_read k = fields_read fs"
  shows "core_read_u64 k p = field_value fs p"
    and "core_read_u32 k p = ucast (field_value fs p)"
    and "core_read_u16 k p = ucast (field_value fs p)"
    and "core_read_u8 k p = ucast (field_value fs p)"
  using assms
  by (simp_all add: core_read_u64_def core_read_u32_def core_read_u16_def core_read_u8_def
      fields_read_def le_word_le_bytes_trunc)

section \<open>The sample kernel\<close>

definition sample_dentry :: "u64 \<Rightarrow> u64 \<Rightarrow> u64 \<Rightarrow> u64 \<Rightarrow> u64 \<Rightarrow> field list" where
  "sample_dentry d parent len name inode =
     [(d + 24, parent), (d + 36, len), (d + 40, name), (d + 48, inode)]"

definition sample_mount :: "u64 \<Rightarrow> u64 \<Rightarrow> u64 \<Rightarrow> u64 \<Rightarrow> field list" where
  "sample_mount m parent mountpoint root = [(m + 16, parent), (m + 24, mountpoint), (m + 32, root)]"

definition sample_file :: "u64 \<Rightarrow> u64 \<Rightarrow> u64 \<Rightarrow> u64 \<Rightarrow> u64 \<Rightarrow> field list" where
  "sample_file f d v inode ino =
     [(f + 160, d), (f + 152, v), (f + 168, inode), (inode + 80, ino)]"

definition sample_names :: "field list" where
  "sample_names =
     [(0x70010, 101), (0x70011, 116), (0x70012, 99),
      (0x70020, 115), (0x70021, 104), (0x70022, 97), (0x70023, 100), (0x70024, 111), (0x70025, 119),
      (0x70030, 100), (0x70031, 97), (0x70032, 116), (0x70033, 97),
      (0x70040, 102)]"

definition sample_addresses :: "field list" where
  "sample_addresses =
     [(0x90004, 1), (0x91000, 2), (0x91002, 0x5000), (0x91004, 0x08080808),
      (0x92000, 10), (0x92002, 0x5000)]"

definition sample_fields :: "field list" where
  "sample_fields =
     [(0x10c18, 0x20000), (0x20020, 0x40000), (0x20018, 0x30020)] @
     sample_mount 0x30000 0x30000 0x40000 0x40000 @
     sample_mount 0x31000 0x30000 0x43000 0x44000 @
     sample_dentry 0x40000 0x40000 1 0x70000 0x50000 @
     sample_dentry 0x41000 0x40000 3 0x70010 0x51000 @
     sample_dentry 0x42000 0x41000 6 0x70020 0x52000 @
     sample_dentry 0x43000 0x40000 4 0x70030 0x53000 @
     sample_dentry 0x44000 0x44000 1 0x70000 0x54000 @
     sample_dentry 0x45000 0x44000 1 0x70040 0x55000 @
     sample_file 0x60000 0x42000 0x30020 0x52000 77 @
     sample_file 0x61000 0x45000 0x31020 0x55000 78 @
     [(0x80040, 0x60000), (0x81040, 0x61000)] @ sample_names @ sample_addresses"

definition sample_env :: kenv where
  "sample_env = \<lparr>
     k_probe_read = fields_read sample_fields, k_relo = vmlinux_relo,
     k_task = 0x10000, k_pid_tgid = 0x2a0000002a, k_ktime = 1000, k_cgroup_id = 900,
     k_ancestor = (\<lambda>lvl. if lvl = 1 then 901 else if lvl = 2 then 900 else 0),
     k_storage_alloc = (\<lambda>_. True), k_lru_ok = True, k_lru_keep = (\<lambda>_. True)\<rparr>"

definition sample_root :: fs_root where
  "sample_root = \<lparr>fr_dentry = 0x40000, fr_mnt = 0x30020\<rparr>"

definition h_etc :: u64 where "h_etc = fnv1a_hash_u64 [101, 116, 99]"
definition h_shadow :: u64 where "h_shadow = fnv1a_hash_u64 [115, 104, 97, 100, 111, 119]"
definition h_data :: u64 where "h_data = fnv1a_hash_u64 [100, 97, 116, 97]"
definition h_f :: u64 where "h_f = fnv1a_hash_u64 [102]"

lemmas sample_fields_defs =
  sample_fields_def sample_dentry_def sample_mount_def sample_file_def sample_names_def sample_addresses_def

lemma sample_relo [simp]:
  "k_relo sample_env = \<lparr>
     o_d_parent = 24, o_d_name_len = 36, o_d_name_name = 40, o_d_inode = 48,
     o_mnt = 32, o_mnt_mnt_root = 32, o_mnt_parent = 16, o_mnt_mountpoint = 24,
     o_task_fs = 3096, o_fs_root_dentry = 32, o_fs_root_mnt = 24,
     o_f_path_dentry = 160, o_f_path_mnt = 152, o_f_inode = 168, o_i_ino = 80,
     o_bprm_file = 64, o_sock_type = 4, o_sa_family = 0, o_sin_port = 2,
     o_sin_addr_s_addr = 4, o_sin6_port = 2\<rparr>"
  unfolding vmlinux_relo_eq [symmetric] by (simp add: sample_env_def)

lemma sample_read:
  "core_read_u64 sample_env p = field_value sample_fields p"
  "core_read_u32 sample_env p = ucast (field_value sample_fields p)"
  "core_read_u16 sample_env p = ucast (field_value sample_fields p)"
  "core_read_u8 sample_env p = ucast (field_value sample_fields p)"
  by (rule fields_core_read; simp add: sample_env_def)+

lemma sample_env_simps [simp]:
  "k_task sample_env = 0x10000" "current_pid sample_env = 42" "k_ktime sample_env = 1000"
  "k_cgroup_id sample_env = 900" "k_storage_alloc sample_env t" "k_lru_ok sample_env"
  "k_lru_keep sample_env key"
  "k_ancestor sample_env lvl = (if lvl = 1 then 901 else if lvl = 2 then 900 else 0)"
  by (simp_all add: sample_env_def current_pid_def)

lemma sample_files [simp]:
  "f_path_dentry sample_env 0x60000 = 0x42000" "f_path_mnt sample_env 0x60000 = 0x30020"
  "f_path_dentry sample_env 0x61000 = 0x45000" "f_path_mnt sample_env 0x61000 = 0x31020"
  "f_inode sample_env 0x60000 = 0x52000" "i_ino sample_env 0x52000 = 77"
  "bprm_file sample_env 0x80000 = 0x60000" "bprm_file sample_env 0x81000 = 0x61000"
  "d_inode sample_env 0x42000 = 0x52000" "d_inode sample_env 0x45000 = 0x55000"
  "task_fs_root sample_env 0x10000 = sample_root"
  by (simp_all add: f_path_dentry_def f_path_mnt_def f_inode_def i_ino_def bprm_file_def d_inode_def
      task_fs_root_def sample_root_def sample_read sample_fields_defs)

lemma sample_tree [simp]:
  "mnt_root sample_env 0x30000 = 0x40000" "mnt_parent sample_env 0x30000 = 0x30000"
  "mnt_root sample_env 0x31000 = 0x44000" "mnt_parent sample_env 0x31000 = 0x30000"
  "mnt_mountpoint sample_env 0x31000 = 0x43000"
  "d_parent sample_env 0x41000 = 0x40000" "d_parent sample_env 0x42000 = 0x41000"
  "d_parent sample_env 0x43000 = 0x40000" "d_parent sample_env 0x45000 = 0x44000"
  "real_mount sample_env 0x30020 = 0x30000" "real_mount sample_env 0x31020 = 0x31000"
  "mount_vfs sample_env 0x30000 = 0x30020"
  by (simp_all add: mnt_root_def mnt_parent_def mnt_mountpoint_def d_parent_def real_mount_def
      mount_vfs_def sample_read sample_fields_defs)

lemma sample_name_fields [simp]:
  "d_name_len sample_env 0x41000 = 3" "d_name_name sample_env 0x41000 = 0x70010"
  "d_name_len sample_env 0x42000 = 6" "d_name_name sample_env 0x42000 = 0x70020"
  "d_name_len sample_env 0x43000 = 4" "d_name_name sample_env 0x43000 = 0x70030"
  "d_name_len sample_env 0x45000 = 1" "d_name_name sample_env 0x45000 = 0x70040"
  by (simp_all add: d_name_len_def d_name_name_def sample_read sample_fields_defs)

lemma sample_stored:
  "name_stored sample_env 0x70010 3 [101, 116, 99]"
  "name_stored sample_env 0x70020 6 [115, 104, 97, 100, 111, 119]"
  "name_stored sample_env 0x70030 4 [100, 97, 116, 97]"
  "name_stored sample_env 0x70040 1 [102]"
  by (simp_all add: name_stored_def sample_read sample_fields_defs All_less_Suc)

lemma sample_hashes [simp]:
  "dentry_hash sample_env 0x41000 = h_etc" "dentry_hash sample_env 0x42000 = h_shadow"
  "dentry_hash sample_env 0x43000 = h_data" "dentry_hash sample_env 0x45000 = h_f"
  by (simp_all add: dentry_hash_def h_etc_def h_shadow_def h_data_def h_f_def
      hash_component_stored sample_stored)

section \<open>The two paths\<close>

lemma sample_has_name [simp]:
  "has_name sample_env 0x41000" "has_name sample_env 0x42000"
  "has_name sample_env 0x43000" "has_name sample_env 0x45000"
  by (simp_all add: has_name_def)

lemma sample_shadow_resolves:
  "resolves sample_env sample_root [Climb 0x42000, Climb 0x41000] 0x42000 0x30000 0x30020"
  by (auto simp: sample_root_def intro!: resolves.intros)

lemma sample_data_resolves:
  "resolves sample_env sample_root [Climb 0x45000, Cross, Climb 0x43000] 0x45000 0x31000 0x31020"
  by (auto simp: sample_root_def intro!: resolves.intros)

lemma sample_shadow_collect:
  "wf_components buf \<Longrightarrow>
   view (snd (collect_path_components sample_env 0x42000 0x30020 sample_root buf)) = ([h_shadow, h_etc], 0)"
  using collect_complete [of "0x42000" sample_env "0x30020" buf sample_root
      "[Climb 0x42000, Climb 0x41000]"] sample_shadow_resolves
  by (simp add: MAX_PATH_WALK_STEPS_def MAX_COMPONENTS_def)

lemma sample_data_collect:
  "wf_components buf \<Longrightarrow>
   view (snd (collect_path_components sample_env 0x45000 0x31020 sample_root buf)) = ([h_f, h_data], 0)"
  using collect_complete [of "0x45000" sample_env "0x31020" buf sample_root
      "[Climb 0x45000, Cross, Climb 0x43000]"] sample_data_resolves
  by (simp add: MAX_PATH_WALK_STEPS_def MAX_COMPONENTS_def)

section \<open>A sample policy\<close>

text \<open>
  Task \<open>0x10000\<close> is in pod 7 with role 3: files and network allowed, exec, ptrace, modules and BPF
  not; everything below \<open>/etc\<close> refused, for opening and for executing.
\<close>

definition sample_info :: process_info where
  "sample_info = \<lparr>pi_pod_id = 7, pi_role_id = 3, pi_stack_depth = 0, pi_flags = 0\<rparr>"

definition sample_deny :: path_state_value where
  "sample_deny = \<lparr>psv_next_state = 0, psv_is_terminal = 1, psv_decision = 0, psv_wildcard = 0\<rparr>"

definition sample_table :: path_table where
  "sample_table = [\<lparr>psk_role_id = 3, psk_state = 0, psk_component_hash = h_etc\<rparr> \<mapsto> sample_deny]"

definition sample_state :: bpf_state where
  "sample_state = \<lparr>
     task_storage = [0x10000 \<mapsto> sample_info], role_flags = [3 \<mapsto> 0x03],
     network_rules = [\<lparr>nrk_role_id = 3, nrk_port = 80, nrk_protocol = PROTO_TCP, nrk_direction = 0\<rparr> \<mapsto> 0],
     pending_enrollments = Map.empty, path_states = sample_table, exec_states = sample_table,
     path_decision_cache = Map.empty, cache_generation = [0 \<mapsto> 0],
     exec_enrollment = [77 \<mapsto> \<lparr>eev_pod_id = 9, eev_role_id = 4\<rparr>],
     cgroup_enrollment = [901 \<mapsto> \<lparr>eev_pod_id = 11, eev_role_id = 5\<rparr>],
     ip_rules = [\<lparr>irk_role_id = 3, irk_ip_addr = 0x00000808, irk_prefix_len = 16, irk_direction = 1\<rparr> \<mapsto> 0],
     proxy_configs = [4 \<mapsto> \<lparr>pc_proxy_ip = 0x0100000a, pc_proxy_port = 3128, pc_require_proxy = 1\<rparr>],
     domain_rules = Map.empty, dns_cache = Map.empty, audit_events = [],
     path_buf = [0 \<mapsto> \<lparr>pcs_hashes = replicate MAX_COMPONENTS 0, pcs_count = 0, pcs_truncated = 0\<rparr>]\<rparr>"

lemma sample_state_simps [simp]:
  "task_storage sample_state = [0x10000 \<mapsto> sample_info]" "role_flags sample_state = [3 \<mapsto> 0x03]"
  "pending_enrollments sample_state = Map.empty" "path_states sample_state = sample_table"
  "exec_states sample_state = sample_table" "path_decision_cache sample_state = Map.empty"
  "cache_generation sample_state = [0 \<mapsto> 0]" "audit_events sample_state = []"
  "path_buf sample_state = [0 \<mapsto> \<lparr>pcs_hashes = replicate MAX_COMPONENTS 0, pcs_count = 0, pcs_truncated = 0\<rparr>]"
  "exec_enrollment sample_state = [77 \<mapsto> \<lparr>eev_pod_id = 9, eev_role_id = 4\<rparr>]"
  "cgroup_enrollment sample_state = [901 \<mapsto> \<lparr>eev_pod_id = 11, eev_role_id = 5\<rparr>]"
  by (simp_all add: sample_state_def)

lemma sample_info_simps [simp]:
  "pi_pod_id sample_info = 7" "pi_role_id sample_info = 3"
  by (simp_all add: sample_info_def)

text \<open>The rule on \<open>/etc\<close> decides for \<open>/etc/shadow\<close>.\<close>

lemma sample_shadow_rule: "rule_verdict sample_table 3 0 [h_etc, h_shadow] = - 13"
  by (simp add: sample_table_def sample_deny_def transition_lookup_def value_verdict_def)

lemma sample_shadow_check:
  assumes "wf_components buf"
  shows "check_path_state_machine sample_table 3
    (snd (collect_path_components sample_env 0x42000 0x30020 sample_root buf)) = - 13"
proof -
  let ?b = "snd (collect_path_components sample_env 0x42000 0x30020 sample_root buf)"
  have "collected ?b = [h_shadow, h_etc]" "pcs_truncated ?b = 0"
    using sample_shadow_collect [OF assms] by (simp_all add: view_def)
  then show ?thesis
    using view_collect(3) [OF assms assms] sample_shadow_rule
    by (simp add: check_eq_rule_verdict PATH_STATE_ROOT_def)
qed

end
