(* ===== verification/Enrollment.thy ===== *)
theory Enrollment
  imports Bpf_State
begin

text \<open>
  How a task comes by its \<open>process_info\<close>: the migration of a pending enrollment into
  \<open>task_storage\<close> and the \<open>task_alloc\<close> hook, which hands the parent's entry to the child.
\<close>

section \<open>The programs\<close>

definition check_pending_enrollment :: "kenv \<Rightarrow> u64 \<Rightarrow> u32 \<Rightarrow> bpf_state \<Rightarrow> bpf_state" where
  "check_pending_enrollment k task pid s =
     (case pending_enrollments s pid of
        None \<Rightarrow> s
      | Some pending \<Rightarrow>
          if pi_pod_id pending = 0 then s
          else
            let (info, s) = task_storage_get_create k task s;
                s = (case info of
                       Some _ \<Rightarrow>
                         set_info task
                           \<lparr>pi_pod_id = pi_pod_id pending, pi_role_id = pi_role_id pending,
                            pi_stack_depth = pi_stack_depth pending, pi_flags = pi_flags pending\<rparr> s
                     | None \<Rightarrow> s)
            in s\<lparr>pending_enrollments := (pending_enrollments s)(pid := None)\<rparr>)"

definition task_alloc :: "kenv \<Rightarrow> u64 \<Rightarrow> bpf_state \<Rightarrow> int \<times> bpf_state" where
  "task_alloc k task s =
     (let (info, s) = task_storage_get_create k task s in
      case info of
        None \<Rightarrow> (0, s)
      | Some _ \<Rightarrow>
          (case task_storage s (k_task k) of
             Some parent_info \<Rightarrow>
               if pi_pod_id parent_info \<noteq> 0 then
                 (0, set_info task
                       \<lparr>pi_pod_id = pi_pod_id parent_info, pi_role_id = pi_role_id parent_info,
                        pi_stack_depth = pi_stack_depth parent_info,
                        pi_flags = pi_flags parent_info\<rparr> s)
               else (0, set_info task zero_info s)
           | None \<Rightarrow> (0, set_info task zero_info s)))"

section \<open>Enrolled tasks\<close>

definition enrolled :: "bpf_state \<Rightarrow> u64 \<Rightarrow> bool" where
  "enrolled s task \<longleftrightarrow> (\<exists>info. task_storage s task = Some info \<and> pi_pod_id info \<noteq> 0)"

lemma info_eq [simp]:
  "\<lparr>pi_pod_id = pi_pod_id p, pi_role_id = pi_role_id p, pi_stack_depth = pi_stack_depth p,
    pi_flags = pi_flags p\<rparr> = p"
  by simp

lemma zero_info_pod [simp]: "pi_pod_id zero_info = 0"
  by (simp add: zero_info_def)

text \<open>Everything but the two enrollment maps is left alone.\<close>

definition same_policy :: "bpf_state \<Rightarrow> bpf_state \<Rightarrow> bool" where
  "same_policy s s' \<longleftrightarrow>
     role_flags s' = role_flags s \<and> network_rules s' = network_rules s \<and>
     path_states s' = path_states s \<and> exec_states s' = exec_states s \<and>
     exec_enrollment s' = exec_enrollment s \<and> cgroup_enrollment s' = cgroup_enrollment s \<and>
     ip_rules s' = ip_rules s \<and> proxy_configs s' = proxy_configs s \<and>
     domain_rules s' = domain_rules s \<and> dns_cache s' = dns_cache s"

lemma same_policy_refl [simp]: "same_policy s s"
  by (simp add: same_policy_def)

lemma same_policy_trans: "same_policy s s' \<Longrightarrow> same_policy s' s'' \<Longrightarrow> same_policy s s''"
  by (simp add: same_policy_def)

lemma pending_frame:
  "same_policy s (check_pending_enrollment k task pid s)"
  "path_decision_cache (check_pending_enrollment k task pid s) = path_decision_cache s"
  "cache_generation (check_pending_enrollment k task pid s) = cache_generation s"
  "audit_events (check_pending_enrollment k task pid s) = audit_events s"
  "path_buf (check_pending_enrollment k task pid s) = path_buf s"
  by (auto simp: check_pending_enrollment_def same_policy_def hook_defs Let_def
      split: option.splits prod.splits)

lemma pending_storage:
  "task_storage (check_pending_enrollment k task pid s) =
     (case pending_enrollments s pid of
        Some p \<Rightarrow>
          if pi_pod_id p \<noteq> 0 \<and> (task_storage s task \<noteq> None \<or> k_storage_alloc k task)
          then (task_storage s)(task \<mapsto> p) else task_storage s
      | None \<Rightarrow> task_storage s)"
  by (auto simp: check_pending_enrollment_def hook_defs Let_def split: option.splits prod.splits)

lemma pending_consumed:
  "pending_enrollments (check_pending_enrollment k task pid s) =
     (case pending_enrollments s pid of
        Some p \<Rightarrow> if pi_pod_id p \<noteq> 0 then (pending_enrollments s)(pid := None) else pending_enrollments s
      | None \<Rightarrow> pending_enrollments s)"
  by (auto simp: check_pending_enrollment_def hook_defs Let_def split: option.splits prod.splits)

lemma pending_keeps_enrolled:
  "enrolled s t \<Longrightarrow> enrolled (check_pending_enrollment k task pid s) t"
  by (auto simp: enrolled_def pending_storage split: option.splits)

lemma pending_idempotent:
  "check_pending_enrollment k task pid (check_pending_enrollment k task pid s) =
   check_pending_enrollment k task pid s"
proof (cases "\<exists>p. pending_enrollments s pid = Some p \<and> pi_pod_id p \<noteq> 0")
  case True
  then have "pending_enrollments (check_pending_enrollment k task pid s) pid = None"
    by (auto simp: pending_consumed)
  then show ?thesis by (simp add: check_pending_enrollment_def [of k task pid "check_pending_enrollment k task pid s"])
next
  case False
  then have "check_pending_enrollment k task pid s = s"
    by (auto simp: check_pending_enrollment_def split: option.splits)
  then show ?thesis by simp
qed

lemma emit_frame [simp]:
  "task_storage (emit_audit_event k p r q d h c s) = task_storage s"
  "pending_enrollments (emit_audit_event k p r q d h c s) = pending_enrollments s"
  "path_decision_cache (emit_audit_event k p r q d h c s) = path_decision_cache s"
  "cache_generation (emit_audit_event k p r q d h c s) = cache_generation s"
  "path_states (emit_audit_event k p r q d h c s) = path_states s"
  "path_buf (emit_audit_event k p r q d h c s) = path_buf s"
  "same_policy s (emit_audit_event k p r q d h c s)"
  by (simp_all add: emit_audit_event_def same_policy_def)

text \<open>The state the decision is taken in: after the pending enrollment has been migrated.\<close>

definition migrated :: "kenv \<Rightarrow> bpf_state \<Rightarrow> bpf_state" where
  "migrated k s = check_pending_enrollment k (k_task k) (current_pid k) s"

lemma migrated_frame [simp]:
  "path_decision_cache (migrated k s) = path_decision_cache s"
  "cache_generation (migrated k s) = cache_generation s"
  "audit_events (migrated k s) = audit_events s"
  "path_buf (migrated k s) = path_buf s"
  "path_states (migrated k s) = path_states s"
  "role_flags (migrated k s) = role_flags s"
  using pending_frame(1) [of s k "k_task k" "current_pid k"]
  by (simp_all add: migrated_def pending_frame same_policy_def)

lemma migrated_policy: "same_policy s (migrated k s)"
  by (simp add: migrated_def pending_frame)

lemma not_enrolledD:
  "\<not> enrolled s task \<Longrightarrow> task_storage s task = None \<or> (\<exists>info. task_storage s task = Some info \<and> pi_pod_id info = 0)"
  by (cases "task_storage s task") (auto simp: enrolled_def)

section \<open>Inheritance\<close>

lemma task_alloc_result [simp]: "fst (task_alloc k task s) = 0"
  by (simp add: task_alloc_def Let_def split: option.splits prod.splits)

lemma task_alloc_frame:
  "same_policy s (snd (task_alloc k task s))"
  "path_decision_cache (snd (task_alloc k task s)) = path_decision_cache s"
  "cache_generation (snd (task_alloc k task s)) = cache_generation s"
  "audit_events (snd (task_alloc k task s)) = audit_events s"
  "path_buf (snd (task_alloc k task s)) = path_buf s"
  "pending_enrollments (snd (task_alloc k task s)) = pending_enrollments s"
  by (auto simp: task_alloc_def same_policy_def hook_defs Let_def split: option.splits prod.splits)

lemma task_alloc_storage:
  assumes "task \<noteq> k_task k" and "task_storage s task \<noteq> None \<or> k_storage_alloc k task"
  shows "task_storage (snd (task_alloc k task s)) =
    (task_storage s)(task \<mapsto>
      (case task_storage s (k_task k) of
         Some p \<Rightarrow> if pi_pod_id p \<noteq> 0 then p else zero_info
       | None \<Rightarrow> zero_info))"
  using assms by (auto simp: task_alloc_def hook_defs Let_def split: option.splits prod.splits)

lemma task_alloc_no_storage:
  assumes "task_storage s task = None" and "\<not> k_storage_alloc k task"
  shows "task_alloc k task s = (0, s)"
  using assms by (simp add: task_alloc_def hook_defs)

lemma task_alloc_other:
  "t \<noteq> task \<Longrightarrow> task_storage (snd (task_alloc k task s)) t = task_storage s t"
  by (auto simp: task_alloc_def hook_defs Let_def split: option.splits prod.splits)

end
