(* ===== verification/Hook_Contract.thy ===== *)
theory Hook_Contract
  imports Enrollment
begin

text \<open>
  What every program attached to an LSM hook promises, whatever it decides: it leaves the policy
  maps alone, only appends to the audit log, writes one event per refusal, and takes nobody out
  of a jail. The promises are the locale \<open>lsm_hook\<close>; each program interprets it, and the lemmas
  below lift them to sequences of invocations.
\<close>

type_synonym 'a hook = "kenv \<Rightarrow> 'a \<Rightarrow> bpf_state \<Rightarrow> int \<times> bpf_state"

text \<open>A sequence of invocations: the results in order and the final state.\<close>

fun run_calls :: "'a hook \<Rightarrow> (kenv \<times> 'a) list \<Rightarrow> bpf_state \<Rightarrow> int list \<times> bpf_state" where
  "run_calls hook [] s = ([], s)"
| "run_calls hook ((k, a) # cs) s =
     (let (r, s) = hook k a s; (rs, s) = run_calls hook cs s in (r # rs, s))"

text \<open>The invocations of a sequence that refuse without writing an event.\<close>

fun silent_calls ::
  "'a hook \<Rightarrow> (kenv \<Rightarrow> 'a \<Rightarrow> bpf_state \<Rightarrow> bool) \<Rightarrow> (kenv \<times> 'a) list \<Rightarrow> bpf_state \<Rightarrow> nat" where
  "silent_calls hook silent [] s = 0"
| "silent_calls hook silent ((k, a) # cs) s =
     (if silent k a s then 1 else 0) + silent_calls hook silent cs (snd (hook k a s))"

definition denials :: "int list \<Rightarrow> nat" where
  "denials rs = length (filter (\<lambda>r. r \<noteq> 0) rs)"

lemma denials_simps [simp]:
  "denials [] = 0" "denials (r # rs) = (if r \<noteq> 0 then 1 else 0) + denials rs"
  by (simp_all add: denials_def)

text \<open>
  The entry of an enrolled task changes only by a pending enrollment of the current process,
  unless the hook is the one that sets the entry of a new task up.
\<close>

definition entry_kept :: "kenv \<Rightarrow> u64 \<Rightarrow> bpf_state \<Rightarrow> bpf_state \<Rightarrow> bool" where
  "entry_kept k t s s' \<longleftrightarrow>
     task_storage s' t = task_storage s t \<or>
     (t = k_task k \<and>
      (\<exists>p. pending_enrollments s (current_pid k) = Some p \<and> pi_pod_id p \<noteq> 0 \<and>
           task_storage s' t = Some p))"

lemma entry_kept_refl [simp]: "entry_kept k t s s"
  by (simp add: entry_kept_def)

lemma entry_kept_enrolled: "entry_kept k t s s' \<Longrightarrow> enrolled s t \<Longrightarrow> enrolled s' t"
  by (auto simp: entry_kept_def enrolled_def)

lemma entry_kept_migrated: "entry_kept k t s (migrated k s)"
  by (auto simp: entry_kept_def migrated_def pending_storage split: option.splits)

lemma entry_kept_cong:
  "task_storage s'' = task_storage s' \<Longrightarrow> entry_kept k t s s'' \<longleftrightarrow> entry_kept k t s s'"
  by (simp add: entry_kept_def)

text \<open>The event that \<open>emit_audit_event\<close> writes for a refusal.\<close>

definition denial_event :: "kenv \<Rightarrow> process_info \<Rightarrow> u32 \<Rightarrow> u64 \<Rightarrow> audit_event" where
  "denial_event k info hook_type context =
     \<lparr>ae_timestamp = k_ktime k, ae_pid = current_pid k, ae_role_id = pi_role_id info,
      ae_decision = AUDIT_DECISION_DENY, ae_hook_type = hook_type, ae_context = context,
      ae_pod_id = pi_pod_id info\<rparr>"

lemma emit_denial:
  "audit_events (emit_audit_event k (current_pid k) (pi_role_id info) (pi_pod_id info)
     AUDIT_DECISION_DENY hook_type c s) = audit_events s @ [denial_event k info hook_type c]"
  by (simp add: emit_audit_event_def denial_event_def)

text \<open>The answer of a hook for the task of entry \<open>info\<close>, with the log it leaves.\<close>

definition answers :: "kenv \<Rightarrow> process_info \<Rightarrow> u32 \<Rightarrow> bpf_state \<Rightarrow> int \<times> bpf_state \<Rightarrow> bool" where
  "answers k info hook_type s res \<longleftrightarrow>
     (if fst res = 0 then audit_events (snd res) = audit_events s
      else \<exists>c. audit_events (snd res) = audit_events s @ [denial_event k info hook_type c])"

lemma answers_allow [simp]: "answers k info ht s (0, s') \<longleftrightarrow> audit_events s' = audit_events s"
  by (simp add: answers_def)

lemma answers_deny [simp]:
  "r \<noteq> 0 \<Longrightarrow> audit_events s' = audit_events s \<Longrightarrow>
   answers k info ht s (r, emit_audit_event k (current_pid k) (pi_role_id info) (pi_pod_id info)
     AUDIT_DECISION_DENY ht c s')"
  by (auto simp: answers_def emit_denial)

lemma answers_cong:
  "audit_events s = audit_events s' \<Longrightarrow> answers k info ht s res \<longleftrightarrow> answers k info ht s' res"
  by (simp add: answers_def)

locale lsm_hook =
  fixes hook :: "'a hook"
    and subject :: "kenv \<Rightarrow> 'a \<Rightarrow> u64"
    and renews :: "kenv \<Rightarrow> 'a \<Rightarrow> u64 \<Rightarrow> bool"
    and silent :: "kenv \<Rightarrow> 'a \<Rightarrow> bpf_state \<Rightarrow> bool"
  assumes policy: "same_policy s (snd (hook k a s))"
    and kept: "enrolled s t \<Longrightarrow> \<not> renews k a t \<Longrightarrow> entry_kept k t s (snd (hook k a s))"
    and allowed_log: "fst (hook k a s) = 0 \<Longrightarrow> audit_events (snd (hook k a s)) = audit_events s"
    and denied_log: "fst (hook k a s) \<noteq> 0 \<Longrightarrow>
      \<exists>info c ht. task_storage (snd (hook k a s)) (subject k a) = Some info \<and> pi_pod_id info \<noteq> 0 \<and>
        audit_events (snd (hook k a s)) =
          (if silent k a s then audit_events s else audit_events s @ [denial_event k info ht c])"
    and silent_denies: "silent k a s \<Longrightarrow> fst (hook k a s) \<noteq> 0"
begin

lemma denied_enrolled: "fst (hook k a s) \<noteq> 0 \<Longrightarrow> enrolled (snd (hook k a s)) (subject k a)"
  using denied_log [of k a s] by (auto simp: enrolled_def)

lemma not_enrolled_allowed: "\<not> enrolled (snd (hook k a s)) (subject k a) \<Longrightarrow> fst (hook k a s) = 0"
  using denied_enrolled by blast

lemma log_length:
  "length (audit_events (snd (hook k a s))) + (if silent k a s then 1 else 0) =
   length (audit_events s) + (if fst (hook k a s) \<noteq> 0 then 1 else 0)"
  using allowed_log [of k a s] denied_log [of k a s] silent_denies [of k a s]
  by (cases "fst (hook k a s) = 0"; cases "silent k a s") auto

lemma log_prefix: "\<exists>es. audit_events (snd (hook k a s)) = audit_events s @ es"
  using allowed_log [of k a s] denied_log [of k a s] by (cases "fst (hook k a s) = 0") fastforce+

lemma run_policy: "same_policy s (snd (run_calls hook cs s))"
proof (induction cs arbitrary: s)
  case (Cons c cs)
  obtain k a where c: "c = (k, a)" by (cases c)
  show ?case
    using same_policy_trans [OF policy Cons.IH] by (simp add: c split_beta)
qed simp

lemma run_log_prefix: "\<exists>es. audit_events (snd (run_calls hook cs s)) = audit_events s @ es"
proof (induction cs arbitrary: s)
  case (Cons c cs)
  obtain k a where c: "c = (k, a)" by (cases c)
  obtain es where "audit_events (snd (hook k a s)) = audit_events s @ es" using log_prefix by blast
  moreover obtain es' where "audit_events (snd (run_calls hook cs (snd (hook k a s)))) =
      audit_events (snd (hook k a s)) @ es'" using Cons.IH by blast
  ultimately show ?case by (simp add: c split_beta)
qed simp

lemma run_log_length:
  "length (audit_events (snd (run_calls hook cs s))) + silent_calls hook silent cs s =
   length (audit_events s) + denials (fst (run_calls hook cs s))"
proof (induction cs arbitrary: s)
  case (Cons c cs)
  obtain k a where c: "c = (k, a)" by (cases c)
  show ?case
    using Cons.IH [of "snd (hook k a s)"] log_length [of k a s] by (simp add: c split_beta)
qed simp

lemma run_enrolled:
  assumes "enrolled s t" and "\<forall>(k, a) \<in> set cs. \<not> renews k a t"
  shows "enrolled (snd (run_calls hook cs s)) t"
  using assms
proof (induction cs arbitrary: s)
  case (Cons c cs)
  obtain k a where c: "c = (k, a)" by (cases c)
  have "enrolled (snd (hook k a s)) t"
    using Cons.prems by (auto simp: c intro: entry_kept_enrolled [OF kept])
  then show ?case using Cons by (simp add: c split_beta)
qed simp

end

text \<open>
  How the programs meet the contract: in the state \<open>s0\<close> they decide in, a subject that is not
  enrolled is let through and an enrolled one is answered.
\<close>

lemma lsm_hookI:
  fixes hook :: "'a hook" and before :: "kenv \<Rightarrow> bpf_state \<Rightarrow> bpf_state"
  assumes "\<And>k a s. same_policy s (snd (hook k a s))"
    and "\<And>k a s t. entry_kept k t s (snd (hook k a s))"
    and pass: "\<And>k a s. \<not> enrolled (before k s) (subject k a) \<Longrightarrow> hook k a s = (0, before k s)"
    and answer: "\<And>k a s info. task_storage (before k s) (subject k a) = Some info \<Longrightarrow>
      pi_pod_id info \<noteq> 0 \<Longrightarrow> \<exists>ht. answers k info ht s (hook k a s)"
    and store: "\<And>k a s. task_storage (snd (hook k a s)) (subject k a) = task_storage (before k s) (subject k a)"
    and quiet: "\<And>k s. audit_events (before k s) = audit_events s"
  shows "lsm_hook hook subject (\<lambda>_ _ _. False) (\<lambda>_ _ _. False)"
proof
  fix k a s
  show "same_policy s (snd (hook k a s))" by (rule assms)
  show "entry_kept k t s (snd (hook k a s))" for t by (rule assms)
  show "audit_events (snd (hook k a s)) = audit_events s" if "fst (hook k a s) = 0"
  proof (cases "enrolled (before k s) (subject k a)")
    case True
    then show ?thesis using answer [of k s a] that by (auto simp: enrolled_def answers_def)
  next
    case False
    then show ?thesis using pass [of k s a] quiet by simp
  qed
  assume deny: "fst (hook k a s) \<noteq> 0"
  then have "enrolled (before k s) (subject k a)" using pass [of k s a] by fastforce
  then obtain info where "task_storage (before k s) (subject k a) = Some info" "pi_pod_id info \<noteq> 0"
    by (auto simp: enrolled_def)
  with deny answer [OF this] store [of k a s]
  show "\<exists>info c ht. task_storage (snd (hook k a s)) (subject k a) = Some info \<and> pi_pod_id info \<noteq> 0 \<and>
      audit_events (snd (hook k a s)) =
        (if False then audit_events s else audit_events s @ [denial_event k info ht c])"
    by (auto simp: answers_def)
qed simp

text \<open>The programs that do not migrate pending enrollments decide in the state they find.\<close>

lemma guard_hookI:
  fixes hook :: "'a hook"
  assumes pass: "\<And>k a s. \<not> enrolled s (subject k a) \<Longrightarrow> hook k a s = (0, s)"
    and answer: "\<And>k a s info. task_storage s (subject k a) = Some info \<Longrightarrow> pi_pod_id info \<noteq> 0 \<Longrightarrow>
      same_policy s (snd (hook k a s)) \<and> task_storage (snd (hook k a s)) = task_storage s \<and>
      (\<exists>ht. answers k info ht s (hook k a s))"
  shows "lsm_hook hook subject (\<lambda>_ _ _. False) (\<lambda>_ _ _. False)"
proof (rule lsm_hookI [where before = "\<lambda>_ s. s"])
  fix k a s
  have frame: "same_policy s (snd (hook k a s)) \<and> task_storage (snd (hook k a s)) = task_storage s"
  proof (cases "enrolled s (subject k a)")
    case True
    then show ?thesis using answer [of s k a] by (auto simp: enrolled_def)
  next
    case False
    then show ?thesis using pass [of s k a] by simp
  qed
  then show "same_policy s (snd (hook k a s))" "entry_kept k t s (snd (hook k a s))" for t
    by (simp_all add: entry_kept_def)
  show "task_storage (snd (hook k a s)) (subject k a) = task_storage s (subject k a)"
    using frame by simp
  show "\<exists>ht. answers k info ht s (hook k a s)"
    if "task_storage s (subject k a) = Some info" "pi_pod_id info \<noteq> 0" for info
    using answer [OF that] by blast
qed (use pass in simp_all)

section \<open>Task creation\<close>

interpretation task_alloc: lsm_hook task_alloc "\<lambda>k _. k_task k" "\<lambda>k task t. t = task" "\<lambda>_ _ _. False"
  by unfold_locales (auto simp: task_alloc_frame entry_kept_def task_alloc_other)

end
