(* ===== verification/Network.thy ===== *)
theory Network
  imports Sample Hook_Contract
begin

text \<open>
  The network hooks: \<open>socket_bind\<close>, \<open>socket_connect\<close> and \<open>socket_sendmsg\<close>, with the proxy, domain,
  address and port checks they consult. Addresses are in network byte order, as in the maps; the
  specifications read them in host order.
\<close>

section \<open>Byte order\<close>

definition bpf_ntohs :: "u16 \<Rightarrow> u16" where
  "bpf_ntohs val = drop_bit 8 val OR push_bit 8 val"

text \<open>\<open>__builtin_bswap32\<close>.\<close>

definition bswap32 :: "u32 \<Rightarrow> u32" where
  "bswap32 w = le_word (rev (le_bytes 4 w))"

section \<open>Address rules\<close>

text \<open>The unrolled loop that sets the upper bits of a mask: passes left, counter, mask so far.\<close>

fun mask_loop :: "nat \<Rightarrow> nat \<Rightarrow> u8 \<Rightarrow> u32 \<Rightarrow> u32" where
  "mask_loop 0 i prefix_len m = m"
| "mask_loop (Suc n) i prefix_len m =
     mask_loop n (Suc i) prefix_len (if i < unat prefix_len then m OR push_bit (31 - i) 1 else m)"

definition ip_matches_cidr :: "u32 \<Rightarrow> u32 \<Rightarrow> u8 \<Rightarrow> bool" where
  "ip_matches_cidr ip_addr rule_ip prefix_len =
     (if prefix_len = 0 then True
      else if 32 \<le> prefix_len then ip_addr = rule_ip
      else let m = bswap32 (mask_loop 32 0 prefix_len 0) in ip_addr AND m = rule_ip AND m)"

definition u8_verdict :: "u8 \<Rightarrow> int" where
  "u8_verdict rule = (if rule \<noteq> 0 then 1 else - 13)"

definition prefix_mask :: "u8 \<Rightarrow> u32" where
  "prefix_mask prefix = (if 0 < prefix then bswap32 (mask_loop 32 0 prefix 0) else 0)"

text \<open>The loop over the shorter prefixes.\<close>

fun ip_prefix_loop :: "(ip_rule_key \<rightharpoonup> u8) \<Rightarrow> u32 \<Rightarrow> u32 \<Rightarrow> u8 \<Rightarrow> u8 list \<Rightarrow> int" where
  "ip_prefix_loop rules role_id ip_addr direction [] = 0"
| "ip_prefix_loop rules role_id ip_addr direction (prefix # ps) =
     (case rules \<lparr>irk_role_id = role_id, irk_ip_addr = ip_addr AND prefix_mask prefix,
                  irk_prefix_len = prefix, irk_direction = direction\<rparr> of
        Some rule \<Rightarrow> u8_verdict rule
      | None \<Rightarrow> ip_prefix_loop rules role_id ip_addr direction ps)"

definition check_ip_access :: "(ip_rule_key \<rightharpoonup> u8) \<Rightarrow> u32 \<Rightarrow> u32 \<Rightarrow> u8 \<Rightarrow> int" where
  "check_ip_access rules role_id ip_addr direction =
     (case rules \<lparr>irk_role_id = role_id, irk_ip_addr = ip_addr, irk_prefix_len = 32,
                  irk_direction = direction\<rparr> of
        Some rule \<Rightarrow> u8_verdict rule
      | None \<Rightarrow> ip_prefix_loop rules role_id ip_addr direction [24, 16, 12, 8, 0])"

section \<open>Proxy and domain rules\<close>

definition is_proxy_connection :: "(u32 \<rightharpoonup> proxy_config) \<Rightarrow> u32 \<Rightarrow> u32 \<Rightarrow> u16 \<Rightarrow> bool" where
  "is_proxy_connection configs role_id ip_addr port =
     (case configs role_id of
        None \<Rightarrow> False
      | Some config \<Rightarrow>
          if pc_require_proxy config = 0 then False
          else ip_addr = pc_proxy_ip config \<and> port = pc_proxy_port config)"

definition check_domain_access ::
  "(dns_cache_key \<rightharpoonup> dns_cache_value) \<Rightarrow> (domain_rule_key \<rightharpoonup> u8) \<Rightarrow> u32 \<Rightarrow> u32 \<Rightarrow> int" where
  "check_domain_access dns rules role_id ip_addr =
     (if ip_addr = 0 then 0
      else case dns \<lparr>dck_role_id = role_id, dck_ip_addr = ip_addr\<rparr> of
        None \<Rightarrow> 0
      | Some cached \<Rightarrow>
          (case rules \<lparr>drk_role_id = role_id, drk_domain_hash = dcv_domain_hash cached\<rparr> of
             None \<Rightarrow> 0
           | Some allow \<Rightarrow> u8_verdict allow))"

definition check_proxy_requirement :: "(u32 \<rightharpoonup> proxy_config) \<Rightarrow> u32 \<Rightarrow> u32 \<Rightarrow> u16 \<Rightarrow> int" where
  "check_proxy_requirement configs role_id ip_addr port =
     (case configs role_id of
        None \<Rightarrow> 0
      | Some config \<Rightarrow>
          if pc_require_proxy config = 0 then 0
          else if ip_addr = pc_proxy_ip config \<and> port = pc_proxy_port config then 0
          else if ip_addr AND 0x000000FF = 0x0000007F then 0
          else - 13)"

section \<open>Port rules\<close>

definition SOCK_STREAM :: u16 where "SOCK_STREAM = 1"
definition SOCK_DGRAM :: u16 where "SOCK_DGRAM = 2"

definition sock_type :: "kenv \<Rightarrow> u64 \<Rightarrow> u16" where
  "sock_type k sock = core_read_u16 k (sock + o_sock_type (k_relo k))"

definition sa_family :: "kenv \<Rightarrow> u64 \<Rightarrow> u16" where
  "sa_family k address = core_read_u16 k (address + o_sa_family (k_relo k))"

definition sin_port :: "kenv \<Rightarrow> u64 \<Rightarrow> u16" where
  "sin_port k address = core_read_u16 k (address + o_sin_port (k_relo k))"

definition sin_addr :: "kenv \<Rightarrow> u64 \<Rightarrow> u32" where
  "sin_addr k address = core_read_u32 k (address + o_sin_addr_s_addr (k_relo k))"

definition sin6_port :: "kenv \<Rightarrow> u64 \<Rightarrow> u16" where
  "sin6_port k address = core_read_u16 k (address + o_sin6_port (k_relo k))"

definition check_network_access ::
  "kenv \<Rightarrow> (net_rule_key \<rightharpoonup> u8) \<Rightarrow> u32 \<Rightarrow> u64 \<Rightarrow> u64 \<Rightarrow> u8 \<Rightarrow> int" where
  "check_network_access k rules role_id sock address direction =
     (let proto = (if sock_type k sock = SOCK_STREAM then Some PROTO_TCP
                   else if sock_type k sock = SOCK_DGRAM then Some PROTO_UDP else None) in
      case proto of
        None \<Rightarrow> 0
      | Some protocol \<Rightarrow>
          let family = sa_family k address;
              port = (if family = AF_INET then Some (bpf_ntohs (sin_port k address))
                      else if family = AF_INET6 then Some (bpf_ntohs (sin6_port k address)) else None) in
          case port of
            None \<Rightarrow> 0
          | Some port \<Rightarrow>
              let key = \<lparr>nrk_role_id = role_id, nrk_port = port, nrk_protocol = protocol,
                         nrk_direction = direction\<rparr> in
              (case rules key of
                 Some rule \<Rightarrow> u8_verdict rule
               | None \<Rightarrow>
                   (case rules (key\<lparr>nrk_port := 0\<rparr>) of
                      Some rule \<Rightarrow> u8_verdict rule
                    | None \<Rightarrow> 0)))"

section \<open>The hooks\<close>

definition net_deny :: "kenv \<Rightarrow> u32 \<Rightarrow> process_info \<Rightarrow> u32 \<Rightarrow> u64 \<Rightarrow> bpf_state \<Rightarrow> int \<times> bpf_state" where
  "net_deny k pid info hook_type context s =
     (- 13, emit_audit_event k pid (pi_role_id info) (pi_pod_id info)
              AUDIT_DECISION_DENY hook_type context s)"

definition socket_bind :: "kenv \<Rightarrow> u64 \<Rightarrow> u64 \<Rightarrow> bpf_state \<Rightarrow> int \<times> bpf_state" where
  "socket_bind k sock address s =
     (let task = k_task k; pid = current_pid k in
      case task_storage s task of
        None \<Rightarrow> (0, s)
      | Some info \<Rightarrow>
          if pi_pod_id info = 0 then (0, s)
          else
            (case role_flags s (pi_role_id info) of
               None \<Rightarrow> net_deny k pid info AUDIT_HOOK_SOCKET_BIND 0 s
             | Some flags \<Rightarrow>
                 let result = check_network_access k (network_rules s) (pi_role_id info) sock address 0 in
                 if flags AND 0x02 = 0 then
                   (if result = 1 then (0, s) else net_deny k pid info AUDIT_HOOK_SOCKET_BIND 0 s)
                 else if result = - 13 then net_deny k pid info AUDIT_HOOK_SOCKET_BIND 0 s
                 else (0, s)))"

text \<open>The destination that \<open>socket_connect\<close> extracts: address (IPv4 only) and port.\<close>

definition connect_dest :: "kenv \<Rightarrow> u64 \<Rightarrow> u32 \<times> u16" where
  "connect_dest k address =
     (let family = sa_family k address in
      if family = AF_INET then (sin_addr k address, bpf_ntohs (sin_port k address))
      else if family = AF_INET6 then (0, bpf_ntohs (sin6_port k address))
      else (0, 0))"

definition connect_decide ::
  "kenv \<Rightarrow> u32 \<Rightarrow> process_info \<Rightarrow> u8 \<Rightarrow> u64 \<Rightarrow> u64 \<Rightarrow> bpf_state \<Rightarrow> int \<times> bpf_state" where
  "connect_decide k pid info flags sock address s =
     (let (dest_ip, dest_port) = connect_dest k address;
          deny = net_deny k pid info AUDIT_HOOK_SOCKET_CONNECT (ucast dest_ip) s in
      if dest_ip \<noteq> 0 \<and> check_proxy_requirement (proxy_configs s) (pi_role_id info) dest_ip dest_port = - 13
      then deny
      else
        let domain_result = (if dest_ip \<noteq> 0
              then check_domain_access (dns_cache s) (domain_rules s) (pi_role_id info) dest_ip else 0) in
        if domain_result = - 13 then deny
        else if domain_result = 1 then (0, s)
        else
          let ip_result = (if dest_ip \<noteq> 0
                then check_ip_access (ip_rules s) (pi_role_id info) dest_ip 1 else 0) in
          if ip_result = - 13 then deny
          else if ip_result = 1 then (0, s)
          else
            let result = check_network_access k (network_rules s) (pi_role_id info) sock address 1 in
            if flags AND 0x02 = 0 then (if result = 1 then (0, s) else deny)
            else if result = - 13 then deny
            else (0, s))"

definition socket_connect :: "kenv \<Rightarrow> u64 \<Rightarrow> u64 \<Rightarrow> bpf_state \<Rightarrow> int \<times> bpf_state" where
  "socket_connect k sock address s =
     (let task = k_task k; pid = current_pid k in
      case task_storage s task of
        None \<Rightarrow> (0, s)
      | Some info \<Rightarrow>
          if pi_pod_id info = 0 then (0, s)
          else
            (case role_flags s (pi_role_id info) of
               None \<Rightarrow> net_deny k pid info AUDIT_HOOK_SOCKET_CONNECT 0 s
             | Some flags \<Rightarrow> connect_decide k pid info flags sock address s))"

definition socket_sendmsg :: "kenv \<Rightarrow> u64 \<Rightarrow> u64 \<Rightarrow> bpf_state \<Rightarrow> int \<times> bpf_state" where
  "socket_sendmsg k sock msg s = (0, s)"

section \<open>Byte order, read in host order\<close>

lemma bit_bswap32: "bit (bswap32 w) n \<longleftrightarrow> n < 32 \<and> bit w (8 * (3 - n div 8) + n mod 8)"
proof (cases "n < 32")
  case True
  then have d: "n div 8 < 4" by (simp add: less_mult_imp_div_less)
  moreover have "[0..<4] ! (3 - n div 8) = 3 - n div 8" by (subst nth_upt) simp_all
  ultimately have "rev (le_bytes 4 w) ! (n div 8) = ucast (drop_bit (8 * (3 - n div 8)) w)"
    by (simp add: rev_nth le_bytes_def del: upt_rec_numeral)
  then show ?thesis
    using True d by (simp add: bswap32_def bit_le_word bit_ucast_iff bit_drop_bit_eq)
next
  case False
  then show ?thesis by (simp add: bswap32_def bit_le_word)
qed

lemma bswap32_involution [simp]: "bswap32 (bswap32 w) = w"
proof (rule bit_word_eqI)
  fix n
  assume "n < LENGTH(32)"
  then have n: "n < 32" by simp
  then have d: "n div 8 < 4" by (simp add: less_mult_imp_div_less)
  let ?m = "8 * (3 - n div 8) + n mod 8"
  have m: "?m < 32" "?m div 8 = 3 - n div 8" "?m mod 8 = n mod 8"
    using d by (simp, simp, simp only: mod_mult_self4 mod_mod_trivial)
  show "bit (bswap32 (bswap32 w)) n \<longleftrightarrow> bit w n"
    using n m d by (simp add: bit_bswap32)
qed

lemma bswap32_inject [simp]: "bswap32 a = bswap32 b \<longleftrightarrow> a = b"
  by (metis bswap32_involution)

lemma bswap32_and: "bswap32 (a AND b) = bswap32 a AND bswap32 b"
  by (rule bit_word_eqI) (auto simp: bit_bswap32 bit_and_iff)

lemma bit_mask_loop:
  assumes "i + n \<le> 32"
  shows "bit (mask_loop n i p m) j \<longleftrightarrow> bit m j \<or> (j < 32 \<and> i \<le> 31 - j \<and> 31 - j < i + n \<and> 31 - j < unat p)"
  using assms
proof (induction n arbitrary: i m)
  case (Suc n)
  have "bit (push_bit (31 - i) 1 :: u32) j \<longleftrightarrow> j < 32 \<and> 31 - j = i"
    using Suc.prems by (simp add: bit_exp_iff) arith
  then show ?case
    using Suc by (auto simp: bit_or_iff)
qed auto

lemma bit_prefix_mask:
  "bit (bswap32 (prefix_mask p)) j \<longleftrightarrow> j < 32 \<and> 31 - j < unat p"
proof (cases "p = 0")
  case True
  then show ?thesis by (simp add: prefix_mask_def bit_bswap32)
next
  case False
  then have "0 < p" by (simp add: word_gt_0)
  then show ?thesis by (auto simp: prefix_mask_def bit_mask_loop)
qed

text \<open>An address in a prefix: its leading bits, in host order, are those of the network.\<close>

definition in_prefix :: "u32 \<Rightarrow> u32 \<Rightarrow> nat \<Rightarrow> bool" where
  "in_prefix ip net n \<longleftrightarrow> drop_bit (32 - n) (bswap32 ip) = drop_bit (32 - n) (bswap32 net)"

lemma drop_bit_eq_iff:
  fixes v w :: u32
  shows "drop_bit c v = drop_bit c w \<longleftrightarrow> (\<forall>j. j < 32 \<and> c \<le> j \<longrightarrow> bit v j = bit w j)" (is "?l \<longleftrightarrow> ?r")
proof
  assume l: ?l
  have "bit v (c + i) = bit w (c + i)" for i
    using arg_cong [OF l, of "\<lambda>x. bit x i"] by (simp add: bit_drop_bit_eq)
  then show ?r by (metis le_Suc_ex)
next
  assume r: ?r
  show ?l
    by (rule bit_word_eqI) (use r bit_imp_le_length in \<open>force simp: bit_drop_bit_eq\<close>)
qed

lemma masked_eq_in_prefix:
  assumes "unat p \<le> 32"
  shows "ip AND prefix_mask p = net AND prefix_mask p \<longleftrightarrow> in_prefix ip net (unat p)"
proof -
  have upper: "bit (bswap32 (w AND prefix_mask p)) j \<longleftrightarrow> j < 32 \<and> 32 - unat p \<le> j \<and> bit (bswap32 w) j"
    for w :: u32 and j
    using assms by (auto simp: bswap32_and bit_and_iff bit_prefix_mask)
  have "ip AND prefix_mask p = net AND prefix_mask p \<longleftrightarrow>
      bswap32 (ip AND prefix_mask p) = bswap32 (net AND prefix_mask p)" by simp
  also have "\<dots> \<longleftrightarrow> (\<forall>j. j < 32 \<and> 32 - unat p \<le> j \<longrightarrow> bit (bswap32 ip) j = bit (bswap32 net) j)"
    unfolding bit_eq_iff upper by auto
  also have "\<dots> \<longleftrightarrow> in_prefix ip net (unat p)"
    unfolding in_prefix_def by (rule drop_bit_eq_iff [symmetric])
  finally show ?thesis .
qed

lemma ip_matches_cidr_prefix:
  assumes "unat p \<le> 32"
  shows "ip_matches_cidr ip net p \<longleftrightarrow> in_prefix ip net (unat p)"
proof -
  have 32: "32 \<le> p \<Longrightarrow> unat p = 32" using assms by (simp add: word_le_nat_alt)
  have "p \<noteq> 0 \<Longrightarrow> prefix_mask p = bswap32 (mask_loop 32 0 p 0)"
    by (simp add: prefix_mask_def word_gt_0)
  moreover have "in_prefix ip net 0" by (simp add: in_prefix_def bit_eq_iff bit_drop_bit_eq bit_bswap32)
  moreover have "in_prefix ip net 32 \<longleftrightarrow> ip = net" by (simp add: in_prefix_def)
  ultimately show ?thesis
    using masked_eq_in_prefix [OF assms, of ip net] 32
    by (cases "p = 0") (auto simp: ip_matches_cidr_def Let_def)
qed

section \<open>Verdicts\<close>

lemma u8_verdict_cases: "u8_verdict r = 1 \<or> u8_verdict r = - 13"
  by (simp add: u8_verdict_def)

lemma ip_prefix_loop_cases:
  "ip_prefix_loop rules role ip dir ps = 1 \<or> ip_prefix_loop rules role ip dir ps = 0 \<or>
   ip_prefix_loop rules role ip dir ps = - 13"
  by (induction ps) (auto simp: u8_verdict_def split: option.splits)

lemma check_ip_cases:
  "check_ip_access rules role ip dir = 1 \<or> check_ip_access rules role ip dir = 0 \<or>
   check_ip_access rules role ip dir = - 13"
  using ip_prefix_loop_cases by (auto simp: check_ip_access_def u8_verdict_def split: option.splits)

lemma check_domain_cases:
  "check_domain_access dns rules role ip = 1 \<or> check_domain_access dns rules role ip = 0 \<or>
   check_domain_access dns rules role ip = - 13"
  by (auto simp: check_domain_access_def u8_verdict_def split: option.splits)

lemma check_network_cases:
  "check_network_access k rules role sock address dir = 1 \<or>
   check_network_access k rules role sock address dir = 0 \<or>
   check_network_access k rules role sock address dir = - 13"
  by (auto simp: check_network_access_def Let_def u8_verdict_def split: option.splits)

interpretation ip_rules: verdict_source "\<lambda>(rules, role, ip, dir). check_ip_access rules role ip dir"
  by unfold_locales (use check_ip_cases in auto)

interpretation domain_rules: verdict_source "\<lambda>(dns, rules, role, ip). check_domain_access dns rules role ip"
  by unfold_locales (use check_domain_cases in auto)

interpretation port_rules: verdict_source
  "\<lambda>(k, rules, role, sock, address, dir). check_network_access k rules role sock address dir"
  by unfold_locales (simp add: check_network_cases split: prod.split)

section \<open>Longest prefix first\<close>

definition supported_prefixes :: "u8 list" where
  "supported_prefixes = [32, 24, 16, 12, 8, 0]"

text \<open>A stored rule applies to an address when it is stored under its network address and covers it.\<close>

definition ip_rule_applies ::
  "(ip_rule_key \<rightharpoonup> u8) \<Rightarrow> u32 \<Rightarrow> u8 \<Rightarrow> u32 \<Rightarrow> u32 \<Rightarrow> u8 \<Rightarrow> u8 \<Rightarrow> bool" where
  "ip_rule_applies rules role_id direction ip net p v \<longleftrightarrow>
     rules \<lparr>irk_role_id = role_id, irk_ip_addr = net, irk_prefix_len = p, irk_direction = direction\<rparr> = Some v \<and>
     net AND prefix_mask p = net \<and> in_prefix ip net (unat p)"

lemma prefix_mask_32: "prefix_mask 32 = - 1"
  by code_simp

lemma check_ip_loop:
  "check_ip_access rules role_id ip direction = ip_prefix_loop rules role_id ip direction supported_prefixes"
  by (simp add: check_ip_access_def supported_prefixes_def prefix_mask_32)

lemma ip_lookup_applies:
  assumes "unat p \<le> 32"
  shows "rules \<lparr>irk_role_id = role_id, irk_ip_addr = ip AND prefix_mask p, irk_prefix_len = p,
      irk_direction = direction\<rparr> = Some v \<longleftrightarrow>
    (\<exists>net. ip_rule_applies rules role_id direction ip net p v)"
proof
  assume "rules \<lparr>irk_role_id = role_id, irk_ip_addr = ip AND prefix_mask p, irk_prefix_len = p,
      irk_direction = direction\<rparr> = Some v"
  moreover have "ip AND prefix_mask p AND prefix_mask p = ip AND prefix_mask p" by (simp add: and.assoc)
  ultimately show "\<exists>net. ip_rule_applies rules role_id direction ip net p v"
    using masked_eq_in_prefix [OF assms, of ip "ip AND prefix_mask p"]
    by (auto simp: ip_rule_applies_def)
next
  assume "\<exists>net. ip_rule_applies rules role_id direction ip net p v"
  then show "rules \<lparr>irk_role_id = role_id, irk_ip_addr = ip AND prefix_mask p, irk_prefix_len = p,
      irk_direction = direction\<rparr> = Some v"
    using masked_eq_in_prefix [OF assms, of ip] unfolding ip_rule_applies_def by metis
qed

lemma ip_prefix_loop_longest:
  assumes "sorted_wrt (\<lambda>p q. unat q < unat p) ps" and "\<forall>p \<in> set ps. unat p \<le> 32"
    and "p \<in> set ps" and "ip_rule_applies rules role_id direction ip net p v"
    and "\<And>q net' v'. q \<in> set ps \<Longrightarrow> unat p < unat q \<Longrightarrow>
      \<not> ip_rule_applies rules role_id direction ip net' q v'"
  shows "ip_prefix_loop rules role_id ip direction ps = u8_verdict v"
  using assms
proof (induction ps)
  case (Cons q ps)
  have hit: "rules \<lparr>irk_role_id = role_id, irk_ip_addr = ip AND prefix_mask p, irk_prefix_len = p,
      irk_direction = direction\<rparr> = Some v"
    using Cons.prems(2-4) ip_lookup_applies [of p] by blast
  show ?case
  proof (cases "p = q")
    case True
    with hit show ?thesis by simp
  next
    case False
    then have p: "p \<in> set ps" using Cons.prems(3) by simp
    then have "unat p < unat q" using Cons.prems(1) by simp
    then have "rules \<lparr>irk_role_id = role_id, irk_ip_addr = ip AND prefix_mask q, irk_prefix_len = q,
        irk_direction = direction\<rparr> = None"
      using Cons.prems(2) Cons.prems(5) [of q] ip_lookup_applies [of q rules role_id ip direction]
      by (metis list.set_intros(1) not_None_eq)
    moreover have "ip_prefix_loop rules role_id ip direction ps = u8_verdict v"
      using Cons.IH [OF _ _ p Cons.prems(4)] Cons.prems(1,2,5) by simp
    ultimately show ?thesis by simp
  qed
qed simp

lemma ip_prefix_loop_none:
  assumes "\<And>p net v. p \<in> set ps \<Longrightarrow> \<not> ip_rule_applies rules role_id direction ip net p v"
    and "\<forall>p \<in> set ps. unat p \<le> 32"
  shows "ip_prefix_loop rules role_id ip direction ps = 0"
  using assms
proof (induction ps)
  case (Cons p ps)
  have "rules \<lparr>irk_role_id = role_id, irk_ip_addr = ip AND prefix_mask p, irk_prefix_len = p,
      irk_direction = direction\<rparr> = None"
    using Cons.prems ip_lookup_applies [of p rules role_id ip direction]
    by (metis list.set_intros(1) not_None_eq)
  with Cons show ?case by simp
qed simp

lemma supported_prefixes_facts:
  "sorted_wrt (\<lambda>p q. unat q < unat p) supported_prefixes" "\<forall>p \<in> set supported_prefixes. unat p \<le> 32"
  by (simp_all add: supported_prefixes_def)

section \<open>The hooks against their specification\<close>

text \<open>The first of a list of checks that has an opinion.\<close>

definition first_verdict :: "int list \<Rightarrow> int" where
  "first_verdict vs = (case filter (\<lambda>v. v \<noteq> 0) vs of [] \<Rightarrow> 0 | v # _ \<Rightarrow> v)"

lemma first_verdict_simps [simp]:
  "first_verdict [] = 0" "first_verdict (v # vs) = (if v = 0 then first_verdict vs else v)"
  by (simp_all add: first_verdict_def)

definition proxy_ok :: "(u32 \<rightharpoonup> proxy_config) \<Rightarrow> u32 \<Rightarrow> u32 \<Rightarrow> u16 \<Rightarrow> bool" where
  "proxy_ok configs role_id ip port \<longleftrightarrow>
     (case configs role_id of
        None \<Rightarrow> True
      | Some c \<Rightarrow> pc_require_proxy c = 0 \<or> (ip = pc_proxy_ip c \<and> port = pc_proxy_port c) \<or>
          in_prefix ip (bswap32 0x7F000000) 8)"

definition bind_monitor :: "kenv \<Rightarrow> u64 \<Rightarrow> u64 \<Rightarrow> bpf_state \<Rightarrow> process_info \<Rightarrow> bool" where
  "bind_monitor k sock address s info =
     (case role_flags s (pi_role_id info) of
        None \<Rightarrow> False
      | Some flags \<Rightarrow>
          allowed (check_network_access k (network_rules s) (pi_role_id info) sock address 0)
            (flags AND 0x02 \<noteq> 0))"

text \<open>
  Connecting: an IPv4 destination has to satisfy the proxy requirement, and the first of the
  domain, address and port rules that has an opinion decides, before the role flag.
\<close>

definition connect_monitor :: "kenv \<Rightarrow> u64 \<Rightarrow> u64 \<Rightarrow> bpf_state \<Rightarrow> process_info \<Rightarrow> bool" where
  "connect_monitor k sock address s info =
     (case role_flags s (pi_role_id info) of
        None \<Rightarrow> False
      | Some flags \<Rightarrow>
          let role = pi_role_id info;
              (ip, port) = connect_dest k address;
              ports = check_network_access k (network_rules s) role sock address 1 in
          if ip = 0 then allowed ports (flags AND 0x02 \<noteq> 0)
          else proxy_ok (proxy_configs s) role ip port \<and>
            allowed (first_verdict [check_domain_access (dns_cache s) (domain_rules s) role ip,
                                    check_ip_access (ip_rules s) role ip 1, ports])
              (flags AND 0x02 \<noteq> 0))"

lemma localhost_mask: "ip AND 0x000000FF = 0x0000007F \<longleftrightarrow> in_prefix ip (bswap32 0x7F000000) 8"
proof -
  have "prefix_mask 8 = 0xFF" "bswap32 0x7F000000 = 0x7F" by code_simp+
  then show ?thesis using masked_eq_in_prefix [of 8 ip "0x7F"] by simp
qed

lemma check_proxy_ok: "check_proxy_requirement configs role ip port = (if proxy_ok configs role ip port then 0 else - 13)"
  by (auto simp: check_proxy_requirement_def proxy_ok_def localhost_mask split: option.splits)

lemma net_deny_simps [simp]:
  "fst (net_deny k pid info ht c s) = - 13"
  "task_storage (snd (net_deny k pid info ht c s)) = task_storage s"
  "same_policy s (snd (net_deny k pid info ht c s))"
  "answers k info ht s (net_deny k (current_pid k) info ht c s)"
  by (simp_all add: net_deny_def)

lemma socket_bind_fst:
  assumes "task_storage s (k_task k) = Some info" and "pi_pod_id info \<noteq> 0"
  shows "fst (socket_bind k sock address s) = (if bind_monitor k sock address s info then 0 else - 13)"
  using assms check_network_cases [of k "network_rules s" "pi_role_id info" sock address 0]
  by (auto simp: socket_bind_def bind_monitor_def Let_def allowed_def split: option.splits)

lemma connect_decide_fst:
  "fst (connect_decide k pid info flags sock address s) =
   (let role = pi_role_id info;
        (ip, port) = connect_dest k address;
        ports = check_network_access k (network_rules s) role sock address 1 in
    if if ip = 0 then allowed ports (flags AND 0x02 \<noteq> 0)
       else proxy_ok (proxy_configs s) role ip port \<and>
         allowed (first_verdict [check_domain_access (dns_cache s) (domain_rules s) role ip,
                                 check_ip_access (ip_rules s) role ip 1, ports])
           (flags AND 0x02 \<noteq> 0)
    then 0 else - 13)"
proof -
  obtain ip port where d: "connect_dest k address = (ip, port)" by fastforce
  let ?role = "pi_role_id info"
  show ?thesis
    using check_network_cases [of k "network_rules s" ?role sock address 1]
      check_ip_cases [of "ip_rules s" ?role ip 1]
      check_domain_cases [of "dns_cache s" "domain_rules s" ?role ip]
    by (auto simp: connect_decide_def d check_proxy_ok Let_def allowed_def)
qed

lemma socket_connect_fst:
  assumes "task_storage s (k_task k) = Some info" and "pi_pod_id info \<noteq> 0"
  shows "fst (socket_connect k sock address s) = (if connect_monitor k sock address s info then 0 else - 13)"
proof (cases "role_flags s (pi_role_id info)")
  case (Some flags)
  then show ?thesis
    using assms by (simp add: socket_connect_def connect_monitor_def connect_decide_fst Let_def split_beta)
qed (use assms in \<open>simp add: socket_connect_def connect_monitor_def\<close>)

lemma connect_decide_frame:
  "task_storage (snd (connect_decide k pid info flags sock address s)) = task_storage s \<and>
   same_policy s (snd (connect_decide k pid info flags sock address s)) \<and>
   answers k info AUDIT_HOOK_SOCKET_CONNECT s (connect_decide k (current_pid k) info flags sock address s)"
  by (simp add: connect_decide_def Let_def split_beta)

interpretation socket_bind: lsm_hook "\<lambda>k (sock, address). socket_bind k sock address" "\<lambda>k _. k_task k"
  "\<lambda>_ _ _. False" "\<lambda>_ _ _. False"
proof (rule guard_hookI)
  fix k a s info
  show "\<not> enrolled s (k_task k) \<Longrightarrow> (case a of (sock, address) \<Rightarrow> socket_bind k sock address) s = (0, s)"
    by (auto simp: socket_bind_def Let_def split_beta dest!: not_enrolledD)
  assume "task_storage s (k_task k) = Some info" "pi_pod_id info \<noteq> 0"
  then show "same_policy s (snd ((case a of (sock, address) \<Rightarrow> socket_bind k sock address) s)) \<and>
      task_storage (snd ((case a of (sock, address) \<Rightarrow> socket_bind k sock address) s)) = task_storage s \<and>
      (\<exists>ht. answers k info ht s ((case a of (sock, address) \<Rightarrow> socket_bind k sock address) s))"
    by (auto simp: socket_bind_def Let_def split_beta split: option.splits
        intro!: exI [of _ AUDIT_HOOK_SOCKET_BIND])
qed

interpretation socket_connect: lsm_hook "\<lambda>k (sock, address). socket_connect k sock address"
  "\<lambda>k _. k_task k" "\<lambda>_ _ _. False" "\<lambda>_ _ _. False"
proof (rule guard_hookI)
  fix k a s info
  show "\<not> enrolled s (k_task k) \<Longrightarrow> (case a of (sock, address) \<Rightarrow> socket_connect k sock address) s = (0, s)"
    by (auto simp: socket_connect_def Let_def split_beta dest!: not_enrolledD)
  assume "task_storage s (k_task k) = Some info" "pi_pod_id info \<noteq> 0"
  then show "same_policy s (snd ((case a of (sock, address) \<Rightarrow> socket_connect k sock address) s)) \<and>
      task_storage (snd ((case a of (sock, address) \<Rightarrow> socket_connect k sock address) s)) = task_storage s \<and>
      (\<exists>ht. answers k info ht s ((case a of (sock, address) \<Rightarrow> socket_connect k sock address) s))"
    by (auto simp: socket_connect_def Let_def split_beta connect_decide_frame split: option.splits
        intro!: exI [of _ AUDIT_HOOK_SOCKET_CONNECT])
qed

interpretation socket_sendmsg: lsm_hook "\<lambda>k (sock, msg). socket_sendmsg k sock msg"
  "\<lambda>k _. k_task k" "\<lambda>_ _ _. False" "\<lambda>_ _ _. False"
  by unfold_locales (auto simp: socket_sendmsg_def)

section \<open>Properties\<close>

lemma sample_net [simp]:
  "sock_type sample_env 0x90000 = 1" "sa_family sample_env 0x91000 = 2" "sin_port sample_env 0x91000 = 0x5000"
  "sin_addr sample_env 0x91000 = 0x08080808" "sa_family sample_env 0x92000 = 10"
  "sin6_port sample_env 0x92000 = 0x5000"
  by (simp_all add: sock_type_def sa_family_def sin_port_def sin_addr_def sin6_port_def sample_read
      sample_fields_defs)

lemma sample_net_state [simp]:
  "network_rules sample_state =
     [\<lparr>nrk_role_id = 3, nrk_port = 80, nrk_protocol = PROTO_TCP, nrk_direction = 0\<rparr> \<mapsto> 0]"
  "ip_rules sample_state =
     [\<lparr>irk_role_id = 3, irk_ip_addr = 0x00000808, irk_prefix_len = 16, irk_direction = 1\<rparr> \<mapsto> 0]"
  "proxy_configs sample_state = [4 \<mapsto> \<lparr>pc_proxy_ip = 0x0100000a, pc_proxy_port = 3128, pc_require_proxy = 1\<rparr>]"
  "domain_rules sample_state = Map.empty" "dns_cache sample_state = Map.empty"
  by (simp_all add: sample_state_def)

lemma ntohs_80: "bpf_ntohs 0x5000 = 80"
  by code_simp

text \<open>
  A port read from a socket address comes out in host order: the first byte in memory is the
  most significant one.
\<close>

theorem ntohs_big_endian:
  "unat (bpf_ntohs (le_word [hi, lo])) = 256 * unat hi + unat lo"
proof -
  have "bpf_ntohs (le_word [hi, lo]) = push_bit 8 (ucast hi) OR ucast lo"
  proof (rule bit_word_eqI)
    fix n
    assume "n < LENGTH(16)"
    moreover have "\<not> bit hi n" "\<not> bit lo n" if "8 \<le> n" for n
      using that bit_imp_le_length [of hi n] bit_imp_le_length [of lo n] by auto
    ultimately show "bit (bpf_ntohs (le_word [hi, lo])) n \<longleftrightarrow> bit (push_bit 8 (ucast hi) OR ucast lo :: u16) n"
      by (auto simp: bpf_ntohs_def bit_or_iff bit_push_bit_iff bit_drop_bit_eq bit_ucast_iff)
  qed
  moreover have "push_bit 8 (ucast hi) OR ucast lo = (push_bit 8 (ucast hi) + ucast lo :: u16)"
  proof (rule disjunctive_add [symmetric])
    show "\<not> bit (push_bit 8 (ucast hi) :: u16) n \<or> \<not> bit (ucast lo :: u16) n" for n
      using bit_imp_le_length [of lo n] by (auto simp: bit_push_bit_iff bit_ucast_iff)
  qed
  moreover have "unat (push_bit 8 (ucast hi) :: u16) = 256 * unat hi"
  proof -
    have "unat hi < 2 ^ 8" using unsigned_less [of hi] by simp
    then show ?thesis
      by (simp add: push_bit_eq_mult unat_word_ariths unsigned_ucast_eq take_bit_nat_eq_self)
  qed
  moreover have "unat (ucast lo :: u16) = unat lo" by (simp add: unat_ucast_up)
  moreover have "256 * unat hi + unat lo < 2 ^ 16"
  proof -
    have "unat hi < 256" "unat lo < 256" using unsigned_less [of hi] unsigned_less [of lo] by simp_all
    then show ?thesis by simp
  qed
  ultimately show ?thesis by (simp add: unat_word_ariths)
qed

text \<open>
  \<open>ip_matches_cidr\<close> holds exactly when the leading \<open>prefix_len\<close> bits of the two addresses, read
  in host order, agree, for every prefix length from 0 to 32.
\<close>

theorem cidr_match_correct:
  assumes "unat prefix_len \<le> 32"
  shows "ip_matches_cidr ip net prefix_len \<longleftrightarrow>
    drop_bit (32 - unat prefix_len) (bswap32 ip) = drop_bit (32 - unat prefix_len) (bswap32 net)"
  using ip_matches_cidr_prefix [OF assms] by (simp add: in_prefix_def)

theorem cidr_match_correct_witness:
  "ip_matches_cidr (bswap32 0x0A010203) (bswap32 0x0A000000) 8"
  using cidr_match_correct [of 8 "bswap32 0x0A010203" "bswap32 0x0A000000"] by simp

text \<open>
  C32: Address rules are longest prefix first: where a rule of a supported prefix length, stored
  under its network address, covers the destination and no supported longer one does, its verdict
  is the answer.
\<close>

theorem ip_rule_longest_prefix:
  assumes "p \<in> set supported_prefixes" and "ip_rule_applies rules role_id direction ip net p v"
    and "\<And>q net' v'. q \<in> set supported_prefixes \<Longrightarrow> unat p < unat q \<Longrightarrow>
      \<not> ip_rule_applies rules role_id direction ip net' q v'"
  shows "check_ip_access rules role_id ip direction = u8_verdict v"
  unfolding check_ip_loop by (rule ip_prefix_loop_longest [OF supported_prefixes_facts assms])

lemma sample_ip_applies:
  "ip_rule_applies (ip_rules sample_state) 3 1 0x08080808 net q v \<longleftrightarrow> net = 0x0808 \<and> q = 16 \<and> v = 0"
proof -
  have "prefix_mask 16 = 0xFFFF" by code_simp
  moreover have "in_prefix 0x08080808 0x0808 16" by code_simp
  ultimately show ?thesis by (auto simp: ip_rule_applies_def split: if_splits)
qed

theorem ip_rule_longest_prefix_witness:
  "check_ip_access (ip_rules sample_state) 3 0x08080808 1 = - 13"
proof -
  have "check_ip_access (ip_rules sample_state) 3 0x08080808 1 = u8_verdict 0"
    by (rule ip_rule_longest_prefix [of 16 _ _ _ _ "0x0808"], unfold sample_ip_applies)
      (auto simp: supported_prefixes_def)
  then show ?thesis by (simp add: u8_verdict_def)
qed

text \<open>
  A rule of any other prefix length is never consulted: with no covering rule of a supported
  length the address rules have no opinion, whatever else the table holds.
\<close>

theorem ip_rule_unsupported_ignored:
  assumes "\<And>p net v. p \<in> set supported_prefixes \<Longrightarrow>
      \<not> ip_rule_applies rules role_id direction ip net p v"
  shows "check_ip_access rules role_id ip direction = 0"
  unfolding check_ip_loop by (rule ip_prefix_loop_none [OF assms supported_prefixes_facts(2)])

theorem ip_rule_unsupported_ignored_witness:
  "check_ip_access [\<lparr>irk_role_id = 3, irk_ip_addr = 0x00100a0a, irk_prefix_len = 20, irk_direction = 1\<rparr> \<mapsto> 0]
     3 0x05100a0a 1 = 0"
  by (rule ip_rule_unsupported_ignored) (auto simp: supported_prefixes_def ip_rule_applies_def split: if_splits)

text \<open>
  C16: \<open>socket_connect\<close> answers an enrolled task as its specification does: an unknown role is
  refused, an IPv4 destination must satisfy the proxy requirement, and the first of the domain,
  address and port rules with an opinion decides before the role flag.
\<close>

theorem socket_connect_refines_monitor:
  assumes "task_storage s (k_task k) = Some info" and "pi_pod_id info \<noteq> 0"
  shows "fst (socket_connect k sock address s) = (if connect_monitor k sock address s info then 0 else - 13)"
  by (rule socket_connect_fst [OF assms])

theorem socket_connect_refines_monitor_witness:
  "fst (socket_connect sample_env 0x90000 0x91000 sample_state) = - 13"
proof -
  have "prefix_mask 24 = 0xFFFFFF" "prefix_mask 16 = 0xFFFF" by code_simp+
  then have "check_ip_access (ip_rules sample_state) 3 0x08080808 1 = - 13"
    by (simp add: check_ip_access_def u8_verdict_def)
  then have "\<not> connect_monitor sample_env 0x90000 0x91000 sample_state sample_info"
    by (simp add: connect_monitor_def connect_dest_def AF_INET_def check_domain_access_def allowed_def)
  then show ?thesis
    using socket_connect_refines_monitor [of sample_state sample_env sample_info "0x90000" "0x91000"] by simp
qed

text \<open>
  \<open>socket_bind\<close> answers an enrolled task as its specification does: the port rule for the exact
  port, else the one for all ports, else the role flag.
\<close>

theorem socket_bind_refines_monitor:
  assumes "task_storage s (k_task k) = Some info" and "pi_pod_id info \<noteq> 0"
  shows "fst (socket_bind k sock address s) = (if bind_monitor k sock address s info then 0 else - 13)"
  by (rule socket_bind_fst [OF assms])

theorem socket_bind_refines_monitor_witness:
  "fst (socket_bind sample_env 0x90000 0x91000 sample_state) = - 13"
proof -
  have "\<not> bind_monitor sample_env 0x90000 0x91000 sample_state sample_info"
    by (simp add: bind_monitor_def check_network_access_def SOCK_STREAM_def AF_INET_def ntohs_80
        u8_verdict_def allowed_def)
  then show ?thesis
    using socket_bind_refines_monitor [of sample_state sample_env sample_info "0x90000" "0x91000"] by simp
qed

text \<open>
  C33: Under a role that requires a proxy, an IPv4 connection to a non-zero address that is let
  through goes to the proxy or into \<open>127.0.0.0/8\<close>, whatever the other rules say.
\<close>

theorem proxy_enforced_ipv4:
  assumes "task_storage s (k_task k) = Some info" and "pi_pod_id info \<noteq> 0"
    and "proxy_configs s (pi_role_id info) = Some config" and "pc_require_proxy config \<noteq> 0"
    and "sa_family k address = AF_INET" and "sin_addr k address \<noteq> 0"
    and "fst (socket_connect k sock address s) = 0"
  shows "(sin_addr k address = pc_proxy_ip config \<and> bpf_ntohs (sin_port k address) = pc_proxy_port config) \<or>
    in_prefix (sin_addr k address) (bswap32 0x7F000000) 8"
proof -
  have "connect_monitor k sock address s info"
    using assms(7) unfolding socket_connect_fst [OF assms(1,2)] by (simp split: if_splits)
  then have "proxy_ok (proxy_configs s) (pi_role_id info) (sin_addr k address) (bpf_ntohs (sin_port k address))"
    using assms(5,6) by (simp add: connect_monitor_def connect_dest_def Let_def split: option.splits)
  then show ?thesis using assms(3,4) by (simp add: proxy_ok_def)
qed

definition sample_proxied :: bpf_state where
  "sample_proxied = sample_state\<lparr>ip_rules := Map.empty,
     proxy_configs := [3 \<mapsto> \<lparr>pc_proxy_ip = 0x08080808, pc_proxy_port = 80, pc_require_proxy = 1\<rparr>]\<rparr>"

lemma sample_proxied_connect: "fst (socket_connect sample_env 0x90000 0x91000 sample_proxied) = 0"
proof -
  have "connect_monitor sample_env 0x90000 0x91000 sample_proxied sample_info"
    by (simp add: connect_monitor_def connect_dest_def AF_INET_def check_domain_access_def allowed_def
        sample_proxied_def proxy_ok_def ntohs_80 check_ip_access_def check_network_access_def
        SOCK_STREAM_def)
  then show ?thesis
    using socket_connect_fst [of sample_proxied sample_env sample_info "0x90000" "0x91000"]
    by (simp add: sample_proxied_def)
qed

theorem proxy_enforced_ipv4_witness:
  "(sin_addr sample_env 0x91000 = 0x08080808 \<and> bpf_ntohs (sin_port sample_env 0x91000) = 80) \<or>
   in_prefix (sin_addr sample_env 0x91000) (bswap32 0x7F000000) 8"
  using proxy_enforced_ipv4 [OF _ _ _ _ _ _ sample_proxied_connect, of sample_info
      "\<lparr>pc_proxy_ip = 0x08080808, pc_proxy_port = 80, pc_require_proxy = 1\<rparr>"]
  by (simp add: AF_INET_def) (simp add: sample_proxied_def)

text \<open>
  C40: An IPv6 connection is decided by the port rules and the role flag alone: the proxy
  requirement, the domain rules and the address rules have no say in it.
\<close>

theorem ipv6_skips_egress_rules:
  assumes "sa_family k address = AF_INET6"
  shows "fst (socket_connect k sock address
      (s\<lparr>ip_rules := ips, proxy_configs := proxies, domain_rules := domains, dns_cache := dns\<rparr>)) =
    fst (socket_connect k sock address s)"
proof -
  have dest: "connect_dest k address = (0, bpf_ntohs (sin6_port k address))"
    using assms by (simp add: connect_dest_def AF_INET6_def AF_INET_def)
  show ?thesis
    by (simp add: socket_connect_def connect_decide_def dest Let_def split: option.splits)
qed

theorem ipv6_skips_egress_rules_witness:
  "fst (socket_connect sample_env 0x90000 0x92000
     (sample_state\<lparr>ip_rules := Map.empty,
        proxy_configs := [3 \<mapsto> \<lparr>pc_proxy_ip = 0x0100000a, pc_proxy_port = 3128, pc_require_proxy = 1\<rparr>],
        domain_rules := Map.empty, dns_cache := Map.empty\<rparr>)) =
   fst (socket_connect sample_env 0x90000 0x92000 sample_state)"
  by (rule ipv6_skips_egress_rules) (simp add: AF_INET6_def)

end
