(* ===== verification/Map_Keys.thy ===== *)
theory Map_Keys
  imports Network
begin

text \<open>
  The bytes of map keys. A BPF hash map compares keys byte by byte, padding included, while the
  programs compute with records. The C side fills a stack object member by member; the Rust side
  (\<open>bpfjailer-common/src/codec.rs\<close>) fills a byte array. The locale \<open>byte_key\<close> is what makes
  record-keyed maps a faithful view of byte-keyed ones; every key type interprets it.
\<close>

section \<open>Objects in memory\<close>

definition put_bytes :: "nat \<Rightarrow> u8 list \<Rightarrow> u8 list \<Rightarrow> u8 list" where
  "put_bytes off bs buf = take off buf @ bs @ drop (off + length bs) buf"

text \<open>Storing a member of an object of C type \<open>t\<close>.\<close>

definition store_member :: "ctype \<Rightarrow> string \<Rightarrow> u8 list \<Rightarrow> u8 list \<Rightarrow> u8 list" where
  "store_member t x bs buf =
     (case offset_of t [x] of Some (off, _) \<Rightarrow> put_bytes off bs buf | None \<Rightarrow> buf)"

text \<open>\<open>__builtin_memset(&key, 0, sizeof(key))\<close>.\<close>

definition zeroed :: "ctype \<Rightarrow> u8 list" where
  "zeroed t = replicate (csize t) 0"

section \<open>The C side: stores into an object with given previous contents\<close>

definition store_path_state_key :: "path_state_key \<Rightarrow> u8 list \<Rightarrow> u8 list" where
  "store_path_state_key key buf =
     (let t = struct_path_state_key in
      store_member t ''component_hash'' (le_bytes 8 (psk_component_hash key))
        (store_member t ''state'' (le_bytes 8 (psk_state key))
          (store_member t ''role_id'' (le_bytes 4 (psk_role_id key)) buf)))"

definition store_path_cache_key :: "path_cache_key \<Rightarrow> u8 list \<Rightarrow> u8 list" where
  "store_path_cache_key key buf =
     (let t = struct_path_cache_key in
      store_member t ''root_mnt'' (le_bytes 8 (pck_root_mnt key))
       (store_member t ''root_dentry'' (le_bytes 8 (pck_root_dentry key))
        (store_member t ''inode'' (le_bytes 8 (pck_inode key))
         (store_member t ''mnt'' (le_bytes 8 (pck_mnt key))
          (store_member t ''dentry'' (le_bytes 8 (pck_dentry key))
           (store_member t ''role_id'' (le_bytes 4 (pck_role_id key)) buf))))))"

definition store_domain_rule_key :: "domain_rule_key \<Rightarrow> u8 list \<Rightarrow> u8 list" where
  "store_domain_rule_key key buf =
     (let t = struct_domain_rule_key in
      store_member t ''domain_hash'' (le_bytes 8 (drk_domain_hash key))
        (store_member t ''role_id'' (le_bytes 4 (drk_role_id key)) buf))"

definition store_net_rule_key :: "net_rule_key \<Rightarrow> u8 list \<Rightarrow> u8 list" where
  "store_net_rule_key key buf =
     (let t = struct_net_rule_key in
      store_member t ''direction'' (le_bytes 1 (nrk_direction key))
       (store_member t ''protocol'' (le_bytes 1 (nrk_protocol key))
        (store_member t ''port'' (le_bytes 2 (nrk_port key))
         (store_member t ''role_id'' (le_bytes 4 (nrk_role_id key)) buf))))"

text \<open>The initialiser leaves \<open>_pad\<close> out, so C sets it to zero.\<close>

definition store_ip_rule_key :: "ip_rule_key \<Rightarrow> u8 list \<Rightarrow> u8 list" where
  "store_ip_rule_key key buf =
     (let t = struct_ip_rule_key in
      store_member t ''_pad'' [0, 0]
       (store_member t ''direction'' (le_bytes 1 (irk_direction key))
        (store_member t ''prefix_len'' (le_bytes 1 (irk_prefix_len key))
         (store_member t ''ip_addr'' (le_bytes 4 (irk_ip_addr key))
          (store_member t ''role_id'' (le_bytes 4 (irk_role_id key)) buf)))))"

definition store_dns_cache_key :: "dns_cache_key \<Rightarrow> u8 list \<Rightarrow> u8 list" where
  "store_dns_cache_key key buf =
     (let t = struct_dns_cache_key in
      store_member t ''ip_addr'' (le_bytes 4 (dck_ip_addr key))
       (store_member t ''role_id'' (le_bytes 4 (dck_role_id key)) buf))"

section \<open>The Rust side\<close>

text \<open>\<open>codec.rs\<close> on a little-endian host; \<open>put_bytes\<close> is \<open>copy_from_slice\<close> into a subrange.\<close>

definition rust_path_state_key :: "u32 \<Rightarrow> u64 \<Rightarrow> u64 \<Rightarrow> u8 list" where
  "rust_path_state_key role_id state component_hash =
     put_bytes 16 (le_bytes 8 component_hash)
       (put_bytes 8 (le_bytes 8 state) (put_bytes 0 (le_bytes 4 role_id) (replicate 24 0)))"

definition rust_net_rule_key :: "u32 \<Rightarrow> u16 \<Rightarrow> u8 \<Rightarrow> u8 \<Rightarrow> u8 list" where
  "rust_net_rule_key role_id port protocol direction =
     (put_bytes 4 (le_bytes 2 port) (put_bytes 0 (le_bytes 4 role_id) (replicate 8 0)))
       [6 := protocol, 7 := direction]"

definition rust_domain_rule_key :: "u32 \<Rightarrow> u8 list \<Rightarrow> u8 list" where
  "rust_domain_rule_key role_id domain =
     put_bytes 8 (le_bytes 8 (fnv1a_hash_u64 domain)) (put_bytes 0 (le_bytes 4 role_id) (replicate 16 0))"

text \<open>An \<open>Ipv4Addr\<close> is its four octets, most significant first.\<close>

definition octets_be :: "u32 \<Rightarrow> u8 list" where
  "octets_be host = rev (le_bytes 4 host)"

definition mask_ipv4 :: "u32 \<Rightarrow> u8 \<Rightarrow> u32" where
  "mask_ipv4 ip prefix_len =
     ip AND (if prefix_len = 0 then 0
             else if 32 \<le> prefix_len then - 1
             else push_bit (32 - unat prefix_len) (- 1))"

definition rust_ip_rule_key :: "u32 \<Rightarrow> u32 \<Rightarrow> u8 \<Rightarrow> u8 \<Rightarrow> u8 list" where
  "rust_ip_rule_key role_id ip prefix_len direction =
     (put_bytes 4 (octets_be (mask_ipv4 ip prefix_len)) (put_bytes 0 (le_bytes 4 role_id) (replicate 12 0)))
       [8 := prefix_len, 9 := direction]"

definition rust_dns_cache_key :: "u32 \<Rightarrow> u32 \<Rightarrow> u8 list" where
  "rust_dns_cache_key role_id ip =
     put_bytes 4 (octets_be ip) (put_bytes 0 (le_bytes 4 role_id) (replicate 8 0))"

section \<open>The interface\<close>

locale byte_key =
  fixes encode :: "'k \<Rightarrow> u8 list" and key_size :: nat
  assumes length_encode: "length (encode k) = key_size"
    and encode_inject: "encode k = encode k' \<Longrightarrow> k = k'"
begin

lemma encode_eq: "encode k = encode k' \<longleftrightarrow> k = k'"
  using encode_inject by blast

text \<open>A table of encoded keys answers the encoded key as the table of keys answers the key.\<close>

lemma lookup_encoded: "map_of (map (\<lambda>(k, v). (encode k, v)) kvs) (encode k) = map_of kvs k"
  by (induction kvs) (auto simp: encode_eq)

end

lemma store_offsets [layout]:
  "store_member struct_path_state_key ''role_id'' = put_bytes 0"
  "store_member struct_path_state_key ''state'' = put_bytes 8"
  "store_member struct_path_state_key ''component_hash'' = put_bytes 16"
  "store_member struct_path_cache_key ''role_id'' = put_bytes 0"
  "store_member struct_path_cache_key ''dentry'' = put_bytes 8"
  "store_member struct_path_cache_key ''mnt'' = put_bytes 16"
  "store_member struct_path_cache_key ''inode'' = put_bytes 24"
  "store_member struct_path_cache_key ''root_dentry'' = put_bytes 32"
  "store_member struct_path_cache_key ''root_mnt'' = put_bytes 40"
  "store_member struct_domain_rule_key ''role_id'' = put_bytes 0"
  "store_member struct_domain_rule_key ''domain_hash'' = put_bytes 8"
  "store_member struct_net_rule_key ''role_id'' = put_bytes 0"
  "store_member struct_net_rule_key ''port'' = put_bytes 4"
  "store_member struct_net_rule_key ''protocol'' = put_bytes 6"
  "store_member struct_net_rule_key ''direction'' = put_bytes 7"
  "store_member struct_ip_rule_key ''role_id'' = put_bytes 0"
  "store_member struct_ip_rule_key ''ip_addr'' = put_bytes 4"
  "store_member struct_ip_rule_key ''prefix_len'' = put_bytes 8"
  "store_member struct_ip_rule_key ''direction'' = put_bytes 9"
  "store_member struct_ip_rule_key ''_pad'' = put_bytes 10"
  "store_member struct_dns_cache_key ''role_id'' = put_bytes 0"
  "store_member struct_dns_cache_key ''ip_addr'' = put_bytes 4"
  by (simp_all add: store_member_def fun_eq_iff bpf_struct_defs layout)

lemma le_bytes_1: "le_bytes 1 (b :: u8) = [b]"
  by (simp add: le_bytes_def)

text \<open>What the stores leave, on any previous contents of the right size.\<close>

lemma store_path_state_key_eq:
  "length g = 24 \<Longrightarrow> store_path_state_key key g =
    le_bytes 4 (psk_role_id key) @ take 4 (drop 4 g) @ le_bytes 8 (psk_state key) @ le_bytes 8 (psk_component_hash key)"
  by (simp add: store_path_state_key_def Let_def store_offsets put_bytes_def take_drop)

lemma store_path_cache_key_eq:
  "length g = 48 \<Longrightarrow> store_path_cache_key key g =
    le_bytes 4 (pck_role_id key) @ take 4 (drop 4 g) @ le_bytes 8 (pck_dentry key) @ le_bytes 8 (pck_mnt key) @
    le_bytes 8 (pck_inode key) @ le_bytes 8 (pck_root_dentry key) @ le_bytes 8 (pck_root_mnt key)"
  by (simp add: store_path_cache_key_def Let_def store_offsets put_bytes_def take_drop)

lemma store_domain_rule_key_eq:
  "length g = 16 \<Longrightarrow> store_domain_rule_key key g =
    le_bytes 4 (drk_role_id key) @ take 4 (drop 4 g) @ le_bytes 8 (drk_domain_hash key)"
  by (simp add: store_domain_rule_key_def Let_def store_offsets put_bytes_def take_drop)

lemma store_net_rule_key_eq:
  "length g = 8 \<Longrightarrow> store_net_rule_key key g =
    le_bytes 4 (nrk_role_id key) @ le_bytes 2 (nrk_port key) @ [nrk_protocol key, nrk_direction key]"
  by (simp add: store_net_rule_key_def Let_def store_offsets put_bytes_def le_bytes_1 [simplified])

lemma store_ip_rule_key_eq:
  "length g = 12 \<Longrightarrow> store_ip_rule_key key g =
    le_bytes 4 (irk_role_id key) @ le_bytes 4 (irk_ip_addr key) @ [irk_prefix_len key, irk_direction key, 0, 0]"
  by (simp add: store_ip_rule_key_def Let_def store_offsets put_bytes_def le_bytes_1 [simplified])

lemma store_dns_cache_key_eq:
  "length g = 8 \<Longrightarrow> store_dns_cache_key key g = le_bytes 4 (dck_role_id key) @ le_bytes 4 (dck_ip_addr key)"
  by (simp add: store_dns_cache_key_def Let_def store_offsets put_bytes_def)

lemmas store_eqs =
  store_path_state_key_eq store_path_cache_key_eq store_domain_rule_key_eq store_net_rule_key_eq
  store_ip_rule_key_eq store_dns_cache_key_eq

section \<open>The key types\<close>

text \<open>The keys as the programs hand them to the maps: stores into a zeroed object.\<close>

definition path_state_key_bytes :: "path_state_key \<Rightarrow> u8 list" where
  "path_state_key_bytes key = store_path_state_key key (zeroed struct_path_state_key)"

definition path_cache_key_bytes :: "path_cache_key \<Rightarrow> u8 list" where
  "path_cache_key_bytes key = store_path_cache_key key (zeroed struct_path_cache_key)"

definition domain_rule_key_bytes :: "domain_rule_key \<Rightarrow> u8 list" where
  "domain_rule_key_bytes key = store_domain_rule_key key (zeroed struct_domain_rule_key)"

definition net_rule_key_bytes :: "net_rule_key \<Rightarrow> u8 list" where
  "net_rule_key_bytes key = store_net_rule_key key (zeroed struct_net_rule_key)"

definition ip_rule_key_bytes :: "ip_rule_key \<Rightarrow> u8 list" where
  "ip_rule_key_bytes key = store_ip_rule_key key (zeroed struct_ip_rule_key)"

definition dns_cache_key_bytes :: "dns_cache_key \<Rightarrow> u8 list" where
  "dns_cache_key_bytes key = store_dns_cache_key key (zeroed struct_dns_cache_key)"

lemma key_bytes:
  "path_state_key_bytes psk = le_bytes 4 (psk_role_id psk) @ replicate 4 0 @ le_bytes 8 (psk_state psk) @
     le_bytes 8 (psk_component_hash psk)"
  "path_cache_key_bytes pck = le_bytes 4 (pck_role_id pck) @ replicate 4 0 @ le_bytes 8 (pck_dentry pck) @
     le_bytes 8 (pck_mnt pck) @ le_bytes 8 (pck_inode pck) @ le_bytes 8 (pck_root_dentry pck) @
     le_bytes 8 (pck_root_mnt pck)"
  "domain_rule_key_bytes drk = le_bytes 4 (drk_role_id drk) @ replicate 4 0 @ le_bytes 8 (drk_domain_hash drk)"
  "net_rule_key_bytes nrk = le_bytes 4 (nrk_role_id nrk) @ le_bytes 2 (nrk_port nrk) @
     [nrk_protocol nrk, nrk_direction nrk]"
  "ip_rule_key_bytes irk = le_bytes 4 (irk_role_id irk) @ le_bytes 4 (irk_ip_addr irk) @
     [irk_prefix_len irk, irk_direction irk, 0, 0]"
  "dns_cache_key_bytes dck = le_bytes 4 (dck_role_id dck) @ le_bytes 4 (dck_ip_addr dck)"
  by (simp_all add: path_state_key_bytes_def path_cache_key_bytes_def domain_rule_key_bytes_def
      net_rule_key_bytes_def ip_rule_key_bytes_def dns_cache_key_bytes_def zeroed_def layout store_eqs)

interpretation path_state_keys: byte_key path_state_key_bytes 24
  by unfold_locales (simp_all add: key_bytes le_bytes_inject)

interpretation path_cache_keys: byte_key path_cache_key_bytes 48
  by unfold_locales (simp_all add: key_bytes le_bytes_inject)

interpretation domain_rule_keys: byte_key domain_rule_key_bytes 16
  by unfold_locales (simp_all add: key_bytes le_bytes_inject)

interpretation net_rule_keys: byte_key net_rule_key_bytes 8
  by unfold_locales (simp_all add: key_bytes le_bytes_inject)

interpretation ip_rule_keys: byte_key ip_rule_key_bytes 12
  by unfold_locales (simp_all add: key_bytes le_bytes_inject)

interpretation dns_cache_keys: byte_key dns_cache_key_bytes 8
  by unfold_locales (simp_all add: key_bytes le_bytes_inject)

section \<open>Both sides agree\<close>

lemma le_bytes_le_word:
  assumes "length bs = n" and "8 * n = LENGTH('a::len)"
  shows "le_bytes n (le_word bs :: 'a word) = bs"
proof (rule nth_equalityI)
  fix i
  assume "i < length (le_bytes n (le_word bs :: 'a word))"
  then have i: "i < n" by simp
  have "ucast (drop_bit (8 * i) (le_word bs :: 'a word)) = bs ! i"
  proof (rule bit_word_eqI)
    fix j
    assume "j < LENGTH(8)"
    then have "j < 8" by simp
    moreover have "8 * i + j < 8 * n" using i \<open>j < 8\<close> by linarith
    ultimately show "bit (ucast (drop_bit (8 * i) (le_word bs :: 'a word)) :: u8) j \<longleftrightarrow> bit (bs ! i) j"
      using i assms by (simp add: bit_ucast_iff bit_drop_bit_eq bit_le_word)
  qed
  then show "le_bytes n (le_word bs :: 'a word) ! i = bs ! i" using i by (simp add: le_bytes_def)
qed (use assms in simp)

lemma octets_bswap: "octets_be host = le_bytes 4 (bswap32 host)"
  unfolding octets_be_def bswap32_def by (rule le_bytes_le_word [symmetric]) simp_all

lemma mask_ipv4_bswap: "unat p \<le> 32 \<Longrightarrow> bswap32 (mask_ipv4 host p) = bswap32 host AND prefix_mask p"
proof -
  assume p: "unat p \<le> 32"
  have "(if p = 0 then 0 else if 32 \<le> p then - 1 else push_bit (32 - unat p) (- 1)) = bswap32 (prefix_mask p)"
    using p
    by (intro bit_word_eqI)
      (auto simp: bit_prefix_mask bit_push_bit_iff bit_not_iff bit_mask_iff word_le_nat_alt unat_gt_0)
  then show ?thesis by (simp add: mask_ipv4_def bswap32_and)
qed

lemma replicate_small: "replicate 2 x = [x, x]" "replicate 4 x = [x, x, x, x]"
  by (simp_all add: numeral_eq_Suc)

lemma rust_keys_agree:
  "rust_path_state_key role st h = path_state_key_bytes \<lparr>psk_role_id = role, psk_state = st, psk_component_hash = h\<rparr>"
  "rust_net_rule_key role port prot dir = net_rule_key_bytes
     \<lparr>nrk_role_id = role, nrk_port = port, nrk_protocol = prot, nrk_direction = dir\<rparr>"
  "rust_domain_rule_key role domain = domain_rule_key_bytes
     \<lparr>drk_role_id = role, drk_domain_hash = fnv1a_hash_u64 domain\<rparr>"
  "rust_dns_cache_key role host = dns_cache_key_bytes \<lparr>dck_role_id = role, dck_ip_addr = bswap32 host\<rparr>"
  "unat p \<le> 32 \<Longrightarrow> rust_ip_rule_key role host p dir = ip_rule_key_bytes
     \<lparr>irk_role_id = role, irk_ip_addr = bswap32 host AND prefix_mask p, irk_prefix_len = p, irk_direction = dir\<rparr>"
  by (simp_all add: rust_path_state_key_def rust_net_rule_key_def rust_domain_rule_key_def
      rust_dns_cache_key_def rust_ip_rule_key_def key_bytes put_bytes_def octets_bswap mask_ipv4_bswap
      list_update_append replicate_small)

section \<open>Properties\<close>

text \<open>
  Keys built by userspace are the bytes the BPF programs look up, for every key type both sides
  build: path and exec states, port rules, domain rules (with the same domain hash), resolved
  addresses and address rules (masked to the prefix and in network byte order).
\<close>

theorem rust_and_c_keys_agree:
  assumes "unat p \<le> 32"
  shows "rust_path_state_key role st h =
      path_state_key_bytes \<lparr>psk_role_id = role, psk_state = st, psk_component_hash = h\<rparr> \<and>
    rust_net_rule_key role port prot dir = net_rule_key_bytes
      \<lparr>nrk_role_id = role, nrk_port = port, nrk_protocol = prot, nrk_direction = dir\<rparr> \<and>
    rust_domain_rule_key role domain =
      domain_rule_key_bytes \<lparr>drk_role_id = role, drk_domain_hash = fnv1a_hash_u64 domain\<rparr> \<and>
    rust_dns_cache_key role host = dns_cache_key_bytes \<lparr>dck_role_id = role, dck_ip_addr = bswap32 host\<rparr> \<and>
    rust_ip_rule_key role host p dir = ip_rule_key_bytes
      \<lparr>irk_role_id = role, irk_ip_addr = bswap32 host AND prefix_mask p, irk_prefix_len = p, irk_direction = dir\<rparr>"
  using rust_keys_agree(5) [OF assms] by (simp add: rust_keys_agree(1-4))

theorem rust_and_c_keys_agree_witness:
  "rust_ip_rule_key 3 0x08080808 16 1 = ip_rule_key_bytes
     \<lparr>irk_role_id = 3, irk_ip_addr = bswap32 0x08080808 AND prefix_mask 16, irk_prefix_len = 16, irk_direction = 1\<rparr>"
  using rust_and_c_keys_agree [of 16 3 0 0 0 0 1 "[]" "0x08080808"] by simp

text \<open>
  A table whose keys userspace encoded answers every lookup of the BPF side exactly as the
  abstract rule table does: no two distinct keys share their bytes.
\<close>

theorem path_state_lookup_end_to_end:
  "map_of (map (\<lambda>((role, st, h), v). (rust_path_state_key role st h, v)) entries)
     (path_state_key_bytes \<lparr>psk_role_id = role', psk_state = st', psk_component_hash = h'\<rparr>) =
   map_of entries (role', st', h')"
  by (induction entries) (auto simp: rust_keys_agree(1) path_state_keys.encode_eq)

text \<open>
  The keys that are not zeroed before use do not need it: whatever the stack held, the stores
  of a port-rule, address-rule or resolved-address key determine every byte of it. The path-state,
  cache and domain-rule keys have four bytes of padding each, and there stale bytes would show.
\<close>

theorem padding_only_where_zeroed:
  "(\<forall>g key. length g = 8 \<longrightarrow> store_net_rule_key key g = net_rule_key_bytes key) \<and>
   (\<forall>g key. length g = 12 \<longrightarrow> store_ip_rule_key key g = ip_rule_key_bytes key) \<and>
   (\<forall>g key. length g = 8 \<longrightarrow> store_dns_cache_key key g = dns_cache_key_bytes key) \<and>
   (\<forall>key. store_path_state_key key (replicate 24 1) \<noteq> path_state_key_bytes key) \<and>
   (\<forall>key. store_path_cache_key key (replicate 48 1) \<noteq> path_cache_key_bytes key) \<and>
   (\<forall>key. store_domain_rule_key key (replicate 16 1) \<noteq> domain_rule_key_bytes key)"
  by (simp add: store_eqs key_bytes)

theorem padding_only_where_zeroed_witness:
  "store_net_rule_key \<lparr>nrk_role_id = 3, nrk_port = 80, nrk_protocol = 6, nrk_direction = 1\<rparr> [1, 2, 3, 4, 5, 6, 7, 8] =
   net_rule_key_bytes \<lparr>nrk_role_id = 3, nrk_port = 80, nrk_protocol = 6, nrk_direction = 1\<rparr>"
  using padding_only_where_zeroed by simp

end
