(* ===== verification/Policy_Codec.thy ===== *)
theory Policy_Codec
  imports Map_Keys
begin

text \<open>
  The compilation of a path pattern into rows of \<open>path_states\<close> and \<open>exec_states\<close>:
  \<open>pattern_components\<close> and \<open>path_state_entries\<close> of \<open>bpfjailer-common/src/codec.rs\<close>, and what the
  BPF-side walk decides with these rows. Strings are byte lists (UTF-8), as the hash sees them.
\<close>

section \<open>Patterns\<close>

definition star :: "u8 list" where "star = [42]"

text \<open>\<open>str::split\<close> on a one-byte separator.\<close>

fun split_on :: "u8 \<Rightarrow> u8 list \<Rightarrow> u8 list list" where
  "split_on sep [] = [[]]"
| "split_on sep (b # bs) =
     (if b = sep then [] # split_on sep bs
      else case split_on sep bs of [] \<Rightarrow> [[b]] | s # ss \<Rightarrow> (b # s) # ss)"

definition pattern_components :: "u8 list \<Rightarrow> u8 list list" where
  "pattern_components pattern = filter (\<lambda>s. s \<noteq> [] \<and> s \<noteq> [42, 42]) (split_on 47 pattern)"

fun join_slash :: "u8 list list \<Rightarrow> u8 list" where
  "join_slash [] = []"
| "join_slash [s] = s"
| "join_slash (s # ss) = s @ 47 # join_slash ss"

text \<open>The decimal digits of a number, as \<open>format!\<close> writes them.\<close>

fun decimal :: "nat \<Rightarrow> u8 list" where
  "decimal n = (if n < 10 then [48 + of_nat n] else decimal (n div 10) @ [48 + of_nat (n mod 10)])"

declare decimal.simps [simp del]

definition state_after :: "u32 \<Rightarrow> u8 list list \<Rightarrow> u64" where
  "state_after role_id components =
     (if components = [] then 0
      else fnv1a_hash_u64 (decimal (unat role_id) @ 58 # join_slash components))"

definition terminal_state :: "bool \<Rightarrow> u64" where
  "terminal_state allow = (if allow then PATH_STATE_ACCEPT else PATH_STATE_REJECT)"

definition component_key :: "u8 list \<Rightarrow> u64" where
  "component_key c = (if c = star then 0 else fnv1a_hash_u64 c)"

type_synonym path_row = "path_state_key \<times> path_state_value"

definition bool_byte :: "bool \<Rightarrow> u8" where
  "bool_byte b = (if b then 1 else 0)"

text \<open>The loop over the components: those already consumed, the state, those to come.\<close>

fun pattern_rows :: "u32 \<Rightarrow> bool \<Rightarrow> u8 list list \<Rightarrow> u64 \<Rightarrow> u8 list list \<Rightarrow> path_row list" where
  "pattern_rows role_id allow walked state [] = []"
| "pattern_rows role_id allow walked state (c # cs) =
     (let next_state = (if cs = [] then terminal_state allow else state_after role_id (walked @ [c])) in
      (\<lparr>psk_role_id = role_id, psk_state = state, psk_component_hash = component_key c\<rparr>,
       \<lparr>psv_next_state = next_state, psv_is_terminal = bool_byte (cs = []), psv_decision = bool_byte allow,
        psv_wildcard = bool_byte (c = star)\<rparr>)
      # pattern_rows role_id allow (walked @ [c]) next_state cs)"

definition path_state_entries :: "u32 \<Rightarrow> u8 list \<Rightarrow> bool \<Rightarrow> path_row list" where
  "path_state_entries role_id pattern allow =
     (let out = pattern_rows role_id allow [] 0 (pattern_components pattern) in
      if pattern \<noteq> [] \<and> last pattern = 47 \<and> out \<noteq> []
      then out @ [(\<lparr>psk_role_id = role_id, psk_state = terminal_state allow, psk_component_hash = 0\<rparr>,
                   \<lparr>psv_next_state = terminal_state allow, psv_is_terminal = 1,
                    psv_decision = bool_byte allow, psv_wildcard = 1\<rparr>)]
      else out)"

text \<open>Writing rows with \<open>map.update\<close>: a later row replaces an earlier one of the same key.\<close>

definition write_rows :: "path_row list \<Rightarrow> path_table \<Rightarrow> path_table" where
  "write_rows rows table = foldl (\<lambda>t (k, v). t(k \<mapsto> v)) table rows"

section \<open>What a pattern means\<close>

text \<open>
  A pattern decides a path when its components match the first ones of the path, from the root. A
  final \<open>*\<close> also matches the end of the path: \<open>/a/*\<close> decides \<open>/a\<close> itself.
\<close>

fun pattern_matches :: "u8 list list \<Rightarrow> u8 list list \<Rightarrow> bool" where
  "pattern_matches [] names = False"
| "pattern_matches (c # cs) [] = (cs = [] \<and> c = star)"
| "pattern_matches (c # cs) (n # ns) = ((c = star \<or> c = n) \<and> (cs = [] \<or> pattern_matches cs ns))"

text \<open>
  The 64-bit digests involved do not collide: the states of the pattern are distinct and differ
  from the sentinels, and a name has the digest of a component only where it is that component.
\<close>

definition pattern_states :: "u32 \<Rightarrow> u8 list list \<Rightarrow> u64 list" where
  "pattern_states role_id cs = map (\<lambda>i. state_after role_id (take i cs)) [0..<length cs]"

definition no_collisions :: "u32 \<Rightarrow> bool \<Rightarrow> u8 list list \<Rightarrow> u8 list list \<Rightarrow> bool" where
  "no_collisions role_id allow cs names \<longleftrightarrow>
     distinct (pattern_states role_id cs) \<and> terminal_state allow \<notin> set (pattern_states role_id cs) \<and>
     (\<forall>c \<in> set cs. c \<noteq> star \<longrightarrow>
        fnv1a_hash_u64 c \<noteq> 0 \<and> (\<forall>n \<in> set names. fnv1a_hash_u64 n = fnv1a_hash_u64 c \<longrightarrow> n = c))"

section \<open>Rows and lookups\<close>

lemma write_rows_distinct:
  assumes "distinct (map fst rows)" and "\<And>k. k \<in> set (map fst rows) \<Longrightarrow> table k = None"
  shows "write_rows rows table k = (case map_of rows k of Some v \<Rightarrow> Some v | None \<Rightarrow> table k)"
  using assms
proof (induction rows arbitrary: table)
  case (Cons r rows)
  obtain k' v' where r: "r = (k', v')" by (cases r)
  have "write_rows rows (table(k' \<mapsto> v')) k = (case map_of rows k of Some v \<Rightarrow> Some v | None \<Rightarrow> (table(k' \<mapsto> v')) k)"
    using Cons.prems by (intro Cons.IH) (auto simp: r)
  moreover have "k' \<notin> dom (map_of rows)" using Cons.prems(1) by (simp add: r dom_map_of_conv_image_fst)
  ultimately show ?case
    by (auto simp: r write_rows_def split: option.splits)
qed (simp add: write_rows_def)

lemma states_pattern_rows:
  "map (psk_state \<circ> fst) (pattern_rows role_id allow walked (state_after role_id walked) cs) =
   map (\<lambda>i. state_after role_id (walked @ take i cs)) [0..<length cs]"
proof (induction cs arbitrary: walked)
  case (Cons c cs)
  show ?case
  proof (cases "cs = []")
    case False
    then show ?thesis
      using Cons.IH [of "walked @ [c]"] by (simp add: Let_def upt_conv_Cons map_Suc_upt [symmetric] del: upt_Suc)
  qed simp
qed simp

lemma length_pattern_rows [simp]: "length (pattern_rows role_id allow walked state cs) = length cs"
  by (induction cs arbitrary: walked state) (simp_all add: Let_def)

text \<open>The table of the rows answers at the state of a position with the row of that position only.\<close>

definition row_at :: "path_row list \<Rightarrow> u64 \<Rightarrow> u32 \<Rightarrow> u64 \<Rightarrow> path_state_value option" where
  "row_at rows state role_id h =
     map_of rows \<lparr>psk_role_id = role_id, psk_state = state, psk_component_hash = h\<rparr>"

lemma rows_unique_state:
  assumes "distinct (map (psk_state \<circ> fst) rows)" and "(k, v) \<in> set rows"
  shows "map_of rows k' = (if k' = k then Some v else map_of (filter (\<lambda>r. psk_state (fst r) \<noteq> psk_state k) rows) k')"
  using assms
proof (induction rows)
  case (Cons r rows)
  show ?case
  proof (cases "r = (k, v)")
    case True
    then have "filter (\<lambda>r. psk_state (fst r) \<noteq> psk_state k) rows = rows"
      using Cons.prems(1) by (auto simp: filter_id_conv image_iff)
    then show ?thesis using True by simp
  next
    case False
    then have "(k, v) \<in> set rows" "psk_state (fst r) \<noteq> psk_state k"
      using Cons.prems by (auto simp: image_iff)
    then show ?thesis using Cons.IH Cons.prems(1) by (cases r) auto
  qed
qed simp

lemma rows_lookup:
  assumes "distinct (map (psk_state \<circ> fst) rows)" and "(k, v) \<in> set rows" and "psk_state k' = psk_state k"
  shows "map_of rows k' = (if k' = k then Some v else None)"
  unfolding rows_unique_state [OF assms(1,2)] using assms(3)
  by (auto simp: map_of_eq_None_iff)

section \<open>The walk over the rows of a pattern\<close>

lemma role_pattern_rows: "(k, v) \<in> set (pattern_rows role_id allow walked state cs) \<Longrightarrow> psk_role_id k = role_id"
  by (induction cs arbitrary: walked state) (auto simp: Let_def)

definition decision_verdict :: "bool \<Rightarrow> int" where
  "decision_verdict allow = (if allow then 1 else - 13)"

text \<open>
  From the state of a position on, a table that has the remaining rows and at their states
  nothing else decides as the remaining pattern does.
\<close>

lemma rule_verdict_rows:
  assumes "\<And>k v. (k, v) \<in> set (pattern_rows role_id allow walked (state_after role_id walked) cs) \<Longrightarrow>
      \<forall>k'. psk_role_id k' = role_id \<longrightarrow> psk_state k' = psk_state k \<longrightarrow> table k' = (if k' = k then Some v else None)"
    and "cs \<noteq> []"
    and "\<forall>c \<in> set cs. c \<noteq> star \<longrightarrow>
      fnv1a_hash_u64 c \<noteq> 0 \<and> (\<forall>n \<in> set ns. fnv1a_hash_u64 n = fnv1a_hash_u64 c \<longrightarrow> n = c)"
  shows "rule_verdict table role_id (state_after role_id walked) (map fnv1a_hash_u64 ns) =
    (if pattern_matches cs ns then decision_verdict allow else 0)"
  using assms
proof (induction cs arbitrary: walked ns)
  case (Cons c cs)
  let ?st = "state_after role_id walked"
  let ?next = "if cs = [] then terminal_state allow else state_after role_id (walked @ [c])"
  let ?k = "\<lparr>psk_role_id = role_id, psk_state = ?st, psk_component_hash = component_key c\<rparr>"
  let ?v = "\<lparr>psv_next_state = ?next, psv_is_terminal = bool_byte (cs = []), psv_decision = bool_byte allow,
      psv_wildcard = bool_byte (c = star)\<rparr>"
  have row: "table \<lparr>psk_role_id = role_id, psk_state = ?st, psk_component_hash = h\<rparr> =
      (if h = component_key c then Some ?v else None)" for h
    using Cons.prems(1) [of ?k ?v] by (simp add: Let_def)
  have val: "value_verdict ?v = decision_verdict allow" "psv_is_terminal ?v \<noteq> 0 \<longleftrightarrow> cs = []"
    by (simp_all add: value_verdict_def decision_verdict_def bool_byte_def)
  show ?case
  proof (cases ns)
    case Nil
    have "component_key c = 0 \<longleftrightarrow> c = star" using Cons.prems(3) by (simp add: component_key_def)
    then show ?thesis using row [of 0] val by (auto simp: Nil)
  next
    case (Cons n ns')
    have hit: "transition_lookup table role_id ?st (fnv1a_hash_u64 n) = (if c = star \<or> c = n then Some ?v else None)"
    proof (cases "c = star")
      case True
      then show ?thesis by (simp add: transition_lookup_def row component_key_def split: option.split)
    next
      case False
      then have "fnv1a_hash_u64 c \<noteq> 0" "fnv1a_hash_u64 n = fnv1a_hash_u64 c \<longleftrightarrow> n = c"
        using Cons.prems(3) by (auto simp: \<open>ns = n # ns'\<close>)
      then show ?thesis using False by (auto simp: transition_lookup_def row component_key_def)
    qed
    show ?thesis
    proof (cases "cs = []")
      case True
      then show ?thesis using hit val by (auto simp: \<open>ns = n # ns'\<close>)
    next
      case False
      have "rule_verdict table role_id (state_after role_id (walked @ [c])) (map fnv1a_hash_u64 ns') =
          (if pattern_matches cs ns' then decision_verdict allow else 0)"
        using Cons.prems False
        by (intro Cons.IH) (auto simp: Let_def \<open>ns = n # ns'\<close>)
      then show ?thesis using hit val False by (auto simp: \<open>ns = n # ns'\<close>)
    qed
  qed
qed simp

lemma entries_lookup:
  assumes "distinct (pattern_states role_id cs)" and "terminal_state allow \<notin> set (pattern_states role_id cs)"
    and "cs = pattern_components pattern"
    and "(k, v) \<in> set (pattern_rows role_id allow [] 0 cs)" and "psk_state k' = psk_state k"
  shows "write_rows (path_state_entries role_id pattern allow) Map.empty k' = (if k' = k then Some v else None)"
proof -
  let ?rows = "path_state_entries role_id pattern allow"
  have st: "map (psk_state \<circ> fst) (pattern_rows role_id allow [] 0 cs) = pattern_states role_id cs"
    using states_pattern_rows [of role_id allow "[]" cs] by (simp add: pattern_states_def state_after_def)
  have d: "distinct (map (psk_state \<circ> fst) ?rows)"
    using assms(1-3) st by (simp add: path_state_entries_def Let_def)
  have "(k, v) \<in> set ?rows" using assms(3,4) by (simp add: path_state_entries_def Let_def)
  moreover have "distinct (map fst ?rows)"
    using d by (metis distinct_map map_map)
  ultimately show ?thesis
    using rows_lookup [OF d _ assms(5)] by (simp add: write_rows_distinct)
qed

text \<open>
  A rule table holding the rows of one pattern decides a path exactly when the pattern's components
  match the path's leading names, with the pattern's decision for the whole subtree.
\<close>

lemma pattern_compiles_correctly:
  assumes "cs = pattern_components pattern" and "cs \<noteq> []" and "no_collisions role_id allow cs names"
  shows "rule_verdict (write_rows (path_state_entries role_id pattern allow) Map.empty) role_id PATH_STATE_ROOT
      (map fnv1a_hash_u64 names) =
    (if pattern_matches cs names then (if allow then 1 else - 13) else 0)"
proof -
  have "rule_verdict (write_rows (path_state_entries role_id pattern allow) Map.empty) role_id
      (state_after role_id []) (map fnv1a_hash_u64 names) =
    (if pattern_matches cs names then decision_verdict allow else 0)"
  proof (rule rule_verdict_rows)
    fix k v
    assume "(k, v) \<in> set (pattern_rows role_id allow [] (state_after role_id []) cs)"
    then have "(k, v) \<in> set (pattern_rows role_id allow [] 0 cs)" by (simp add: state_after_def)
    then show "\<forall>k'. psk_role_id k' = role_id \<longrightarrow> psk_state k' = psk_state k \<longrightarrow>
        write_rows (path_state_entries role_id pattern allow) Map.empty k' = (if k' = k then Some v else None)"
      using entries_lookup [OF _ _ assms(1)] assms(3) by (simp add: no_collisions_def)
  qed (use assms(2,3) in \<open>simp_all add: no_collisions_def\<close>)
  then show ?thesis by (simp add: state_after_def PATH_STATE_ROOT_def decision_verdict_def)
qed

end
