(* ===== verification/Role_Trie.thy ===== *)
theory Role_Trie
  imports Policy_Codec "HOL-Library.Sublist" "HOL-Library.List_Lexorder" "HOL-Library.Multiset"
begin

text \<open>
  The compilation of all path patterns of a role at once: \<open>path_state_entries_for_role\<close> of
  \<open>bpfjailer-common/src/codec.rs\<close>. The rules are inserted into a trie held in an arena of nodes, and
  the trie is walked depth-first, every node handing its decision down to the subtrees no deeper
  pattern names. The specification is the most specific pattern: \<open>nearest\<close>, the decision of the
  longest prefix of a path that some rule names.
\<close>

section \<open>The arena\<close>

type_synonym bytes = "u8 list"

text \<open>\<open>BTreeMap\<close>: an association list in the order of its keys (for \<open>str\<close>, the byte order).\<close>

fun btree_insert :: "'k :: linorder \<Rightarrow> 'v \<Rightarrow> ('k \<times> 'v) list \<Rightarrow> ('k \<times> 'v) list" where
  "btree_insert k v [] = [(k, v)]"
| "btree_insert k v ((k', v') # m) =
     (if k < k' then (k, v) # (k', v') # m
      else if k = k' then (k, v) # m
      else (k', v') # btree_insert k v m)"

record rule_node =
  rn_components :: "bytes list"
  rn_children :: "(bytes \<times> nat) list"
  rn_decision :: "bool option"
  rn_decided_by :: "bytes option"
  rn_created_by :: bytes

definition new_node :: "bytes list \<Rightarrow> bytes \<Rightarrow> rule_node" where
  "new_node components created_by =
     \<lparr>rn_components = components, rn_children = [], rn_decision = None, rn_decided_by = None,
      rn_created_by = created_by\<rparr>"

text \<open>
  The loop over the components of a pattern: those consumed, those to come, the node reached. A
  missing child is pushed to the arena and linked from the node.
\<close>

definition add_child :: "bytes \<Rightarrow> bytes list \<Rightarrow> nat \<Rightarrow> bytes \<Rightarrow> rule_node list \<Rightarrow> rule_node list" where
  "add_child pattern walked at component nodes =
     (let pushed = nodes @ [new_node (walked @ [component]) pattern] in
      pushed[at := (pushed ! at)\<lparr>rn_children := btree_insert component (length nodes) (rn_children (pushed ! at))\<rparr>])"

fun insert_path :: "bytes \<Rightarrow> bytes list \<Rightarrow> bytes list \<Rightarrow> nat \<Rightarrow> rule_node list \<Rightarrow> nat \<times> rule_node list" where
  "insert_path pattern walked [] at nodes = (at, nodes)"
| "insert_path pattern walked (component # rest) at nodes =
     (case map_of (rn_children (nodes ! at)) component of
        Some child \<Rightarrow> insert_path pattern (walked @ [component]) rest child nodes
      | None \<Rightarrow>
          insert_path pattern (walked @ [component]) rest (length nodes)
            (add_child pattern walked at component nodes))"

definition insert_rule :: "bytes \<times> bool \<Rightarrow> rule_node list \<Rightarrow> rule_node list" where
  "insert_rule rule nodes =
     (let components = pattern_components (fst rule) in
      if components = [] then nodes
      else
        let (at, nodes) = insert_path (fst rule) [] components 0 nodes in
        nodes[at := (nodes ! at)\<lparr>rn_decision := Some (snd rule), rn_decided_by := Some (fst rule)\<rparr>])"

definition build_nodes :: "(bytes \<times> bool) list \<Rightarrow> rule_node list" where
  "build_nodes rules = fold insert_rule rules [new_node [] []]"

section \<open>The walk\<close>

definition effective_decision :: "rule_node \<Rightarrow> (bool \<times> bytes) option \<Rightarrow> (bool \<times> bytes) option" where
  "effective_decision node inherited =
     (case (rn_decision node, rn_decided_by node) of
        (Some d, Some by) \<Rightarrow> Some (d, by)
      | _ \<Rightarrow> inherited)"

definition bytes_of :: "string \<Rightarrow> bytes" where
  "bytes_of s = map of_char s"

definition conflict_message :: "bytes \<Rightarrow> bytes \<Rightarrow> bytes" where
  "conflict_message by created_by =
     bytes_of [CHR 0x27] @ by @ bytes_of ([CHR 0x27] @ '' and '' @ [CHR 0x27]) @ created_by @
     bytes_of ([CHR 0x27] @ '' overlap at a '' @ [CHR 0x27, CHR 0x2A, CHR 0x27] @
       '' component, which cannot hold both a wildcard transition and an inherited decision; '' @
       ''rewrite one so neither is a prefix of the other'')"

definition row_key :: "u32 \<Rightarrow> u64 \<Rightarrow> u64 \<Rightarrow> path_state_key" where
  "row_key role_id state hash = \<lparr>psk_role_id = role_id, psk_state = state, psk_component_hash = hash\<rparr>"

definition terminal_value :: "bool \<Rightarrow> bool \<Rightarrow> path_state_value" where
  "terminal_value decision wildcard =
     \<lparr>psv_next_state = terminal_state decision, psv_is_terminal = bool_byte True,
      psv_decision = bool_byte decision, psv_wildcard = bool_byte wildcard\<rparr>"

definition step_value :: "u64 \<Rightarrow> bool \<Rightarrow> path_state_value" where
  "step_value next_state wildcard =
     \<lparr>psv_next_state = next_state, psv_is_terminal = bool_byte False,
      psv_decision = bool_byte False, psv_wildcard = bool_byte wildcard\<rparr>"

text \<open>What a visit pushes to \<open>out\<close> and to \<open>conflicts\<close> for the node itself.\<close>

definition inherited_rows :: "u32 \<Rightarrow> rule_node \<Rightarrow> (bool \<times> bytes) option \<Rightarrow> path_row list" where
  "inherited_rows role_id node effective =
     (case effective of
        Some (decision, by) \<Rightarrow>
          if rn_children node \<noteq> [] \<and> map_of (rn_children node) star = None
          then [(row_key role_id (state_after role_id (rn_components node)) 0, terminal_value decision True)]
          else []
      | None \<Rightarrow> [])"

definition node_conflicts :: "rule_node list \<Rightarrow> rule_node \<Rightarrow> (bool \<times> bytes) option \<Rightarrow> bytes list" where
  "node_conflicts nodes node effective =
     (case (effective, map_of (rn_children node) star) of
        (Some (decision, by), Some child) \<Rightarrow> [conflict_message by (rn_created_by (nodes ! child))]
      | _ \<Rightarrow> [])"

text \<open>The row of an edge to a child.\<close>

definition edge_row :: "u32 \<Rightarrow> rule_node list \<Rightarrow> rule_node \<Rightarrow> bytes \<times> nat \<Rightarrow> path_row" where
  "edge_row role_id nodes node edge =
     (let (component, child) = edge in
      (row_key role_id (state_after role_id (rn_components node)) (component_key component),
       if rn_children (nodes ! child) \<noteq> []
       then step_value (state_after role_id (rn_components (nodes ! child))) (component = star)
       else terminal_value (case rn_decision (nodes ! child) of Some d \<Rightarrow> d | None \<Rightarrow> False) (component = star)))"

text \<open>
  The worklist loop. The top of the stack is the head of the list, so the children, pushed in the
  order of their keys, end up in reverse.
\<close>

partial_function (option) rule_walk ::
  "u32 \<Rightarrow> rule_node list \<Rightarrow> (nat \<times> (bool \<times> bytes) option) list \<Rightarrow> path_row list \<Rightarrow> bytes list \<Rightarrow>
   (path_row list \<times> bytes list) option" where
  [code]: "rule_walk role_id nodes stack out conflicts =
     (case stack of
        [] \<Rightarrow> Some (out, conflicts)
      | frame # below \<Rightarrow>
          let node = nodes ! fst frame; effective = effective_decision node (snd frame) in
          rule_walk role_id nodes
            (rev (map (\<lambda>edge. (snd edge, effective)) (rn_children node)) @ below)
            (out @ inherited_rows role_id node effective @ map (edge_row role_id nodes node) (rn_children node))
            (conflicts @ node_conflicts nodes node effective))"

text \<open>\<open>None\<close>: the loop does not end. \<open>Inl\<close>: the conflicts, sorted, each once.\<close>

definition path_state_entries_for_role ::
  "u32 \<Rightarrow> (bytes \<times> bool) list \<Rightarrow> (bytes list + path_row list) option" where
  "path_state_entries_for_role role_id rules =
     map_option (\<lambda>(out, conflicts). if conflicts = [] then Inr out else Inl (remdups_adj (sort conflicts)))
       (rule_walk role_id (build_nodes rules) [(0, None)] [] [])"

section \<open>The rules as paths\<close>

text \<open>
  The rules that name a component, as component lists with decision and pattern; which decision a
  path has of its own (the last rule counts); which paths lie on the way of a rule.
\<close>

definition rule_paths :: "(bytes \<times> bool) list \<Rightarrow> (bytes list \<times> bool \<times> bytes) list" where
  "rule_paths rules =
     map (\<lambda>(pattern, allow). (pattern_components pattern, allow, pattern))
       (filter (\<lambda>(pattern, allow). pattern_components pattern \<noteq> []) rules)"

definition decided :: "(bytes \<times> bool) list \<Rightarrow> bytes list \<Rightarrow> (bool \<times> bytes) option" where
  "decided rules = map_of (rev (rule_paths rules))"

definition mentioned :: "(bytes \<times> bool) list \<Rightarrow> bytes list \<Rightarrow> bool" where
  "mentioned rules p = (p = [] \<or> list_ex (\<lambda>(cs, _). prefix p cs) (rule_paths rules))"

text \<open>The most specific decision: the one of the longest prefix that has one.\<close>

definition nearest :: "(bytes \<times> bool) list \<Rightarrow> bytes list \<Rightarrow> (bool \<times> bytes) option" where
  "nearest rules p =
     (case filter (\<lambda>q. decided rules q \<noteq> None) (prefixes p) of
        [] \<Rightarrow> None
      | qs \<Rightarrow> decided rules (last qs))"

lemma nearest_snoc:
  "nearest rules (p @ [c]) = (case decided rules (p @ [c]) of Some d \<Rightarrow> Some d | None \<Rightarrow> nearest rules p)"
  by (auto simp: nearest_def prefixes_snoc split: list.splits option.splits)

lemma decided_Nil [simp]: "decided rules [] = None"
  by (auto simp: decided_def rule_paths_def map_of_eq_None_iff)

lemma nearest_Nil [simp]: "nearest rules [] = None"
  by (simp add: nearest_def)

lemma decidedD: "decided rules p = Some (d, by) \<Longrightarrow> (by, d) \<in> set rules \<and> pattern_components by = p"
  by (auto simp: decided_def rule_paths_def dest!: map_of_SomeD)

lemma decided_iff: "decided rules p \<noteq> None \<longleftrightarrow> p \<noteq> [] \<and> (\<exists>(by, d) \<in> set rules. pattern_components by = p)"
proof -
  have "decided rules p \<noteq> None \<longleftrightarrow> p \<in> fst ` set (rule_paths rules)"
    by (simp add: decided_def map_of_eq_None_iff)
  also have "\<dots> \<longleftrightarrow> p \<noteq> [] \<and> (\<exists>(by, d) \<in> set rules. pattern_components by = p)"
    by (force simp: rule_paths_def)
  finally show ?thesis .
qed

lemma mentioned_Nil [simp]: "mentioned rules []"
  by (simp add: mentioned_def)

lemma mentioned_prefix: "mentioned rules (p @ q) \<Longrightarrow> mentioned rules p"
  by (auto simp: mentioned_def list_ex_iff dest: append_prefixD)

lemma mentioned_iff: "mentioned rules p \<longleftrightarrow> p = [] \<or> (\<exists>(by, d) \<in> set rules. prefix p (pattern_components by))"
proof (cases "p = []")
  case False
  have "list_ex (\<lambda>(cs, _). prefix p cs) (rule_paths rules) \<longleftrightarrow>
      (\<exists>(by, d) \<in> set rules. pattern_components by \<noteq> [] \<and> prefix p (pattern_components by))"
    by (force simp: rule_paths_def list_ex_iff)
  then show ?thesis using False by (fastforce simp: mentioned_def)
qed (simp add: mentioned_def)

lemma decided_mentioned: "decided rules p \<noteq> None \<Longrightarrow> mentioned rules p"
  unfolding decided_iff mentioned_iff by auto

section \<open>The arena holds the rules\<close>

text \<open>
  An arena represents a set of paths with their decisions: one node per path, linked exactly to the
  nodes of the paths one component longer. \<open>pats\<close> are the patterns inserted so far.
\<close>

definition arena :: "bytes set \<Rightarrow> bytes list set \<Rightarrow> (bytes list \<Rightarrow> (bool \<times> bytes) option) \<Rightarrow> rule_node list \<Rightarrow> bool" where
  "arena pats P D nodes \<longleftrightarrow>
     nodes \<noteq> [] \<and> rn_components (nodes ! 0) = [] \<and>
     distinct (map rn_components nodes) \<and> rn_components ` set nodes = P \<and> dom D \<subseteq> P \<and>
     (\<forall>p c. p @ [c] \<in> P \<longrightarrow> p \<in> P) \<and>
     (\<forall>i < length nodes. \<forall>c j. (c, j) \<in> set (rn_children (nodes ! i)) \<longleftrightarrow>
        j < length nodes \<and> rn_components (nodes ! j) = rn_components (nodes ! i) @ [c]) \<and>
     (\<forall>n \<in> set nodes. rn_decision n = map_option fst (D (rn_components n)) \<and>
        rn_decided_by n = map_option snd (D (rn_components n))) \<and>
     (\<forall>n \<in> set nodes. rn_components n \<noteq> [] \<longrightarrow>
        rn_created_by n \<in> pats \<and> prefix (rn_components n) (pattern_components (rn_created_by n)))"

lemma set_btree_insert: "k \<notin> fst ` set m \<Longrightarrow> set (btree_insert k v m) = insert (k, v) (set m)"
  by (induction k v m rule: btree_insert.induct) auto

lemma arena_index_unique:
  "arena pats P D nodes \<Longrightarrow> i < length nodes \<Longrightarrow> j < length nodes \<Longrightarrow>
   rn_components (nodes ! i) = rn_components (nodes ! j) \<Longrightarrow> i = j"
  unfolding arena_def by (metis nth_map distinct_conv_nth length_map)

lemma arena_child:
  assumes "arena pats P D nodes" and "i < length nodes"
  shows "map_of (rn_children (nodes ! i)) c = Some j \<longleftrightarrow>
    j < length nodes \<and> rn_components (nodes ! j) = rn_components (nodes ! i) @ [c]"
proof -
  have iff: "(c, j) \<in> set (rn_children (nodes ! i)) \<longleftrightarrow>
      j < length nodes \<and> rn_components (nodes ! j) = rn_components (nodes ! i) @ [c]" for c j
    using assms by (simp add: arena_def)
  show ?thesis
  proof
    assume "map_of (rn_children (nodes ! i)) c = Some j"
    then show "j < length nodes \<and> rn_components (nodes ! j) = rn_components (nodes ! i) @ [c]"
      using iff map_of_SomeD by fastforce
  next
    assume r: "j < length nodes \<and> rn_components (nodes ! j) = rn_components (nodes ! i) @ [c]"
    then obtain j' where j': "map_of (rn_children (nodes ! i)) c = Some j'"
      using iff by (metis weak_map_of_SomeI)
    then have "(c, j') \<in> set (rn_children (nodes ! i))" by (rule map_of_SomeD)
    then have "j' = j" using r iff arena_index_unique [OF assms(1)] by metis
    then show "map_of (rn_children (nodes ! i)) c = Some j" using j' by simp
  qed
qed

lemma arena_no_child:
  assumes "arena pats P D nodes" and "i < length nodes"
  shows "map_of (rn_children (nodes ! i)) c = None \<longleftrightarrow> rn_components (nodes ! i) @ [c] \<notin> P"
proof -
  have P: "P = {rn_components (nodes ! j) | j. j < length nodes}"
    using assms(1) by (auto simp: arena_def set_conv_nth)
  have "rn_components (nodes ! i) @ [c] \<in> P \<longleftrightarrow> (\<exists>j. map_of (rn_children (nodes ! i)) c = Some j)"
    unfolding arena_child [OF assms] P by (auto, metis)
  then show ?thesis by auto
qed

lemma add_child_nth:
  assumes "at < length nodes"
  shows "length (add_child pattern walked at c nodes) = Suc (length nodes)"
    and "i < Suc (length nodes) \<Longrightarrow> add_child pattern walked at c nodes ! i =
      (if i = length nodes then new_node (walked @ [c]) pattern
       else if i = at then (nodes ! at)\<lparr>rn_children := btree_insert c (length nodes) (rn_children (nodes ! at))\<rparr>
       else nodes ! i)"
  using assms by (auto simp: add_child_def nth_append nth_list_update)

lemma set_add_child:
  assumes "at < length nodes"
  shows "rn_components ` set (add_child pattern walked at c nodes) = insert (walked @ [c]) (rn_components ` set nodes)"
    and "map rn_components (add_child pattern walked at c nodes) = map rn_components nodes @ [walked @ [c]]"
proof -
  show "map rn_components (add_child pattern walked at c nodes) = map rn_components nodes @ [walked @ [c]]"
    using assms by (intro nth_equalityI) (auto simp: add_child_nth nth_append new_node_def)
  from arg_cong [OF this, of set]
  show "rn_components ` set (add_child pattern walked at c nodes) = insert (walked @ [c]) (rn_components ` set nodes)"
    by simp
qed

lemma add_child_member:
  assumes "at < length nodes" and "n \<in> set (add_child pattern walked at c nodes)"
  shows "n = new_node (walked @ [c]) pattern \<or>
    (\<exists>n' \<in> set nodes. rn_components n = rn_components n' \<and> rn_decision n = rn_decision n' \<and>
       rn_decided_by n = rn_decided_by n' \<and> rn_created_by n = rn_created_by n')"
proof -
  obtain i where i: "i < Suc (length nodes)" "n = add_child pattern walked at c nodes ! i"
    using assms by (auto simp: in_set_conv_nth add_child_nth)
  then show ?thesis
    using assms(1) by (cases "i = length nodes"; cases "i = at") (auto simp: add_child_nth intro!: bexI [of _ "nodes ! i"])
qed

lemma arena_add_child:
  assumes a: "arena pats P D nodes" and at: "at < length nodes" "rn_components (nodes ! at) = walked"
    and new: "walked @ [c] \<notin> P" and pat: "pattern \<in> pats" "prefix (walked @ [c]) (pattern_components pattern)"
  shows "arena pats (insert (walked @ [c]) P) D (add_child pattern walked at c nodes)"
proof -
  let ?nodes = "add_child pattern walked at c nodes"
  note nth = add_child_nth [OF at(1)]
  have P: "P = rn_components ` set nodes" and D: "dom D \<subseteq> P" using a by (simp_all add: arena_def)
  have comps: "rn_components (?nodes ! i) = (if i = length nodes then walked @ [c] else rn_components (nodes ! i))"
    if "i < Suc (length nodes)" for i
    using that by (simp add: nth new_node_def)
  have fresh: "rn_components (nodes ! i) \<noteq> walked @ [c]" if "i < length nodes" for i
    using new that unfolding P by (metis image_eqI nth_mem)
  have none: "c \<notin> fst ` set (rn_children (nodes ! at))"
    using arena_no_child [OF a at(1), of c] new at(2) by (simp add: map_of_eq_None_iff)
  have old: "(d, j) \<in> set (rn_children (nodes ! i)) \<longleftrightarrow>
      j < length nodes \<and> rn_components (nodes ! j) = rn_components (nodes ! i) @ [d]"
    if "i < length nodes" for i d j
    using a that by (simp add: arena_def)
  have closed: "p @ [e] \<in> P \<Longrightarrow> p \<in> P" for p e using a unfolding arena_def by blast
  have no_grandchild: "rn_components (nodes ! j) \<noteq> walked @ [c, d]" if j: "j < length nodes" for j d
    using closed [of "walked @ [c]" d] new j unfolding P by (metis append.assoc append_Cons append_Nil image_eqI nth_mem)
  have children: "(d, j) \<in> set (rn_children (?nodes ! i)) \<longleftrightarrow>
      j < Suc (length nodes) \<and> rn_components (?nodes ! j) = rn_components (?nodes ! i) @ [d]"
    if i: "i < Suc (length nodes)" for i d j
  proof (cases "i = length nodes")
    case True
    then show ?thesis using no_grandchild [of j d] i by (auto simp: nth comps new_node_def)
  next
    case False
    then have i: "i < length nodes" using i by simp
    have "(d, j) \<in> set (rn_children (?nodes ! i)) \<longleftrightarrow>
        (d, j) \<in> set (rn_children (nodes ! i)) \<or> i = at \<and> d = c \<and> j = length nodes"
      using i none by (auto simp: nth set_btree_insert)
    moreover have "rn_components (nodes ! i) = walked \<longleftrightarrow> i = at"
      using arena_index_unique [OF a i at(1)] at(2) by auto
    moreover have "rn_components (?nodes ! i) = rn_components (nodes ! i)" using i by (simp add: comps)
    ultimately show ?thesis
      using old [OF i, of d j] comps [of j] by (cases "j = length nodes") (auto simp: less_Suc_eq)
  qed
  show ?thesis
    unfolding arena_def
  proof (intro conjI)
    show "\<forall>i < length ?nodes. \<forall>d j. (d, j) \<in> set (rn_children (?nodes ! i)) \<longleftrightarrow>
        j < length ?nodes \<and> rn_components (?nodes ! j) = rn_components (?nodes ! i) @ [d]"
      using children by (simp add: nth(1))
    show "\<forall>n \<in> set ?nodes. rn_decision n = map_option fst (D (rn_components n)) \<and>
        rn_decided_by n = map_option snd (D (rn_components n))"
    proof
      fix n assume "n \<in> set ?nodes"
      from add_child_member [OF at(1) this] show "rn_decision n = map_option fst (D (rn_components n)) \<and>
          rn_decided_by n = map_option snd (D (rn_components n))"
        using a D new by (auto simp: new_node_def arena_def)
    qed
    show "\<forall>n \<in> set ?nodes. rn_components n \<noteq> [] \<longrightarrow>
        rn_created_by n \<in> pats \<and> prefix (rn_components n) (pattern_components (rn_created_by n))"
    proof
      fix n assume "n \<in> set ?nodes"
      from add_child_member [OF at(1) this] show "rn_components n \<noteq> [] \<longrightarrow>
          rn_created_by n \<in> pats \<and> prefix (rn_components n) (pattern_components (rn_created_by n))"
        using a pat by (auto simp: new_node_def arena_def)
    qed
    show "\<forall>p d. p @ [d] \<in> insert (walked @ [c]) P \<longrightarrow> p \<in> insert (walked @ [c]) P"
      using closed at unfolding P by auto
    show "?nodes \<noteq> []" using nth(1) [of pattern walked c] by auto
    show "rn_components (?nodes ! 0) = []" using a by (simp add: comps arena_def)
    show "distinct (map rn_components ?nodes)" using a new P by (simp add: set_add_child at(1) arena_def)
    show "rn_components ` set ?nodes = insert (walked @ [c]) P" using P by (simp add: set_add_child at(1))
    show "dom D \<subseteq> insert (walked @ [c]) P" using D by auto
  qed
qed

text \<open>Inserting a path adds it and its prefixes, and ends at its node.\<close>

lemma arena_insert_path:
  assumes "arena pats P D nodes" and "at < length nodes" and "rn_components (nodes ! at) = walked"
    and "pattern \<in> pats" and "pattern_components pattern = walked @ cs"
    and "insert_path pattern walked cs at nodes = (at', nodes')"
  shows "arena pats (P \<union> {p. prefix walked p \<and> prefix p (walked @ cs)}) D nodes' \<and>
    at' < length nodes' \<and> rn_components (nodes' ! at') = walked @ cs"
  using assms
proof (induction cs arbitrary: walked at nodes P)
  case Nil
  have "walked \<in> P" using Nil.prems(1-3) unfolding arena_def by (metis image_eqI nth_mem)
  moreover have "{p. prefix walked p \<and> prefix p walked} = {walked}" by (auto dest: prefix_order.antisym)
  ultimately show ?case using Nil.prems by (simp add: insert_absorb)
next
  case (Cons c cs)
  have pre: "P \<union> {p. prefix walked p \<and> prefix p (walked @ c # cs)} =
      insert (walked @ [c]) P \<union> {p. prefix (walked @ [c]) p \<and> prefix p ((walked @ [c]) @ cs)}"
  proof -
    have "walked \<in> P" using Cons.prems(1-3) unfolding arena_def by (metis image_eqI nth_mem)
    moreover have "prefix walked p \<and> prefix p (walked @ c # cs) \<longleftrightarrow>
        p = walked \<or> prefix (walked @ [c]) p \<and> prefix p ((walked @ [c]) @ cs)" for p
      by (auto simp: prefix_def Cons_eq_append_conv append_eq_Cons_conv)
    ultimately show ?thesis by auto
  qed
  show ?case
  proof (cases "map_of (rn_children (nodes ! at)) c")
    case None
    then have new: "walked @ [c] \<notin> P" using arena_no_child [OF Cons.prems(1,2)] Cons.prems(3) by simp
    have "arena pats (insert (walked @ [c]) P) D (add_child pattern walked at c nodes)"
      using Cons.prems new by (intro arena_add_child) simp_all
    then show ?thesis
      unfolding pre using Cons.IH [of "insert (walked @ [c]) P" "add_child pattern walked at c nodes" "length nodes" "walked @ [c]"]
        Cons.prems None by (simp add: add_child_nth new_node_def)
  next
    case (Some child)
    then have child: "child < length nodes" "rn_components (nodes ! child) = walked @ [c]"
      using arena_child [OF Cons.prems(1,2)] Cons.prems(3) by auto
    have "walked @ [c] \<in> P" using child Cons.prems(1) unfolding arena_def by (metis image_eqI nth_mem)
    then show ?thesis
      unfolding pre using Cons.IH [of P nodes child "walked @ [c]"] child Cons.prems Some by (simp add: insert_absorb)
  qed
qed

lemma arena_decide:
  assumes a: "arena pats P D nodes" and at: "at < length nodes"
  shows "arena pats P (D(rn_components (nodes ! at) \<mapsto> (allow, by)))
    (nodes[at := (nodes ! at)\<lparr>rn_decision := Some allow, rn_decided_by := Some by\<rparr>])"
proof -
  let ?node = "(nodes ! at)\<lparr>rn_decision := Some allow, rn_decided_by := Some by\<rparr>"
  let ?nodes = "nodes[at := ?node]"
  let ?D = "D(rn_components (nodes ! at) \<mapsto> (allow, by))"
  have comps: "map rn_components ?nodes = map rn_components nodes"
    by (simp add: map_update at list_update_same_conv)
  have c: "rn_components (?nodes ! i) = rn_components (nodes ! i)"
    and ch: "rn_children (?nodes ! i) = rn_children (nodes ! i)"
    and cr: "rn_created_by (?nodes ! i) = rn_created_by (nodes ! i)" for i
    by (cases "i = at"; simp add: at)+
  have same: "rn_components (nodes ! i) = rn_components (nodes ! at) \<longleftrightarrow> i = at" if "i < length nodes" for i
    using arena_index_unique [OF a that at] by auto
  have "rn_components (nodes ! at) \<in> P" using a at unfolding arena_def by (metis image_eqI nth_mem)
  moreover have "\<forall>n \<in> set ?nodes. rn_decision n = map_option fst (?D (rn_components n)) \<and>
      rn_decided_by n = map_option snd (?D (rn_components n))"
    using a same by (auto simp: all_set_conv_all_nth c nth_list_update arena_def)
  moreover have "\<forall>n \<in> set ?nodes. rn_components n \<noteq> [] \<longrightarrow>
      rn_created_by n \<in> pats \<and> prefix (rn_components n) (pattern_components (rn_created_by n))"
    using a by (simp add: all_set_conv_all_nth c cr arena_def)
  moreover have "rn_components ` set ?nodes = P"
    using a arg_cong [OF comps, of set] by (simp add: arena_def)
  ultimately show ?thesis using a unfolding arena_def by (simp add: comps c ch)
qed

text \<open>The arena of a rule list.\<close>

abbreviation rules_arena :: "(bytes \<times> bool) list \<Rightarrow> rule_node list \<Rightarrow> bool" where
  "rules_arena rules \<equiv> arena (fst ` set rules) {p. mentioned rules p} (decided rules)"

lemma decided_snoc:
  "decided (rules @ [(pattern, allow)]) =
    (if pattern_components pattern = [] then decided rules
     else (decided rules)(pattern_components pattern \<mapsto> (allow, pattern)))"
  by (simp add: decided_def rule_paths_def)

lemma mentioned_snoc:
  "mentioned (rules @ [(pattern, allow)]) p \<longleftrightarrow> mentioned rules p \<or> prefix p (pattern_components pattern)"
  by (auto simp: mentioned_iff)

lemma arena_mono: "arena pats P D nodes \<Longrightarrow> pats \<subseteq> pats' \<Longrightarrow> arena pats' P D nodes"
  unfolding arena_def by blast

lemma arena_insert_rule:
  assumes "rules_arena rules nodes"
  shows "rules_arena (rules @ [(pattern, allow)]) (insert_rule (pattern, allow) nodes)"
proof (cases "pattern_components pattern = []")
  case True
  have "{p. mentioned (rules @ [(pattern, allow)]) p} = {p. mentioned rules p}"
    using True by (auto simp: mentioned_snoc)
  then show ?thesis
    using True assms by (auto simp: insert_rule_def decided_snoc intro: arena_mono)
next
  case False
  obtain at nodes' where ins: "insert_path pattern [] (pattern_components pattern) 0 nodes = (at, nodes')"
    by (cases "insert_path pattern [] (pattern_components pattern) 0 nodes")
  have a: "arena (insert pattern (fst ` set rules)) {p. mentioned rules p} (decided rules) nodes"
    by (rule arena_mono [OF assms]) auto
  have z: "0 < length nodes" "rn_components (nodes ! 0) = []" using assms by (simp_all add: arena_def)
  have P: "{p. mentioned rules p} \<union> {p. prefix [] p \<and> prefix p ([] @ pattern_components pattern)} =
      {p. mentioned (rules @ [(pattern, allow)]) p}"
    by (auto simp: mentioned_snoc)
  have r: "arena (insert pattern (fst ` set rules)) {p. mentioned (rules @ [(pattern, allow)]) p} (decided rules) nodes'"
      "at < length nodes'" "rn_components (nodes' ! at) = pattern_components pattern"
    using arena_insert_path [OF a z _ _ ins] unfolding P by simp_all
  show ?thesis
    using arena_decide [OF r(1,2), of allow pattern] r(3) False
    by (simp add: insert_rule_def Let_def ins decided_snoc)
qed

lemma arena_build_nodes: "rules_arena rules (build_nodes rules)"
proof (induction rules rule: rev_induct)
  case Nil
  have "{p :: bytes list. mentioned [] p} = {[]}" by (auto simp: mentioned_def rule_paths_def)
  moreover have "decided [] = Map.empty" by (simp add: decided_def rule_paths_def)
  ultimately show ?case
    by (simp add: build_nodes_def new_node_def arena_def) (metis gr0I nth_Cons_0 rule_node.select_convs(1) list.distinct(1))
next
  case (snoc rule rules)
  obtain pattern allow where "rule = (pattern, allow)" by (cases rule)
  then show ?case using arena_insert_rule [OF snoc.IH] by (simp add: build_nodes_def)
qed

lemma arena_prefix:
  assumes "arena pats P D nodes" and "k < length nodes" and "rn_components (nodes ! k) = p @ q"
  shows "p \<in> P"
proof -
  have "p @ q \<in> P" using assms unfolding arena_def by (metis image_eqI nth_mem)
  then show ?thesis
  proof (induction q rule: rev_induct)
    case (snoc c q)
    have "(p @ q) @ [c] \<in> P" using snoc.prems by simp
    then have "p @ q \<in> P" using assms(1) unfolding arena_def by blast
    then show ?case by (rule snoc.IH)
  qed simp
qed

section \<open>The walk visits every node\<close>

text \<open>What the visit of a node contributes, with the decision it turns out to have.\<close>

definition visit_rows :: "u32 \<Rightarrow> (bytes \<times> bool) list \<Rightarrow> rule_node list \<Rightarrow> nat \<Rightarrow> path_row list" where
  "visit_rows role_id rules nodes i =
     inherited_rows role_id (nodes ! i) (nearest rules (rn_components (nodes ! i))) @
     map (edge_row role_id nodes (nodes ! i)) (rn_children (nodes ! i))"

definition visit_conflicts :: "(bytes \<times> bool) list \<Rightarrow> rule_node list \<Rightarrow> nat \<Rightarrow> bytes list" where
  "visit_conflicts rules nodes i = node_conflicts nodes (nodes ! i) (nearest rules (rn_components (nodes ! i)))"

definition below :: "rule_node list \<Rightarrow> nat \<Rightarrow> nat set" where
  "below nodes i = {k. k < length nodes \<and> prefix (rn_components (nodes ! i)) (rn_components (nodes ! k))}"

lemma effective_decision_arena:
  assumes "arena pats P D nodes" and "i < length nodes"
  shows "effective_decision (nodes ! i) inherited =
    (case D (rn_components (nodes ! i)) of Some d \<Rightarrow> Some d | None \<Rightarrow> inherited)"
  using assms by (auto simp: effective_decision_def arena_def split: option.split)

lemma below_children:
  assumes a: "arena pats P D nodes" and i: "i < length nodes"
  shows "below nodes i = insert i (\<Union>(c, j) \<in> set (rn_children (nodes ! i)). below nodes j)"
proof -
  have ch: "(c, j) \<in> set (rn_children (nodes ! i)) \<longleftrightarrow>
      j < length nodes \<and> rn_components (nodes ! j) = rn_components (nodes ! i) @ [c]" for c j
    using a i by (simp add: arena_def)
  have "k = i \<or> (\<exists>(c, j) \<in> set (rn_children (nodes ! i)). k \<in> below nodes j)" if k: "k \<in> below nodes i" for k
  proof -
    obtain q where q: "rn_components (nodes ! k) = rn_components (nodes ! i) @ q" "k < length nodes"
      using k by (auto simp: below_def prefix_def)
    show ?thesis
    proof (cases q)
      case Nil
      then show ?thesis using arena_index_unique [OF a q(2) i] q by simp
    next
      case (Cons c r)
      have "rn_components (nodes ! i) @ [c] \<in> P"
        using arena_prefix [OF a q(2), of "rn_components (nodes ! i) @ [c]" r] q(1) Cons by simp
      then obtain j where "j < length nodes" "rn_components (nodes ! j) = rn_components (nodes ! i) @ [c]"
        using a by (auto simp: arena_def in_set_conv_nth)
      then show ?thesis using ch q Cons by (intro disjI2 bexI [of _ "(c, j)"]) (simp_all add: below_def)
    qed
  qed
  moreover have "below nodes j \<subseteq> below nodes i" if "(c, j) \<in> set (rn_children (nodes ! i))" for c j
    using that by (auto simp: ch below_def dest: append_prefixD)
  moreover have "i \<in> below nodes i" using i by (simp add: below_def)
  ultimately show ?thesis by fastforce
qed

text \<open>Each turn replaces a node by deeper ones, and the depth of the arena is bounded.\<close>

definition deeper :: "rule_node list \<Rightarrow> (nat \<times> nat) set" where
  "deeper nodes = measure (\<lambda>i. sum_list (map (length \<circ> rn_components) nodes) - length (rn_components (nodes ! i)))"

lemma deeperI:
  assumes "j < length nodes" and "rn_components (nodes ! j) = rn_components (nodes ! i) @ [c]"
  shows "(j, i) \<in> deeper nodes"
proof -
  have "(length \<circ> rn_components) (nodes ! j) \<le> sum_list (map (length \<circ> rn_components) nodes)"
    using assms(1) by (intro member_le_sum_list) (auto simp: image_iff)
  then show ?thesis using assms(2) by (simp add: deeper_def)
qed

lemma wf_walk: "wf (inv_image (mult (deeper nodes)) (mset \<circ> map fst))"
  by (intro wf_inv_image wf_mult) (simp add: deeper_def)

lemma below_stack:
  assumes "arena pats P D nodes" and "i < length nodes"
  shows "(\<Union>(j, x) \<in> set ((i, inh) # rest). \<Union>k \<in> below nodes j. F k) =
    F i \<union> (\<Union>(j, x) \<in> set (rev (map (\<lambda>edge. (snd edge, eff)) (rn_children (nodes ! i))) @ rest).
      \<Union>k \<in> below nodes j. F k)"
proof -
  have "(\<Union>k \<in> below nodes i. F k) = F i \<union> (\<Union>(c, j) \<in> set (rn_children (nodes ! i)). \<Union>k \<in> below nodes j. F k)"
    unfolding below_children [OF assms] by (simp add: split_def)
  then show ?thesis by (simp add: split_def Un_assoc)
qed

lemma rule_walk_visits:
  assumes a: "rules_arena rules nodes"
    and "\<forall>(i, inh) \<in> set stack. i < length nodes \<and>
      effective_decision (nodes ! i) inh = nearest rules (rn_components (nodes ! i))"
  shows "\<exists>out' conflicts'. rule_walk role_id nodes stack out conflicts = Some (out', conflicts') \<and>
    set out' = set out \<union> (\<Union>(i, inh) \<in> set stack. \<Union>k \<in> below nodes i. set (visit_rows role_id rules nodes k)) \<and>
    set conflicts' = set conflicts \<union> (\<Union>(i, inh) \<in> set stack. \<Union>k \<in> below nodes i. set (visit_conflicts rules nodes k))"
  using assms(2)
proof (induction stack arbitrary: out conflicts rule: wf_induct_rule [OF wf_walk [of nodes]])
  case (1 stack)
  show ?case
  proof (cases stack)
    case Nil
    then show ?thesis by (subst rule_walk.simps) simp
  next
    case (Cons frame rest)
    obtain i inh where frame: "frame = (i, inh)" by (cases frame)
    let ?children = "rn_children (nodes ! i)" and ?eff = "nearest rules (rn_components (nodes ! i))"
    let ?stack = "rev (map (\<lambda>edge. (snd edge, ?eff)) ?children) @ rest"
    have i: "i < length nodes" and eff: "effective_decision (nodes ! i) inh = ?eff"
      using "1.prems" by (simp_all add: Cons frame)
    have ch: "(c, j) \<in> set ?children \<longleftrightarrow>
        j < length nodes \<and> rn_components (nodes ! j) = rn_components (nodes ! i) @ [c]" for c j
      using a i by (simp add: arena_def)
    have step: "rule_walk role_id nodes stack out conflicts =
        rule_walk role_id nodes ?stack (out @ visit_rows role_id rules nodes i) (conflicts @ visit_conflicts rules nodes i)"
      by (subst rule_walk.simps) (simp add: Cons frame eff visit_rows_def visit_conflicts_def Let_def)
    have less: "(?stack, stack) \<in> inv_image (mult (deeper nodes)) (mset \<circ> map fst)"
    proof -
      have "(mset (map fst rest) + mset (map snd ?children), mset (map fst rest) + {#i#}) \<in> mult (deeper nodes)"
        by (rule one_step_implies_mult) (auto simp: ch intro!: deeperI)
      then show ?thesis by (simp add: Cons frame multiset.map_comp comp_def ac_simps)
    qed
    have ok: "\<forall>(i, inh) \<in> set ?stack. i < length nodes \<and>
        effective_decision (nodes ! i) inh = nearest rules (rn_components (nodes ! i))"
      using "1.prems" by (auto simp: Cons ch effective_decision_arena [OF a] nearest_snoc)
    obtain out' conflicts' where r:
      "rule_walk role_id nodes stack out conflicts = Some (out', conflicts')"
      "set out' = set (out @ visit_rows role_id rules nodes i) \<union>
         (\<Union>(i, inh) \<in> set ?stack. \<Union>k \<in> below nodes i. set (visit_rows role_id rules nodes k))"
      "set conflicts' = set (conflicts @ visit_conflicts rules nodes i) \<union>
         (\<Union>(i, inh) \<in> set ?stack. \<Union>k \<in> below nodes i. set (visit_conflicts rules nodes k))"
      using "1.IH" [OF less ok, of "out @ visit_rows role_id rules nodes i" "conflicts @ visit_conflicts rules nodes i"]
      by (elim exE conjE) (rule that [unfolded step])
    show ?thesis
      by (rule exI [of _ out'], rule exI [of _ conflicts'])
        (simp only: r(1) [unfolded Cons frame] r(2,3) simp_thms Cons frame below_stack [OF a i, where eff = ?eff] set_append Un_assoc)
  qed
qed

text \<open>From the root, every node is visited.\<close>

lemma rule_walk_root:
  obtains out conflicts where
    "rule_walk role_id (build_nodes rules) [(0, None)] [] [] = Some (out, conflicts)"
    "set out = (\<Union>k < length (build_nodes rules). set (visit_rows role_id rules (build_nodes rules) k))"
    "set conflicts = (\<Union>k < length (build_nodes rules). set (visit_conflicts rules (build_nodes rules) k))"
proof -
  let ?nodes = "build_nodes rules"
  have a: "rules_arena rules ?nodes" by (rule arena_build_nodes)
  then have z: "0 < length ?nodes" "rn_components (?nodes ! 0) = []" by (simp_all add: arena_def)
  then have "\<forall>(i, inh) \<in> set [(0, None)]. i < length ?nodes \<and>
      effective_decision (?nodes ! i) inh = nearest rules (rn_components (?nodes ! i))"
    by (simp add: effective_decision_arena [OF a])
  moreover have "below ?nodes 0 = {..< length ?nodes}" using z by (auto simp: below_def)
  ultimately show thesis using rule_walk_visits [OF a, of "[(0, None)]" role_id "[]" "[]"] that by auto
qed

end
