(* ===== verification/Path_Properties.thy ===== *)
theory Path_Properties
  imports Sample
begin

text \<open>
  The properties of path matching: the component hash, the walk to the task's root and the rule
  table, each with a concrete instance on the sample kernel.
\<close>

section \<open>Component hashes\<close>

text \<open>
  C35: The hash the kernel side computes from a name in kernel memory is the one userspace computes
  from the bytes of the name when it writes the rule maps, for names of any length.
\<close>

theorem hash_component_agrees:
  assumes "name_stored k name len bs"
  shows "hash_component k name len = fnv1a_hash_u64 bs"
  by (rule hash_component_stored [OF assms])

theorem hash_component_agrees_witness:
  "hash_component sample_env 0x70010 3 = fnv1a_hash_u64 [101, 116, 99]"
  using hash_component_agrees [OF sample_stored(1)] .

text \<open>
  Two names within the hashed length that differ in exactly one byte have different hashes.
\<close>

theorem hash_separates_one_byte:
  assumes "length xs + length ys < MAX_HASH_LEN"
  shows "fnv1a_hash_u64 (xs @ [a] @ ys) = fnv1a_hash_u64 (xs @ [b] @ ys) \<longleftrightarrow> a = b"
  using assms
  by (simp add: fnv1a_hash_u64_def Let_def MAX_HASH_LEN_def fnv_prime_cancel xor_right_cancel
      foldl_fnv_step_inject fnv_step_byte_inject)

theorem hash_separates_one_byte_witness:
  "fnv1a_hash_u64 ([100] @ [97] @ [116, 97]) \<noteq> fnv1a_hash_u64 ([100] @ [98] @ [116, 97])"
  using hash_separates_one_byte [of "[100]" "[116, 97]" 97 98] by (simp add: MAX_HASH_LEN_def)

text \<open>
  Beyond the hashed length nothing counts, not even the length: every name that starts with the
  same 64 bytes has the hash of those 64 bytes, in userspace and in the kernel.
\<close>

theorem hash_long_names_collide:
  assumes "length xs = MAX_HASH_LEN"
  shows "fnv1a_hash_u64 (xs @ ys) = fnv1a_hash_u64 xs \<and>
    (name_stored k name len (xs @ ys) \<longrightarrow> hash_component k name len = fnv1a_hash_u64 xs)"
proof -
  have "fnv1a_hash_u64 (xs @ ys) = fnv1a_hash_u64 xs" using assms by (simp add: fnv1a_hash_u64_def)
  then show ?thesis using hash_component_stored by metis
qed

theorem hash_long_names_collide_witness:
  "fnv1a_hash_u64 (replicate 64 97 @ [98, 99]) = fnv1a_hash_u64 (replicate 64 97)"
  using hash_long_names_collide [of "replicate 64 97" "[98, 99]"] by (simp add: MAX_HASH_LEN_def)

section \<open>The walk\<close>

text \<open>
  C3: For a path that resolves to the task's root (or the global root) with room for its
  components and within the step bound, across any number of mounts, the walk delivers exactly
  the hashes of its named components, leaf first, and does not flag it as truncated.
\<close>

theorem walk_collects_path:
  assumes "d \<noteq> 0" and "real_mount k v \<noteq> 0" and "wf_components buf"
    and "resolves k root ms d (real_mount k v) v"
    and "length ms < MAX_PATH_WALK_STEPS" and "has_room k 0 ms"
  shows "view (snd (collect_path_components k d v root buf)) = (map (dentry_hash k) (path_dentries k ms), 0)"
  by (rule collect_complete [OF assms])

theorem walk_collects_path_witness:
  "view (snd (collect_path_components sample_env 0x45000 0x31020 sample_root
     \<lparr>pcs_hashes = replicate 16 9, pcs_count = 3, pcs_truncated = 1\<rparr>)) = ([h_f, h_data], 0)"
  using walk_collects_path [OF _ _ _ sample_data_resolves [folded sample_tree(11)], of
      "\<lparr>pcs_hashes = replicate 16 9, pcs_count = 3, pcs_truncated = 1\<rparr>"]
  by (simp add: MAX_PATH_WALK_STEPS_def MAX_COMPONENTS_def wf_components_def)

text \<open>
  C4: A walk that is not flagged as truncated has reached a root: there is a resolution within the
  step bound and with room for its components, it is the only one, and the buffer holds its hashes.
\<close>

theorem walk_untruncated_resolves:
  assumes "d \<noteq> 0" and "real_mount k v \<noteq> 0" and "wf_components buf"
    and "pcs_truncated (snd (collect_path_components k d v root buf)) = 0"
  shows "\<exists>!ms. resolves k root ms d (real_mount k v) v \<and> length ms < MAX_PATH_WALK_STEPS \<and>
    has_room k 0 ms \<and>
    collected (snd (collect_path_components k d v root buf)) = map (dentry_hash k) (path_dentries k ms)"
proof -
  obtain ms where ms: "resolves k root ms d (real_mount k v) v" "length ms < MAX_PATH_WALK_STEPS"
      "has_room k 0 ms"
    using collect_sound [OF assms] by blast
  moreover have "collected (snd (collect_path_components k d v root buf)) =
      map (dentry_hash k) (path_dentries k ms)"
    using collect_complete [OF assms(1-3) ms] by (simp add: view_def)
  ultimately show ?thesis using resolves_deterministic by blast
qed

theorem walk_untruncated_resolves_witness:
  "\<exists>ms. resolves sample_env sample_root ms 0x42000 0x30000 0x30020 \<and>
     map (dentry_hash sample_env) (path_dentries sample_env ms) = [h_shadow, h_etc]"
proof -
  let ?b = "\<lparr>pcs_hashes = replicate 16 0, pcs_count = 0, pcs_truncated = 0\<rparr> :: path_components"
  have b: "wf_components ?b" by (simp add: wf_components_def MAX_COMPONENTS_def)
  then show ?thesis
    using walk_untruncated_resolves [of "0x42000" sample_env "0x30020" ?b sample_root]
      sample_shadow_collect [OF b] by (auto simp: view_def)
qed

section \<open>Rule tables\<close>

text \<open>
  C5: On every well-formed buffer the array walk of \<open>check_path_state_machine\<close>, with its clamped
  count and masked index, computes the reference verdict of the path read from the root down; an
  empty or truncated path is left to the role default.
\<close>

theorem state_machine_refines_rules:
  assumes "wf_components buf"
  shows "check_path_state_machine states role_id buf =
    (if collected buf = [] \<or> pcs_truncated buf \<noteq> 0 then 0
     else rule_verdict states role_id PATH_STATE_ROOT (rev (collected buf)))"
  by (rule check_eq_rule_verdict [OF assms])

theorem state_machine_refines_rules_witness:
  "check_path_state_machine sample_table 3
     \<lparr>pcs_hashes = [h_shadow, h_etc] @ replicate 14 0, pcs_count = 2, pcs_truncated = 0\<rparr> = - 13"
  using state_machine_refines_rules
    [of "\<lparr>pcs_hashes = [h_shadow, h_etc] @ replicate 14 0, pcs_count = 2, pcs_truncated = 0\<rparr>" sample_table 3]
    sample_shadow_rule
  by (simp add: wf_components_def MAX_COMPONENTS_def collected_def PATH_STATE_ROOT_def)

lemma state_loop_role:
  assumes "\<And>key. psk_role_id key = role_id \<Longrightarrow> states key = states' key"
  shows "state_loop states role_id hs c n i st = state_loop states' role_id hs c n i st"
  by (induction n arbitrary: i st) (simp_all add: transition_lookup_def assms Let_def split: option.splits)

text \<open>
  Whatever the buffer holds, the verdict is an explicit allow (1), an explicit deny (\<open>-13\<close>) or
  no decision (0), and it depends on the entries of the given role only.
\<close>

theorem state_machine_role_isolation:
  assumes "\<And>key. psk_role_id key = role_id \<Longrightarrow> states key = states' key"
  shows "check_path_state_machine states role_id buf = check_path_state_machine states' role_id buf \<and>
    check_path_state_machine states role_id buf \<in> {1, 0, - 13}"
  using check_verdict_cases [of states role_id buf]
  by (auto simp: check_path_state_machine_def Let_def state_loop_role [OF assms] assms cong: sum.case_cong)

theorem state_machine_role_isolation_witness:
  "check_path_state_machine
     (sample_table(\<lparr>psk_role_id = 4, psk_state = 0, psk_component_hash = 0\<rparr> \<mapsto> sample_deny)) 3
     \<lparr>pcs_hashes = [h_shadow, h_etc] @ replicate 14 0, pcs_count = 2, pcs_truncated = 0\<rparr> =
   check_path_state_machine sample_table 3
     \<lparr>pcs_hashes = [h_shadow, h_etc] @ replicate 14 0, pcs_count = 2, pcs_truncated = 0\<rparr>"
  by (rule conjunct1 [OF state_machine_role_isolation]) auto

text \<open>
  For a path that resolves with room to spare, opening it is decided by the rules on the names of
  its components, from the task's root down to the file.
\<close>

lemma path_decided_by_names:
  assumes "d \<noteq> 0" and "real_mount k v \<noteq> 0" and "wf_components buf"
    and "resolves k root ms d (real_mount k v) v"
    and "length ms < MAX_PATH_WALK_STEPS" and "has_room k 0 ms"
    and "path_dentries k ms = rev (map fst named)" and "named \<noteq> []"
    and "\<forall>(e, bs) \<in> set named. name_stored k (d_name_name k e) (d_name_len k e) bs"
  shows "check_path_state_machine states role_id (snd (collect_path_components k d v root buf)) =
    rule_verdict states role_id PATH_STATE_ROOT (map (fnv1a_hash_u64 \<circ> snd) named)"
proof -
  let ?b = "snd (collect_path_components k d v root buf)"
  have b: "collected ?b = map (dentry_hash k) (path_dentries k ms)" "pcs_truncated ?b = 0"
    using collect_complete [OF assms(1-6)] by (simp_all add: view_def)
  have "map (dentry_hash k) (map fst named) = map (fnv1a_hash_u64 \<circ> snd) named"
    using assms(9) by (auto simp: dentry_hash_def hash_component_stored)
  then have "rev (collected ?b) = map (fnv1a_hash_u64 \<circ> snd) named"
    by (simp add: b(1) assms(7) rev_map)
  moreover have "collected ?b \<noteq> []" using assms(7,8) by (simp add: b(1))
  ultimately show ?thesis
    using check_eq_rule_verdict [OF view_collect(3) [OF assms(3,3)]] b(2) by simp
qed

end
