(* ===== verification/Role_Rules.thy ===== *)
theory Role_Rules
  imports Role_Trie Path_Properties
begin

text \<open>
  What the rows of a role decide. The rows that \<open>path_state_entries_for_role\<close> emits, read by the
  BPF-side walk, decide a path as \<open>trie_verdict\<close> does; without \<open>*\<close> this is the most specific
  pattern.
\<close>

section \<open>The rows of a role\<close>

definition has_children :: "(bytes \<times> bool) list \<Rightarrow> bytes list \<Rightarrow> bool" where
  "has_children rules p = list_ex (\<lambda>(cs, _). strict_prefix p cs) (rule_paths rules)"

lemma has_children_iff: "has_children rules p \<longleftrightarrow> (\<exists>c. mentioned rules (p @ [c]))"
proof -
  have "strict_prefix p cs \<longleftrightarrow> (\<exists>c. prefix (p @ [c]) cs)" for cs
    by (auto simp: strict_prefix_def prefix_def) (metis list.exhaust)
  then show ?thesis by (fastforce simp: has_children_def mentioned_def list_ex_iff)
qed

lemma leaf_decided:
  assumes "mentioned rules p" and "p \<noteq> []" and "\<not> has_children rules p"
  shows "decided rules p \<noteq> None"
proof -
  obtain cs x where cs: "(cs, x) \<in> set (rule_paths rules)" "prefix p cs"
    using assms(1,2) by (auto simp: mentioned_def list_ex_iff)
  then have "p = cs" using assms(3) by (fastforce simp: has_children_def list_ex_iff strict_prefix_def)
  then show ?thesis using cs(1) unfolding decided_def map_of_eq_None_iff by force
qed

definition edge_value :: "u32 \<Rightarrow> (bytes \<times> bool) list \<Rightarrow> bytes list \<Rightarrow> path_state_value" where
  "edge_value role_id rules q =
     (if has_children rules q then step_value (state_after role_id q) (last q = star)
      else terminal_value (case decided rules q of Some (d, by) \<Rightarrow> d | None \<Rightarrow> False) (last q = star))"

definition wildcard_value :: "u32 \<Rightarrow> (bytes \<times> bool) list \<Rightarrow> bytes list \<Rightarrow> path_state_value option" where
  "wildcard_value role_id rules p =
     (if mentioned rules (p @ [star]) then Some (edge_value role_id rules (p @ [star]))
      else if has_children rules p
      then map_option (\<lambda>(d, by). terminal_value d True) (nearest rules p)
      else None)"

lemma arena_child_iff:
  assumes "rules_arena rules nodes" and "i < length nodes" and "rn_components (nodes ! i) = p"
  shows "(\<exists>j. (c, j) \<in> set (rn_children (nodes ! i))) \<longleftrightarrow> mentioned rules (p @ [c])"
proof -
  have "(\<exists>j. (c, j) \<in> set (rn_children (nodes ! i))) \<longleftrightarrow> map_of (rn_children (nodes ! i)) c \<noteq> None"
    by (force simp: map_of_eq_None_iff simp del: not_None_eq)
  then show ?thesis using arena_no_child [OF assms(1,2), of c] assms(3) by simp
qed

lemma arena_has_children:
  assumes "rules_arena rules nodes" and "i < length nodes" and "rn_components (nodes ! i) = p"
  shows "rn_children (nodes ! i) \<noteq> [] \<longleftrightarrow> has_children rules p"
proof -
  have "rn_children (nodes ! i) \<noteq> [] \<longleftrightarrow> (\<exists>c j. (c, j) \<in> set (rn_children (nodes ! i)))"
    by (metis last_in_set list.set(1) empty_iff surj_pair)
  then show ?thesis using arena_child_iff [OF assms] by (simp add: has_children_iff)
qed

lemma arena_edge_row:
  assumes a: "rules_arena rules nodes" and i: "i < length nodes" "rn_components (nodes ! i) = p"
    and e: "(c, j) \<in> set (rn_children (nodes ! i))"
  shows "edge_row role_id nodes (nodes ! i) (c, j) =
    (row_key role_id (state_after role_id p) (component_key c), edge_value role_id rules (p @ [c]))"
proof -
  have j: "j < length nodes" "rn_components (nodes ! j) = p @ [c]" using a i e by (simp_all add: arena_def)
  have "rn_decision (nodes ! j) = map_option fst (decided rules (p @ [c]))" using a j by (simp add: arena_def)
  then show ?thesis
    using arena_has_children [OF a j]
    by (auto simp: edge_row_def edge_value_def i(2) j(2) split: option.split)
qed

text \<open>All rows: the named edges, and at the wildcard slot of a path what it has.\<close>

definition role_row :: "u32 \<Rightarrow> (bytes \<times> bool) list \<Rightarrow> bytes list \<Rightarrow> path_state_key \<Rightarrow> path_state_value \<Rightarrow> bool" where
  "role_row role_id rules p k v \<longleftrightarrow>
     (\<exists>c. c \<noteq> star \<and> mentioned rules (p @ [c]) \<and>
        k = row_key role_id (state_after role_id p) (fnv1a_hash_u64 c) \<and> v = edge_value role_id rules (p @ [c])) \<or>
     k = row_key role_id (state_after role_id p) 0 \<and> wildcard_value role_id rules p = Some v"

lemma visit_rows_iff:
  assumes a: "rules_arena rules nodes" and i: "i < length nodes" "rn_components (nodes ! i) = p"
    and ok: "visit_conflicts rules nodes i = []"
  shows "(k, v) \<in> set (visit_rows role_id rules nodes i) \<longleftrightarrow> role_row role_id rules p k v"
proof -
  let ?st = "state_after role_id p"
  have star: "map_of (rn_children (nodes ! i)) star = None \<longleftrightarrow> \<not> mentioned rules (p @ [star])"
    using arena_no_child [OF a i(1), of star] i(2) by simp
  have ok': "mentioned rules (p @ [star]) \<Longrightarrow> nearest rules p = None"
    using ok star by (auto simp: visit_conflicts_def node_conflicts_def i(2) split: option.splits)
  have "(k, v) \<in> edge_row role_id nodes (nodes ! i) ` set (rn_children (nodes ! i)) \<longleftrightarrow>
      (\<exists>c. mentioned rules (p @ [c]) \<and> k = row_key role_id ?st (component_key c) \<and> v = edge_value role_id rules (p @ [c]))"
  proof -
    have "(k, v) \<in> edge_row role_id nodes (nodes ! i) ` set (rn_children (nodes ! i)) \<longleftrightarrow>
        (\<exists>c j. (c, j) \<in> set (rn_children (nodes ! i)) \<and>
           (k, v) = (row_key role_id ?st (component_key c), edge_value role_id rules (p @ [c])))"
      unfolding image_iff using arena_edge_row [OF a i, of _ _ role_id] by (metis surj_pair)
    then show ?thesis using arena_child_iff [OF a i] by auto
  qed
  moreover have "(k, v) \<in> set (inherited_rows role_id (nodes ! i) (nearest rules p)) \<longleftrightarrow>
      \<not> mentioned rules (p @ [star]) \<and> k = row_key role_id ?st 0 \<and> wildcard_value role_id rules p = Some v"
    using star arena_has_children [OF a i]
    by (cases "nearest rules p") (auto simp: inherited_rows_def wildcard_value_def i(2))
  ultimately show ?thesis
    by (auto simp: visit_rows_def i(2) role_row_def component_key_def wildcard_value_def split: if_splits)
qed

section \<open>Digests\<close>

text \<open>
  The states of the paths that branch are distinct, and a component of a rule has the digest of
  another component or name only where both are the same; no component has the wildcard's digest.
\<close>

definition branch_points :: "(bytes \<times> bool) list \<Rightarrow> bytes list list" where
  "branch_points rules = remdups (concat (map (\<lambda>(cs, _). butlast (prefixes cs)) (rule_paths rules)))"

definition rule_components :: "(bytes \<times> bool) list \<Rightarrow> bytes list" where
  "rule_components rules = remdups (concat (map fst (rule_paths rules)))"

definition digests_apart :: "u32 \<Rightarrow> (bytes \<times> bool) list \<Rightarrow> bytes list \<Rightarrow> bool" where
  "digests_apart role_id rules names =
     (distinct (map (state_after role_id) (branch_points rules)) \<and>
      list_all (\<lambda>c. c = star \<or> fnv1a_hash_u64 c \<noteq> 0 \<and>
        list_all (\<lambda>n. n = c \<or> fnv1a_hash_u64 n \<noteq> fnv1a_hash_u64 c) (rule_components rules @ names))
        (rule_components rules))"

lemma branch_points_iff: "p \<in> set (branch_points rules) \<longleftrightarrow> has_children rules p"
proof -
  have "p \<in> set (butlast (prefixes cs)) \<longleftrightarrow> strict_prefix p cs" for cs
  proof (cases cs rule: rev_cases)
    case (snoc ys y)
    then show ?thesis by (auto simp: prefixes_snoc strict_prefix_def dest: prefix_length_le)
  qed simp
  then show ?thesis by (auto simp: branch_points_def has_children_def list_ex_iff)
qed

lemma rule_componentsI: "mentioned rules (p @ [c]) \<Longrightarrow> c \<in> set (rule_components rules)"
proof -
  assume "mentioned rules (p @ [c])"
  then obtain cs x where cs: "(cs, x) \<in> set (rule_paths rules)" "prefix (p @ [c]) cs"
    by (auto simp: mentioned_def list_ex_iff)
  then have "c \<in> set cs" using set_mono_prefix [OF cs(2)] by simp
  then show ?thesis using cs(1) by (force simp: rule_components_def)
qed

lemma branch_state_unique:
  assumes "digests_apart role_id rules names" and "has_children rules p" and "has_children rules q"
    and "state_after role_id p = state_after role_id q"
  shows "p = q"
  using assms by (auto simp: digests_apart_def distinct_map branch_points_iff inj_on_def)

lemma component_digest:
  assumes "digests_apart role_id rules names" and "mentioned rules (p @ [c])" and "c \<noteq> star"
  shows "fnv1a_hash_u64 c \<noteq> 0"
    and "mentioned rules (q @ [d]) \<or> d \<in> set names \<Longrightarrow> fnv1a_hash_u64 d = fnv1a_hash_u64 c \<Longrightarrow> d = c"
proof -
  have c: "c \<in> set (rule_components rules)" using assms(2) by (rule rule_componentsI)
  then have "fnv1a_hash_u64 c \<noteq> 0 \<and>
      (\<forall>n \<in> set (rule_components rules @ names). n = c \<or> fnv1a_hash_u64 n \<noteq> fnv1a_hash_u64 c)"
    using assms(1,3) unfolding digests_apart_def list_all_iff by blast
  then show "fnv1a_hash_u64 c \<noteq> 0"
    and "mentioned rules (q @ [d]) \<or> d \<in> set names \<Longrightarrow> fnv1a_hash_u64 d = fnv1a_hash_u64 c \<Longrightarrow> d = c"
    using rule_componentsI [of rules q d] by auto
qed

section \<open>The table of a role\<close>

lemma write_rows_hit:
  assumes "(k, v) \<in> set rows" and "\<And>v'. (k, v') \<in> set rows \<Longrightarrow> v' = v"
  shows "write_rows rows table k = Some v"
  using assms
proof (induction rows rule: rev_induct)
  case (snoc r rows)
  obtain k' v' where r: "r = (k', v')" by (cases r)
  show ?case
  proof (cases "k' = k")
    case True
    then show ?thesis using snoc.prems(2) [of v'] by (simp add: write_rows_def r)
  next
    case False
    have "(k, v) \<in> set rows" using snoc.prems(1) False by (simp add: r)
    moreover have "v' = v" if "(k, v') \<in> set rows" for v' using snoc.prems(2) [of v'] that by simp
    ultimately have "write_rows rows table k = Some v" by (rule snoc.IH)
    then show ?thesis using False by (simp add: write_rows_def r)
  qed
qed simp

lemma write_rows_miss: "(\<And>v. (k, v) \<notin> set rows) \<Longrightarrow> write_rows rows table k = table k"
  by (induction rows rule: rev_induct) (auto simp: write_rows_def split: prod.splits)

text \<open>A table as the rows of a role leave it: at a branching path, its named edges and its wildcard slot.\<close>

definition role_table :: "u32 \<Rightarrow> (bytes \<times> bool) list \<Rightarrow> path_table \<Rightarrow> bool" where
  "role_table role_id rules table \<longleftrightarrow>
     (\<forall>p c. c \<noteq> star \<longrightarrow> mentioned rules (p @ [c]) \<longrightarrow>
        table (row_key role_id (state_after role_id p) (fnv1a_hash_u64 c)) = Some (edge_value role_id rules (p @ [c]))) \<and>
     (\<forall>p. has_children rules p \<longrightarrow>
        table (row_key role_id (state_after role_id p) 0) = wildcard_value role_id rules p) \<and>
     (\<forall>p h. has_children rules p \<longrightarrow> h \<noteq> 0 \<longrightarrow> (\<forall>c. mentioned rules (p @ [c]) \<longrightarrow> c \<noteq> star \<longrightarrow> fnv1a_hash_u64 c \<noteq> h) \<longrightarrow>
        table (row_key role_id (state_after role_id p) h) = None)"

lemma row_key_eq [simp]: "row_key r s h = row_key r' s' h' \<longleftrightarrow> r = r' \<and> s = s' \<and> h = h'"
  by (simp add: row_key_def)

lemma role_row_branch: "role_row role_id rules p k v \<Longrightarrow> has_children rules p"
  by (auto simp: role_row_def wildcard_value_def has_children_iff split: if_splits)

lemma role_row_unique:
  assumes d: "digests_apart role_id rules names" and r: "role_row role_id rules p k v" "role_row role_id rules q k w"
  shows "v = w"
proof -
  have "psk_state k = state_after role_id p" "psk_state k = state_after role_id q"
    using r by (auto simp: role_row_def row_key_def)
  then have "p = q" using branch_state_unique [OF d] role_row_branch r by metis
  then show ?thesis using r component_digest [OF d] by (auto simp: role_row_def) metis+
qed

lemma role_row_at:
  assumes "digests_apart role_id rules names" and "has_children rules p"
    and "role_row role_id rules q (row_key role_id (state_after role_id p) h) v"
  shows "q = p"
proof -
  have "state_after role_id q = state_after role_id p" using assms(3) by (auto simp: role_row_def)
  then show ?thesis using branch_state_unique [OF assms(1) role_row_branch [OF assms(3)] assms(2)] by simp
qed

lemma role_table_write_rows:
  assumes d: "digests_apart role_id rules names" and free: "\<And>k. psk_role_id k = role_id \<Longrightarrow> table k = None"
    and rows: "\<And>k v. (k, v) \<in> set rows \<longleftrightarrow> (\<exists>p. role_row role_id rules p k v)"
  shows "role_table role_id rules (write_rows rows table)"
proof -
  have hit: "write_rows rows table k = Some v" if "role_row role_id rules p k v" for p k v
    using that role_row_unique [OF d] rows by (intro write_rows_hit) blast+
  have miss: "write_rows rows table k = None" if "\<And>p v. \<not> role_row role_id rules p k v" and "psk_role_id k = role_id" for k
    using that rows free by (metis write_rows_miss)
  show ?thesis
    unfolding role_table_def
  proof (intro conjI allI impI)
    fix p c
    assume "c \<noteq> star" "mentioned rules (p @ [c])"
    then show "write_rows rows table (row_key role_id (state_after role_id p) (fnv1a_hash_u64 c)) =
        Some (edge_value role_id rules (p @ [c]))"
      by (intro hit [of p]) (auto simp: role_row_def)
  next
    fix p
    assume p: "has_children rules p"
    show "write_rows rows table (row_key role_id (state_after role_id p) 0) = wildcard_value role_id rules p"
    proof (cases "wildcard_value role_id rules p")
      case None
      have "\<not> role_row role_id rules q (row_key role_id (state_after role_id p) 0) v" for q v
        using role_row_at [OF d p, of q 0 v] None component_digest(1) [OF d] by (auto simp: role_row_def)
      then show ?thesis using None by (simp add: miss row_key_def)
    next
      case (Some v)
      then show ?thesis by (simp add: hit [of p] role_row_def)
    qed
  next
    fix p h
    assume p: "has_children rules p" "h \<noteq> 0" and h: "\<forall>c. mentioned rules (p @ [c]) \<longrightarrow> c \<noteq> star \<longrightarrow> fnv1a_hash_u64 c \<noteq> h"
    have "\<not> role_row role_id rules q (row_key role_id (state_after role_id p) h) v" for q v
      using role_row_at [OF d p(1), of q h v] h p(2) by (auto simp: role_row_def)
    then show "write_rows rows table (row_key role_id (state_after role_id p) h) = None"
      by (simp add: miss row_key_def)
  qed
qed

section \<open>The verdict\<close>

definition rule_opinion :: "(bool \<times> bytes) option \<Rightarrow> int" where
  "rule_opinion d = (case d of None \<Rightarrow> 0 | Some (allow, by) \<Rightarrow> decision_verdict allow)"

text \<open>
  The walk over the rules: from a path, the exact component if some rule has it, else \<open>*\<close>, else
  the most specific decision so far. It does not come back from a named component to try \<open>*\<close>.
\<close>

fun trie_verdict :: "(bytes \<times> bool) list \<Rightarrow> bytes list \<Rightarrow> bytes list \<Rightarrow> int" where
  "trie_verdict rules p [] =
     (if mentioned rules (p @ [star])
      then if has_children rules (p @ [star]) then 0 else rule_opinion (decided rules (p @ [star]))
      else rule_opinion (nearest rules p))"
| "trie_verdict rules p (n # ns) =
     (let q = (if mentioned rules (p @ [n]) then p @ [n] else p @ [star]) in
      if mentioned rules q
      then if has_children rules q then trie_verdict rules q ns else rule_opinion (decided rules q)
      else rule_opinion (nearest rules p))"

lemma value_verdict_terminal [simp]: "value_verdict (terminal_value d w) = decision_verdict d"
  by (simp add: value_verdict_def terminal_value_def decision_verdict_def bool_byte_def)

lemma terminal_step [simp]:
  "psv_is_terminal (terminal_value d w) \<noteq> 0" "psv_is_terminal (step_value s w) = 0"
  "psv_next_state (step_value s w) = s"
  by (simp_all add: terminal_value_def step_value_def bool_byte_def)

lemma edge_value_verdict:
  assumes "mentioned rules (p @ [c])"
  shows "psv_is_terminal (edge_value role_id rules (p @ [c])) \<noteq> 0 \<longleftrightarrow> \<not> has_children rules (p @ [c])"
    and "\<not> has_children rules (p @ [c]) \<Longrightarrow>
      value_verdict (edge_value role_id rules (p @ [c])) = rule_opinion (decided rules (p @ [c]))"
    and "has_children rules (p @ [c]) \<Longrightarrow> psv_next_state (edge_value role_id rules (p @ [c])) = state_after role_id (p @ [c])"
  using leaf_decided [OF assms] by (auto simp: edge_value_def rule_opinion_def)

lemma role_table_transition:
  assumes t: "role_table role_id rules table" and d: "digests_apart role_id rules names"
    and p: "has_children rules p" and n: "n \<in> set names"
  shows "transition_lookup table role_id (state_after role_id p) (fnv1a_hash_u64 n) =
    (if mentioned rules (p @ [n]) then Some (edge_value role_id rules (p @ [n])) else wildcard_value role_id rules p)"
proof -
  have zero: "table (row_key role_id (state_after role_id p) 0) = wildcard_value role_id rules p"
    using t p by (simp add: role_table_def)
  show ?thesis
  proof (cases "mentioned rules (p @ [n]) \<and> n \<noteq> star")
    case True
    then show ?thesis
      using t by (simp add: transition_lookup_def row_key_def [symmetric] role_table_def)
  next
    case False
    have "fnv1a_hash_u64 c \<noteq> fnv1a_hash_u64 n" if "mentioned rules (p @ [c])" "c \<noteq> star" for c
      using component_digest(2) [OF d that, of "[]" n] n False that by auto
    then have "fnv1a_hash_u64 n \<noteq> 0 \<Longrightarrow> table (row_key role_id (state_after role_id p) (fnv1a_hash_u64 n)) = None"
      using t p by (simp add: role_table_def)
    then have "transition_lookup table role_id (state_after role_id p) (fnv1a_hash_u64 n) = wildcard_value role_id rules p"
      using zero by (cases "fnv1a_hash_u64 n = 0")
        (auto simp: transition_lookup_def row_key_def [symmetric] split: option.split)
    then show ?thesis using False by (auto simp: wildcard_value_def)
  qed
qed

lemma role_table_verdict:
  assumes t: "role_table role_id rules table" and d: "digests_apart role_id rules all_names"
    and "has_children rules p" and "set names \<subseteq> set all_names"
  shows "rule_verdict table role_id (state_after role_id p) (map fnv1a_hash_u64 names) = trie_verdict rules p names"
  using assms(3,4)
proof (induction names arbitrary: p)
  case Nil
  have "table (row_key role_id (state_after role_id p) 0) = wildcard_value role_id rules p"
    using t Nil.prems(1) by (simp add: role_table_def)
  then show ?case
    using edge_value_verdict [of rules p star role_id] Nil.prems(1)
    by (auto simp: row_key_def [symmetric] wildcard_value_def rule_opinion_def split: option.split)
next
  case (Cons n ns)
  have look: "transition_lookup table role_id (state_after role_id p) (fnv1a_hash_u64 n) =
      (if mentioned rules (p @ [n]) then Some (edge_value role_id rules (p @ [n])) else wildcard_value role_id rules p)"
    using Cons.prems by (intro role_table_transition [OF t d]) simp_all
  define q where "q = (if mentioned rules (p @ [n]) then p @ [n] else p @ [star])"
  then obtain c where c: "q = p @ [c]" by metis
  show ?case
  proof (cases "mentioned rules q")
    case True
    then have "transition_lookup table role_id (state_after role_id p) (fnv1a_hash_u64 n) = Some (edge_value role_id rules q)"
      using look by (auto simp: q_def wildcard_value_def split: if_splits)
    then show ?thesis
      using True edge_value_verdict [of rules p c role_id] Cons.IH [of q] Cons.prems
      by (simp add: c [symmetric] q_def [symmetric])
  next
    case False
    then show ?thesis
      using look Cons.prems(1)
      by (auto simp: q_def wildcard_value_def rule_opinion_def split: if_splits option.split)
  qed
qed

section \<open>What a compiled role is\<close>

definition overlaps :: "bytes list \<Rightarrow> bytes list \<Rightarrow> bool" where
  "overlaps q r = (q \<noteq> [] \<and> list_ex (\<lambda>p. prefix q p \<and> prefix (p @ [star]) r) (prefixes r))"

lemma overlapsI: "q \<noteq> [] \<Longrightarrow> prefix q p \<Longrightarrow> prefix (p @ [star]) r \<Longrightarrow> overlaps q r"
  by (auto simp: overlaps_def list_ex_iff intro!: bexI [of _ p] dest: append_prefixD)

lemma nearest_longest:
  "nearest rules p = Some x \<Longrightarrow>
   \<exists>q. prefix q p \<and> decided rules q = Some x \<and> (\<forall>q'. prefix q' p \<longrightarrow> decided rules q' \<noteq> None \<longrightarrow> prefix q' q)"
proof (induction p rule: rev_induct)
  case (snoc c p)
  show ?case
  proof (cases "decided rules (p @ [c])")
    case None
    then obtain q where "prefix q p" "decided rules q = Some x"
        "\<forall>q'. prefix q' p \<longrightarrow> decided rules q' \<noteq> None \<longrightarrow> prefix q' q"
      using snoc by (auto simp: nearest_snoc)
    then show ?thesis using None by (intro exI [of _ q]) (auto simp: prefix_snoc)
  next
    case (Some y)
    then show ?thesis using snoc.prems by (intro exI [of _ "p @ [c]"]) (auto simp: nearest_snoc)
  qed
qed simp

lemma nearest_None_iff: "nearest rules p = None \<longleftrightarrow> (\<forall>q. prefix q p \<longrightarrow> decided rules q = None)"
  by (induction p rule: rev_induct) (auto simp: nearest_snoc prefix_snoc split: option.splits)

lemma visit_conflicts_iff:
  assumes a: "rules_arena rules nodes" and i: "i < length nodes" and p: "rn_components (nodes ! i) = p"
  shows "m \<in> set (visit_conflicts rules nodes i) \<Longrightarrow>
      \<exists>(by, d) \<in> set rules. \<exists>(cr, e) \<in> set rules.
        overlaps (pattern_components by) (pattern_components cr) \<and> m = conflict_message by cr"
    and "visit_conflicts rules nodes i = [] \<longleftrightarrow> \<not> (mentioned rules (p @ [star]) \<and> nearest rules p \<noteq> None)"
proof -
  show "visit_conflicts rules nodes i = [] \<longleftrightarrow> \<not> (mentioned rules (p @ [star]) \<and> nearest rules p \<noteq> None)"
    using arena_no_child [OF a i, of star] p
    by (auto simp: visit_conflicts_def node_conflicts_def split: option.splits)
  assume "m \<in> set (visit_conflicts rules nodes i)"
  then obtain d bp j where m: "m = conflict_message bp (rn_created_by (nodes ! j))"
      "nearest rules p = Some (d, bp)" "map_of (rn_children (nodes ! i)) star = Some j"
    by (cases "nearest rules p"; cases "map_of (rn_children (nodes ! i)) star")
      (auto simp: visit_conflicts_def node_conflicts_def p)
  have j: "j < length nodes" "rn_components (nodes ! j) = p @ [star]" using m(3) p by (simp_all add: arena_child [OF a i])
  then have cr: "rn_created_by (nodes ! j) \<in> fst ` set rules"
      "prefix (p @ [star]) (pattern_components (rn_created_by (nodes ! j)))"
    using a unfolding arena_def by (metis append_is_Nil_conv not_Cons_self2 nth_mem)+
  obtain q where q: "prefix q p" "decided rules q = Some (d, bp)" using nearest_longest [OF m(2)] by blast
  then have "overlaps (pattern_components bp) (pattern_components (rn_created_by (nodes ! j)))"
    using cr(2) decidedD [OF q(2)] by (intro overlapsI) auto
  then show "\<exists>(by, d) \<in> set rules. \<exists>(cr, e) \<in> set rules.
      overlaps (pattern_components by) (pattern_components cr) \<and> m = conflict_message by cr"
    using decidedD [OF q(2)] cr(1) m(1) by fastforce
qed

text \<open>The outcome of a compilation, on the rules.\<close>

definition conflicting :: "(bytes \<times> bool) list \<Rightarrow> bool" where
  "conflicting rules =
     list_ex (\<lambda>(q, _). list_ex (\<lambda>(r, _). overlaps q r) (rule_paths rules)) (rule_paths rules)"

lemma conflicting_iff: "conflicting rules \<longleftrightarrow> (\<exists>p. mentioned rules (p @ [star]) \<and> nearest rules p \<noteq> None)"
proof
  assume "conflicting rules"
  then obtain q x r y p where r: "(q, x) \<in> set (rule_paths rules)" "(r, y) \<in> set (rule_paths rules)"
      "prefix q p" "prefix (p @ [star]) r"
    by (fastforce simp: conflicting_def overlaps_def list_ex_iff)
  then have "decided rules q \<noteq> None" unfolding decided_def map_of_eq_None_iff by force
  then show "\<exists>p. mentioned rules (p @ [star]) \<and> nearest rules p \<noteq> None"
    using r by (intro exI [of _ p]) (auto simp: nearest_None_iff mentioned_def list_ex_iff)
next
  assume "\<exists>p. mentioned rules (p @ [star]) \<and> nearest rules p \<noteq> None"
  then obtain p q where p: "mentioned rules (p @ [star])" "prefix q p" "decided rules q \<noteq> None"
    by (auto simp: nearest_None_iff)
  then obtain r y where r: "(r, y) \<in> set (rule_paths rules)" "prefix (p @ [star]) r"
    by (auto simp: mentioned_def list_ex_iff)
  have "overlaps q r" using p(2,3) r(2) by (intro overlapsI) auto
  moreover have "q \<in> fst ` set (rule_paths rules)" using p(3) unfolding decided_def map_of_eq_None_iff by simp
  ultimately show "conflicting rules" using r(1) by (force simp: conflicting_def list_ex_iff)
qed

lemma node_of_path:
  assumes "arena pats P D nodes" and "p \<in> P"
  obtains i where "i < length nodes" "rn_components (nodes ! i) = p"
  using assms by (auto simp: arena_def in_set_conv_nth)

lemma role_outcome:
  obtains (ok) rows where "path_state_entries_for_role role_id rules = Some (Inr rows)" "\<not> conflicting rules"
      "\<And>k v. (k, v) \<in> set rows \<longleftrightarrow> (\<exists>p. role_row role_id rules p k v)"
  | (refused) conflicts where "path_state_entries_for_role role_id rules = Some (Inl (remdups_adj (sort conflicts)))"
      "conflicting rules" "conflicts \<noteq> []"
      "\<And>m. m \<in> set conflicts \<Longrightarrow> \<exists>(by, d) \<in> set rules. \<exists>(cr, e) \<in> set rules.
         overlaps (pattern_components by) (pattern_components cr) \<and> m = conflict_message by cr"
proof -
  let ?nodes = "build_nodes rules"
  have a: "rules_arena rules ?nodes" by (rule arena_build_nodes)
  obtain out conflicts where w: "rule_walk role_id ?nodes [(0, None)] [] [] = Some (out, conflicts)"
    "set out = (\<Union>k < length ?nodes. set (visit_rows role_id rules ?nodes k))"
    "set conflicts = (\<Union>k < length ?nodes. set (visit_conflicts rules ?nodes k))"
    by (rule rule_walk_root)
  have node: "\<exists>i < length ?nodes. rn_components (?nodes ! i) = p" if "mentioned rules p" for p
    using node_of_path [OF a, of p] that by auto
  have empty: "conflicts = [] \<longleftrightarrow> (\<forall>i < length ?nodes. visit_conflicts rules ?nodes i = [])"
    using w(3) by (auto simp flip: set_empty)
  have "conflicts = [] \<longleftrightarrow> \<not> conflicting rules"
    unfolding empty conflicting_iff using visit_conflicts_iff(2) [OF a _ refl] node mentioned_prefix by metis
  show thesis
  proof (cases "conflicts = []")
    case True
    have "(k, v) \<in> set out \<longleftrightarrow> (\<exists>p. role_row role_id rules p k v)" for k v
    proof -
      have "(k, v) \<in> set out \<longleftrightarrow> (\<exists>i < length ?nodes. role_row role_id rules (rn_components (?nodes ! i)) k v)"
        using visit_rows_iff [OF a _ refl, of _ k v role_id] True empty by (auto simp: w(2))
      also have "\<dots> \<longleftrightarrow> (\<exists>p. role_row role_id rules p k v)"
        using node role_row_branch mentioned_prefix has_children_iff by metis
      finally show ?thesis .
    qed
    then show ?thesis
      using True w(1) \<open>conflicts = [] \<longleftrightarrow> \<not> conflicting rules\<close>
      by (intro ok [of out]) (simp_all add: path_state_entries_for_role_def)
  next
    case False
    then show ?thesis
      using w(1,3) \<open>conflicts = [] \<longleftrightarrow> \<not> conflicting rules\<close> visit_conflicts_iff(1) [OF a _ refl]
      by (intro refused [of conflicts]) (auto simp: path_state_entries_for_role_def)
  qed
qed

lemma compiled_verdict:
  assumes e: "path_state_entries_for_role role_id rules = Some (Inr rows)"
    and d: "digests_apart role_id rules names" and free: "\<And>k. psk_role_id k = role_id \<Longrightarrow> table k = None"
  shows "rule_verdict (write_rows rows table) role_id PATH_STATE_ROOT (map fnv1a_hash_u64 names) =
    trie_verdict rules [] names"
proof -
  have rows: "(k, v) \<in> set rows \<longleftrightarrow> (\<exists>p. role_row role_id rules p k v)" for k v
    by (rule role_outcome [of role_id rules]) (use e in auto)
  have t: "role_table role_id rules (write_rows rows table)"
    by (rule role_table_write_rows [OF d free rows])
  have root: "state_after role_id [] = PATH_STATE_ROOT" by (simp add: state_after_def PATH_STATE_ROOT_def)
  show ?thesis
  proof (cases "has_children rules []")
    case True
    show ?thesis using role_table_verdict [OF t d True, of names] by (simp add: root)
  next
    case False
    then have no: "\<not> mentioned rules (p @ [c])" for p c
      using has_children_iff [of rules "[]"] mentioned_prefix [of rules "[hd (p @ [c])]" "tl (p @ [c])"] by auto
    then have "\<not> role_row role_id rules p k v" for p k v
      using role_row_branch has_children_iff by metis
    then have "write_rows rows table k = table k" for k using rows by (intro write_rows_miss) blast
    then have "rule_verdict (write_rows rows table) role_id PATH_STATE_ROOT (map fnv1a_hash_u64 names) = 0"
      by (cases names) (simp_all add: transition_lookup_def free)
    moreover have "trie_verdict rules [] names = 0"
      using no [of "[]"] by (cases names) (simp_all add: rule_opinion_def)
    ultimately show ?thesis by simp
  qed
qed

section \<open>Rules without wildcards\<close>

definition star_free :: "(bytes \<times> bool) list \<Rightarrow> bool" where
  "star_free rules = list_all (\<lambda>(cs, _). star \<notin> set cs) (rule_paths rules)"

lemma star_free_mentioned: "star_free rules \<Longrightarrow> \<not> mentioned rules (p @ [star])"
  by (fastforce simp: star_free_def mentioned_def list_ex_iff list_all_iff dest: set_mono_prefix)

lemma nearest_stuck:
  assumes "\<And>c cs. \<not> mentioned rules (p @ c # cs) \<or> c \<noteq> hd ns"
  shows "nearest rules (p @ ns) = nearest rules p"
  using assms
proof (induction ns rule: rev_induct)
  case (snoc c ns)
  have "\<not> mentioned rules (p @ ns @ [c])"
    using snoc.prems [of "hd (ns @ [c])" "tl (ns @ [c])"] by simp
  then have "decided rules (p @ ns @ [c]) = None" using decided_mentioned by metis
  moreover have "nearest rules (p @ ns) = nearest rules p"
    using snoc by (cases ns) auto
  ultimately show ?case using nearest_snoc [of rules "p @ ns" c] by simp
qed simp

lemma trie_verdict_star_free:
  assumes "star_free rules"
  shows "trie_verdict rules p names = rule_opinion (nearest rules (p @ names))"
proof (induction names arbitrary: p)
  case Nil
  then show ?case using star_free_mentioned [OF assms] by simp
next
  case (Cons n ns)
  show ?case
  proof (cases "mentioned rules (p @ [n])")
    case False
    then have "\<not> mentioned rules (p @ n # cs)" for cs using mentioned_prefix [of rules "p @ [n]" cs] by auto
    then have "nearest rules (p @ n # ns) = nearest rules p" by (intro nearest_stuck) auto
    then show ?thesis using False star_free_mentioned [OF assms] by simp
  next
    case True
    show ?thesis
    proof (cases "has_children rules (p @ [n])")
      case False
      have "\<not> mentioned rules ((p @ [n]) @ c # cs)" for c cs
        using False mentioned_prefix [of rules "p @ [n, c]" cs] by (auto simp: has_children_iff)
      then have "nearest rules ((p @ [n]) @ ns) = nearest rules (p @ [n])" by (intro nearest_stuck) auto
      moreover have "nearest rules (p @ [n]) = decided rules (p @ [n])"
        using leaf_decided [OF True _ False] by (auto simp: nearest_snoc)
      ultimately show ?thesis using True False by simp
    next
      case c: True
      then show ?thesis using True Cons.IH [of "p @ [n]"] by simp
    qed
  qed
qed

lemma star_free_compiles:
  assumes "star_free rules"
  obtains rows where "path_state_entries_for_role role_id rules = Some (Inr rows)"
proof (rule role_outcome [of role_id rules])
  assume "conflicting rules"
  then show thesis using star_free_mentioned [OF assms] by (auto simp: conflicting_iff)
qed (rule that)

section \<open>Rules with wildcards\<close>

text \<open>A rule on the way taken matches the names consumed.\<close>

definition on_path :: "bytes list \<Rightarrow> bytes list \<Rightarrow> bool" where
  "on_path p walked = list_all2 (\<lambda>c n. c = star \<or> c = n) p walked"

lemma on_path_matches: "on_path (q @ r) walked \<Longrightarrow> q \<noteq> [] \<Longrightarrow> pattern_matches q (walked @ ns)"
proof (induction q arbitrary: walked)
  case (Cons c q)
  then obtain n w where w: "walked = n # w" "on_path (q @ r) w" "c = star \<or> c = n"
    by (auto simp: on_path_def list_all2_Cons1)
  then show ?case using Cons.IH [of w] by (cases "q = []") auto
qed simp

lemma on_path_snoc: "on_path p walked \<Longrightarrow> c = star \<or> c = n \<Longrightarrow> on_path (p @ [c]) (walked @ [n])"
  by (simp add: on_path_def list_all2_appendI)

lemma on_path_final_star: "on_path p walked \<Longrightarrow> pattern_matches (p @ [star]) walked"
proof (induction p arbitrary: walked)
  case (Cons c p)
  then show ?case by (auto simp: on_path_def list_all2_Cons1)
qed (simp add: on_path_def)

definition decided_by_match :: "(bytes \<times> bool) list \<Rightarrow> bytes list \<Rightarrow> int \<Rightarrow> bool" where
  "decided_by_match rules names v \<longleftrightarrow>
     (\<exists>(pattern, allow) \<in> set rules. pattern_matches (pattern_components pattern) names \<and> v = decision_verdict allow)"

lemma decided_matches:
  assumes "decided rules q = Some (d, bp)" and "pattern_matches q names"
  shows "decided_by_match rules names (rule_opinion (decided rules q))"
  using assms decidedD [OF assms(1)] by (force simp: decided_by_match_def rule_opinion_def)

lemma nearest_matches:
  assumes "on_path p walked" and "nearest rules p = Some x"
  shows "decided_by_match rules (walked @ ns) (rule_opinion (nearest rules p))"
proof -
  obtain q where q: "prefix q p" "decided rules q = Some x" using nearest_longest [OF assms(2)] by blast
  moreover have "q \<noteq> []" using q(2) by auto
  ultimately have "pattern_matches q (walked @ ns)"
    using on_path_matches [of q _ walked ns] assms(1) by (auto simp: prefix_def)
  then show ?thesis using decided_matches [of rules q "fst x" "snd x"] q(2) assms(2) by simp
qed

lemma trie_verdict_matches:
  assumes "on_path p walked" and "trie_verdict rules p ns \<noteq> 0"
  shows "decided_by_match rules (walked @ ns) (trie_verdict rules p ns)"
  using assms
proof (induction ns arbitrary: p walked)
  case Nil
  show ?case
  proof (cases "mentioned rules (p @ [star])")
    case True
    then have "\<not> has_children rules (p @ [star])" using Nil.prems(2) by auto
    then obtain d bp where "decided rules (p @ [star]) = Some (d, bp)"
      using leaf_decided [OF True] by auto
    then show ?thesis
      using decided_matches [of rules "p @ [star]"] on_path_final_star [OF Nil.prems(1)] True \<open>\<not> has_children _ _\<close> by simp
  next
    case False
    then obtain x where "nearest rules p = Some x" using Nil.prems(2) by (auto simp: rule_opinion_def split: option.splits)
    then show ?thesis using nearest_matches [OF Nil.prems(1), of rules x "[]"] False by simp
  qed
next
  case (Cons n ns)
  define q where "q = (if mentioned rules (p @ [n]) then p @ [n] else p @ [star])"
  have q: "on_path q (walked @ [n])" "q \<noteq> []" using Cons.prems(1) by (auto simp: q_def on_path_snoc)
  have tv: "trie_verdict rules p (n # ns) = (if mentioned rules q
      then if has_children rules q then trie_verdict rules q ns else rule_opinion (decided rules q)
      else rule_opinion (nearest rules p))"
    by (simp add: q_def)
  show ?case
  proof (cases "mentioned rules q")
    case m: True
    show ?thesis
    proof (cases "has_children rules q")
      case True
      then show ?thesis using Cons.IH [OF q(1)] Cons.prems(2) m unfolding tv by simp
    next
      case False
      then obtain d bp where "decided rules q = Some (d, bp)" using leaf_decided [OF m q(2)] by auto
      moreover have "pattern_matches q (walked @ n # ns)" using on_path_matches [of q "[]" "walked @ [n]" ns] q by simp
      ultimately show ?thesis using decided_matches [of rules q] m False unfolding tv by simp
    qed
  next
    case False
    then obtain x where "nearest rules p = Some x"
      using Cons.prems(2) unfolding tv by (auto simp: rule_opinion_def split: option.splits)
    then show ?thesis using nearest_matches [OF Cons.prems(1), of rules x "n # ns"] False unfolding tv by simp
  qed
qed

section \<open>The order of the rules\<close>

lemma rule_paths_mset: "mset rules = mset rules' \<Longrightarrow> mset (rule_paths rules) = mset (rule_paths rules')"
  by (simp add: rule_paths_def)

lemma decided_mset:
  assumes "mset rules = mset rules'" and "distinct (map fst (rule_paths rules))"
  shows "decided rules = decided rules'"
proof -
  have m: "mset (rule_paths rules) = mset (rule_paths rules')" using assms(1) by (rule rule_paths_mset)
  then have "distinct (map fst (rule_paths rules'))"
    using assms(2) by (metis mset_map mset_eq_imp_distinct_iff)
  then show ?thesis
    unfolding decided_def using assms(2) mset_eq_setD [OF m]
    by (subst map_of_inject_set) (simp_all flip: rev_map)
qed

lemma trie_verdict_mset:
  assumes "mset rules = mset rules'" and "distinct (map fst (rule_paths rules))"
  shows "trie_verdict rules p names = trie_verdict rules' p names"
proof -
  have s: "set (rule_paths rules) = set (rule_paths rules')"
    using rule_paths_mset [OF assms(1)] by (rule mset_eq_setD)
  have "mentioned rules = mentioned rules'" "has_children rules = has_children rules'"
    using s by (auto simp: mentioned_def has_children_def list_ex_iff fun_eq_iff)
  moreover have "nearest rules = nearest rules'"
    by (intro ext) (simp only: nearest_def decided_mset [OF assms])
  ultimately show ?thesis
    using decided_mset [OF assms] by (induction names arbitrary: p) (simp_all add: Let_def)
qed

lemma conflicting_mset: "mset rules = mset rules' \<Longrightarrow> conflicting rules = conflicting rules'"
  using mset_eq_setD [OF rule_paths_mset [of rules rules']] by (simp add: conflicting_def list_ex_iff)

lemma digests_apart_mset:
  assumes "mset rules = mset rules'"
  shows "digests_apart role_id rules names = digests_apart role_id rules' names"
proof -
  have s: "set (rule_paths rules) = set (rule_paths rules')"
    using rule_paths_mset [OF assms] by (rule mset_eq_setD)
  then have "set (branch_points rules) = set (branch_points rules')"
      "set (rule_components rules) = set (rule_components rules')"
    by (auto simp: branch_points_def rule_components_def)
  moreover have "distinct (branch_points rs)" for rs by (simp add: branch_points_def)
  ultimately show ?thesis by (simp add: digests_apart_def distinct_map list_all_iff)
qed

section \<open>A single rule\<close>

lemma single_rule:
  assumes "pattern_components pattern \<noteq> []"
  shows "mentioned [(pattern, allow)] p \<longleftrightarrow> prefix p (pattern_components pattern)"
    and "has_children [(pattern, allow)] p \<longleftrightarrow> strict_prefix p (pattern_components pattern)"
    and "decided [(pattern, allow)] p = (if p = pattern_components pattern then Some (allow, pattern) else None)"
  using assms by (auto simp: mentioned_def has_children_def decided_def rule_paths_def)

lemma trie_verdict_single:
  assumes "pattern_components pattern = p @ cs" and "cs \<noteq> []"
  shows "trie_verdict [(pattern, allow)] p names = (if pattern_matches cs names then decision_verdict allow else 0)"
  using assms
proof (induction names arbitrary: p cs)
  case Nil
  obtain c cs' where cs: "cs = c # cs'" using Nil.prems(2) by (cases cs) auto
  have ne: "pattern_components pattern \<noteq> []" using Nil.prems by simp
  have "nearest [(pattern, allow)] p = None"
    using Nil.prems by (auto simp: nearest_None_iff single_rule [OF ne] prefix_def)
  then show ?case
    using Nil.prems(1) by (auto simp: single_rule [OF ne] cs rule_opinion_def strict_prefix_def)
next
  case (Cons n ns)
  obtain c cs' where cs: "cs = c # cs'" using Cons.prems(2) by (cases cs) auto
  have ne: "pattern_components pattern \<noteq> []" using Cons.prems by simp
  have near: "nearest [(pattern, allow)] p = None"
    using Cons.prems by (auto simp: nearest_None_iff single_rule [OF ne] prefix_def)
  have m: "mentioned [(pattern, allow)] (p @ [d]) \<longleftrightarrow> d = c" for d
    using Cons.prems(1) by (auto simp: single_rule [OF ne] cs)
  have h: "has_children [(pattern, allow)] (p @ [c]) \<longleftrightarrow> cs' \<noteq> []"
    using Cons.prems(1) by (auto simp: single_rule [OF ne] cs strict_prefix_def)
  have "decided [(pattern, allow)] (p @ [c]) = (if cs' = [] then Some (allow, pattern) else None)"
    using Cons.prems(1) by (simp add: single_rule [OF ne] cs)
  then show ?case
    using Cons.IH [of "p @ [c]" cs'] Cons.prems(1) near h by (auto simp: m cs rule_opinion_def Let_def)
qed

lemma distinct_remdups_adj: "sorted xs \<Longrightarrow> distinct (remdups_adj xs)"
  by (induction xs rule: remdups_adj.induct) auto

section \<open>Properties\<close>

text \<open>
  C20: The compilation of a role's rules always ends: the worklist loop over the rule trie returns for
  every rule list.
\<close>

theorem role_compilation_terminates: "\<exists>r. path_state_entries_for_role role_id rules = Some r"
  by (rule role_outcome [of role_id rules]) auto

text \<open>
  C21: A role is refused exactly when one of its patterns, a prefix of another, overlaps that one at
  a \<open>*\<close> component; every message names two such patterns of the role, and the messages are in order,
  each once.
\<close>

theorem role_conflicts_reported:
  "case path_state_entries_for_role role_id rules of
     Some (Inr rows) \<Rightarrow> \<not> conflicting rules
   | Some (Inl messages) \<Rightarrow>
       conflicting rules \<and> messages \<noteq> [] \<and> sorted messages \<and> distinct messages \<and>
       (\<forall>m \<in> set messages. \<exists>(by, d) \<in> set rules. \<exists>(cr, e) \<in> set rules.
          overlaps (pattern_components by) (pattern_components cr) \<and> m = conflict_message by cr)
   | None \<Rightarrow> False"
proof (rule role_outcome [of role_id rules])
  fix conflicts
  assume r: "path_state_entries_for_role role_id rules = Some (Inl (remdups_adj (sort conflicts)))"
    "conflicting rules" "conflicts \<noteq> []"
    and m: "\<And>m. m \<in> set conflicts \<Longrightarrow> \<exists>(by, d) \<in> set rules. \<exists>(cr, e) \<in> set rules.
      overlaps (pattern_components by) (pattern_components cr) \<and> m = conflict_message by cr"
  have "sort conflicts \<noteq> []" using r(3) by (simp flip: set_empty)
  then show ?thesis
    using r(1,2) m by (simp add: distinct_remdups_adj)
qed simp

text \<open>\<open>/usr/**\<close> allowed, and \<open>/usr/*/x\<close> denied: both at the \<open>*\<close> below \<open>usr\<close>.\<close>

abbreviation sample_conflict :: "(bytes \<times> bool) list" where
  "sample_conflict \<equiv> [(bytes_of ''/usr/**'', True), (bytes_of ''/usr/*/x'', False)]"

theorem role_conflicts_reported_witness:
  "path_state_entries_for_role 3 sample_conflict = Some (Inl [conflict_message (bytes_of ''/usr/**'') (bytes_of ''/usr/*/x'')]) \<and>
   conflicting sample_conflict"
proof -
  have r: "path_state_entries_for_role 3 sample_conflict =
      Some (Inl [conflict_message (bytes_of ''/usr/**'') (bytes_of ''/usr/*/x'')])"
    by code_simp
  show ?thesis using role_conflicts_reported [of sample_conflict 3] r by simp
qed


text \<open>\<open>/etc/**\<close> allowed, \<open>/etc/shadow\<close> denied, on the sample's \<open>/etc/shadow\<close>.\<close>

abbreviation sample_rules :: "(bytes \<times> bool) list" where
  "sample_rules \<equiv> [(bytes_of ''/etc/shadow'', False), (bytes_of ''/etc/**'', True)]"

abbreviation etc_shadow :: "bytes list" where
  "etc_shadow \<equiv> [[101, 116, 99], [115, 104, 97, 100, 111, 119]]"

lemma sample_rules_star_free: "star_free sample_rules" by code_simp
lemma sample_rules_apart: "digests_apart 3 sample_rules etc_shadow" by code_simp
lemma sample_rules_nearest: "nearest sample_rules etc_shadow = Some (False, bytes_of ''/etc/shadow'')" by code_simp



text \<open>
  \<open>/home/*/keys\<close> denied, \<open>/home/guest/docs\<close> allowed: \<open>/home/guest/keys\<close> is left undecided, since the
  walk follows \<open>guest\<close> and does not come back.
\<close>

abbreviation sample_wild :: "(bytes \<times> bool) list" where
  "sample_wild \<equiv> [(bytes_of ''/home/*/keys'', False), (bytes_of ''/home/guest/docs'', True)]"

abbreviation guest_keys :: "bytes list" where
  "guest_keys \<equiv> [bytes_of ''home'', bytes_of ''guest'', bytes_of ''keys'']"

lemma sample_wild_ok: "\<not> conflicting sample_wild" by code_simp
lemma sample_wild_apart: "digests_apart 3 sample_wild guest_keys" by code_simp
lemma sample_wild_verdict: "trie_verdict sample_wild [] guest_keys = 0" by code_simp
lemma sample_wild_matches: "pattern_matches (pattern_components (bytes_of ''/home/*/keys'')) guest_keys" by code_simp


text \<open>
  Only rules that match decide: where the rows of a role decide a path, some rule of the role
  matches the path component by component and has that decision.
\<close>

theorem only_matching_rules_decide:
  assumes "path_state_entries_for_role role_id rules = Some (Inr rows)" and "digests_apart role_id rules names"
    and "\<And>k. psk_role_id k = role_id \<Longrightarrow> table k = None"
    and "rule_verdict (write_rows rows table) role_id PATH_STATE_ROOT (map fnv1a_hash_u64 names) = v" and "v \<noteq> 0"
  shows "\<exists>(pattern, allow) \<in> set rules.
    pattern_matches (pattern_components pattern) names \<and> v = (if allow then 1 else - 13)"
proof -
  have "trie_verdict rules [] names = v" using compiled_verdict [OF assms(1-3)] assms(4) by simp
  then have "decided_by_match rules names v"
    using trie_verdict_matches [of "[]" "[]" rules names] assms(5) by (simp add: on_path_def)
  then show ?thesis by (simp add: decided_by_match_def decision_verdict_def)
qed

abbreviation alice_keys :: "bytes list" where
  "alice_keys \<equiv> [bytes_of ''home'', bytes_of ''alice'', bytes_of ''keys'']"

lemma sample_wild_alice: "digests_apart 3 sample_wild alice_keys" by code_simp
lemma sample_wild_alice_verdict: "trie_verdict sample_wild [] alice_keys = - 13" by code_simp

lemma sample_wild_denies_alice:
  "path_state_entries_for_role 3 sample_wild = Some (Inr rows) \<Longrightarrow>
   rule_verdict (write_rows rows Map.empty) 3 PATH_STATE_ROOT (map fnv1a_hash_u64 alice_keys) = - 13"
  by (rule trans [OF compiled_verdict [OF _ sample_wild_alice] sample_wild_alice_verdict]) simp_all

theorem only_matching_rules_decide_witness:
  "\<exists>(pattern, allow) \<in> set sample_wild.
     pattern_matches (pattern_components pattern) alice_keys \<and> - 13 = (if allow then 1 else - 13 :: int)"
proof (rule role_outcome [of 3 sample_wild])
  fix rows
  assume rows: "path_state_entries_for_role 3 sample_wild = Some (Inr rows)"
  show ?thesis
    by (rule only_matching_rules_decide [OF rows sample_wild_alice _ sample_wild_denies_alice [OF rows]]) simp_all
qed (use sample_wild_ok in simp)

text \<open>
  C22: The order of the rules does not matter as long as no two name the same path: a permuted rule
  list compiles as well, to rows that give every path the same verdict.
\<close>

theorem rule_order_irrelevant:
  assumes "mset rules = mset rules'" and "distinct (map fst (rule_paths rules))"
    and "path_state_entries_for_role role_id rules = Some (Inr rows)" and "digests_apart role_id rules names"
    and "\<And>k. psk_role_id k = role_id \<Longrightarrow> table k = None"
  shows "\<exists>rows'. path_state_entries_for_role role_id rules' = Some (Inr rows') \<and>
    rule_verdict (write_rows rows' table) role_id PATH_STATE_ROOT (map fnv1a_hash_u64 names) =
    rule_verdict (write_rows rows table) role_id PATH_STATE_ROOT (map fnv1a_hash_u64 names)"
proof (rule role_outcome [of role_id rules'])
  fix rows'
  assume rows': "path_state_entries_for_role role_id rules' = Some (Inr rows')"
  have d: "digests_apart role_id rules' names" using assms(4) digests_apart_mset [OF assms(1)] by simp
  show ?thesis
    using rows' compiled_verdict [OF rows' d assms(5)] compiled_verdict [OF assms(3-5)]
      trie_verdict_mset [OF assms(1,2)] by simp
next
  assume "conflicting rules'"
  then have "conflicting rules" using conflicting_mset [OF assms(1)] by simp
  then show ?thesis using assms(3) by (auto intro: role_outcome [of role_id rules])
qed

theorem rule_order_irrelevant_witness:
  "\<exists>rows'. path_state_entries_for_role 3 (rev sample_wild) = Some (Inr rows') \<and>
     rule_verdict (write_rows rows' Map.empty) 3 PATH_STATE_ROOT (map fnv1a_hash_u64 alice_keys) = - 13"
proof (rule role_outcome [of 3 sample_wild])
  fix rows
  assume rows: "path_state_entries_for_role 3 sample_wild = Some (Inr rows)"
  have dist: "distinct (map fst (rule_paths sample_wild))" by code_simp
  have "mset sample_wild = mset (rev sample_wild)" by simp
  from rule_order_irrelevant [OF this dist rows sample_wild_alice, of Map.empty]
  show ?thesis unfolding sample_wild_denies_alice [OF rows] by simp
qed (use sample_wild_ok in simp)

text \<open>
  The two encoders agree: for a single pattern, the rows of \<open>path_state_entries\<close> and those of
  \<open>path_state_entries_for_role\<close> give every path the same verdict.
\<close>

theorem encoders_agree:
  assumes "pattern_components pattern \<noteq> []" and "no_collisions role_id allow (pattern_components pattern) names"
    and "digests_apart role_id [(pattern, allow)] names"
  shows "\<exists>rows. path_state_entries_for_role role_id [(pattern, allow)] = Some (Inr rows) \<and>
    rule_verdict (write_rows rows Map.empty) role_id PATH_STATE_ROOT (map fnv1a_hash_u64 names) =
    rule_verdict (write_rows (path_state_entries role_id pattern allow) Map.empty) role_id PATH_STATE_ROOT
      (map fnv1a_hash_u64 names)"
proof (rule role_outcome [of role_id "[(pattern, allow)]"])
  fix rows
  assume rows: "path_state_entries_for_role role_id [(pattern, allow)] = Some (Inr rows)"
  show ?thesis
    using rows compiled_verdict [OF rows assms(3), of Map.empty] trie_verdict_single [of pattern "[]" _ allow names]
      pattern_compiles_correctly [OF refl assms(1,2)] assms(1) by (simp add: decision_verdict_def)
next
  assume "conflicting [(pattern, allow)]"
  then obtain p q where "prefix (p @ [star]) (pattern_components pattern)" "prefix q p" "q = pattern_components pattern"
    by (auto simp: conflicting_def overlaps_def list_ex_iff rule_paths_def split: if_splits)
  then show ?thesis by (auto simp: prefix_def)
qed

theorem encoders_agree_witness:
  "\<exists>rows. path_state_entries_for_role 3 [(bytes_of ''/etc/'', False)] = Some (Inr rows) \<and>
     rule_verdict (write_rows rows Map.empty) 3 PATH_STATE_ROOT (map fnv1a_hash_u64 etc_shadow) =
     rule_verdict (write_rows (path_state_entries 3 (bytes_of ''/etc/'') False) Map.empty) 3 PATH_STATE_ROOT
       (map fnv1a_hash_u64 etc_shadow)"
proof (rule encoders_agree)
  show "pattern_components (bytes_of ''/etc/'') \<noteq> []" by code_simp
  show "no_collisions 3 False (pattern_components (bytes_of ''/etc/'')) etc_shadow" by code_simp
  show "digests_apart 3 [(bytes_of ''/etc/'', False)] etc_shadow" by code_simp
qed

end
