(* ===== verification/File_Access.thy ===== *)
theory File_Access
  imports Sample Hook_Contract
begin

text \<open>
  The \<open>file_open\<close> hook with its decision cache, and the three hooks that invalidate the cache:
  \<open>path_rename\<close>, \<open>sb_mount\<close> and \<open>sb_umount\<close>. The specification \<open>file_monitor\<close> decides without a
  cache; the hook agrees with it on every coherent cache, and keeps the cache coherent.
\<close>

section \<open>The programs\<close>

definition file_deny :: "kenv \<Rightarrow> u32 \<Rightarrow> process_info \<Rightarrow> u64 \<Rightarrow> bpf_state \<Rightarrow> int \<times> bpf_state" where
  "file_deny k pid info context s =
     (- 13, emit_audit_event k pid (pi_role_id info) (pi_pod_id info)
              AUDIT_DECISION_DENY AUDIT_HOOK_FILE_OPEN context s)"

text \<open>The tail of \<open>file_open\<close>: no path rule matched, the role flag decides.\<close>

definition file_role_default :: "kenv \<Rightarrow> u32 \<Rightarrow> process_info \<Rightarrow> u8 \<Rightarrow> bpf_state \<Rightarrow> int \<times> bpf_state" where
  "file_role_default k pid info flags s =
     (if flags AND 0x01 = 0 then file_deny k pid info 0 s else (0, s))"

definition current_generation :: "bpf_state \<Rightarrow> u32" where
  "current_generation s = (case cache_generation s 0 of Some g \<Rightarrow> g | None \<Rightarrow> 0)"

definition file_cache_key :: "u32 \<Rightarrow> u64 \<Rightarrow> u64 \<Rightarrow> u64 \<Rightarrow> fs_root \<Rightarrow> path_cache_key" where
  "file_cache_key role_id dentry vfsmnt inode root =
     \<lparr>pck_role_id = role_id, pck_dentry = dentry, pck_mnt = vfsmnt, pck_inode = inode,
      pck_root_dentry = fr_dentry root, pck_root_mnt = fr_mnt root\<rparr>"

text \<open>The lookup of the decision cache: an entry counts only with the current generation.\<close>

definition file_cached :: "u64 \<Rightarrow> path_cache_key \<Rightarrow> u32 \<Rightarrow> bpf_state \<Rightarrow> path_cache_value option" where
  "file_cached inode cache_key current_gen s =
     (if inode \<noteq> 0 then
        (case path_decision_cache s cache_key of
           Some cached \<Rightarrow> if pcv_generation cached = current_gen then Some cached else None
         | None \<Rightarrow> None)
      else None)"

text \<open>The part behind a cache miss, with the per-CPU buffer at hand.\<close>

definition file_walk ::
  "kenv \<Rightarrow> u32 \<Rightarrow> process_info \<Rightarrow> u8 \<Rightarrow> path_cache_key \<Rightarrow> u64 \<Rightarrow> u64 \<Rightarrow> u64 \<Rightarrow> fs_root \<Rightarrow> u32 \<Rightarrow>
   path_components \<Rightarrow> bpf_state \<Rightarrow> int \<times> bpf_state" where
  "file_walk k pid info flags cache_key dentry vfsmnt inode root current_gen buf s =
     (let buf = snd (collect_path_components k dentry vfsmnt root buf);
          s = s\<lparr>path_buf := (path_buf s)(0 \<mapsto> buf)\<rparr>;
          result = check_path_state_machine (path_states s) (pi_role_id info) buf in
      if result \<noteq> 0 then
        let s = (if inode \<noteq> 0
                 then cache_update k cache_key
                        \<lparr>pcv_decision = (if result = 1 then 1 else 0),
                         pcv_generation = current_gen\<rparr> s
                 else s) in
        if result = 1 then (0, s)
        else file_deny k pid info (if inode \<noteq> 0 then inode else 0) s
      else file_role_default k pid info flags s)"

text \<open>The decision for an enrolled task of a known role.\<close>

definition file_decide :: "kenv \<Rightarrow> u32 \<Rightarrow> process_info \<Rightarrow> u8 \<Rightarrow> u64 \<Rightarrow> bpf_state \<Rightarrow> int \<times> bpf_state" where
  "file_decide k pid info flags file s =
     (let dentry = f_path_dentry k file;
          vfsmnt = f_path_mnt k file in
      if dentry \<noteq> 0 then
        let current_gen = current_generation s;
            inode = d_inode k dentry;
            root = task_fs_root k (k_task k);
            cache_key = file_cache_key (pi_role_id info) dentry vfsmnt inode root in
        case file_cached inode cache_key current_gen s of
          Some cached \<Rightarrow>
            if pcv_decision cached \<noteq> 0 then (0, s)
            else file_deny k pid info (pck_inode cache_key) s
        | None \<Rightarrow>
            (case path_buf s 0 of
               Some buf \<Rightarrow> file_walk k pid info flags cache_key dentry vfsmnt inode root current_gen buf s
             | None \<Rightarrow> file_role_default k pid info flags s)
      else file_role_default k pid info flags s)"

definition file_open :: "kenv \<Rightarrow> u64 \<Rightarrow> bpf_state \<Rightarrow> int \<times> bpf_state" where
  "file_open k file s =
     (let task = k_task k;
          pid = current_pid k;
          s = check_pending_enrollment k task pid s in
      case task_storage s task of
        None \<Rightarrow> (0, s)
      | Some info \<Rightarrow>
          if pi_pod_id info = 0 then (0, s)
          else
            (case role_flags s (pi_role_id info) of
               None \<Rightarrow> file_deny k pid info 0 s
             | Some flags \<Rightarrow> file_decide k pid info flags file s))"

text \<open>\<open>__sync_fetch_and_add\<close> on the generation counter; it wraps.\<close>

definition bump_generation :: "bpf_state \<Rightarrow> bpf_state" where
  "bump_generation s =
     (case cache_generation s 0 of
        Some gen \<Rightarrow> s\<lparr>cache_generation := (cache_generation s)(0 \<mapsto> gen + 1)\<rparr>
      | None \<Rightarrow> s)"

definition path_rename :: "kenv \<Rightarrow> u64 \<Rightarrow> bpf_state \<Rightarrow> int \<times> bpf_state" where
  "path_rename k old_dentry s =
     (if d_inode k old_dentry = 0 then (0, s) else (0, bump_generation s))"

definition sb_mount :: "kenv \<Rightarrow> bpf_state \<Rightarrow> int \<times> bpf_state" where
  "sb_mount k s = (0, bump_generation s)"

definition sb_umount :: "kenv \<Rightarrow> bpf_state \<Rightarrow> int \<times> bpf_state" where
  "sb_umount k s = (0, bump_generation s)"

section \<open>The monitor without a cache\<close>

definition empty_components :: path_components where
  "empty_components = \<lparr>pcs_hashes = replicate MAX_COMPONENTS 0, pcs_count = 0, pcs_truncated = 0\<rparr>"

lemma wf_empty_components [simp]: "wf_components empty_components"
  by (simp add: wf_components_def empty_components_def)

text \<open>The verdict of a rule table on a path as a task sees it.\<close>

definition path_verdict :: "kenv \<Rightarrow> path_table \<Rightarrow> u32 \<Rightarrow> u64 \<Rightarrow> u64 \<Rightarrow> fs_root \<Rightarrow> int" where
  "path_verdict k states role_id d v root =
     check_path_state_machine states role_id (snd (collect_path_components k d v root empty_components))"

lemma path_verdict_buf:
  "wf_components buf \<Longrightarrow>
   check_path_state_machine states role_id (snd (collect_path_components k d v root buf)) =
   path_verdict k states role_id d v root"
  unfolding path_verdict_def
  by (rule check_view) (simp_all add: view_collect [of buf empty_components] view_collect(3))

text \<open>
  What \<open>file_open\<close> is to answer for a task with entry \<open>info\<close>: an unknown role is refused, a rule
  on the path decides, and the role's flag decides the rest.
\<close>

definition file_monitor :: "kenv \<Rightarrow> u64 \<Rightarrow> bpf_state \<Rightarrow> process_info \<Rightarrow> bool" where
  "file_monitor k file s info =
     (case role_flags s (pi_role_id info) of
        None \<Rightarrow> False
      | Some flags \<Rightarrow>
          allowed (if f_path_dentry k file = 0 then 0
                   else path_verdict k (path_states s) (pi_role_id info) (f_path_dentry k file)
                          (f_path_mnt k file) (task_fs_root k (k_task k)))
            (flags AND 0x01 \<noteq> 0))"

section \<open>Coherence of the cache\<close>

definition key_root :: "path_cache_key \<Rightarrow> fs_root" where
  "key_root key = \<lparr>fr_dentry = pck_root_dentry key, fr_mnt = pck_root_mnt key\<rparr>"

definition entry_verdict :: "path_cache_value \<Rightarrow> int" where
  "entry_verdict c = (if pcv_decision c \<noteq> 0 then 1 else - 13)"

text \<open>
  A cache is coherent when every entry of the current generation whose dentry still has the
  inode it was stored with carries the verdict of the walk.
\<close>

definition cache_coherent :: "kenv \<Rightarrow> bpf_state \<Rightarrow> bool" where
  "cache_coherent k s \<longleftrightarrow>
     (\<forall>key c. path_decision_cache s key = Some c \<longrightarrow> pcv_generation c = current_generation s \<longrightarrow>
        d_inode k (pck_dentry key) = pck_inode key \<longrightarrow>
        path_verdict k (path_states s) (pck_role_id key) (pck_dentry key) (pck_mnt key) (key_root key) =
        entry_verdict c)"

definition buf_ready :: "bpf_state \<Rightarrow> bool" where
  "buf_ready s \<longleftrightarrow> (\<exists>buf. path_buf s 0 = Some buf \<and> wf_components buf)"

lemma key_root_file [simp]:
  "key_root (file_cache_key role d v i root) = root"
  "pck_role_id (file_cache_key role d v i root) = role"
  "pck_dentry (file_cache_key role d v i root) = d"
  "pck_mnt (file_cache_key role d v i root) = v"
  "pck_inode (file_cache_key role d v i root) = i"
  by (simp_all add: key_root_def file_cache_key_def)

lemma cache_coherentD:
  assumes "cache_coherent k s" and "path_decision_cache s (file_cache_key role d v (d_inode k d) root) = Some c"
    and "pcv_generation c = current_generation s"
  shows "path_verdict k (path_states s) role d v root = entry_verdict c"
  using assms unfolding cache_coherent_def by fastforce

lemma current_generation_cong:
  "cache_generation s' = cache_generation s \<Longrightarrow> current_generation s' = current_generation s"
  by (simp add: current_generation_def)

lemma cache_coherent_cong:
  assumes "path_decision_cache s' = path_decision_cache s" and "cache_generation s' = cache_generation s"
    and "path_states s' = path_states s"
  shows "cache_coherent k s' \<longleftrightarrow> cache_coherent k s"
  using assms by (simp add: cache_coherent_def current_generation_def)

lemma cache_coherent_update:
  assumes "cache_coherent k s"
    and "path_verdict k (path_states s) role d v root = entry_verdict c"
  shows "cache_coherent k (cache_update k' (file_cache_key role d v i root) c s)"
  using assms by (auto simp: cache_coherent_def cache_update_def current_generation_def split: if_splits)

section \<open>The hook agrees with the monitor\<close>

lemma file_open_not_enrolled:
  "\<not> enrolled (migrated k s) (k_task k) \<Longrightarrow> file_open k file s = (0, migrated k s)"
  by (auto simp: file_open_def migrated_def Let_def dest!: not_enrolledD)

lemma file_open_enrolled:
  assumes "task_storage (migrated k s) (k_task k) = Some info" and "pi_pod_id info \<noteq> 0"
  shows "file_open k file s =
    (case role_flags s (pi_role_id info) of
       None \<Rightarrow> file_deny k (current_pid k) info 0 (migrated k s)
     | Some flags \<Rightarrow> file_decide k (current_pid k) info flags file (migrated k s))"
  unfolding file_open_def Let_def migrated_def [symmetric] using assms by simp

lemma file_deny_fst [simp]: "fst (file_deny k pid info c s) = - 13"
  by (simp add: file_deny_def)

lemma file_deny_snd [simp]:
  "snd (file_deny k pid info c s) =
   emit_audit_event k pid (pi_role_id info) (pi_pod_id info) AUDIT_DECISION_DENY AUDIT_HOOK_FILE_OPEN c s"
  by (simp add: file_deny_def)

lemma file_role_default_fst [simp]:
  "fst (file_role_default k pid info flags s) = (if flags AND 0x01 \<noteq> 0 then 0 else - 13)"
  by (simp add: file_role_default_def)

lemma path_verdict_cases:
  "path_verdict k states role d v root = 1 \<or> path_verdict k states role d v root = 0 \<or>
   path_verdict k states role d v root = - 13"
  by (simp add: path_verdict_def check_verdict_cases)

lemma file_walk_fst:
  assumes "wf_components buf"
  shows "fst (file_walk k pid info flags key d v i root gen buf s) =
    (if allowed (path_verdict k (path_states s) (pi_role_id info) d v root) (flags AND 0x01 \<noteq> 0)
     then 0 else - 13)"
  using path_verdict_cases [of k "path_states s" "pi_role_id info" d v root]
  by (auto simp: file_walk_def Let_def path_verdict_buf [OF assms] allowed_def)

lemma file_cachedD:
  assumes "file_cached i key gen s = Some c"
  shows "path_decision_cache s key = Some c" and "pcv_generation c = gen" and "i \<noteq> 0"
  using assms by (auto simp: file_cached_def split: if_splits option.splits)

lemma file_decide_fst:
  assumes "cache_coherent k s" and "buf_ready s"
  shows "fst (file_decide k pid info flags file s) =
    (if allowed (if f_path_dentry k file = 0 then 0
                 else path_verdict k (path_states s) (pi_role_id info) (f_path_dentry k file)
                        (f_path_mnt k file) (task_fs_root k (k_task k))) (flags AND 0x01 \<noteq> 0)
     then 0 else - 13)"
proof (cases "f_path_dentry k file = 0")
  case True
  then show ?thesis by (simp add: file_decide_def Let_def allowed_def)
next
  case d: False
  let ?d = "f_path_dentry k file" and ?v = "f_path_mnt k file" and ?root = "task_fs_root k (k_task k)"
  let ?key = "file_cache_key (pi_role_id info) ?d ?v (d_inode k ?d) ?root"
  show ?thesis
  proof (cases "file_cached (d_inode k ?d) ?key (current_generation s) s")
    case None
    obtain buf where "path_buf s 0 = Some buf" "wf_components buf"
      using assms(2) by (auto simp: buf_ready_def)
    then show ?thesis
      using d None by (simp add: file_decide_def Let_def file_walk_fst)
  next
    case (Some c)
    have "path_verdict k (path_states s) (pi_role_id info) ?d ?v ?root = entry_verdict c"
      by (rule cache_coherentD [OF assms(1) file_cachedD(1,2) [OF Some]])
    then show ?thesis
      using d Some by (simp add: file_decide_def Let_def entry_verdict_def allowed_def)
  qed
qed

lemma cache_coherent_migrated [simp]: "cache_coherent k' (migrated k s) \<longleftrightarrow> cache_coherent k' s"
  by (rule cache_coherent_cong) simp_all

lemma buf_ready_migrated [simp]: "buf_ready (migrated k s) \<longleftrightarrow> buf_ready s"
  by (simp add: buf_ready_def)

lemma file_open_fst:
  assumes "cache_coherent k s" and "buf_ready s"
    and "task_storage (migrated k s) (k_task k) = Some info" and "pi_pod_id info \<noteq> 0"
  shows "fst (file_open k file s) = (if file_monitor k file s info then 0 else - 13)"
  using assms(1,2)
  by (simp add: file_open_enrolled [OF assms(3,4)] file_monitor_def file_decide_fst split: option.splits)

section \<open>The hook keeps the cache coherent\<close>

lemma file_deny_frame [simp]:
  "path_decision_cache (snd (file_deny k p i c s)) = path_decision_cache s"
  "cache_generation (snd (file_deny k p i c s)) = cache_generation s"
  "path_states (snd (file_deny k p i c s)) = path_states s"
  "path_buf (snd (file_deny k p i c s)) = path_buf s"
  "task_storage (snd (file_deny k p i c s)) = task_storage s"
  "same_policy s (snd (file_deny k p i c s))"
  by simp_all

lemma file_role_default_frame [simp]:
  "path_decision_cache (snd (file_role_default k p i f s)) = path_decision_cache s"
  "cache_generation (snd (file_role_default k p i f s)) = cache_generation s"
  "path_states (snd (file_role_default k p i f s)) = path_states s"
  "path_buf (snd (file_role_default k p i f s)) = path_buf s"
  "task_storage (snd (file_role_default k p i f s)) = task_storage s"
  "same_policy s (snd (file_role_default k p i f s))"
  by (simp_all add: file_role_default_def)

lemma cache_update_frame [simp]:
  "cache_generation (cache_update k key v s) = cache_generation s"
  "path_states (cache_update k key v s) = path_states s"
  "path_buf (cache_update k key v s) = path_buf s"
  "task_storage (cache_update k key v s) = task_storage s"
  "audit_events (cache_update k key v s) = audit_events s"
  "same_policy s (cache_update k key v s)"
  by (simp_all add: cache_update_def same_policy_def)

text \<open>The cache after a walk: the verdict stored under the key, where there is one to store.\<close>

definition walk_entry :: "int \<Rightarrow> u32 \<Rightarrow> path_cache_value" where
  "walk_entry result gen = \<lparr>pcv_decision = (if result = 1 then 1 else 0), pcv_generation = gen\<rparr>"

lemma entry_verdict_walk: "r = 1 \<or> r = - 13 \<Longrightarrow> entry_verdict (walk_entry r gen) = r"
  by (auto simp: entry_verdict_def walk_entry_def)

lemma file_walk_frame [simp]:
  "cache_generation (snd (file_walk k p info flags key d v i root gen buf s)) = cache_generation s"
  "path_states (snd (file_walk k p info flags key d v i root gen buf s)) = path_states s"
  "task_storage (snd (file_walk k p info flags key d v i root gen buf s)) = task_storage s"
  "same_policy s (snd (file_walk k p info flags key d v i root gen buf s))"
  by (simp_all add: file_walk_def Let_def same_policy_def cache_update_def
      file_role_default_def emit_audit_event_def)

lemma file_walk_ready:
  assumes "wf_components buf"
  shows "buf_ready (snd (file_walk k p info flags key d v i root gen buf s))"
  using view_collect(3) [OF assms assms] by (simp add: file_walk_def Let_def buf_ready_def)

lemma file_walk_answers:
  "answers k info AUDIT_HOOK_FILE_OPEN s
     (file_walk k (current_pid k) info flags key d v i root gen buf s)"
  by (simp add: file_walk_def Let_def file_role_default_def file_deny_def)

lemma file_walk_cache:
  assumes "wf_components buf" and "r = path_verdict k (path_states s) (pi_role_id info) d v root"
  shows "path_decision_cache (snd (file_walk k p info flags key d v i root gen buf s)) =
    (if r \<noteq> 0 \<and> i \<noteq> 0 then path_decision_cache (cache_update k key (walk_entry r gen) s)
     else path_decision_cache s)"
  by (simp add: file_walk_def Let_def path_verdict_buf [OF assms(1)] assms(2) [symmetric]
      walk_entry_def cache_update_def cong: if_cong)

lemma file_walk_coherent:
  assumes "cache_coherent k s" and "wf_components buf"
  shows "cache_coherent k (snd (file_walk k p info flags
    (file_cache_key (pi_role_id info) d v i root) d v i root gen buf s))"
proof -
  define r where "r = path_verdict k (path_states s) (pi_role_id info) d v root"
  let ?key = "file_cache_key (pi_role_id info) d v i root"
  let ?s = "if r \<noteq> 0 \<and> i \<noteq> 0 then cache_update k ?key (walk_entry r gen) s else s"
  have "cache_coherent k ?s"
  proof (cases "r \<noteq> 0 \<and> i \<noteq> 0")
    case True
    then have "entry_verdict (walk_entry r gen) = r"
      using path_verdict_cases [of k "path_states s" "pi_role_id info" d v root]
      by (intro entry_verdict_walk) (auto simp: r_def)
    then have "cache_coherent k (cache_update k ?key (walk_entry r gen) s)"
      using assms(1) by (intro cache_coherent_update) (simp_all add: r_def)
    with True show ?thesis by simp
  qed (use assms(1) in auto)
  moreover have "cache_coherent k (snd (file_walk k p info flags ?key d v i root gen buf s)) =
      cache_coherent k ?s"
    by (rule cache_coherent_cong)
      (simp_all add: file_walk_cache [OF assms(2) r_def])
  ultimately show ?thesis by simp
qed

lemma file_decide_frame [simp]:
  "cache_generation (snd (file_decide k p info flags file s)) = cache_generation s"
  "path_states (snd (file_decide k p info flags file s)) = path_states s"
  "task_storage (snd (file_decide k p info flags file s)) = task_storage s"
  "same_policy s (snd (file_decide k p info flags file s))"
  by (simp_all add: file_decide_def Let_def split: option.splits)

lemma file_decide_pending:
  "pending_enrollments (snd (file_decide k p info flags file s)) = pending_enrollments s"
  by (simp add: file_decide_def Let_def file_walk_def cache_update_def file_role_default_def
      emit_audit_event_def split: option.splits)

lemma file_decide_ready:
  "buf_ready s \<Longrightarrow> buf_ready (snd (file_decide k p info flags file s))"
  by (auto simp: file_decide_def Let_def file_walk_ready buf_ready_def [of s] split: option.splits)
    (auto simp: buf_ready_def)

lemma file_decide_answers:
  "answers k info AUDIT_HOOK_FILE_OPEN s (file_decide k (current_pid k) info flags file s)"
  by (simp add: file_decide_def Let_def file_walk_answers file_role_default_def file_deny_def
      split: option.splits)

lemma file_decide_coherent:
  assumes "cache_coherent k s" and "buf_ready s"
  shows "cache_coherent k (snd (file_decide k p info flags file s))"
proof -
  have deny: "cache_coherent k (snd (file_deny k p info c s))" for c
    using assms(1) by (subst cache_coherent_cong) simp_all
  moreover have "cache_coherent k (snd (file_role_default k p info flags s))"
    using assms(1) by (subst cache_coherent_cong) simp_all
  moreover obtain buf where "path_buf s 0 = Some buf" "wf_components buf"
    using assms(2) by (auto simp: buf_ready_def)
  ultimately show ?thesis
    using assms(1) unfolding file_decide_def Let_def
    by (auto intro: file_walk_coherent simp del: file_deny_snd split: option.splits)
qed

lemma file_open_state:
  obtains "snd (file_open k file s) = migrated k s"
  | info c where "snd (file_open k file s) = snd (file_deny k (current_pid k) info c (migrated k s))"
  | info flags where "snd (file_open k file s) = snd (file_decide k (current_pid k) info flags file (migrated k s))"
proof (cases "enrolled (migrated k s) (k_task k)")
  case True
  then obtain info where "task_storage (migrated k s) (k_task k) = Some info" "pi_pod_id info \<noteq> 0"
    by (auto simp: enrolled_def)
  note open_eq = file_open_enrolled [OF this, of "file"]
  show ?thesis
    by (cases "role_flags s (pi_role_id info)") (use open_eq that(2,3) in auto)
qed (use that(1) file_open_not_enrolled in simp)

lemma file_open_ready: "buf_ready s \<Longrightarrow> buf_ready (snd (file_open k file s))"
proof (cases rule: file_open_state [of k "file" s])
  case (2 info c)
  moreover assume "buf_ready s"
  ultimately show ?thesis by (simp add: buf_ready_def)
qed (simp_all add: file_decide_ready)

lemma file_open_coherent:
  assumes "cache_coherent k s" and "buf_ready s"
  shows "cache_coherent k (snd (file_open k file s))"
proof (cases rule: file_open_state [of k "file" s])
  case (2 info c)
  have "cache_coherent k (snd (file_deny k (current_pid k) info c (migrated k s)))"
    using assms(1) by (subst cache_coherent_cong [of _ s]) simp_all
  then show ?thesis using 2 by simp
next
  case (3 info flags)
  then show ?thesis using assms by (simp add: file_decide_coherent)
qed (use assms in simp)

section \<open>The contract of the hook\<close>

lemma file_open_frame:
  "same_policy s (snd (file_open k file s)) \<and>
   task_storage (snd (file_open k file s)) = task_storage (migrated k s) \<and>
   cache_generation (snd (file_open k file s)) = cache_generation s"
proof (cases rule: file_open_state [of k "file" s])
  case 1
  then show ?thesis by (simp add: migrated_policy)
next
  case (2 info c)
  then show ?thesis
    using same_policy_trans [OF migrated_policy file_deny_frame(6)] by simp
next
  case (3 info flags)
  then show ?thesis
    using same_policy_trans [OF migrated_policy file_decide_frame(4)] by simp
qed

lemma file_open_pending:
  "pending_enrollments (snd (file_open k file s)) = pending_enrollments (migrated k s)"
  by (cases rule: file_open_state [of k "file" s]) (simp_all add: file_decide_pending)

lemma file_open_answers:
  assumes "task_storage (migrated k s) (k_task k) = Some info" and "pi_pod_id info \<noteq> 0"
  shows "answers k info AUDIT_HOOK_FILE_OPEN s (file_open k file s)"
proof -
  have "answers k info AUDIT_HOOK_FILE_OPEN (migrated k s) (file_open k file s)"
    unfolding file_open_enrolled [OF assms]
    by (simp add: file_decide_answers file_deny_def split: option.split)
  then show ?thesis by (subst answers_cong [of s "migrated k s"]) simp_all
qed

interpretation file_open: lsm_hook file_open "\<lambda>k _. k_task k" "\<lambda>_ _ _. False" "\<lambda>_ _ _. False"
proof (rule lsm_hookI [where before = migrated])
  fix k :: kenv and "file" :: u64 and s
  show "same_policy s (snd (file_open k file s))" by (simp add: file_open_frame)
  show "entry_kept k t s (snd (file_open k file s))" for t
    using entry_kept_migrated by (simp add: entry_kept_def file_open_frame)
  show "\<not> enrolled (migrated k s) (k_task k) \<Longrightarrow> file_open k file s = (0, migrated k s)"
    by (rule file_open_not_enrolled)
  show "\<exists>ht. answers k info ht s (file_open k file s)"
    if "task_storage (migrated k s) (k_task k) = Some info" "pi_pod_id info \<noteq> 0" for info
    using file_open_answers [OF that] by blast
  show "task_storage (snd (file_open k file s)) (k_task k) = task_storage (migrated k s) (k_task k)"
    by (simp add: file_open_frame)
qed simp

section \<open>Invalidation by generation\<close>

text \<open>
  The stamps of a cache after \<open>n\<close> bumps from a fresh start: the counter is \<open>n\<close> modulo the width,
  and every entry carries the counter value of some moment up to now.
\<close>

definition stamps_upto :: "nat \<Rightarrow> u32 \<Rightarrow> ('key \<rightharpoonup> u32) \<Rightarrow> bool" where
  "stamps_upto n gen stamp \<longleftrightarrow>
     gen = of_nat n \<and> (\<forall>key g. stamp key = Some g \<longrightarrow> (\<exists>m \<le> n. g = of_nat m))"

locale generation_cache =
  fixes stamp :: "'s \<Rightarrow> 'key \<rightharpoonup> u32"
    and gen :: "'s \<Rightarrow> u32"
    and counting :: "'s \<Rightarrow> bool"
    and bump :: "'s \<Rightarrow> 's"
    and serve :: "'op \<Rightarrow> 's \<Rightarrow> 's"
  assumes bump_gen: "counting s \<Longrightarrow> gen (bump s) = gen s + 1"
    and bump_stamp: "stamp (bump s) = stamp s"
    and bump_counting: "counting s \<Longrightarrow> counting (bump s)"
    and serve_gen: "gen (serve x s) = gen s"
    and serve_counting: "counting s \<Longrightarrow> counting (serve x s)"
    and serve_stamp: "stamp (serve x s) key = Some g \<Longrightarrow> g = gen s \<or> stamp s key = Some g"
begin

lemma upto_serve: "stamps_upto n (gen s) (stamp s) \<Longrightarrow> stamps_upto n (gen (serve x s)) (stamp (serve x s))"
  unfolding stamps_upto_def serve_gen using serve_stamp [of x s] by blast

lemma upto_bump:
  assumes "counting s" and "stamps_upto n (gen s) (stamp s)"
  shows "stamps_upto (Suc n) (gen (bump s)) (stamp (bump s))"
proof -
  have "gen (bump s) = of_nat (Suc n)"
    using assms bump_gen [OF assms(1)] by (simp add: stamps_upto_def add.commute)
  moreover have "\<exists>m \<le> Suc n. g = of_nat m" if "stamp (bump s) key = Some g" for key g
    using that assms(2) le_SucI unfolding bump_stamp stamps_upto_def by blast
  ultimately show ?thesis by (simp add: stamps_upto_def)
qed

text \<open>While the counter has not wrapped, a bump leaves no entry with the new generation.\<close>

lemma bump_invalidates:
  assumes "counting s" and "stamps_upto n (gen s) (stamp s)" and "Suc n < 2 ^ 32"
  shows "stamp (bump s) key \<noteq> Some (gen (bump s))"
proof
  assume "stamp (bump s) key = Some (gen (bump s))"
  then obtain m where m: "m \<le> n" "gen (bump s) = of_nat m"
    using assms(2) unfolding bump_stamp stamps_upto_def by blast
  have "(of_nat (Suc n) :: u32) = of_nat m"
    using m(2) bump_gen [OF assms(1)] assms(2) by (simp add: stamps_upto_def add.commute)
  then have "unat (of_nat (Suc n) :: u32) = unat (of_nat m :: u32)" by (rule arg_cong)
  then show False
    using m(1) assms(3) by (simp only: unat_of_nat) (simp add: take_bit_nat_eq_self)
qed

lemma bumps_gen: "counting s \<Longrightarrow> gen ((bump ^^ n) s) = gen s + of_nat n \<and> counting ((bump ^^ n) s)"
  by (induction n) (simp_all add: bump_gen bump_counting)

lemma bumps_stamp: "stamp ((bump ^^ n) s) = stamp s"
  by (induction n) (simp_all add: bump_stamp)

text \<open>After as many bumps as the counter has values, every entry counts again.\<close>

lemma bumps_wrap: "counting s \<Longrightarrow> gen ((bump ^^ (2 ^ 32)) s) = gen s"
  using bumps_gen [of s "2 ^ 32"] by simp

end

definition cache_stamp :: "bpf_state \<Rightarrow> path_cache_key \<rightharpoonup> u32" where
  "cache_stamp s key = map_option pcv_generation (path_decision_cache s key)"

definition counting :: "bpf_state \<Rightarrow> bool" where
  "counting s \<longleftrightarrow> cache_generation s 0 \<noteq> None"

lemma bump_generation_frame [simp]:
  "path_decision_cache (bump_generation s) = path_decision_cache s"
  "path_states (bump_generation s) = path_states s"
  "path_buf (bump_generation s) = path_buf s"
  "task_storage (bump_generation s) = task_storage s"
  "pending_enrollments (bump_generation s) = pending_enrollments s"
  "audit_events (bump_generation s) = audit_events s"
  "same_policy s (bump_generation s)"
  by (auto simp: bump_generation_def same_policy_def split: option.splits)

lemma bump_generation_next:
  "counting s \<Longrightarrow> current_generation (bump_generation s) = current_generation s + 1"
  "counting s \<Longrightarrow> counting (bump_generation s)"
  by (auto simp: counting_def bump_generation_def current_generation_def)

lemma file_walk_stamp:
  "path_decision_cache (snd (file_walk k p info flags key d v i root gen buf s)) x = Some c \<Longrightarrow>
   pcv_generation c = gen \<or> path_decision_cache s x = Some c"
  by (auto simp: file_walk_def Let_def cache_update_def split: if_splits)

lemma file_decide_stamp:
  "path_decision_cache (snd (file_decide k p info flags file s)) x = Some c \<Longrightarrow>
   pcv_generation c = current_generation s \<or> path_decision_cache s x = Some c"
  unfolding file_decide_def Let_def by (auto dest: file_walk_stamp split: if_splits option.splits)

lemma file_open_stamp:
  assumes "path_decision_cache (snd (file_open k file s)) x = Some c"
  shows "pcv_generation c = current_generation s \<or> path_decision_cache s x = Some c"
proof (cases rule: file_open_state [of k "file" s])
  case (3 info flags)
  have "current_generation (migrated k s) = current_generation s" by (simp add: current_generation_def)
  then show ?thesis using file_decide_stamp assms 3 by fastforce
qed (use assms in simp_all)

lemma file_open_generation: "current_generation (snd (file_open k file s)) = current_generation s"
  by (simp add: current_generation_def file_open_frame)

lemma file_open_counting: "counting (snd (file_open k file s)) = counting s"
  by (simp add: counting_def file_open_frame)

interpretation decision_cache: generation_cache cache_stamp current_generation counting bump_generation
  "\<lambda>(k, file) s. snd (file_open k file s)"
  by unfold_locales
    (auto simp: bump_generation_next cache_stamp_def file_open_generation file_open_counting
      split: prod.splits dest: file_open_stamp)

section \<open>Histories\<close>

text \<open>
  An environment step that moves no cached path: where a cached dentry still has the inode it was
  cached with, it had it before, and its walk has the same verdict.
\<close>

definition entries_stable :: "bpf_state \<Rightarrow> kenv \<Rightarrow> kenv \<Rightarrow> bool" where
  "entries_stable s k k' \<longleftrightarrow>
     (\<forall>key \<in> dom (path_decision_cache s). d_inode k' (pck_dentry key) = pck_inode key \<longrightarrow>
        d_inode k (pck_dentry key) = pck_inode key \<and>
        path_verdict k' (path_states s) (pck_role_id key) (pck_dentry key) (pck_mnt key) (key_root key) =
        path_verdict k (path_states s) (pck_role_id key) (pck_dentry key) (pck_mnt key) (key_root key))"

text \<open>
  A history of the cache with \<open>n\<close> invalidations, ending in environment \<open>k\<close>. A change of the
  namespace or of the path rules is taken together with the invalidation that announces it. A
  late walk is one that read the generation \<open>m\<close> invalidations after the start, in an environment
  of then, and comes to its end only now, behind further invalidations.
\<close>

inductive cache_history :: "nat \<Rightarrow> kenv \<Rightarrow> bpf_state \<Rightarrow> bool" where
  boot: "path_decision_cache s = Map.empty \<Longrightarrow> cache_generation s 0 = Some 0 \<Longrightarrow> buf_ready s \<Longrightarrow>
    cache_history 0 k s"
| opened: "cache_history n k s \<Longrightarrow> cache_history n k (snd (file_open k file s))"
| quiet: "cache_history n k s \<Longrightarrow> entries_stable s k k' \<Longrightarrow> cache_history n k' s"
| invalidate: "cache_history n k s \<Longrightarrow> cache_history (Suc n) k' (bump_generation s)"
| reload: "cache_history n k s \<Longrightarrow> cache_history (Suc n) k (bump_generation (s\<lparr>path_states := table\<rparr>))"
| late: "cache_history n k s \<Longrightarrow> m < n \<Longrightarrow> path_buf s 0 = Some buf \<Longrightarrow>
    cache_history n k (snd (file_walk k' pid info flags key d v i root (of_nat m) buf s))"

lemma cache_history_stamps:
  "cache_history n k s \<Longrightarrow>
   counting s \<and> buf_ready s \<and> stamps_upto n (current_generation s) (cache_stamp s)"
proof (induction rule: cache_history.induct)
  case (boot s k)
  then show ?case
    by (simp add: counting_def stamps_upto_def current_generation_def cache_stamp_def)
next
  case (opened n k s "file")
  have "buf_ready (snd (file_open k file s))"
    using file_open_ready opened.IH by blast
  then show ?case
    using opened.IH decision_cache.upto_serve [of n s "(k, file)"] by (simp add: file_open_counting)
next
  case (invalidate n k s k')
  then show ?case
    using decision_cache.upto_bump [of s n] by (simp add: bump_generation_next buf_ready_def)
next
  case (reload n k s table)
  let ?s = "s\<lparr>path_states := table\<rparr>"
  have "counting ?s" "current_generation ?s = current_generation s" "cache_stamp ?s = cache_stamp s"
    using reload.IH by (simp_all add: counting_def current_generation_def cache_stamp_def fun_eq_iff)
  then show ?case
    using reload.IH decision_cache.upto_bump [of ?s n] by (simp add: bump_generation_next buf_ready_def)
next
  case (late n k s m buf k' pid info flags key d v i root)
  let ?t = "snd (file_walk k' pid info flags key d v i root (of_nat m) buf s)"
  have "wf_components buf" using late by (simp add: buf_ready_def)
  then have "buf_ready ?t" by (rule file_walk_ready)
  moreover have "\<exists>j \<le> n. g = of_nat j" if st: "cache_stamp ?t x = Some g" for x g
  proof -
    obtain c where "path_decision_cache ?t x = Some c" "g = pcv_generation c" using st by (auto simp: cache_stamp_def)
    then have "g = of_nat m \<or> cache_stamp s x = Some g" using file_walk_stamp by (fastforce simp: cache_stamp_def)
    then show ?thesis using late.IH less_imp_le [OF late.hyps(2)] unfolding stamps_upto_def by blast
  qed
  ultimately show ?case using late.IH by (simp add: counting_def stamps_upto_def current_generation_def)
qed simp

lemma bump_coherent:
  assumes "counting s" and "stamps_upto n (current_generation s) (cache_stamp s)" and "Suc n < 2 ^ 32"
  shows "cache_coherent k (bump_generation s)"
  using decision_cache.bump_invalidates [OF assms]
  by (auto simp: cache_coherent_def cache_stamp_def)

text \<open>A walk that stores under a generation of the past leaves the cache coherent, whatever it saw.\<close>

lemma late_walk_coherent:
  assumes "cache_coherent k s" and "gen \<noteq> current_generation s"
  shows "cache_coherent k (snd (file_walk k' pid info flags key d v i root gen buf s))"
proof -
  let ?t = "snd (file_walk k' pid info flags key d v i root gen buf s)"
  have "current_generation ?t = current_generation s" "path_states ?t = path_states s"
    by (simp_all add: current_generation_def)
  then show ?thesis
    using assms file_walk_stamp [of k' pid info flags key d v i root gen buf s]
    by (fastforce simp: cache_coherent_def)
qed

lemma of_nat_distinct: "m < n \<Longrightarrow> n < 2 ^ 32 \<Longrightarrow> (of_nat m :: u32) \<noteq> of_nat n"
proof
  assume b: "m < n" "n < 2 ^ 32" and "(of_nat m :: u32) = of_nat n"
  then have "unat (of_nat m :: u32) = unat (of_nat n :: u32)" by simp
  then show False using b by (simp only: unat_of_nat) (simp add: take_bit_nat_eq_self)
qed

lemma cache_history_coherent: "cache_history n k s \<Longrightarrow> n < 2 ^ 32 \<Longrightarrow> cache_coherent k s"
proof (induction rule: cache_history.induct)
  case (opened n k s "file")
  then show ?case using cache_history_stamps file_open_coherent by blast
next
  case (quiet n k s k')
  then show ?case by (fastforce simp: cache_coherent_def entries_stable_def)
next
  case (invalidate n k s k')
  then show ?case using cache_history_stamps bump_coherent by blast
next
  case (reload n k s table)
  let ?s = "s\<lparr>path_states := table\<rparr>"
  have "counting ?s" "stamps_upto n (current_generation ?s) (cache_stamp ?s)"
    using cache_history_stamps [OF reload.hyps(1)]
    by (simp_all add: counting_def current_generation_def cache_stamp_def [abs_def])
  then show ?case using reload.prems by (intro bump_coherent)
next
  case (late n k s m buf k' pid info flags key d v i root)
  have "current_generation s = of_nat n" using cache_history_stamps [OF late.hyps(1)] by (simp add: stamps_upto_def)
  moreover have "(of_nat m :: u32) \<noteq> of_nat n"
    using late.hyps(2) late.prems by (simp add: of_nat_distinct)
  ultimately show ?case using late.IH [OF late.prems] by (intro late_walk_coherent) simp_all
qed (simp add: cache_coherent_def)

section \<open>What the cache answers\<close>

definition open_key :: "kenv \<Rightarrow> u64 \<Rightarrow> u32 \<Rightarrow> path_cache_key" where
  "open_key k file role_id =
     file_cache_key role_id (f_path_dentry k file) (f_path_mnt k file) (d_inode k (f_path_dentry k file))
       (task_fs_root k (k_task k))"

lemma file_open_hit:
  assumes "task_storage (migrated k s) (k_task k) = Some info" and "pi_pod_id info \<noteq> 0"
    and "role_flags s (pi_role_id info) \<noteq> None"
    and "f_path_dentry k file \<noteq> 0" and "d_inode k (f_path_dentry k file) \<noteq> 0"
    and "path_decision_cache s (open_key k file (pi_role_id info)) = Some c"
    and "pcv_generation c = current_generation s"
  shows "fst (file_open k file s) = (if pcv_decision c \<noteq> 0 then 0 else - 13)"
proof -
  have "current_generation (migrated k s) = current_generation s"
    by (simp add: current_generation_def)
  then have "fst (file_decide k (current_pid k) info flags file (migrated k s)) =
      (if pcv_decision c \<noteq> 0 then 0 else - 13)" for flags
    using assms(4-7) by (simp add: file_decide_def Let_def file_cached_def open_key_def)
  then show ?thesis
    using assms(3) by (auto simp: file_open_enrolled [OF assms(1,2)])
qed

lemma file_open_stores:
  assumes "cache_coherent k s" and "buf_ready s" and "k_lru_ok k"
    and "task_storage (migrated k s) (k_task k) = Some info" and "pi_pod_id info \<noteq> 0"
    and "role_flags s (pi_role_id info) \<noteq> None"
    and "f_path_dentry k file \<noteq> 0" and "d_inode k (f_path_dentry k file) \<noteq> 0"
    and "path_verdict k (path_states s) (pi_role_id info) (f_path_dentry k file) (f_path_mnt k file)
           (task_fs_root k (k_task k)) = r" and "r \<noteq> 0"
  shows "\<exists>c. path_decision_cache (snd (file_open k file s)) (open_key k file (pi_role_id info)) = Some c \<and>
    pcv_generation c = current_generation s \<and> entry_verdict c = r"
proof -
  let ?key = "open_key k file (pi_role_id info)" and ?s = "migrated k s"
  have gen: "current_generation ?s = current_generation s" by (simp add: current_generation_def)
  obtain flags where flags: "role_flags s (pi_role_id info) = Some flags" using assms(6) by blast
  obtain buf where buf: "path_buf ?s 0 = Some buf" "wf_components buf"
    using assms(2) by (auto simp: buf_ready_def)
  have r: "r = 1 \<or> r = - 13" using assms(9,10) path_verdict_cases by metis
  show ?thesis
  proof (cases "file_cached (d_inode k (f_path_dentry k file)) ?key (current_generation s) ?s")
    case None
    then have "snd (file_open k file s) =
        snd (file_walk k (current_pid k) info flags ?key (f_path_dentry k file) (f_path_mnt k file)
          (d_inode k (f_path_dentry k file)) (task_fs_root k (k_task k)) (current_generation s) buf ?s)"
      using assms(7) buf flags gen
      by (simp add: file_open_enrolled [OF assms(4,5)] file_decide_def Let_def open_key_def)
    then have "path_decision_cache (snd (file_open k file s)) =
        path_decision_cache (cache_update k ?key (walk_entry r (current_generation s)) ?s)"
      using assms(8-10) by (simp add: file_walk_cache [OF buf(2) refl])
    then show ?thesis
      using assms(3) entry_verdict_walk [OF r] by (simp add: cache_update_def walk_entry_def)
  next
    case (Some c)
    note hit = file_cachedD [OF Some]
    have "entry_verdict c = r"
      using cache_coherentD [OF assms(1), of "pi_role_id info"] hit(1,2) assms(9) by (simp add: open_key_def)
    moreover have "path_decision_cache (snd (file_open k file s)) = path_decision_cache s"
      using assms(7) Some flags gen
      by (simp add: file_open_enrolled [OF assms(4,5)] file_decide_def Let_def open_key_def)
    ultimately show ?thesis using hit(1,2) by simp
  qed
qed

section \<open>The invalidation hooks\<close>

interpretation path_rename: lsm_hook path_rename "\<lambda>k _. k_task k" "\<lambda>_ _ _. False" "\<lambda>_ _ _. False"
  by unfold_locales (auto simp: path_rename_def entry_kept_def split: if_splits)

interpretation sb_mount: lsm_hook "\<lambda>k (_ :: unit). sb_mount k" "\<lambda>k _. k_task k" "\<lambda>_ _ _. False" "\<lambda>_ _ _. False"
  by unfold_locales (auto simp: sb_mount_def entry_kept_def)

interpretation sb_umount: lsm_hook "\<lambda>k (_ :: unit). sb_umount k" "\<lambda>k _. k_task k" "\<lambda>_ _ _. False" "\<lambda>_ _ _. False"
  by unfold_locales (auto simp: sb_umount_def entry_kept_def)

lemma sample_buf_ready: "buf_ready sample_state"
  by (simp add: buf_ready_def wf_components_def)

lemma sample_migrated [simp]: "migrated sample_env sample_state = sample_state"
  by (simp add: migrated_def check_pending_enrollment_def)

lemma sample_path_verdict: "path_verdict sample_env sample_table 3 0x42000 0x30020 sample_root = - 13"
  unfolding path_verdict_def by (rule sample_shadow_check) simp

lemma sample_history: "cache_history 0 sample_env sample_state"
  by (rule cache_history.boot) (simp_all add: sample_buf_ready)

section \<open>Properties\<close>

text \<open>
  C2: In every history in which each change of the namespace or of the path rules comes with an
  invalidation, and the 32-bit generation has not wrapped, also behind walks that end only after
  later invalidations, \<open>file_open\<close> answers an enrolled task
  exactly as the monitor without a cache does: it refuses an unknown role, follows a rule on the
  path the task sees, and leaves the rest to the role flag.
\<close>

theorem file_open_refines_monitor:
  assumes "cache_history n k s" and "n < 2 ^ 32"
    and "task_storage (migrated k s) (k_task k) = Some info" and "pi_pod_id info \<noteq> 0"
  shows "fst (file_open k file s) = (if file_monitor k file s info then 0 else - 13)"
  using file_open_fst cache_history_coherent [OF assms(1,2)] cache_history_stamps [OF assms(1)] assms(3,4)
  by blast

theorem file_open_refines_monitor_witness:
  "fst (file_open sample_env 0x60000 sample_state) = - 13 \<and>
   \<not> file_monitor sample_env 0x60000 sample_state sample_info"
proof -
  have "\<not> file_monitor sample_env 0x60000 sample_state sample_info"
    by (simp add: file_monitor_def allowed_def sample_path_verdict)
  then show ?thesis
    using file_open_refines_monitor [OF sample_history, of sample_info "0x60000"] by simp
qed

text \<open>
  The generation is 32 bits wide: after \<open>2^32\<close> mounts a decision cached before the first of
  them is answered again, whatever the path resolves to by then.
\<close>

theorem generation_wrap_revives:
  assumes "counting s"
    and "path_decision_cache s (open_key k' file (pi_role_id info)) = Some c"
    and "pcv_generation c = current_generation s"
    and "s' = ((\<lambda>s. snd (sb_mount k s)) ^^ (2 ^ 32)) s"
    and "task_storage (migrated k' s') (k_task k') = Some info" and "pi_pod_id info \<noteq> 0"
    and "role_flags s' (pi_role_id info) \<noteq> None"
    and "f_path_dentry k' file \<noteq> 0" and "d_inode k' (f_path_dentry k' file) \<noteq> 0"
  shows "fst (file_open k' file s') = (if pcv_decision c \<noteq> 0 then 0 else - 13)"
proof -
  have s': "s' = (bump_generation ^^ (2 ^ 32)) s" by (simp add: assms(4) sb_mount_def)
  have cache: "path_decision_cache ((bump_generation ^^ n) s) = path_decision_cache s" for n
    by (induction n) simp_all
  show ?thesis
  proof (rule file_open_hit [OF assms(5-9)])
    show "path_decision_cache s' (open_key k' file (pi_role_id info)) = Some c"
      using assms(2) by (simp only: s' cache)
    show "pcv_generation c = current_generation s'"
      using assms(3) decision_cache.bumps_wrap [OF assms(1)] by (simp only: s')
  qed
qed

definition sample_cached :: bpf_state where
  "sample_cached = sample_state\<lparr>path_decision_cache :=
     [open_key sample_env 0x60000 3 \<mapsto> \<lparr>pcv_decision = 1, pcv_generation = 0\<rparr>]\<rparr>"

lemma bumps_frame:
  "task_storage ((bump_generation ^^ n) s) = task_storage s \<and>
   pending_enrollments ((bump_generation ^^ n) s) = pending_enrollments s \<and>
   role_flags ((bump_generation ^^ n) s) = role_flags s"
  using bump_generation_frame(7) by (induction n) (simp_all add: same_policy_def)

theorem generation_wrap_revives_witness:
  "fst (file_open sample_env 0x60000 (((\<lambda>s. snd (sb_mount sample_env s)) ^^ (2 ^ 32)) sample_cached)) = 0"
proof -
  let ?s = "((\<lambda>s. snd (sb_mount sample_env s)) ^^ (2 ^ 32)) sample_cached"
  have fr: "task_storage ?s = task_storage sample_state \<and> pending_enrollments ?s = Map.empty \<and>
      role_flags ?s = role_flags sample_state"
    using bumps_frame [of "2 ^ 32" sample_cached] by (simp add: sb_mount_def sample_cached_def)
  then have mig: "migrated sample_env ?s = ?s"
    by (simp only: migrated_def check_pending_enrollment_def) simp
  show ?thesis
    using generation_wrap_revives [of sample_cached sample_env "0x60000" sample_info
        "\<lparr>pcv_decision = 1, pcv_generation = 0\<rparr>" ?s sample_env] fr mig
    by (simp add: sample_cached_def counting_def current_generation_def)
qed

text \<open>
  C39: \<open>path_rename\<close> invalidates the cache when the rename is requested, before it has happened. A
  file opened in between is cached under the new generation with its old verdict, and that
  verdict is what an open after the rename gets, wherever the file is by then.
\<close>

theorem rename_race:
  assumes "cache_history n k s" and "Suc n < 2 ^ 32" and "k_lru_ok k"
    and "d_inode k old_dentry \<noteq> 0" and "s1 = snd (path_rename k old_dentry s)"
    and "task_storage (migrated k s1) (k_task k) = Some info" and "pi_pod_id info \<noteq> 0"
    and "role_flags s1 (pi_role_id info) \<noteq> None"
    and "f_path_dentry k file \<noteq> 0" and "d_inode k (f_path_dentry k file) \<noteq> 0"
    and "path_verdict k (path_states s1) (pi_role_id info) (f_path_dentry k file) (f_path_mnt k file)
           (task_fs_root k (k_task k)) = r" and "r \<noteq> 0"
    and "s2 = snd (file_open k file s1)"
    and "k_task k' = k_task k" and "open_key k' file (pi_role_id info) = open_key k file (pi_role_id info)"
    and "task_storage (migrated k' s2) (k_task k') = Some info"
  shows "fst (file_open k' file s2) = (if r = 1 then 0 else - 13)"
proof -
  have s1: "s1 = bump_generation s" using assms(4,5) by (simp add: path_rename_def)
  have hist: "cache_history (Suc n) k s1" unfolding s1 by (rule cache_history.invalidate [OF assms(1)])
  obtain c where c: "path_decision_cache s2 (open_key k file (pi_role_id info)) = Some c"
      "pcv_generation c = current_generation s1" "entry_verdict c = r"
    using file_open_stores [OF cache_history_coherent [OF hist assms(2)] _ assms(3,6-12)]
      cache_history_stamps [OF hist] assms(13) by blast
  have flags: "role_flags s2 (pi_role_id info) \<noteq> None"
    using assms(8,13) file_open_frame [of s1 k "file"] by (simp add: same_policy_def)
  have path: "f_path_dentry k' file \<noteq> 0" "d_inode k' (f_path_dentry k' file) \<noteq> 0"
    using assms(9,10,15) by (auto simp: open_key_def file_cache_key_def)
  have "fst (file_open k' file s2) = (if pcv_decision c \<noteq> 0 then 0 else - 13)"
    using file_open_hit [OF assms(16,7) flags path] c(1,2) assms(13,15)
    by (simp add: file_open_generation)
  moreover have "r = 1 \<longleftrightarrow> pcv_decision c \<noteq> 0" using c(3) by (auto simp: entry_verdict_def)
  ultimately show ?thesis by simp
qed

text \<open>
  In the witness the renamed file \<open>/etc/shadow\<close> has left \<open>/etc\<close> by the second open: its parent is
  then the root, where no rule refuses it.
\<close>

definition moved_env :: kenv where
  "moved_env = sample_env\<lparr>k_probe_read := fields_read ((0x42018, 0x40000) # sample_fields)\<rparr>"

theorem rename_race_witness:
  "d_parent moved_env 0x42000 = 0x40000 \<and>
   fst (file_open moved_env 0x60000 (snd (file_open sample_env 0x60000
     (snd (path_rename sample_env 0x42000 sample_state))))) = - 13"
proof -
  let ?s1 = "snd (path_rename sample_env 0x42000 sample_state)"
  let ?s2 = "snd (file_open sample_env 0x60000 ?s1)"
  have s1: "?s1 = bump_generation sample_state" by (simp add: path_rename_def)
  have mig1: "migrated sample_env ?s1 = ?s1"
    by (simp add: s1 migrated_def check_pending_enrollment_def)
  have read: "core_read_u64 moved_env p = field_value ((0x42018, 0x40000) # sample_fields) p" for p
    by (rule fields_core_read) (simp add: moved_env_def)
  have relo: "k_relo moved_env = k_relo sample_env" "k_task moved_env = 0x10000" "current_pid moved_env = 42"
    by (simp_all add: moved_env_def current_pid_def sample_env_def)
  have acc: "f_path_dentry moved_env 0x60000 = 0x42000" "f_path_mnt moved_env 0x60000 = 0x30020"
      "d_inode moved_env 0x42000 = 0x52000" "task_fs_root moved_env 0x10000 = sample_root"
      "d_parent moved_env 0x42000 = 0x40000"
    by (simp_all add: f_path_dentry_def f_path_mnt_def d_inode_def task_fs_root_def d_parent_def
        sample_root_def read relo sample_fields_defs)
  have st: "task_storage ?s2 = task_storage sample_state" "pending_enrollments ?s2 = Map.empty"
    using file_open_frame [of ?s1 sample_env "0x60000"] mig1 file_open_pending [of sample_env "0x60000" ?s1]
    by (simp_all add: s1)
  then have mig2: "migrated moved_env ?s2 = ?s2"
    by (simp add: migrated_def check_pending_enrollment_def)
  have flags: "role_flags ?s1 = role_flags sample_state" using bump_generation_frame(7) by (simp add: s1 same_policy_def)
  have keys: "open_key moved_env 0x60000 3 = open_key sample_env 0x60000 3"
    by (simp add: open_key_def acc relo)
  show ?thesis
    using rename_race [OF sample_history _ _ _ refl, of "0x42000" sample_info "0x60000" "- 13" ?s2 moved_env]
    by (simp add: mig1 mig2 st flags keys acc relo s1 [symmetric] sample_path_verdict)
      (simp add: s1 sample_path_verdict st)
qed

end
