(* ===== verification/Exec.thy ===== *)
theory Exec
  imports File_Access
begin

text \<open>
  The \<open>bprm_check_security\<close> hook: enrollment of a task by the executable or by its cgroup, and the
  execution rules for a task that is already enrolled.
\<close>

section \<open>The program\<close>

text \<open>The entry of \<open>exec_enrollment\<close> for the inode of the executable.\<close>

definition enroll_by_exec :: "kenv \<Rightarrow> u64 \<Rightarrow> bpf_state \<Rightarrow> exec_enrollment_value option" where
  "enroll_by_exec k bprm s =
     (let exe_file = bprm_file k bprm in
      if exe_file \<noteq> 0 then
        let exe_inode = f_inode k exe_file in
        if exe_inode \<noteq> 0 then exec_enrollment s (i_ino k exe_inode) else None
      else None)"

text \<open>The loop over the ancestors, deepest level first.\<close>

fun cgroup_loop ::
  "kenv \<Rightarrow> (u64 \<rightharpoonup> exec_enrollment_value) \<Rightarrow> nat \<Rightarrow> exec_enrollment_value option \<Rightarrow>
   exec_enrollment_value option" where
  "cgroup_loop k m 0 enroll = enroll"
| "cgroup_loop k m (Suc lvl) enroll =
     (if enroll \<noteq> None then enroll
      else let ancestor_id = k_ancestor k (Suc lvl) in
        cgroup_loop k m lvl (if ancestor_id \<noteq> 0 then m ancestor_id else enroll))"

definition enroll_by_cgroup :: "kenv \<Rightarrow> bpf_state \<Rightarrow> exec_enrollment_value option" where
  "enroll_by_cgroup k s =
     cgroup_loop k (cgroup_enrollment s) MAX_CGROUP_DEPTH (cgroup_enrollment s (k_cgroup_id k))"

definition auto_enroll :: "u64 \<Rightarrow> exec_enrollment_value \<Rightarrow> bpf_state \<Rightarrow> bpf_state" where
  "auto_enroll task enroll s =
     set_info task \<lparr>pi_pod_id = eev_pod_id enroll, pi_role_id = eev_role_id enroll,
                    pi_stack_depth = 0, pi_flags = 0\<rparr> s"

definition exec_deny :: "kenv \<Rightarrow> u32 \<Rightarrow> process_info \<Rightarrow> bpf_state \<Rightarrow> int \<times> bpf_state" where
  "exec_deny k pid info s =
     (- 13, emit_audit_event k pid (pi_role_id info) (pi_pod_id info)
              AUDIT_DECISION_DENY AUDIT_HOOK_BPRM_CHECK 0 s)"

definition exec_role_default :: "kenv \<Rightarrow> u32 \<Rightarrow> process_info \<Rightarrow> u8 \<Rightarrow> bpf_state \<Rightarrow> int \<times> bpf_state" where
  "exec_role_default k pid info flags s =
     (if flags AND 0x04 = 0 then exec_deny k pid info s else (0, s))"

text \<open>The part for an enrolled task.\<close>

definition exec_decide ::
  "kenv \<Rightarrow> u32 \<Rightarrow> process_info \<Rightarrow> bool \<Rightarrow> u64 \<Rightarrow> bpf_state \<Rightarrow> int \<times> bpf_state" where
  "exec_decide k pid info was_enrolled bprm s =
     (case role_flags s (pi_role_id info) of
        None \<Rightarrow> exec_deny k pid info s
      | Some flags \<Rightarrow>
          if \<not> was_enrolled then (0, s)
          else
            let exe = bprm_file k bprm in
            if exe \<noteq> 0 then
              (case path_buf s 0 of
                 None \<Rightarrow> exec_role_default k pid info flags s
               | Some buf \<Rightarrow>
                   let dentry = f_path_dentry k exe;
                       vfsmnt = f_path_mnt k exe;
                       buf = snd (collect_path_components k dentry vfsmnt (task_fs_root k (k_task k)) buf);
                       s = s\<lparr>path_buf := (path_buf s)(0 \<mapsto> buf)\<rparr>;
                       verdict = check_path_state_machine (exec_states s) (pi_role_id info) buf in
                   if verdict = 1 then (0, s)
                   else if verdict \<noteq> 0 then exec_deny k pid info s
                   else exec_role_default k pid info flags s)
            else exec_role_default k pid info flags s)"

definition bprm_check_security :: "kenv \<Rightarrow> u64 \<Rightarrow> bpf_state \<Rightarrow> int \<times> bpf_state" where
  "bprm_check_security k bprm s =
     (let task = k_task k;
          pid = current_pid k;
          s = check_pending_enrollment k task pid s;
          (info, s) = task_storage_get_create k task s in
      case info of
        None \<Rightarrow> (0, s)
      | Some info \<Rightarrow>
          let was_enrolled = (pi_pod_id info \<noteq> 0) in
          if pi_pod_id info = 0 then
            (case enroll_by_exec k bprm s of
               Some enroll \<Rightarrow> (0, auto_enroll task enroll s)
             | None \<Rightarrow>
                 (case enroll_by_cgroup k s of
                    Some enroll \<Rightarrow> (0, auto_enroll task enroll s)
                  | None \<Rightarrow> (0, s)))
          else exec_decide k pid info was_enrolled bprm s)"

section \<open>Enrollment by cgroup\<close>

text \<open>The cgroups whose enrollment counts, in the order they are consulted.\<close>

definition cgroup_chain :: "kenv \<Rightarrow> u64 list" where
  "cgroup_chain k = k_cgroup_id k # filter (\<lambda>c. c \<noteq> 0) (map (k_ancestor k) (rev [1..<Suc MAX_CGROUP_DEPTH]))"

fun first_match :: "('a \<rightharpoonup> 'b) \<Rightarrow> 'a list \<Rightarrow> 'b option" where
  "first_match m [] = None"
| "first_match m (x # xs) = (case m x of Some y \<Rightarrow> Some y | None \<Rightarrow> first_match m xs)"

lemma cgroup_loop_Some [simp]: "cgroup_loop k m lvl (Some e) = Some e"
  by (cases lvl) simp_all

lemma cgroup_loop_None:
  "cgroup_loop k m lvl None = first_match m (filter (\<lambda>c. c \<noteq> 0) (map (k_ancestor k) (rev [1..<Suc lvl])))"
  by (induction lvl) (auto simp: Let_def split: option.splits)

lemma enroll_by_cgroup_chain: "enroll_by_cgroup k s = first_match (cgroup_enrollment s) (cgroup_chain k)"
  by (simp add: enroll_by_cgroup_def cgroup_chain_def cgroup_loop_None split: option.splits)

lemma first_match_SomeD:
  "first_match m xs = Some y \<Longrightarrow> \<exists>ys x zs. xs = ys @ x # zs \<and> m x = Some y \<and> (\<forall>z \<in> set ys. m z = None)"
proof (induction xs)
  case (Cons x xs)
  show ?case
  proof (cases "m x")
    case None
    then obtain ys z zs where "xs = ys @ z # zs" "m z = Some y" "\<forall>z \<in> set ys. m z = None"
      using Cons by auto
    then show ?thesis using None by (intro exI [of _ "x # ys"]) auto
  next
    case (Some v)
    then show ?thesis using Cons.prems by (intro exI [of _ "[]"]) auto
  qed
qed simp

section \<open>Frames and contract\<close>

definition created :: "kenv \<Rightarrow> bpf_state \<Rightarrow> bpf_state" where
  "created k s = snd (task_storage_get_create k (k_task k) (migrated k s))"

lemma get_create_frame [simp]:
  "role_flags (snd (task_storage_get_create k t s)) = role_flags s"
  "exec_states (snd (task_storage_get_create k t s)) = exec_states s"
  "exec_enrollment (snd (task_storage_get_create k t s)) = exec_enrollment s"
  "cgroup_enrollment (snd (task_storage_get_create k t s)) = cgroup_enrollment s"
  "path_buf (snd (task_storage_get_create k t s)) = path_buf s"
  "audit_events (snd (task_storage_get_create k t s)) = audit_events s"
  "pending_enrollments (snd (task_storage_get_create k t s)) = pending_enrollments s"
  "path_decision_cache (snd (task_storage_get_create k t s)) = path_decision_cache s"
  "cache_generation (snd (task_storage_get_create k t s)) = cache_generation s"
  "path_states (snd (task_storage_get_create k t s)) = path_states s"
  "same_policy s (snd (task_storage_get_create k t s))"
  by (simp_all add: task_storage_get_create_def same_policy_def split: option.splits)

lemma bprm_enrolled:
  assumes "task_storage (migrated k s) (k_task k) = Some info" and "pi_pod_id info \<noteq> 0"
  shows "bprm_check_security k bprm s = exec_decide k (current_pid k) info True bprm (migrated k s)"
  unfolding bprm_check_security_def Let_def migrated_def [symmetric]
  using assms by (simp add: task_storage_get_create_def)

lemma bprm_not_enrolled:
  assumes "\<not> enrolled (migrated k s) (k_task k)"
    and "task_storage (migrated k s) (k_task k) \<noteq> None \<or> k_storage_alloc k (k_task k)"
  shows "bprm_check_security k bprm s =
    (0, case enroll_by_exec k bprm s of
          Some e \<Rightarrow> auto_enroll (k_task k) e (created k s)
        | None \<Rightarrow>
            (case enroll_by_cgroup k s of
               Some e \<Rightarrow> auto_enroll (k_task k) e (created k s)
             | None \<Rightarrow> created k s))"
proof -
  have "fst (task_storage_get_create k (k_task k) (migrated k s)) \<noteq> None"
    using assms(2) by (auto simp: task_storage_get_create_def split: option.splits)
  then obtain info where i: "task_storage_get_create k (k_task k) (migrated k s) = (Some info, created k s)"
    by (metis created_def prod.collapse not_None_eq)
  have "pi_pod_id info = 0"
    using i assms(1) by (auto simp: task_storage_get_create_def enrolled_def split: option.splits if_splits)
  moreover have "exec_enrollment (created k s) = exec_enrollment s" "cgroup_enrollment (created k s) = cgroup_enrollment s"
    using migrated_policy [of s k] by (simp_all add: created_def same_policy_def)
  ultimately show ?thesis
    unfolding bprm_check_security_def Let_def migrated_def [symmetric] i
    by (simp add: enroll_by_exec_def enroll_by_cgroup_def Let_def split: option.splits)
qed

lemma bprm_no_storage:
  assumes "task_storage (migrated k s) (k_task k) = None" and "\<not> k_storage_alloc k (k_task k)"
  shows "bprm_check_security k bprm s = (0, migrated k s)"
  unfolding bprm_check_security_def Let_def migrated_def [symmetric]
  using assms by (simp add: task_storage_get_create_def)

lemma enrollment_source:
  "enroll_by_exec k bprm s = Some e \<Longrightarrow> \<exists>i. exec_enrollment s i = Some e"
  "enroll_by_cgroup k s = Some e \<Longrightarrow> \<exists>c. cgroup_enrollment s c = Some e"
  by (auto simp: enroll_by_exec_def Let_def split: if_splits)
    (metis enroll_by_cgroup_chain first_match_SomeD)

text \<open>The three ways through the program.\<close>

lemma bprm_cases:
  obtains (decide) info where "task_storage (migrated k s) (k_task k) = Some info" "pi_pod_id info \<noteq> 0"
      "bprm_check_security k bprm s = exec_decide k (current_pid k) info True bprm (migrated k s)"
  | (enroll) e where "\<not> enrolled (migrated k s) (k_task k)"
      "bprm_check_security k bprm s = (0, auto_enroll (k_task k) e (created k s))"
      "(\<exists>i. exec_enrollment s i = Some e) \<or> (\<exists>c. cgroup_enrollment s c = Some e)"
  | (skip) s' where "\<not> enrolled (migrated k s) (k_task k)" "s' = created k s \<or> s' = migrated k s"
      "bprm_check_security k bprm s = (0, s')"
proof (cases "enrolled (migrated k s) (k_task k)")
  case True
  then show ?thesis using decide bprm_enrolled by (auto simp: enrolled_def)
next
  case no: False
  show ?thesis
  proof (cases "task_storage (migrated k s) (k_task k) \<noteq> None \<or> k_storage_alloc k (k_task k)")
    case True
    show ?thesis
      using bprm_not_enrolled [OF no True, of bprm] no enroll skip enrollment_source
      by (fastforce split: option.splits)
  next
    case False
    then show ?thesis using bprm_no_storage no skip by simp
  qed
qed

lemma exec_decide_frame:
  "same_policy s (snd (exec_decide k pid info w bprm s)) \<and>
   task_storage (snd (exec_decide k pid info w bprm s)) = task_storage s \<and>
   answers k info AUDIT_HOOK_BPRM_CHECK s (exec_decide k (current_pid k) info w bprm s)"
  by (simp add: exec_decide_def exec_role_default_def exec_deny_def Let_def same_policy_def
      emit_audit_event_def [of k pid] split: option.splits)

lemma created_storage:
  "t \<noteq> k_task k \<Longrightarrow> task_storage (created k s) t = task_storage (migrated k s) t"
  "audit_events (created k s) = audit_events s" "same_policy s (created k s)"
  by (auto simp: created_def task_storage_get_create_def same_policy_def split: option.splits
      intro: same_policy_trans [OF migrated_policy])
    (use migrated_policy [of s k] in \<open>simp_all add: same_policy_def\<close>)

lemma auto_enroll_frame [simp]:
  "task_storage (auto_enroll t e s) = (task_storage s)(t \<mapsto>
     \<lparr>pi_pod_id = eev_pod_id e, pi_role_id = eev_role_id e, pi_stack_depth = 0, pi_flags = 0\<rparr>)"
  "audit_events (auto_enroll t e s) = audit_events s"
  "path_buf (auto_enroll t e s) = path_buf s"
  "path_decision_cache (auto_enroll t e s) = path_decision_cache s"
  "cache_generation (auto_enroll t e s) = cache_generation s"
  "path_states (auto_enroll t e s) = path_states s"
  "pending_enrollments (auto_enroll t e s) = pending_enrollments s"
  "same_policy s (auto_enroll t e s)"
  by (simp_all add: auto_enroll_def set_info_def same_policy_def)

lemma migrated_enrolled: "enrolled s t \<Longrightarrow> enrolled (migrated k s) t"
  by (simp add: migrated_def pending_keeps_enrolled)

interpretation bprm_check: lsm_hook bprm_check_security "\<lambda>k _. k_task k" "\<lambda>_ _ _. False" "\<lambda>_ _ _. False"
proof
  fix k bprm s t
  show "same_policy s (snd (bprm_check_security k bprm s))"
  proof (cases rule: bprm_cases [of k s bprm])
    case (decide info)
    have "same_policy (migrated k s) (snd (exec_decide k (current_pid k) info True bprm (migrated k s)))"
      by (simp add: exec_decide_frame)
    then show ?thesis unfolding decide(3) by (rule same_policy_trans [OF migrated_policy])
  next
    case (enroll e)
    then show ?thesis using same_policy_trans [OF created_storage(3) auto_enroll_frame(8)] by simp
  next
    case (skip s')
    then show ?thesis using created_storage(3) migrated_policy by auto
  qed
  show "entry_kept k t s (snd (bprm_check_security k bprm s))" if t: "enrolled s t"
  proof (cases rule: bprm_cases [of k s bprm])
    case (decide info)
    then show ?thesis using entry_kept_migrated [of k t s] exec_decide_frame by (simp add: entry_kept_def)
  next
    case (enroll e)
    then have "t \<noteq> k_task k" using migrated_enrolled [OF t] by blast
    then show ?thesis
      using enroll(2) entry_kept_migrated [of k t s] by (simp add: entry_kept_def created_storage)
  next
    case (skip s')
    then have "t \<noteq> k_task k" using migrated_enrolled [OF t] by blast
    then show ?thesis
      using skip(2,3) entry_kept_migrated [of k t s] by (auto simp: entry_kept_def created_storage)
  qed
  show "audit_events (snd (bprm_check_security k bprm s)) = audit_events s"
    if "fst (bprm_check_security k bprm s) = 0"
  proof (cases rule: bprm_cases [of k s bprm])
    case (decide info)
    then show ?thesis using that exec_decide_frame [of "migrated k s"] by (simp add: answers_def)
  qed (auto simp: created_storage)
  assume deny: "fst (bprm_check_security k bprm s) \<noteq> 0"
  then obtain info where info: "task_storage (migrated k s) (k_task k) = Some info" "pi_pod_id info \<noteq> 0"
      "bprm_check_security k bprm s = exec_decide k (current_pid k) info True bprm (migrated k s)"
    by (cases rule: bprm_cases [of k s bprm]) simp_all
  then show "\<exists>info c ht. task_storage (snd (bprm_check_security k bprm s)) (k_task k) = Some info \<and>
      pi_pod_id info \<noteq> 0 \<and> audit_events (snd (bprm_check_security k bprm s)) =
        (if False then audit_events s else audit_events s @ [denial_event k info ht c])"
    using deny exec_decide_frame [of "migrated k s" k "current_pid k" info True bprm]
    by (auto simp: answers_def)
qed simp

section \<open>Against the specification\<close>

definition exec_monitor :: "kenv \<Rightarrow> u64 \<Rightarrow> bpf_state \<Rightarrow> process_info \<Rightarrow> bool" where
  "exec_monitor k bprm s info =
     (case role_flags s (pi_role_id info) of
        None \<Rightarrow> False
      | Some flags \<Rightarrow>
          let exe = bprm_file k bprm in
          allowed (if exe = 0 then 0
                   else path_verdict k (exec_states s) (pi_role_id info) (f_path_dentry k exe)
                          (f_path_mnt k exe) (task_fs_root k (k_task k)))
            (flags AND 0x04 \<noteq> 0))"

lemma exec_decide_fst:
  assumes "buf_ready s"
  shows "fst (exec_decide k pid info True bprm s) = (if exec_monitor k bprm s info then 0 else - 13)"
proof -
  obtain buf where "path_buf s 0 = Some buf" "wf_components buf"
    using assms by (auto simp: buf_ready_def)
  then show ?thesis
    using path_verdict_cases [of k "exec_states s" "pi_role_id info" "f_path_dentry k (bprm_file k bprm)"
        "f_path_mnt k (bprm_file k bprm)" "task_fs_root k (k_task k)"]
    by (auto simp: exec_decide_def exec_monitor_def exec_role_default_def exec_deny_def Let_def allowed_def
        path_verdict_buf split: option.splits)
qed

lemma exec_monitor_migrated: "exec_monitor k bprm (migrated k s) info = exec_monitor k bprm s info"
proof -
  have "exec_states (migrated k s) = exec_states s"
    using migrated_policy [of s k] by (simp add: same_policy_def)
  then show ?thesis by (simp only: exec_monitor_def migrated_frame)
qed

section \<open>Properties\<close>

text \<open>
  C17: For an enrolled task \<open>bprm_check_security\<close> answers as its specification does: an unknown role
  is refused, an execution rule on the binary's resolved path decides, and the role flag decides
  the rest.
\<close>

theorem bprm_check_refines_monitor:
  assumes "buf_ready s" and "task_storage (migrated k s) (k_task k) = Some info" and "pi_pod_id info \<noteq> 0"
  shows "fst (bprm_check_security k bprm s) = (if exec_monitor k bprm s info then 0 else - 13)"
  using assms(1) by (simp add: bprm_enrolled [OF assms(2,3)] exec_decide_fst exec_monitor_migrated)

theorem bprm_check_refines_monitor_witness:
  "fst (bprm_check_security sample_env 0x80000 sample_state) = - 13"
proof -
  have "\<not> exec_monitor sample_env 0x80000 sample_state sample_info"
    by (simp add: exec_monitor_def allowed_def sample_path_verdict)
  then show ?thesis
    using bprm_check_refines_monitor [OF sample_buf_ready, of sample_env sample_info "0x80000"] by simp
qed

text \<open>
  C34: An exec of a task that is not enrolled is let through, and enrolls the task: by the inode of
  the executable where that is listed, else by its cgroup or the deepest listed ancestor.
\<close>

theorem bprm_auto_enrolls:
  assumes "\<not> enrolled (migrated k s) (k_task k)"
    and "task_storage (migrated k s) (k_task k) \<noteq> None \<or> k_storage_alloc k (k_task k)"
    and "(case enroll_by_exec k bprm s of Some e \<Rightarrow> Some e
          | None \<Rightarrow> first_match (cgroup_enrollment s) (cgroup_chain k)) = Some e"
  shows "fst (bprm_check_security k bprm s) = 0 \<and>
    task_storage (snd (bprm_check_security k bprm s)) (k_task k) =
      Some \<lparr>pi_pod_id = eev_pod_id e, pi_role_id = eev_role_id e, pi_stack_depth = 0, pi_flags = 0\<rparr>"
  using bprm_not_enrolled [OF assms(1,2), of bprm] assms(3)
  by (auto simp: enroll_by_cgroup_chain split: option.splits)

definition sample_unenrolled :: bpf_state where
  "sample_unenrolled = sample_state\<lparr>task_storage := Map.empty, exec_enrollment := Map.empty\<rparr>"

lemma sample_unenrolled_migrated [simp]: "migrated sample_env sample_unenrolled = sample_unenrolled"
  by (simp add: migrated_def check_pending_enrollment_def sample_unenrolled_def)

theorem bprm_auto_enrolls_witness:
  "task_storage (snd (bprm_check_security sample_env 0x80000 sample_unenrolled)) 0x10000 =
   Some \<lparr>pi_pod_id = 11, pi_role_id = 5, pi_stack_depth = 0, pi_flags = 0\<rparr>"
proof -
  have "first_match (cgroup_enrollment sample_unenrolled) (cgroup_chain sample_env) =
      Some \<lparr>eev_pod_id = 11, eev_role_id = 5\<rparr>"
    by (simp add: cgroup_chain_def MAX_CGROUP_DEPTH_def sample_unenrolled_def upt_conv_Cons)
  moreover have "enroll_by_exec sample_env 0x80000 sample_unenrolled = None"
    by (simp add: enroll_by_exec_def Let_def sample_unenrolled_def)
  ultimately show ?thesis
    using bprm_auto_enrolls [of sample_env sample_unenrolled "0x80000" "\<lparr>eev_pod_id = 11, eev_role_id = 5\<rparr>"]
    by (simp add: enrolled_def) (simp add: sample_unenrolled_def)
qed

text \<open>
  Cgroup enrollment is deepest first over the task's own cgroup and its ancestors from level
  \<open>MAX_CGROUP_DEPTH\<close> down to 1: the entry found is that of the first listed cgroup in this order,
  and the cgroup root at level 0 is never consulted.
\<close>

theorem cgroup_enrollment_deepest_first:
  assumes "enroll_by_cgroup k s = Some e"
  shows "\<exists>ys c zs. cgroup_chain k = ys @ c # zs \<and> cgroup_enrollment s c = Some e \<and>
    (\<forall>c' \<in> set ys. cgroup_enrollment s c' = None) \<and>
    (c = k_cgroup_id k \<or> (\<exists>lvl. 1 \<le> lvl \<and> lvl \<le> MAX_CGROUP_DEPTH \<and> c = k_ancestor k lvl))"
proof -
  obtain ys c zs where c: "cgroup_chain k = ys @ c # zs" "cgroup_enrollment s c = Some e"
      "\<forall>c' \<in> set ys. cgroup_enrollment s c' = None"
    using first_match_SomeD assms unfolding enroll_by_cgroup_chain by metis
  have "c \<in> set (cgroup_chain k)" by (simp add: c(1))
  then have "c = k_cgroup_id k \<or> (\<exists>lvl. 1 \<le> lvl \<and> lvl \<le> MAX_CGROUP_DEPTH \<and> c = k_ancestor k lvl)"
    unfolding cgroup_chain_def set_simps set_filter set_map set_rev set_upt by auto
  with c show ?thesis by blast
qed

theorem cgroup_enrollment_deepest_first_witness:
  "\<exists>ys c zs. cgroup_chain sample_env = ys @ c # zs \<and>
     cgroup_enrollment sample_state c = Some \<lparr>eev_pod_id = 11, eev_role_id = 5\<rparr> \<and>
     (\<forall>c' \<in> set ys. cgroup_enrollment sample_state c' = None)"
proof -
  have "enroll_by_cgroup sample_env sample_state = Some \<lparr>eev_pod_id = 11, eev_role_id = 5\<rparr>"
    by (simp add: enroll_by_cgroup_chain cgroup_chain_def MAX_CGROUP_DEPTH_def upt_conv_Cons)
  then show ?thesis using cgroup_enrollment_deepest_first by blast
qed

end
