(* ===== verification/Guards.thy ===== *)
theory Guards
  imports Sample Hook_Contract
begin

text \<open>
  The hooks that guard a single capability by a role flag: \<open>ptrace_access_check\<close>, which protects the
  traced task, and \<open>kernel_module_request\<close> and \<open>bpf\<close>, which restrict the calling task.
\<close>

section \<open>The programs\<close>

definition ptrace_access_check :: "kenv \<Rightarrow> u64 \<Rightarrow> bpf_state \<Rightarrow> int \<times> bpf_state" where
  "ptrace_access_check k child s =
     (case task_storage s child of
        None \<Rightarrow> (0, s)
      | Some child_info \<Rightarrow>
          if pi_pod_id child_info = 0 then (0, s)
          else
            (case role_flags s (pi_role_id child_info) of
               None \<Rightarrow> (- 1, s)
             | Some flags \<Rightarrow>
                 if flags AND 0x20 = 0 then
                   let pid = current_pid k in
                   (- 1, emit_audit_event k pid (pi_role_id child_info) (pi_pod_id child_info)
                           AUDIT_DECISION_DENY AUDIT_HOOK_BPRM_CHECK 0 s)
                 else (0, s)))"

definition guard_deny :: "kenv \<Rightarrow> u32 \<Rightarrow> process_info \<Rightarrow> bpf_state \<Rightarrow> int \<times> bpf_state" where
  "guard_deny k pid info s =
     (- 1, emit_audit_event k pid (pi_role_id info) (pi_pod_id info)
             AUDIT_DECISION_DENY AUDIT_HOOK_BPRM_CHECK 0 s)"

definition kernel_module_request :: "kenv \<Rightarrow> u64 \<Rightarrow> bpf_state \<Rightarrow> int \<times> bpf_state" where
  "kernel_module_request k kmod_name s =
     (let task = k_task k; pid = current_pid k in
      case task_storage s task of
        None \<Rightarrow> (0, s)
      | Some info \<Rightarrow>
          if pi_pod_id info = 0 then (0, s)
          else
            (case role_flags s (pi_role_id info) of
               None \<Rightarrow> guard_deny k pid info s
             | Some flags \<Rightarrow> if flags AND 0x40 = 0 then guard_deny k pid info s else (0, s)))"

definition bpf_hook :: "kenv \<Rightarrow> u32 \<Rightarrow> bpf_state \<Rightarrow> int \<times> bpf_state" where
  "bpf_hook k cmd s =
     (let task = k_task k; pid = current_pid k in
      case task_storage s task of
        None \<Rightarrow> (0, s)
      | Some info \<Rightarrow>
          if pi_pod_id info = 0 then (0, s)
          else
            (case role_flags s (pi_role_id info) of
               None \<Rightarrow> guard_deny k pid info s
             | Some flags \<Rightarrow> if flags AND 0x80 = 0 then guard_deny k pid info s else (0, s)))"

section \<open>Contracts\<close>

lemma guard_deny_simps [simp]:
  "fst (guard_deny k pid info s) = - 1"
  "task_storage (snd (guard_deny k pid info s)) = task_storage s"
  "same_policy s (snd (guard_deny k pid info s))"
  "answers k info AUDIT_HOOK_BPRM_CHECK s (guard_deny k (current_pid k) info s)"
  by (simp_all add: guard_deny_def)

interpretation kernel_module: lsm_hook kernel_module_request "\<lambda>k _. k_task k" "\<lambda>_ _ _. False" "\<lambda>_ _ _. False"
  by (rule guard_hookI)
    (auto simp: kernel_module_request_def Let_def split: option.splits dest!: not_enrolledD
      intro!: exI [of _ AUDIT_HOOK_BPRM_CHECK])

interpretation bpf: lsm_hook bpf_hook "\<lambda>k _. k_task k" "\<lambda>_ _ _. False" "\<lambda>_ _ _. False"
  by (rule guard_hookI)
    (auto simp: bpf_hook_def Let_def split: option.splits dest!: not_enrolledD
      intro!: exI [of _ AUDIT_HOOK_BPRM_CHECK])

text \<open>The one refusal without an event: the traced task's role has no flags.\<close>

definition ptrace_silent :: "kenv \<Rightarrow> u64 \<Rightarrow> bpf_state \<Rightarrow> bool" where
  "ptrace_silent k child s \<longleftrightarrow>
     (case task_storage s child of
        None \<Rightarrow> False
      | Some info \<Rightarrow> pi_pod_id info \<noteq> 0 \<and> role_flags s (pi_role_id info) = None)"

lemma ptrace_cases:
  obtains (pass) "ptrace_access_check k child s = (0, s)" "\<not> ptrace_silent k child s"
  | (quiet) info where "task_storage s child = Some info" "pi_pod_id info \<noteq> 0" "ptrace_silent k child s"
      "ptrace_access_check k child s = (- 1, s)"
  | (deny) info where "task_storage s child = Some info" "pi_pod_id info \<noteq> 0" "\<not> ptrace_silent k child s"
      "ptrace_access_check k child s = guard_deny k (current_pid k) info s"
proof (cases "enrolled s child")
  case False
  then show ?thesis
    by (intro pass) (auto simp: ptrace_access_check_def ptrace_silent_def dest!: not_enrolledD)
next
  case True
  then obtain info where info: "task_storage s child = Some info" "pi_pod_id info \<noteq> 0"
    by (auto simp: enrolled_def)
  show ?thesis
  proof (cases "role_flags s (pi_role_id info)")
    case None
    then show ?thesis
      using info by (intro quiet) (simp_all add: ptrace_access_check_def ptrace_silent_def)
  next
    case (Some flags)
    then show ?thesis
      using info pass deny
      by (cases "flags AND 0x20 = 0") (simp_all add: ptrace_access_check_def ptrace_silent_def guard_deny_def)
  qed
qed

interpretation ptrace: lsm_hook ptrace_access_check "\<lambda>_ child. child" "\<lambda>_ _ _. False" ptrace_silent
proof
  fix k child s t
  show "same_policy s (snd (ptrace_access_check k child s))"
    by (cases rule: ptrace_cases [of k child s]) simp_all
  show "entry_kept k t s (snd (ptrace_access_check k child s))"
    by (cases rule: ptrace_cases [of k child s]) (simp_all add: entry_kept_def)
  show "fst (ptrace_access_check k child s) = 0 \<Longrightarrow>
      audit_events (snd (ptrace_access_check k child s)) = audit_events s"
    by (cases rule: ptrace_cases [of k child s]) simp_all
  show "ptrace_silent k child s \<Longrightarrow> fst (ptrace_access_check k child s) \<noteq> 0"
    by (cases rule: ptrace_cases [of k child s]) simp_all
  assume "fst (ptrace_access_check k child s) \<noteq> 0"
  then show "\<exists>info c ht. task_storage (snd (ptrace_access_check k child s)) child = Some info \<and>
      pi_pod_id info \<noteq> 0 \<and> audit_events (snd (ptrace_access_check k child s)) =
        (if ptrace_silent k child s then audit_events s else audit_events s @ [denial_event k info ht c])"
  proof (cases rule: ptrace_cases [of k child s])
    case (deny info)
    then show ?thesis by (auto simp: guard_deny_def emit_denial)
  qed auto
qed

section \<open>Properties\<close>

text \<open>
  For an enrolled task whose role has flags, the three guards are decided by their own bit of
  the flags alone (0x20, 0x40, 0x80): 0 when it is set, \<open>-EPERM\<close> otherwise; for \<open>ptrace\<close> these are
  the flags of the traced task, whoever traces it.
\<close>

theorem guards_follow_flags:
  assumes "task_storage s (k_task k) = Some info" and "pi_pod_id info \<noteq> 0"
    and "role_flags s (pi_role_id info) = Some flags"
  shows "fst (ptrace_access_check k' (k_task k) s) = (if flags AND 0x20 \<noteq> 0 then 0 else - 1) \<and>
    fst (kernel_module_request k name s) = (if flags AND 0x40 \<noteq> 0 then 0 else - 1) \<and>
    fst (bpf_hook k cmd s) = (if flags AND 0x80 \<noteq> 0 then 0 else - 1)"
  using assms
  by (simp add: ptrace_access_check_def kernel_module_request_def bpf_hook_def Let_def)

theorem guards_follow_flags_witness:
  "fst (ptrace_access_check sample_env 0x10000 (sample_state\<lparr>role_flags := [3 \<mapsto> 0x40]\<rparr>)) = - 1 \<and>
   fst (kernel_module_request sample_env 0 (sample_state\<lparr>role_flags := [3 \<mapsto> 0x40]\<rparr>)) = 0 \<and>
   fst (bpf_hook sample_env 5 (sample_state\<lparr>role_flags := [3 \<mapsto> 0x40]\<rparr>)) = - 1"
  using guards_follow_flags [of "sample_state\<lparr>role_flags := [3 \<mapsto> 0x40]\<rparr>" sample_env sample_info "0x40" sample_env 0 5]
  by simp

text \<open>
  Tracing an enrolled task whose role has no flags is refused without an audit event.
\<close>

theorem ptrace_unknown_role_silent:
  assumes "task_storage s child = Some info" and "pi_pod_id info \<noteq> 0"
    and "role_flags s (pi_role_id info) = None"
  shows "ptrace_access_check k child s = (- 1, s)"
  using assms by (simp add: ptrace_access_check_def)

theorem ptrace_unknown_role_silent_witness:
  "ptrace_access_check sample_env 0x10000 (sample_state\<lparr>role_flags := Map.empty\<rparr>) =
   (- 1, sample_state\<lparr>role_flags := Map.empty\<rparr>)"
  by (rule ptrace_unknown_role_silent [of _ _ sample_info]) simp_all

end
