(* ===== verification/Policy_Apply.thy ===== *)
theory Policy_Apply
  imports Role_Rules Network Exec Guards
begin

text \<open>
  From a role of the policy to the maps: the parsers and value encoders of
  \<open>bpfjailer-common/src/codec.rs\<close>, the flag byte of \<open>flags.rs\<close>, and \<open>apply_role\<close> of \<open>apply.rs\<close> over the
  map writes of the bootstrap's \<open>ObjectSink\<close>. The DNS resolver is a parameter.
\<close>

section \<open>The policy\<close>

record policy_flags =
  allow_file_access :: bool
  allow_network :: bool
  allow_exec :: bool
  require_signed_binary :: bool
  allow_setuid :: bool
  allow_ptrace :: bool
  allow_module_load :: bool
  allow_bpf_load :: bool
  require_proxy :: bool

record path_pattern =
  pp_pattern :: bytes
  pp_allow :: bool

record network_rule =
  nr_protocol :: bytes
  nr_address :: "bytes option"
  nr_port :: "u16 option"
  nr_port_start :: "u16 option"
  nr_port_end :: "u16 option"
  nr_allow :: bool

record ip_rule =
  ir_cidr :: bytes
  ir_direction :: bytes
  ir_allow :: bool

record domain_rule =
  dr_domain :: bytes
  dr_allow :: bool

record proxy_setting =
  px_address :: bytes
  px_required :: bool

record execution_rule =
  er_binary_path :: bytes
  er_args_pattern :: "bytes option"
  er_allow :: bool

record role =
  rl_id :: u32
  rl_name :: bytes
  rl_flags :: policy_flags
  rl_file_paths :: "path_pattern list"
  rl_network_rules :: "network_rule list"
  rl_execution_rules :: "execution_rule list"
  rl_require_signed_binary :: bool
  rl_ip_rules :: "ip_rule list"
  rl_domain_rules :: "domain_rule list"
  rl_proxy :: "proxy_setting option"

section \<open>The flag byte\<close>

definition FLAG_ALLOW_FILE_ACCESS :: u8 where "FLAG_ALLOW_FILE_ACCESS = 0x01"
definition FLAG_ALLOW_NETWORK :: u8 where "FLAG_ALLOW_NETWORK = 0x02"
definition FLAG_ALLOW_EXEC :: u8 where "FLAG_ALLOW_EXEC = 0x04"
definition FLAG_REQUIRE_SIGNED_BINARY :: u8 where "FLAG_REQUIRE_SIGNED_BINARY = 0x08"
definition FLAG_ALLOW_SETUID :: u8 where "FLAG_ALLOW_SETUID = 0x10"
definition FLAG_ALLOW_PTRACE :: u8 where "FLAG_ALLOW_PTRACE = 0x20"
definition FLAG_ALLOW_MODULE_LOAD :: u8 where "FLAG_ALLOW_MODULE_LOAD = 0x40"
definition FLAG_ALLOW_BPF_LOAD :: u8 where "FLAG_ALLOW_BPF_LOAD = 0x80"

lemmas flag_defs = FLAG_ALLOW_FILE_ACCESS_def FLAG_ALLOW_NETWORK_def FLAG_ALLOW_EXEC_def
  FLAG_REQUIRE_SIGNED_BINARY_def FLAG_ALLOW_SETUID_def FLAG_ALLOW_PTRACE_def FLAG_ALLOW_MODULE_LOAD_def
  FLAG_ALLOW_BPF_LOAD_def

definition policy_flags_to_u8 :: "policy_flags \<Rightarrow> u8" where
  "policy_flags_to_u8 f =
     (let byte = 0;
          byte = (if allow_file_access f then byte OR FLAG_ALLOW_FILE_ACCESS else byte);
          byte = (if allow_network f then byte OR FLAG_ALLOW_NETWORK else byte);
          byte = (if allow_exec f then byte OR FLAG_ALLOW_EXEC else byte);
          byte = (if require_signed_binary f then byte OR FLAG_REQUIRE_SIGNED_BINARY else byte);
          byte = (if allow_setuid f then byte OR FLAG_ALLOW_SETUID else byte);
          byte = (if allow_ptrace f then byte OR FLAG_ALLOW_PTRACE else byte);
          byte = (if allow_module_load f then byte OR FLAG_ALLOW_MODULE_LOAD else byte);
          byte = (if allow_bpf_load f then byte OR FLAG_ALLOW_BPF_LOAD else byte)
      in byte)"

definition unenforced_flags :: "policy_flags \<Rightarrow> bytes list" where
  "unenforced_flags f =
     (if require_signed_binary f then [bytes_of ''require_signed_binary''] else []) @
     (if \<not> allow_setuid f then [bytes_of ''allow_setuid=false''] else [])"

definition rules_of_paths :: "path_pattern list \<Rightarrow> (bytes \<times> bool) list" where
  "rules_of_paths ps = map (\<lambda>p. (pp_pattern p, pp_allow p)) ps"

definition rules_of_execs :: "execution_rule list \<Rightarrow> (bytes \<times> bool) list" where
  "rules_of_execs es = map (\<lambda>e. (er_binary_path e, er_allow e)) es"

text \<open>The settings a policy is refused for. The encoder always returns, so \<open>None\<close> does not arise.\<close>

definition conflict_lines :: "string \<Rightarrow> u32 \<Rightarrow> (bytes \<times> bool) list \<Rightarrow> bytes list" where
  "conflict_lines section_name role_id rules =
     (case path_state_entries_for_role role_id rules of
        Some (Inl conflicts) \<Rightarrow> map (\<lambda>c. bytes_of section_name @ bytes_of '': '' @ c) conflicts
      | _ \<Rightarrow> [])"

definition unenforced_settings :: "role \<Rightarrow> bytes list" where
  "unenforced_settings r =
     unenforced_flags (rl_flags r) @
     (if list_ex (\<lambda>e. er_args_pattern e \<noteq> None) (rl_execution_rules r)
      then [bytes_of ''execution_rules.args_pattern''] else []) @
     conflict_lines ''file_paths'' (rl_id r) (rules_of_paths (rl_file_paths r)) @
     conflict_lines ''execution_rules'' (rl_id r) (rules_of_execs (rl_execution_rules r))"

section \<open>Parsing\<close>

definition is_digit :: "u8 \<Rightarrow> bool" where "is_digit b = (48 \<le> b \<and> b \<le> 57)"

definition digits_value :: "bytes \<Rightarrow> nat" where
  "digits_value ds = foldl (\<lambda>n b. 10 * n + (unat b - 48)) 0 ds"

text \<open>\<open>str::parse\<close> for an unsigned integer: an optional plus sign, then digits within range.\<close>

definition parse_unsigned :: "nat \<Rightarrow> bytes \<Rightarrow> nat option" where
  "parse_unsigned max_value s =
     (let ds = (case s of b # bs \<Rightarrow> if b = 43 then bs else s | [] \<Rightarrow> []) in
      if ds \<noteq> [] \<and> list_all is_digit ds \<and> digits_value ds \<le> max_value then Some (digits_value ds) else None)"

text \<open>\<open>str::parse\<close> for an \<open>Ipv4Addr\<close>: four decimal octets without leading zeros.\<close>

definition parse_octet :: "bytes \<Rightarrow> nat option" where
  "parse_octet s =
     (if s \<noteq> [] \<and> length s \<le> 3 \<and> list_all is_digit s \<and> (length s = 1 \<or> hd s \<noteq> 48) \<and> digits_value s \<le> 255
      then Some (digits_value s) else None)"

definition parse_ipv4 :: "bytes \<Rightarrow> u32 option" where
  "parse_ipv4 s =
     (case map parse_octet (split_on 46 s) of
        [Some a, Some b, Some c, Some d] \<Rightarrow> Some (of_nat (((a * 256 + b) * 256 + c) * 256 + d))
      | _ \<Rightarrow> None)"

datatype codec_error =
    Invalid_prefix_length bytes
  | Prefix_length_out_of_range bytes
  | Invalid_ipv4_address bytes
  | Proxy_not_host_port bytes
  | Invalid_proxy_address bytes
  | Invalid_proxy_port bytes

definition parse_host :: "bytes \<Rightarrow> u8 \<Rightarrow> codec_error + (u32 \<times> u8)" where
  "parse_host ip_str len =
     (case parse_ipv4 ip_str of None \<Rightarrow> Inl (Invalid_ipv4_address ip_str) | Some ip \<Rightarrow> Inr (ip, len))"

definition parse_cidr :: "bytes \<Rightarrow> codec_error + (u32 \<times> u8)" where
  "parse_cidr cidr =
     (if 47 \<in> set cidr then
        (case parse_unsigned 255 (tl (dropWhile (\<lambda>b. b \<noteq> 47) cidr)) of
           None \<Rightarrow> Inl (Invalid_prefix_length cidr)
         | Some len \<Rightarrow>
             if 32 < len then Inl (Prefix_length_out_of_range cidr)
             else parse_host (takeWhile (\<lambda>b. b \<noteq> 47) cidr) (of_nat len))
      else parse_host cidr 32)"

definition parse_proxy_addr :: "bytes \<Rightarrow> codec_error + (u32 \<times> u16)" where
  "parse_proxy_addr addr =
     (case split_on 58 addr of
        [host, port] \<Rightarrow>
          (case parse_ipv4 host of
             None \<Rightarrow> Inl (Invalid_proxy_address host)
           | Some ip \<Rightarrow>
               (case parse_unsigned 65535 port of
                  None \<Rightarrow> Inl (Invalid_proxy_port port)
                | Some p \<Rightarrow> Inr (ip, of_nat p)))
      | _ \<Rightarrow> Inl (Proxy_not_host_port addr))"

text \<open>
  \<open>to_lowercase\<close>: among the letters of \<open>tcp\<close> and \<open>udp\<close> only the ASCII capitals have them as their
  lower case, so for the comparison the ASCII conversion is the same.
\<close>

definition to_lowercase :: "bytes \<Rightarrow> bytes" where
  "to_lowercase s = map (\<lambda>b. if 65 \<le> b \<and> b \<le> 90 then b + 32 else b) s"

definition parse_protocol :: "bytes \<Rightarrow> u8 option" where
  "parse_protocol name =
     (if to_lowercase name = bytes_of ''tcp'' then Some PROTO_TCP
      else if to_lowercase name = bytes_of ''udp'' then Some PROTO_UDP
      else None)"

definition expand_network_rule ::
  "bytes \<Rightarrow> u16 option \<Rightarrow> u16 option \<Rightarrow> u16 option \<Rightarrow> (u8 \<times> u16 list) option" where
  "expand_network_rule protocol port port_start port_end =
     (case parse_protocol protocol of
        None \<Rightarrow> None
      | Some proto \<Rightarrow>
          (case (port_start, port_end) of
             (Some lo, Some hi) \<Rightarrow>
               if hi < lo then None
               else Some (proto, map of_nat [unat lo ..< Suc (unat hi)])
           | _ \<Rightarrow>
             (case port of
                Some p \<Rightarrow> Some (proto, [p])
              | None \<Rightarrow> Some (proto, [0]))))"

section \<open>The map writes\<close>

text \<open>
  The methods of the bootstrap's \<open>ObjectSink\<close>. A key is the record whose bytes the encoder builds
  (\<open>Map_Keys\<close>): an address in network order is the byte-swapped host number.
\<close>

definition set_role_flags :: "u32 \<Rightarrow> u8 \<Rightarrow> bpf_state \<Rightarrow> bpf_state" where
  "set_role_flags role_id byte s = s\<lparr>role_flags := (role_flags s)(role_id \<mapsto> byte)\<rparr>"

definition write_path_states :: "path_row list \<Rightarrow> bpf_state \<Rightarrow> bpf_state" where
  "write_path_states entries s = s\<lparr>path_states := write_rows entries (path_states s)\<rparr>"

definition write_exec_states :: "path_row list \<Rightarrow> bpf_state \<Rightarrow> bpf_state" where
  "write_exec_states entries s = s\<lparr>exec_states := write_rows entries (exec_states s)\<rparr>"

definition net_key :: "u32 \<Rightarrow> u16 \<Rightarrow> u8 \<Rightarrow> u8 \<Rightarrow> net_rule_key" where
  "net_key role_id port protocol direction =
     \<lparr>nrk_role_id = role_id, nrk_port = port, nrk_protocol = protocol, nrk_direction = direction\<rparr>"

definition add_network_rule :: "u32 \<Rightarrow> u16 \<Rightarrow> u8 \<Rightarrow> u8 \<Rightarrow> bool \<Rightarrow> bpf_state \<Rightarrow> bpf_state" where
  "add_network_rule role_id port protocol direction allow s =
     s\<lparr>network_rules := (network_rules s)(net_key role_id port protocol direction \<mapsto> bool_byte allow)\<rparr>"

definition add_ip_rule :: "u32 \<Rightarrow> bytes \<Rightarrow> u8 \<Rightarrow> bool \<Rightarrow> bpf_state \<Rightarrow> (codec_error + unit) \<times> bpf_state" where
  "add_ip_rule role_id cidr direction allow s =
     (case parse_cidr cidr of
        Inl e \<Rightarrow> (Inl e, s)
      | Inr (ip, prefix_len) \<Rightarrow>
          (Inr (), s\<lparr>ip_rules := (ip_rules s)
             (\<lparr>irk_role_id = role_id, irk_ip_addr = bswap32 (mask_ipv4 ip prefix_len),
               irk_prefix_len = prefix_len, irk_direction = direction\<rparr> \<mapsto> bool_byte allow)\<rparr>))"

definition add_domain_rule :: "u32 \<Rightarrow> bytes \<Rightarrow> bool \<Rightarrow> bpf_state \<Rightarrow> bpf_state" where
  "add_domain_rule role_id domain allow s =
     s\<lparr>domain_rules := (domain_rules s)
        (\<lparr>drk_role_id = role_id, drk_domain_hash = fnv1a_hash_u64 domain\<rparr> \<mapsto> bool_byte allow)\<rparr>"

definition cache_resolved_ip :: "u32 \<Rightarrow> u32 \<Rightarrow> u64 \<Rightarrow> bpf_state \<Rightarrow> bpf_state" where
  "cache_resolved_ip role_id ip domain_hash s =
     s\<lparr>dns_cache := (dns_cache s)
        (\<lparr>dck_role_id = role_id, dck_ip_addr = bswap32 ip\<rparr> \<mapsto>
         \<lparr>dcv_domain_hash = domain_hash, dcv_timestamp = 0\<rparr>)\<rparr>"

definition set_proxy :: "u32 \<Rightarrow> bytes \<Rightarrow> bool \<Rightarrow> bpf_state \<Rightarrow> (codec_error + unit) \<times> bpf_state" where
  "set_proxy role_id address required s =
     (case parse_proxy_addr address of
        Inl e \<Rightarrow> (Inl e, s)
      | Inr (ip, port) \<Rightarrow>
          (Inr (), s\<lparr>proxy_configs := (proxy_configs s)
             (role_id \<mapsto> \<lparr>pc_proxy_ip = bswap32 ip, pc_proxy_port = port, pc_require_proxy = bool_byte required\<rparr>)\<rparr>))"

section \<open>Applying a role\<close>

text \<open>What was skipped, by the message it is reported with.\<close>

datatype skip =
    Skip_file_paths bytes
  | Skip_execution_rules bytes
  | Skip_network_rule bytes
  | Skip_ip_rule bytes bytes
  | Skip_domain_rule bytes

definition BIND :: u8 where "BIND = 0"
definition CONNECT :: u8 where "CONNECT = 1"

fun write_ports :: "u32 \<Rightarrow> u8 \<Rightarrow> bool \<Rightarrow> u16 list \<Rightarrow> bpf_state \<Rightarrow> bpf_state" where
  "write_ports role_id protocol allow [] s = s"
| "write_ports role_id protocol allow (port # ports) s =
     write_ports role_id protocol allow ports
       (add_network_rule role_id port protocol CONNECT allow
         (add_network_rule role_id port protocol BIND allow s))"

fun apply_network_rules :: "u32 \<Rightarrow> network_rule list \<Rightarrow> skip list \<Rightarrow> bpf_state \<Rightarrow> skip list \<times> bpf_state" where
  "apply_network_rules role_id [] skipped s = (skipped, s)"
| "apply_network_rules role_id (r # rs) skipped s =
     (case expand_network_rule (nr_protocol r) (nr_port r) (nr_port_start r) (nr_port_end r) of
        Some (protocol, ports) \<Rightarrow>
          apply_network_rules role_id rs skipped (write_ports role_id protocol (nr_allow r) ports s)
      | None \<Rightarrow> apply_network_rules role_id rs (skipped @ [Skip_network_rule (nr_protocol r)]) s)"

definition parse_direction :: "bytes \<Rightarrow> u8 option" where
  "parse_direction d =
     (if d = bytes_of ''bind'' then Some BIND else if d = bytes_of ''connect'' then Some CONNECT else None)"

fun apply_ip_rules ::
  "u32 \<Rightarrow> ip_rule list \<Rightarrow> skip list \<Rightarrow> bpf_state \<Rightarrow> (codec_error + skip list) \<times> bpf_state" where
  "apply_ip_rules role_id [] skipped s = (Inr skipped, s)"
| "apply_ip_rules role_id (r # rs) skipped s =
     (case parse_direction (ir_direction r) of
        None \<Rightarrow> apply_ip_rules role_id rs (skipped @ [Skip_ip_rule (ir_cidr r) (ir_direction r)]) s
      | Some direction \<Rightarrow>
          (case add_ip_rule role_id (ir_cidr r) direction (ir_allow r) s of
             (Inl e, s) \<Rightarrow> (Inl e, s)
           | (Inr _, s) \<Rightarrow> apply_ip_rules role_id rs skipped s))"

fun apply_domain_rules ::
  "(bytes \<Rightarrow> u32 list) \<Rightarrow> u32 \<Rightarrow> domain_rule list \<Rightarrow> skip list \<Rightarrow> bpf_state \<Rightarrow> skip list \<times> bpf_state" where
  "apply_domain_rules resolve role_id [] skipped s = (skipped, s)"
| "apply_domain_rules resolve role_id (r # rs) skipped s =
     (let s = add_domain_rule role_id (dr_domain r) (dr_allow r) s;
          addrs = resolve (dr_domain r) in
      if addrs = [] then apply_domain_rules resolve role_id rs (skipped @ [Skip_domain_rule (dr_domain r)]) s
      else apply_domain_rules resolve role_id rs skipped
             (fold (\<lambda>ip. cache_resolved_ip role_id ip (fnv1a_hash_u64 (dr_domain r))) addrs s))"

definition apply_states ::
  "(path_row list \<Rightarrow> bpf_state \<Rightarrow> bpf_state) \<Rightarrow> (bytes \<Rightarrow> skip) \<Rightarrow> u32 \<Rightarrow> (bytes \<times> bool) list \<Rightarrow> skip list \<Rightarrow>
   bpf_state \<Rightarrow> (skip list \<times> bpf_state) option" where
  "apply_states write skip role_id rules skipped s =
     (case path_state_entries_for_role role_id rules of
        None \<Rightarrow> None
      | Some (Inr entries) \<Rightarrow> Some (skipped, if entries = [] then s else write entries s)
      | Some (Inl conflicts) \<Rightarrow> Some (skipped @ map skip conflicts, s))"

definition apply_egress ::
  "(bytes \<Rightarrow> u32 list) \<Rightarrow> role \<Rightarrow> skip list \<Rightarrow> bpf_state \<Rightarrow> (codec_error + skip list) \<times> bpf_state" where
  "apply_egress resolve r skipped s =
     (let (skipped, s) = apply_network_rules (rl_id r) (rl_network_rules r) skipped s in
      case apply_ip_rules (rl_id r) (rl_ip_rules r) skipped s of
        (Inl e, s) \<Rightarrow> (Inl e, s)
      | (Inr skipped, s) \<Rightarrow>
          (let (skipped, s) = apply_domain_rules resolve (rl_id r) (rl_domain_rules r) skipped s in
           case rl_proxy r of
             None \<Rightarrow> (Inr skipped, s)
           | Some p \<Rightarrow>
               (case set_proxy (rl_id r) (px_address p) (px_required p) s of
                  (Inl e, s) \<Rightarrow> (Inl e, s)
                | (Inr _, s) \<Rightarrow> (Inr skipped, s))))"

definition apply_role ::
  "(bytes \<Rightarrow> u32 list) \<Rightarrow> role \<Rightarrow> bpf_state \<Rightarrow> ((codec_error + skip list) \<times> bpf_state) option" where
  "apply_role resolve r s =
     (let s = set_role_flags (rl_id r) (policy_flags_to_u8 (rl_flags r)) s in
      case apply_states write_path_states Skip_file_paths (rl_id r) (rules_of_paths (rl_file_paths r)) [] s of
        None \<Rightarrow> None
      | Some (skipped, s) \<Rightarrow>
          (case apply_states write_exec_states Skip_execution_rules (rl_id r)
                  (rules_of_execs (rl_execution_rules r)) skipped s of
             None \<Rightarrow> None
           | Some (skipped, s) \<Rightarrow> Some (apply_egress resolve r skipped s)))"

end
