(* ===== verification/Address_Text.thy ===== *)
theory Address_Text
  imports Policy_Apply
begin

text \<open>
  Addresses as text: what the standard library prints for an IPv4 address and a number, and that the
  parsers of \<open>codec.rs\<close> read it back.
\<close>

section \<open>Printing and parsing\<close>

lemma digit_byte: "d < 10 \<Longrightarrow> unat (48 + of_nat d :: u8) = 48 + d"
  by (simp add: unat_word_ariths unat_of_nat take_bit_nat_eq_self)

lemma digits_value_snoc [simp]: "digits_value (ds @ [b]) = 10 * digits_value ds + (unat b - 48)"
  by (simp add: digits_value_def)

lemma digits_value_decimal: "digits_value (decimal n) = n"
proof (induction n rule: decimal.induct)
  case (1 n)
  show ?case
  proof (cases "n < 10")
    case True
    then show ?thesis by (simp add: decimal.simps [of n] digits_value_def digit_byte)
  next
    case False
    then show ?thesis using 1 by (simp add: decimal.simps [of n] digit_byte)
  qed
qed

lemma is_digit_byte: "d < 10 \<Longrightarrow> is_digit (48 + of_nat d)"
  by (simp add: is_digit_def word_le_nat_alt digit_byte)

lemma digits_decimal: "list_all is_digit (decimal n)"
proof (induction n rule: decimal.induct)
  case (1 n)
  then show ?case
    using is_digit_byte [of n] is_digit_byte [of "n mod 10"] by (simp add: decimal.simps [of n])
qed

lemma decimal_ne [simp]: "decimal n \<noteq> []"
  by (simp add: decimal.simps [of n])

lemma hd_decimal: "0 < n \<Longrightarrow> hd (decimal n) \<noteq> 48"
proof (induction n rule: decimal.induct)
  case (1 n)
  show ?case
  proof (cases "n < 10")
    case True
    then have "unat (hd (decimal n)) \<noteq> unat (48 :: u8)"
      using 1 by (simp add: decimal.simps [of n] digit_byte)
    then show ?thesis by metis
  next
    case False
    then show ?thesis using 1 by (simp add: decimal.simps [of n])
  qed
qed

lemma length_decimal: "n < 1000 \<Longrightarrow> length (decimal n) \<le> 3" "length (decimal n) = 1 \<longleftrightarrow> n < 10"
  by (simp_all add: decimal.simps [of n] decimal.simps [of "n div 10"] decimal.simps [of "n div 10 div 10"])

lemma digit_not_sep: "b \<in> set (decimal n) \<Longrightarrow> b \<noteq> 46 \<and> b \<noteq> 47 \<and> b \<noteq> 58 \<and> b \<noteq> 43"
  using digits_decimal [of n] by (auto simp: list_all_iff is_digit_def)

lemma parse_octet_decimal: "n \<le> 255 \<Longrightarrow> parse_octet (decimal n) = Some n"
  using hd_decimal [of n] length_decimal [of n] by (auto simp: parse_octet_def digits_decimal digits_value_decimal)

lemma parse_unsigned_decimal: "n \<le> m \<Longrightarrow> parse_unsigned m (decimal n) = Some n"
proof -
  assume n: "n \<le> m"
  obtain b bs where d: "decimal n = b # bs" by (cases "decimal n") auto
  then have "b \<noteq> 43" using digit_not_sep [of b n] by simp
  then show ?thesis using n digits_decimal [of n] digits_value_decimal [of n] by (simp add: parse_unsigned_def d)
qed

lemma split_on_none: "sep \<notin> set s \<Longrightarrow> split_on sep s = [s]"
  by (induction s) auto

lemma split_on_sep: "sep \<notin> set s \<Longrightarrow> split_on sep (s @ sep # t) = s # split_on sep t"
  by (induction s) auto

definition print_ipv4 :: "u32 \<Rightarrow> bytes" where
  "print_ipv4 ip =
     (case map (decimal \<circ> unat) (octets_be ip) of
        [a, b, c, d] \<Rightarrow> a @ 46 # b @ 46 # c @ 46 # d
      | _ \<Rightarrow> [])"

lemma octets_nat: "(n :: nat) < 2 ^ 32 \<Longrightarrow>
  ((n div 2 ^ 24 mod 256 * 256 + n div 2 ^ 16 mod 256) * 256 + n div 2 ^ 8 mod 256) * 256 + n mod 256 = n"
proof -
  assume n: "n < 2 ^ 32"
  define x1 x2 x3 where x: "x1 = n div 256" "x2 = x1 div 256" "x3 = x2 div 256"
  have "n div 2 ^ 8 = x1" "n div 2 ^ 16 = x2" "n div 2 ^ 24 = x3"
    by (simp_all add: x div_mult2_eq [symmetric])
  moreover have "x3 < 256" using n by (simp add: x div_mult2_eq [symmetric] less_mult_imp_div_less)
  moreover have "x3 * 256 + x2 mod 256 = x2" "x2 * 256 + x1 mod 256 = x1" "x1 * 256 + n mod 256 = n"
    by (simp_all add: x)
  ultimately show ?thesis by simp
qed

lemma octets_be_list:
  "octets_be ip = [ucast (drop_bit 24 ip), ucast (drop_bit 16 ip), ucast (drop_bit 8 ip), ucast (drop_bit 0 ip)]"
proof -
  have "[0..<4] = [0, 1, 2, 3 :: nat]" by code_simp
  then show ?thesis by (simp add: octets_be_def le_bytes_def)
qed

lemma octets_value:
  assumes "octets_be ip = [a, b, c, d]"
  shows "of_nat (((unat a * 256 + unat b) * 256 + unat c) * 256 + unat d) = ip"
proof -
  have lt: "unat ip < 4294967296" using unsigned_less [of ip] by simp
  have "unat (ucast (drop_bit i ip) :: u8) = unat ip div 2 ^ i mod 256" for i
    using lt by (simp add: unsigned_ucast_eq unsigned_drop_bit_eq take_bit_eq_mod) (simp add: drop_bit_eq_div)
  then have "unat a = unat ip div 2 ^ 24 mod 256" "unat b = unat ip div 2 ^ 16 mod 256"
      "unat c = unat ip div 2 ^ 8 mod 256" "unat d = unat ip div 2 ^ 0 mod 256"
    using assms unfolding octets_be_list list.inject by metis+
  then have "((unat a * 256 + unat b) * 256 + unat c) * 256 + unat d = unat ip"
    using octets_nat [of "unat ip"] lt by simp
  then show ?thesis by simp
qed

lemma parse_print_ipv4: "parse_ipv4 (print_ipv4 ip) = Some ip"
proof -
  obtain a b c d where o: "octets_be ip = [a, b, c, d]"
    by (simp add: octets_be_list)
  have "unat x < 256" for x :: u8 using unsigned_less [of x] by simp
  then have le: "unat x \<le> 255" for x :: u8 by (simp add: less_Suc_eq_le [symmetric])
  have "46 \<notin> set (decimal n)" for n using digit_not_sep by blast
  then have "split_on 46 (print_ipv4 ip) = map (decimal \<circ> unat) [a, b, c, d]"
    by (simp add: print_ipv4_def o split_on_sep split_on_none)
  then show ?thesis using octets_value [OF o] by (simp add: parse_ipv4_def parse_octet_decimal le)
qed

lemma print_ipv4_plain: "b \<in> set (print_ipv4 ip) \<Longrightarrow> b \<noteq> 47 \<and> b \<noteq> 58"
  using digit_not_sep by (fastforce simp: print_ipv4_def split: list.splits)

text \<open>
  C26: Printing and parsing agree: a printed network \<open>a.b.c.d/len\<close> and a printed proxy \<open>a.b.c.d:port\<close>
  parse to what was printed, and a bare address is a \<open>/32\<close>.
\<close>

theorem parse_print_addresses:
  assumes "unat len \<le> 32"
  shows "parse_cidr (print_ipv4 ip @ 47 # decimal (unat len)) = Inr (ip, len) \<and>
    parse_cidr (print_ipv4 ip) = Inr (ip, 32) \<and>
    parse_proxy_addr (print_ipv4 ip @ 58 # decimal (unat port)) = Inr (ip, port)"
proof -
  have n: "47 \<notin> set (print_ipv4 ip)" "58 \<notin> set (print_ipv4 ip)" "58 \<notin> set (decimal (unat port))"
    using print_ipv4_plain digit_not_sep by blast+
  have "takeWhile (\<lambda>b. b \<noteq> 47) (print_ipv4 ip @ 47 # decimal (unat len)) = print_ipv4 ip"
      "dropWhile (\<lambda>b. b \<noteq> 47) (print_ipv4 ip @ 47 # decimal (unat len)) = 47 # decimal (unat len)"
    using n(1) by (auto simp: takeWhile_append dropWhile_append)
  moreover have "split_on 58 (print_ipv4 ip @ 58 # decimal (unat port)) = [print_ipv4 ip, decimal (unat port)]"
    using n by (simp add: split_on_sep split_on_none)
  moreover have "unat port \<le> 65535"
  proof -
    have "unat port < 65536" using unsigned_less [of port] by simp
    then show ?thesis by simp
  qed
  ultimately show ?thesis
    using assms n(1)
    by (simp add: parse_cidr_def parse_host_def parse_proxy_addr_def parse_print_ipv4 parse_unsigned_decimal)
qed

theorem parse_print_addresses_witness: "parse_cidr (print_ipv4 0x0A000000 @ 47 # decimal (unat (8 :: u8))) = Inr (0x0A000000, 8)"
  using parse_print_addresses [of 8 "0x0A000000"] by simp
end
