(* ===== verification/Policy_Properties.thy ===== *)
theory Policy_Properties
  imports Address_Text
begin

text \<open>
  What a loaded role means: the flag byte and the guards, the port rules and the address parsers,
  from the policy to the verdicts of the hooks. Applying a role touches its own entries only.
\<close>

section \<open>The flag byte\<close>

lemma or_if: "(if b then x OR c else x) = x OR (if b then c else 0)" for x c :: u8
  by simp

lemma and_if: "(if b then c else 0) AND m = (if b then c AND m else 0)" for c m :: u8
  by simp

lemma flag_bits:
  "policy_flags_to_u8 f AND 0x01 \<noteq> 0 \<longleftrightarrow> allow_file_access f"
  "policy_flags_to_u8 f AND 0x02 \<noteq> 0 \<longleftrightarrow> allow_network f"
  "policy_flags_to_u8 f AND 0x04 \<noteq> 0 \<longleftrightarrow> allow_exec f"
  "policy_flags_to_u8 f AND 0x08 \<noteq> 0 \<longleftrightarrow> require_signed_binary f"
  "policy_flags_to_u8 f AND 0x10 \<noteq> 0 \<longleftrightarrow> allow_setuid f"
  "policy_flags_to_u8 f AND 0x20 \<noteq> 0 \<longleftrightarrow> allow_ptrace f"
  "policy_flags_to_u8 f AND 0x40 \<noteq> 0 \<longleftrightarrow> allow_module_load f"
  "policy_flags_to_u8 f AND 0x80 \<noteq> 0 \<longleftrightarrow> allow_bpf_load f"
  unfolding policy_flags_to_u8_def flag_defs Let_def or_if word_ao_dist and_if by simp_all

text \<open>The byte read back; \<open>require_proxy\<close> has no bit.\<close>

definition flags_of_u8 :: "u8 \<Rightarrow> policy_flags" where
  "flags_of_u8 b =
     \<lparr>allow_file_access = b AND 0x01 \<noteq> 0, allow_network = b AND 0x02 \<noteq> 0, allow_exec = b AND 0x04 \<noteq> 0,
      require_signed_binary = b AND 0x08 \<noteq> 0, allow_setuid = b AND 0x10 \<noteq> 0, allow_ptrace = b AND 0x20 \<noteq> 0,
      allow_module_load = b AND 0x40 \<noteq> 0, allow_bpf_load = b AND 0x80 \<noteq> 0, require_proxy = False\<rparr>"

section \<open>What applying a role changes\<close>

definition port_rows :: "u32 \<Rightarrow> u8 \<Rightarrow> bool \<Rightarrow> u16 list \<Rightarrow> (net_rule_key \<rightharpoonup> u8) \<Rightarrow> (net_rule_key \<rightharpoonup> u8)" where
  "port_rows role_id protocol allow ports t key =
     (if nrk_role_id key = role_id \<and> nrk_protocol key = protocol \<and> nrk_port key \<in> set ports \<and>
         (nrk_direction key = BIND \<or> nrk_direction key = CONNECT)
      then Some (bool_byte allow) else t key)"

lemma write_ports_rows:
  "write_ports role_id protocol allow ports s = s\<lparr>network_rules := port_rows role_id protocol allow ports (network_rules s)\<rparr>"
proof (induction ports arbitrary: s)
  case (Cons port ports)
  have "port_rows role_id protocol allow ports ((network_rules s)
      (net_key role_id port protocol BIND \<mapsto> bool_byte allow, net_key role_id port protocol CONNECT \<mapsto> bool_byte allow)) =
    port_rows role_id protocol allow (port # ports) (network_rules s)"
    by (rule ext) (auto simp: port_rows_def net_key_def)
  then show ?case by (simp add: Cons.IH add_network_rule_def fun_upd_def)
next
  case Nil
  have "port_rows role_id protocol allow [] (network_rules s) = network_rules s" by (auto simp: port_rows_def)
  then show ?case by simp
qed

text \<open>Which ports a rule covers: its range where it has both ends, else its port, else the wildcard port 0.\<close>

definition covers :: "u8 \<Rightarrow> u16 \<Rightarrow> network_rule \<Rightarrow> bool" where
  "covers protocol port r =
     (parse_protocol (nr_protocol r) = Some protocol \<and>
      (case (nr_port_start r, nr_port_end r) of
         (Some lo, Some hi) \<Rightarrow> lo \<le> port \<and> port \<le> hi
       | _ \<Rightarrow> port = (case nr_port r of Some p \<Rightarrow> p | None \<Rightarrow> 0)))"

lemma port_range: "port \<in> set (map of_nat [unat lo ..< Suc (unat hi)]) \<longleftrightarrow> lo \<le> port \<and> port \<le> hi" for port lo hi :: u16
proof -
  have "port \<in> set (map of_nat [unat lo ..< Suc (unat hi)]) \<longleftrightarrow>
      (\<exists>n. unat lo \<le> n \<and> n \<le> unat hi \<and> port = of_nat n)"
    by (auto simp: less_Suc_eq_le)
  also have "\<dots> \<longleftrightarrow> unat lo \<le> unat port \<and> unat port \<le> unat hi"
  proof
    assume "\<exists>n. unat lo \<le> n \<and> n \<le> unat hi \<and> port = of_nat n"
    then obtain n where n: "unat lo \<le> n" "n \<le> unat hi" "port = of_nat n" by blast
    have "unat hi < 2 ^ 16" using unsigned_less [of hi] by simp
    then have "n < 2 ^ 16" using n(2) by simp
    then show "unat lo \<le> unat port \<and> unat port \<le> unat hi" using n by (simp add: unat_of_nat take_bit_nat_eq_self)
  qed (auto intro!: exI [of _ "unat port"])
  finally show ?thesis by (simp add: word_le_nat_alt)
qed

lemma covers_expand:
  "covers protocol port r \<longleftrightarrow>
    (case expand_network_rule (nr_protocol r) (nr_port r) (nr_port_start r) (nr_port_end r) of
       Some (p, ports) \<Rightarrow> p = protocol \<and> port \<in> set ports
     | None \<Rightarrow> False)"
proof (cases "nr_port_start r = None \<or> nr_port_end r = None")
  case True
  then show ?thesis by (auto simp: covers_def expand_network_rule_def split: option.splits)
next
  case False
  then obtain lo hi where "nr_port_start r = Some lo" "nr_port_end r = Some hi" by auto
  then show ?thesis
    using port_range [of port lo hi] by (auto simp: covers_def expand_network_rule_def simp del: upt_Suc split: option.splits)
qed

text \<open>The last rule that covers a port.\<close>

definition last_rule :: "network_rule list \<Rightarrow> u8 \<Rightarrow> u16 \<Rightarrow> bool option" where
  "last_rule rs protocol port =
     (case filter (covers protocol port) rs of [] \<Rightarrow> None | ms \<Rightarrow> Some (nr_allow (last ms)))"

lemma last_rule_Cons:
  "last_rule (r # rs) protocol port =
    (case last_rule rs protocol port of
       Some a \<Rightarrow> Some a
     | None \<Rightarrow> if covers protocol port r then Some (nr_allow r) else None)"
  by (auto simp: last_rule_def split: list.split)

definition net_rows :: "u32 \<Rightarrow> network_rule list \<Rightarrow> (net_rule_key \<rightharpoonup> u8) \<Rightarrow> (net_rule_key \<rightharpoonup> u8)" where
  "net_rows role_id rs t key =
     (if nrk_role_id key = role_id \<and> (nrk_direction key = BIND \<or> nrk_direction key = CONNECT)
      then case last_rule rs (nrk_protocol key) (nrk_port key) of Some a \<Rightarrow> Some (bool_byte a) | None \<Rightarrow> t key
      else t key)"

lemma net_rows_Cons:
  "net_rows role_id (r # rs) t =
    (case expand_network_rule (nr_protocol r) (nr_port r) (nr_port_start r) (nr_port_end r) of
       Some (protocol, ports) \<Rightarrow> net_rows role_id rs (port_rows role_id protocol (nr_allow r) ports t)
     | None \<Rightarrow> net_rows role_id rs t)"
  by (rule ext) (auto simp: net_rows_def port_rows_def last_rule_Cons covers_expand split: option.splits prod.splits)

lemma apply_network_rules_rows:
  "snd (apply_network_rules role_id rs skipped s) = s\<lparr>network_rules := net_rows role_id rs (network_rules s)\<rparr>"
proof (induction rs arbitrary: skipped s)
  case Nil
  have "net_rows role_id [] (network_rules s) = network_rules s" by (auto simp: net_rows_def last_rule_def)
  then show ?case by simp
next
  case (Cons r rs)
  then show ?case by (auto simp: net_rows_Cons write_ports_rows split: option.splits prod.splits)
qed

section \<open>Applying a role writes its own entries only\<close>

definition own_entries :: "('k \<Rightarrow> u32) \<Rightarrow> u32 \<Rightarrow> ('k \<rightharpoonup> 'v) \<Rightarrow> ('k \<rightharpoonup> 'v) \<Rightarrow> bool" where
  "own_entries role_of role_id t t' \<longleftrightarrow> (\<forall>k. role_of k \<noteq> role_id \<longrightarrow> t' k = t k)"

definition role_writes :: "u32 \<Rightarrow> bpf_state \<Rightarrow> bpf_state \<Rightarrow> bool" where
  "role_writes role_id s s' \<longleftrightarrow>
     own_entries id role_id (role_flags s) (role_flags s') \<and>
     own_entries psk_role_id role_id (path_states s) (path_states s') \<and>
     own_entries psk_role_id role_id (exec_states s) (exec_states s') \<and>
     own_entries nrk_role_id role_id (network_rules s) (network_rules s') \<and>
     own_entries irk_role_id role_id (ip_rules s) (ip_rules s') \<and>
     own_entries drk_role_id role_id (domain_rules s) (domain_rules s') \<and>
     own_entries dck_role_id role_id (dns_cache s) (dns_cache s') \<and>
     own_entries id role_id (proxy_configs s) (proxy_configs s') \<and>
     task_storage s' = task_storage s \<and> pending_enrollments s' = pending_enrollments s \<and>
     path_decision_cache s' = path_decision_cache s \<and> cache_generation s' = cache_generation s \<and>
     exec_enrollment s' = exec_enrollment s \<and> cgroup_enrollment s' = cgroup_enrollment s \<and>
     audit_events s' = audit_events s \<and> path_buf s' = path_buf s"

lemma role_writes_refl [simp]: "role_writes role_id s s"
  by (simp add: role_writes_def own_entries_def)

lemma role_writes_trans: "role_writes role_id s s' \<Longrightarrow> role_writes role_id s' s'' \<Longrightarrow> role_writes role_id s s''"
  by (simp add: role_writes_def own_entries_def)

lemma own_entries_write_rows:
  assumes "\<And>k v. (k, v) \<in> set rows \<Longrightarrow> psk_role_id k = role_id"
  shows "own_entries psk_role_id role_id t (write_rows rows t)"
  unfolding own_entries_def using assms write_rows_miss by metis

lemma role_writes_steps:
  "role_writes role_id s (set_role_flags role_id b s)"
  "role_writes role_id s (add_network_rule role_id port protocol direction allow s)"
  "role_writes role_id s (snd (add_ip_rule role_id cidr direction allow s))"
  "role_writes role_id s (add_domain_rule role_id domain allow s)"
  "role_writes role_id s (cache_resolved_ip role_id ip h s)"
  "role_writes role_id s (snd (set_proxy role_id address required s))"
  by (auto simp: role_writes_def own_entries_def set_role_flags_def add_network_rule_def add_ip_rule_def
      add_domain_rule_def cache_resolved_ip_def set_proxy_def net_key_def split: sum.split prod.split)

lemma role_writes_network: "role_writes role_id s (snd (apply_network_rules role_id rs skipped s))"
  by (simp add: apply_network_rules_rows role_writes_def own_entries_def net_rows_def)

lemma role_writes_ip: "role_writes role_id s (snd (apply_ip_rules role_id rs skipped s))"
proof (induction rs arbitrary: skipped s)
  case (Cons r rs)
  show ?case
  proof (cases "parse_direction (ir_direction r)")
    case None
    then show ?thesis using Cons.IH by simp
  next
    case (Some direction)
    obtain res t where t: "add_ip_rule role_id (ir_cidr r) direction (ir_allow r) s = (res, t)"
      by (cases "add_ip_rule role_id (ir_cidr r) direction (ir_allow r) s")
    then have "role_writes role_id s t" using role_writes_steps(3) by (metis snd_conv)
    then show ?thesis using Some t Cons.IH role_writes_trans by (cases res) (simp, force)
  qed
qed simp

lemma role_writes_fold:
  "role_writes role_id s (fold (\<lambda>ip. cache_resolved_ip role_id ip h) ips s)"
proof (induction ips arbitrary: s)
  case (Cons ip ips)
  show ?case using role_writes_trans [OF role_writes_steps(5) Cons.IH] by simp
qed simp

lemma role_writes_domain: "role_writes role_id s (snd (apply_domain_rules resolve role_id rs skipped s))"
proof (induction rs arbitrary: skipped s)
  case (Cons r rs)
  let ?s = "add_domain_rule role_id (dr_domain r) (dr_allow r) s"
  let ?t = "fold (\<lambda>ip. cache_resolved_ip role_id ip (fnv1a_hash_u64 (dr_domain r))) (resolve (dr_domain r)) ?s"
  have "role_writes role_id s ?s" "role_writes role_id s ?t"
    using role_writes_steps(4) role_writes_trans [OF role_writes_steps(4) role_writes_fold] by simp_all
  then show ?case using Cons.IH role_writes_trans by (simp add: Let_def)
qed simp

lemma entries_own_role:
  assumes "path_state_entries_for_role role_id rules = Some (Inr rows)" and "(k, v) \<in> set rows"
  shows "psk_role_id k = role_id"
  by (rule role_outcome [of role_id rules]) (use assms in \<open>auto simp: role_row_def row_key_def\<close>)

lemma role_writes_states:
  assumes "apply_states write skip role_id rules skipped s = Some (skipped', s')"
    and "write = write_path_states \<or> write = write_exec_states"
  shows "role_writes role_id s s'"
proof -
  obtain x where x: "path_state_entries_for_role role_id rules = Some x"
    using assms(1) by (auto simp: apply_states_def split: option.splits)
  show ?thesis
  proof (cases x)
    case (Inl conflicts)
    then show ?thesis using assms(1) x by (simp add: apply_states_def)
  next
    case (Inr rows)
    have own: "own_entries psk_role_id role_id t (write_rows rows t)" for t
      using entries_own_role x Inr by (intro own_entries_write_rows) simp
    have "role_writes role_id s (write_path_states rows s)" "role_writes role_id s (write_exec_states rows s)"
      using own by (simp_all add: role_writes_def write_path_states_def write_exec_states_def) (simp_all add: own_entries_def)
    then show ?thesis using assms x Inr by (auto simp: apply_states_def split: if_splits)
  qed
qed

lemma role_writes_egress: "role_writes (rl_id r) s (snd (apply_egress resolve r skipped s))"
proof -
  obtain sk1 s1 where 1: "apply_network_rules (rl_id r) (rl_network_rules r) skipped s = (sk1, s1)"
    by (cases "apply_network_rules (rl_id r) (rl_network_rules r) skipped s")
  obtain res2 s2 where 2: "apply_ip_rules (rl_id r) (rl_ip_rules r) sk1 s1 = (res2, s2)"
    by (cases "apply_ip_rules (rl_id r) (rl_ip_rules r) sk1 s1")
  have w: "role_writes (rl_id r) s s2"
    using role_writes_trans role_writes_network role_writes_ip 1 2 by (metis snd_conv)
  show ?thesis
  proof (cases res2)
    case (Inl e)
    then show ?thesis using w 1 2 by (simp add: apply_egress_def)
  next
    case (Inr sk2)
    obtain sk3 s3 where 3: "apply_domain_rules resolve (rl_id r) (rl_domain_rules r) sk2 s2 = (sk3, s3)"
      by (cases "apply_domain_rules resolve (rl_id r) (rl_domain_rules r) sk2 s2")
    have w3: "role_writes (rl_id r) s s3" using role_writes_trans [OF w] role_writes_domain 3 by (metis snd_conv)
    then show ?thesis
      using 1 2 3 Inr role_writes_trans [OF w3 role_writes_steps(6)]
      by (auto simp: apply_egress_def split: option.split sum.split prod.split) (metis snd_conv)+
  qed
qed

text \<open>The stages of \<open>apply_role\<close>.\<close>

lemma apply_role_stages:
  assumes "apply_role resolve r s = Some (res, s')"
  obtains sk1 s1 sk2 s2 where
    "apply_states write_path_states Skip_file_paths (rl_id r) (rules_of_paths (rl_file_paths r)) []
       (set_role_flags (rl_id r) (policy_flags_to_u8 (rl_flags r)) s) = Some (sk1, s1)"
    "apply_states write_exec_states Skip_execution_rules (rl_id r) (rules_of_execs (rl_execution_rules r)) sk1 s1 =
       Some (sk2, s2)"
    "apply_egress resolve r sk2 s2 = (res, s')"
  using assms by (auto simp: apply_role_def Let_def split: option.splits prod.splits)

lemma apply_states_fields:
  assumes "apply_states write_path_states skip role_id rules skipped s = Some (skipped', s')"
  shows "s' = s\<lparr>path_states := (case path_state_entries_for_role role_id rules of
      Some (Inr rows) \<Rightarrow> write_rows rows (path_states s) | _ \<Rightarrow> path_states s)\<rparr>"
  using assms by (auto simp: apply_states_def write_path_states_def write_rows_def split: option.splits sum.splits if_splits)

lemma apply_exec_states_fields:
  assumes "apply_states write_exec_states skip role_id rules skipped s = Some (skipped', s')"
  shows "s' = s\<lparr>exec_states := (case path_state_entries_for_role role_id rules of
      Some (Inr rows) \<Rightarrow> write_rows rows (exec_states s) | _ \<Rightarrow> exec_states s)\<rparr>"
  using assms by (auto simp: apply_states_def write_exec_states_def write_rows_def split: option.splits sum.splits if_splits)

lemma apply_ip_rules_keeps:
  "role_flags (snd (apply_ip_rules role_id rs skipped s)) = role_flags s"
  "path_states (snd (apply_ip_rules role_id rs skipped s)) = path_states s"
  "exec_states (snd (apply_ip_rules role_id rs skipped s)) = exec_states s"
  "network_rules (snd (apply_ip_rules role_id rs skipped s)) = network_rules s"
  "proxy_configs (snd (apply_ip_rules role_id rs skipped s)) = proxy_configs s"
  by (induction rs arbitrary: skipped s) (auto simp: add_ip_rule_def split: option.splits sum.splits prod.splits)

lemma fold_cache_keeps:
  "role_flags (fold (\<lambda>ip. cache_resolved_ip role_id ip h) ips s) = role_flags s"
  "path_states (fold (\<lambda>ip. cache_resolved_ip role_id ip h) ips s) = path_states s"
  "exec_states (fold (\<lambda>ip. cache_resolved_ip role_id ip h) ips s) = exec_states s"
  "network_rules (fold (\<lambda>ip. cache_resolved_ip role_id ip h) ips s) = network_rules s"
  "proxy_configs (fold (\<lambda>ip. cache_resolved_ip role_id ip h) ips s) = proxy_configs s"
  by (induction ips arbitrary: s) (simp_all add: cache_resolved_ip_def)

lemma apply_domain_rules_keeps:
  "role_flags (snd (apply_domain_rules resolve role_id rs skipped s)) = role_flags s"
  "path_states (snd (apply_domain_rules resolve role_id rs skipped s)) = path_states s"
  "exec_states (snd (apply_domain_rules resolve role_id rs skipped s)) = exec_states s"
  "network_rules (snd (apply_domain_rules resolve role_id rs skipped s)) = network_rules s"
  "proxy_configs (snd (apply_domain_rules resolve role_id rs skipped s)) = proxy_configs s"
  by (induction rs arbitrary: skipped s) (simp_all add: Let_def fold_cache_keeps add_domain_rule_def)

lemma apply_egress_fields:
  assumes "apply_egress resolve r skipped s = (res, s')"
  shows "role_flags s' = role_flags s" "path_states s' = path_states s" "exec_states s' = exec_states s"
    "network_rules s' = net_rows (rl_id r) (rl_network_rules r) (network_rules s)"
    "\<And>e. res = Inl e \<Longrightarrow> proxy_configs s' = proxy_configs s"
proof -
  let ?s1 = "s\<lparr>network_rules := net_rows (rl_id r) (rl_network_rules r) (network_rules s)\<rparr>"
  obtain sk1 where 1: "apply_network_rules (rl_id r) (rl_network_rules r) skipped s = (sk1, ?s1)"
    using apply_network_rules_rows by (metis prod.collapse)
  obtain res2 s2 where 2: "apply_ip_rules (rl_id r) (rl_ip_rules r) sk1 ?s1 = (res2, s2)" by fastforce
  have k2: "role_flags s2 = role_flags s" "path_states s2 = path_states s" "exec_states s2 = exec_states s"
      "network_rules s2 = network_rules ?s1" "proxy_configs s2 = proxy_configs s"
    using apply_ip_rules_keeps [of "rl_id r" "rl_ip_rules r" sk1 ?s1] by (simp_all add: 2)
  obtain sk3 s3 where 3: "apply_domain_rules resolve (rl_id r) (rl_domain_rules r) (projr res2) s2 = (sk3, s3)" by fastforce
  have k3: "role_flags s3 = role_flags s" "path_states s3 = path_states s" "exec_states s3 = exec_states s"
      "network_rules s3 = network_rules ?s1" "proxy_configs s3 = proxy_configs s"
    using apply_domain_rules_keeps [of resolve "rl_id r" "rl_domain_rules r" "projr res2" s2] k2 by (simp_all add: 3)
  have "s' = s2 \<or> s' = s3 \<or> (\<exists>c. s' = s3\<lparr>proxy_configs := c\<rparr> \<and> (\<exists>sk. res = Inr sk))"
    using assms 1 2 3 by (cases res2)
      (auto simp: apply_egress_def set_proxy_def split: option.splits sum.splits prod.splits)
  then show "role_flags s' = role_flags s" "path_states s' = path_states s" "exec_states s' = exec_states s"
    "network_rules s' = net_rows (rl_id r) (rl_network_rules r) (network_rules s)"
    "\<And>e. res = Inl e \<Longrightarrow> proxy_configs s' = proxy_configs s"
    using k2 k3 by auto
qed

lemma apply_role_fields:
  assumes "apply_role resolve r s = Some (res, s')"
  shows "role_flags s' = (role_flags s)(rl_id r \<mapsto> policy_flags_to_u8 (rl_flags r))"
    "path_states s' = (case path_state_entries_for_role (rl_id r) (rules_of_paths (rl_file_paths r)) of
       Some (Inr rows) \<Rightarrow> write_rows rows (path_states s) | _ \<Rightarrow> path_states s)"
    "exec_states s' = (case path_state_entries_for_role (rl_id r) (rules_of_execs (rl_execution_rules r)) of
       Some (Inr rows) \<Rightarrow> write_rows rows (exec_states s) | _ \<Rightarrow> exec_states s)"
    "network_rules s' = net_rows (rl_id r) (rl_network_rules r) (network_rules s)"
    "\<And>e. res = Inl e \<Longrightarrow> proxy_configs s' = proxy_configs s"
    "role_writes (rl_id r) s s'"
proof -
  obtain sk1 s1 sk2 s2 where st:
    "apply_states write_path_states Skip_file_paths (rl_id r) (rules_of_paths (rl_file_paths r)) []
       (set_role_flags (rl_id r) (policy_flags_to_u8 (rl_flags r)) s) = Some (sk1, s1)"
    "apply_states write_exec_states Skip_execution_rules (rl_id r) (rules_of_execs (rl_execution_rules r)) sk1 s1 =
       Some (sk2, s2)"
    "apply_egress resolve r sk2 s2 = (res, s')"
    using assms by (rule apply_role_stages)
  note f = apply_states_fields [OF st(1)] apply_exec_states_fields [OF st(2)]
  show "role_flags s' = (role_flags s)(rl_id r \<mapsto> policy_flags_to_u8 (rl_flags r))"
    "path_states s' = (case path_state_entries_for_role (rl_id r) (rules_of_paths (rl_file_paths r)) of
       Some (Inr rows) \<Rightarrow> write_rows rows (path_states s) | _ \<Rightarrow> path_states s)"
    "exec_states s' = (case path_state_entries_for_role (rl_id r) (rules_of_execs (rl_execution_rules r)) of
       Some (Inr rows) \<Rightarrow> write_rows rows (exec_states s) | _ \<Rightarrow> exec_states s)"
    "network_rules s' = net_rows (rl_id r) (rl_network_rules r) (network_rules s)"
    "\<And>e. res = Inl e \<Longrightarrow> proxy_configs s' = proxy_configs s"
    by (simp_all add: apply_egress_fields [OF st(3)] f set_role_flags_def cong: option.case_cong sum.case_cong)
  have "role_writes (rl_id r) s s2"
    using role_writes_steps(1) role_writes_states [OF st(1)] role_writes_states [OF st(2)] role_writes_trans by blast
  then show "role_writes (rl_id r) s s'"
    using role_writes_trans role_writes_egress [of r s2 resolve sk2] st(3) by (metis snd_conv)
qed

section \<open>Ports\<close>

definition port_verdict :: "network_rule list \<Rightarrow> u8 \<Rightarrow> u16 \<Rightarrow> int" where
  "port_verdict rs protocol port =
     (case last_rule rs protocol port of
        Some allow \<Rightarrow> decision_verdict allow
      | None \<Rightarrow> (case last_rule rs protocol 0 of Some allow \<Rightarrow> decision_verdict allow | None \<Rightarrow> 0))"

text \<open>Protocol and port of a socket call, where the socket and the address have them.\<close>

definition endpoint :: "kenv \<Rightarrow> u64 \<Rightarrow> u64 \<Rightarrow> (u8 \<times> u16) option" where
  "endpoint k sock address =
     (case (if sock_type k sock = SOCK_STREAM then Some PROTO_TCP
            else if sock_type k sock = SOCK_DGRAM then Some PROTO_UDP else None) of
        None \<Rightarrow> None
      | Some protocol \<Rightarrow>
          if sa_family k address = AF_INET then Some (protocol, bpf_ntohs (sin_port k address))
          else if sa_family k address = AF_INET6 then Some (protocol, bpf_ntohs (sin6_port k address))
          else None)"

lemma u8_verdict_bool [simp]: "u8_verdict (bool_byte b) = decision_verdict b"
  by (simp add: u8_verdict_def bool_byte_def decision_verdict_def)

lemma net_rows_verdict:
  assumes "\<And>key. nrk_role_id key = role_id \<Longrightarrow> t key = None" and "direction = 0 \<or> direction = 1"
  shows "check_network_access k (net_rows role_id rs t) role_id sock address direction =
    (case endpoint k sock address of None \<Rightarrow> 0 | Some (protocol, port) \<Rightarrow> port_verdict rs protocol port)"
proof -
  have "net_rows role_id rs t \<lparr>nrk_role_id = role_id, nrk_port = port, nrk_protocol = protocol, nrk_direction = direction\<rparr> =
      map_option bool_byte (last_rule rs protocol port)" for port protocol
    using assms by (auto simp: net_rows_def BIND_def CONNECT_def split: option.split)
  then show ?thesis
    by (auto simp: check_network_access_def endpoint_def Let_def port_verdict_def split: option.splits)
qed

lemma apply_role_total: obtains res s' where "apply_role resolve r s = Some (res, s')"
proof -
  have e: "\<exists>x. path_state_entries_for_role role_id rules = Some x" for role_id rules
    by (rule role_outcome [of role_id rules]) auto
  have "\<exists>x. apply_states w f role_id rules skipped t = Some x" for w f role_id rules skipped t
    using e [of role_id rules] by (auto simp: apply_states_def split: sum.split)
  then have "\<exists>x. apply_role resolve r s = Some x"
    unfolding apply_role_def Let_def by (metis (no_types, lifting) option.case(2) case_prod_conv surj_pair)
  then show thesis using that by fastforce
qed

section \<open>A sample role\<close>

definition sample_role :: role where
  "sample_role = \<lparr>rl_id = 3, rl_name = bytes_of ''web'',
     rl_flags = \<lparr>allow_file_access = True, allow_network = False, allow_exec = False, require_signed_binary = False,
        allow_setuid = True, allow_ptrace = True, allow_module_load = False, allow_bpf_load = False, require_proxy = False\<rparr>,
     rl_file_paths = [\<lparr>pp_pattern = bytes_of ''/etc/'', pp_allow = True\<rparr>,
        \<lparr>pp_pattern = bytes_of ''/etc/shadow'', pp_allow = False\<rparr>],
     rl_network_rules = [\<lparr>nr_protocol = bytes_of ''TCP'', nr_address = None, nr_port = None, nr_port_start = Some 0,
        nr_port_end = Some 22, nr_allow = True\<rparr>],
     rl_execution_rules = [], rl_require_signed_binary = False,
     rl_ip_rules = [\<lparr>ir_cidr = bytes_of ''10.0.0.0/33'', ir_direction = bytes_of ''connect'', ir_allow = True\<rparr>],
     rl_domain_rules = [], rl_proxy = Some \<lparr>px_address = bytes_of ''10.0.0.1:3128'', px_required = True\<rparr>\<rparr>"

definition blank_state :: bpf_state where
  "blank_state = sample_state\<lparr>path_states := Map.empty, network_rules := Map.empty, proxy_configs := Map.empty\<rparr>"

lemma sample_role_simps [simp]:
  "rl_id sample_role = 3" "allow_ptrace (rl_flags sample_role)" "\<not> allow_module_load (rl_flags sample_role)"
  "\<not> allow_bpf_load (rl_flags sample_role)"
  by (simp_all add: sample_role_def)

lemma sample_loaded_task:
  assumes "apply_role resolve sample_role blank_state = Some (res, s')"
  shows "task_storage s' (k_task sample_env) = Some sample_info"
  using apply_role_fields(6) [OF assms] by (simp add: role_writes_def blank_state_def)

lemma sample_endpoint: "endpoint sample_env 0x90000 0x91000 = Some (PROTO_TCP, 80)"
  by (simp add: endpoint_def SOCK_STREAM_def AF_INET_def ntohs_80)

section \<open>Properties\<close>

text \<open>
  The flag byte read back gives the policy's flags, except \<open>require_proxy\<close>, which it does not hold.
\<close>

theorem flags_roundtrip: "flags_of_u8 (policy_flags_to_u8 f) = f\<lparr>require_proxy := False\<rparr>"
  by (simp add: flags_of_u8_def flag_bits)

text \<open>
  A loaded role's flags reach the guards: for a task enrolled under the role, tracing it, module
  loading and \<open>bpf\<close> are allowed exactly when the role's policy says so, whatever else of the policy
  was skipped or refused.
\<close>

theorem policy_flags_reach_guards:
  assumes "apply_role resolve r s = Some (res, s')"
    and "task_storage s' (k_task k) = Some info" and "pi_pod_id info \<noteq> 0" and "pi_role_id info = rl_id r"
  shows "fst (ptrace_access_check k' (k_task k) s') = (if allow_ptrace (rl_flags r) then 0 else - 1) \<and>
    fst (kernel_module_request k name s') = (if allow_module_load (rl_flags r) then 0 else - 1) \<and>
    fst (bpf_hook k cmd s') = (if allow_bpf_load (rl_flags r) then 0 else - 1)"
  using assms(2-4) apply_role_fields(1) [OF assms(1)]
  by (simp add: ptrace_access_check_def kernel_module_request_def bpf_hook_def Let_def flag_bits [symmetric])

theorem policy_flags_reach_guards_witness:
  "\<exists>res s'. apply_role (\<lambda>_. []) sample_role blank_state = Some (res, s') \<and>
     fst (ptrace_access_check sample_env (k_task sample_env) s') = 0 \<and>
     fst (kernel_module_request sample_env 0 s') = - 1 \<and> fst (bpf_hook sample_env 5 s') = - 1"
proof (rule apply_role_total [of "\<lambda>_. []" sample_role blank_state])
  fix res s'
  assume a: "apply_role (\<lambda>_. []) sample_role blank_state = Some (res, s')"
  from policy_flags_reach_guards [OF a sample_loaded_task [OF a], of sample_env 0 5] a show ?thesis by auto
qed

text \<open>
  A loaded role's port rules decide binds and connects: the last rule that covers the socket's
  port, else the last one that covers port 0 (all ports), else none. A range covers the ports from
  its first to its last, whichever the width.
\<close>

theorem policy_ports_decide:
  assumes "apply_role resolve r s = Some (res, s')"
    and "\<And>key. nrk_role_id key = rl_id r \<Longrightarrow> network_rules s key = None" and "direction = 0 \<or> direction = 1"
  shows "check_network_access k (network_rules s') (rl_id r) sock address direction =
    (case endpoint k sock address of
       None \<Rightarrow> 0
     | Some (protocol, port) \<Rightarrow> port_verdict (rl_network_rules r) protocol port)"
  using net_rows_verdict [OF assms(2,3)] by (simp add: apply_role_fields(4) [OF assms(1)])

theorem policy_ports_decide_witness:
  "\<exists>res s'. apply_role (\<lambda>_. []) sample_role blank_state = Some (res, s') \<and>
     check_network_access sample_env (network_rules s') 3 0x90000 0x91000 0 = 1"
proof (rule apply_role_total [of "\<lambda>_. []" sample_role blank_state])
  fix res s'
  assume a: "apply_role (\<lambda>_. []) sample_role blank_state = Some (res, s')"
  have "port_verdict (rl_network_rules sample_role) PROTO_TCP 80 = 1" by code_simp
  with policy_ports_decide [OF a, of 0 sample_env "0x90000" "0x91000"] a show ?thesis
    by (auto simp: sample_endpoint blank_state_def)
qed

text \<open>
  A range that starts at port 0 decides every port: its row for port 0 is the wildcard's.
\<close>

theorem range_from_zero_is_wildcard:
  assumes "apply_role resolve r s = Some (res, s')" and "rl_network_rules r = [n]"
    and "nr_port_start n = Some 0" and "nr_port_end n = Some hi"
    and "\<And>key. nrk_role_id key = rl_id r \<Longrightarrow> network_rules s key = None"
    and "endpoint k sock address = Some (protocol, port)" and "parse_protocol (nr_protocol n) = Some protocol"
  shows "check_network_access k (network_rules s') (rl_id r) sock address 1 = (if nr_allow n then 1 else - 13)"
proof -
  have "covers protocol 0 n" using assms(3,4,7) by (simp add: covers_def)
  then have "port_verdict [n] protocol port = decision_verdict (nr_allow n)"
    by (simp add: port_verdict_def last_rule_def)
  then show ?thesis
    using net_rows_verdict [OF assms(5), where direction = 1 and k = k and rs = "[n]" and sock = sock and address = address]
      assms(2,6)
    by (simp add: apply_role_fields(4) [OF assms(1)] decision_verdict_def)
qed

theorem range_from_zero_is_wildcard_witness:
  "\<exists>res s'. apply_role (\<lambda>_. []) sample_role blank_state = Some (res, s') \<and>
     check_network_access sample_env (network_rules s') 3 0x90000 0x91000 1 = 1"
proof (rule apply_role_total [of "\<lambda>_. []" sample_role blank_state])
  fix res s'
  assume a: "apply_role (\<lambda>_. []) sample_role blank_state = Some (res, s')"
  have p: "parse_protocol (bytes_of ''TCP'') = Some PROTO_TCP" by code_simp
  from range_from_zero_is_wildcard [OF a _ _ _ _ sample_endpoint, of "hd (rl_network_rules sample_role)" 22] a p
  show ?thesis by (auto simp: blank_state_def) (simp_all add: sample_role_def)
qed

text \<open>
  Loading a role touches no other role: every entry of another role, and everything that is not
  policy, stays as it was, also when the load fails on the way.
\<close>

theorem load_touches_own_role_only:
  assumes "apply_role resolve r s = Some (res, s')"
  shows "role_writes (rl_id r) s s'"
  by (rule apply_role_fields(6) [OF assms])

theorem load_touches_own_role_only_witness:
  "\<exists>res s'. apply_role (\<lambda>_. []) sample_role blank_state = Some (res, s') \<and> role_writes 3 blank_state s'"
proof (rule apply_role_total [of "\<lambda>_. []" sample_role blank_state])
  fix res s'
  assume a: "apply_role (\<lambda>_. []) sample_role blank_state = Some (res, s')"
  from load_touches_own_role_only [OF a] a show ?thesis by auto
qed

text \<open>
  The role flag \<open>require_proxy\<close> changes nothing: neither what is loaded nor what is reported as
  not enforced depends on it. A required proxy comes from the proxy section only.
\<close>

theorem require_proxy_flag_ignored:
  "apply_role resolve (r\<lparr>rl_flags := (rl_flags r)\<lparr>require_proxy := b\<rparr>\<rparr>) s = apply_role resolve r s \<and>
   unenforced_settings (r\<lparr>rl_flags := (rl_flags r)\<lparr>require_proxy := b\<rparr>\<rparr>) = unenforced_settings r"
proof -
  let ?r = "r\<lparr>rl_flags := (rl_flags r)\<lparr>require_proxy := b\<rparr>\<rparr>"
  have f: "policy_flags_to_u8 (rl_flags ?r) = policy_flags_to_u8 (rl_flags r)"
    unfolding policy_flags_to_u8_def Let_def by simp
  have sel: "rl_id ?r = rl_id r" "rl_file_paths ?r = rl_file_paths r"
      "rl_execution_rules ?r = rl_execution_rules r" "rl_network_rules ?r = rl_network_rules r" "rl_ip_rules ?r = rl_ip_rules r"
      "rl_domain_rules ?r = rl_domain_rules r" "rl_proxy ?r = rl_proxy r" by simp_all
  have e: "apply_egress resolve ?r = apply_egress resolve r"
    unfolding fun_eq_iff apply_egress_def sel by simp
  have "apply_role resolve ?r s = apply_role resolve r s" unfolding apply_role_def f sel e ..
  then show ?thesis by (simp add: unenforced_settings_def unenforced_flags_def)
qed

text \<open>
  A load that fails leaves the role half loaded: its flags and port rules are in the maps, its
  proxy requirement is not.
\<close>

theorem failed_load_is_partial:
  assumes "apply_role resolve r s = Some (Inl e, s')"
  shows "role_flags s' (rl_id r) = Some (policy_flags_to_u8 (rl_flags r)) \<and>
    network_rules s' = net_rows (rl_id r) (rl_network_rules r) (network_rules s) \<and>
    proxy_configs s' = proxy_configs s"
  by (simp add: apply_role_fields(1,4) [OF assms] apply_role_fields(5) [OF assms refl])

text \<open>\<open>10.0.0.0/33\<close> is no prefix, so the proxy of the sample role is not set.\<close>

lemma sample_role_fails:
  "\<exists>s'. apply_role (\<lambda>_. []) sample_role blank_state = Some (Inl (Prefix_length_out_of_range (bytes_of ''10.0.0.0/33'')), s')"
proof (rule apply_role_total [of "\<lambda>_. []" sample_role blank_state])
  fix res s'
  assume a: "apply_role (\<lambda>_. []) sample_role blank_state = Some (res, s')"
  have "parse_cidr (bytes_of ''10.0.0.0/33'') = Inl (Prefix_length_out_of_range (bytes_of ''10.0.0.0/33''))"
      "parse_direction (bytes_of ''connect'') = Some CONNECT"
    by code_simp+
  then have ip: "fst (apply_ip_rules 3 (rl_ip_rules sample_role) skipped t) = Inl (Prefix_length_out_of_range (bytes_of ''10.0.0.0/33''))"
    for skipped t by (simp add: sample_role_def add_ip_rule_def)
  have "fst (apply_egress (\<lambda>_. []) sample_role skipped t) = Inl (Prefix_length_out_of_range (bytes_of ''10.0.0.0/33''))"
    for skipped t
  proof -
    obtain sk t1 where 1: "apply_network_rules 3 (rl_network_rules sample_role) skipped t = (sk, t1)" by fastforce
    obtain t2 where "apply_ip_rules 3 (rl_ip_rules sample_role) sk t1 =
        (Inl (Prefix_length_out_of_range (bytes_of ''10.0.0.0/33'')), t2)"
      using ip by (metis prod.collapse)
    with 1 show ?thesis by (simp add: apply_egress_def)
  qed
  then show ?thesis
    using a by (rule_tac apply_role_stages [OF a]) (metis fst_conv)
qed

theorem failed_load_is_partial_witness:
  "\<exists>e s'. apply_role (\<lambda>_. []) sample_role blank_state = Some (Inl e, s') \<and> proxy_configs s' 3 = None"
proof -
  obtain s' where a: "apply_role (\<lambda>_. []) sample_role blank_state =
      Some (Inl (Prefix_length_out_of_range (bytes_of ''10.0.0.0/33'')), s')"
    using sample_role_fails by blast
  from failed_load_is_partial [OF a] a show ?thesis by (auto simp: blank_state_def)
qed

lemma accepted_compiles:
  assumes "unenforced_settings r = []"
  obtains rows where "path_state_entries_for_role (rl_id r) (rules_of_paths (rl_file_paths r)) = Some (Inr rows)"
proof (rule role_outcome [of "rl_id r" "rules_of_paths (rl_file_paths r)"])
  fix conflicts
  assume c: "path_state_entries_for_role (rl_id r) (rules_of_paths (rl_file_paths r)) =
      Some (Inl (remdups_adj (sort conflicts)))" "conflicts \<noteq> []"
  have "sort conflicts \<noteq> []" using c(2) by (simp flip: set_empty)
  then show thesis using c(1) assms by (simp add: unenforced_settings_def conflict_lines_def)
qed (rule that)


lemma sample_role_accepted: "unenforced_settings sample_role = []" by code_simp
lemma sample_role_apart: "digests_apart 3 (rules_of_paths (rl_file_paths sample_role)) etc_shadow" by code_simp
lemma sample_role_verdict: "trie_verdict (rules_of_paths (rl_file_paths sample_role)) [] etc_shadow = - 13" by code_simp


end
