(* ===== verification/Policy_Load.thy ===== *)
theory Policy_Load
  imports Policy_Properties
begin

text \<open>
  Loading a whole policy: \<open>populate_maps\<close> of \<open>bpfjailer-bootstrap/src/main.rs\<close>, which applies every
  role and then writes the enrollment lists. Roles are loaded in the iteration order of a hash map,
  so the theorems hold for every order. What the file system answers is a parameter.
\<close>

section \<open>The policy file\<close>

record enrollment_rule =
  en_path :: bytes
  en_pod_id :: u64
  en_role :: bytes

record pod =
  pod_id :: u64
  pod_role_id :: u32
  pod_stack_depth :: u8

record policy_config =
  pol_roles :: "(bytes \<times> role) list"
  pol_pods :: "pod list"
  pol_exec_enrollments :: "enrollment_rule list"
  pol_cgroup_enrollments :: "enrollment_rule list"

definition get_role :: "policy_config \<Rightarrow> bytes \<Rightarrow> role option" where
  "get_role policy name = map_of (pol_roles policy) name"

definition ROOT_CGROUP_INO :: u64 where "ROOT_CGROUP_INO = 1"

datatype load_error = Bad_rule codec_error | Cgroup_root bytes

definition check_enrollable :: "bytes \<Rightarrow> u64 \<Rightarrow> (load_error + unit)" where
  "check_enrollable path ino = (if ino = ROOT_CGROUP_INO then Inl (Cgroup_root path) else Inr ())"

definition enrollment_entry :: "enrollment_rule \<Rightarrow> role \<Rightarrow> exec_enrollment_value" where
  "enrollment_entry e r = \<lparr>eev_pod_id = en_pod_id e, eev_role_id = rl_id r\<rparr>"

section \<open>The loops\<close>

text \<open>A loop that stops at the first failing load.\<close>

fun load_all :: "('r \<Rightarrow> 's \<Rightarrow> (('e + 'a) \<times> 's) option) \<Rightarrow> 'r list \<Rightarrow> 's \<Rightarrow> (('e + unit) \<times> 's) option" where
  "load_all load [] s = Some (Inr (), s)"
| "load_all load (r # rs) s =
     (case load r s of
        None \<Rightarrow> None
      | Some (Inl e, s) \<Rightarrow> Some (Inl e, s)
      | Some (Inr _, s) \<Rightarrow> load_all load rs s)"

fun load_exec_enrollments ::
  "(bytes \<Rightarrow> u64 option) \<Rightarrow> policy_config \<Rightarrow> enrollment_rule list \<Rightarrow> bpf_state \<Rightarrow> bpf_state" where
  "load_exec_enrollments inode_of policy [] s = s"
| "load_exec_enrollments inode_of policy (e # es) s =
     load_exec_enrollments inode_of policy es
       (case (inode_of (en_path e), get_role policy (en_role e)) of
          (Some inode, Some r) \<Rightarrow> s\<lparr>exec_enrollment := (exec_enrollment s)(inode \<mapsto> enrollment_entry e r)\<rparr>
        | _ \<Rightarrow> s)"

fun load_cgroup_enrollments ::
  "(bytes \<Rightarrow> u64 option) \<Rightarrow> policy_config \<Rightarrow> enrollment_rule list \<Rightarrow> bpf_state \<Rightarrow> (load_error + unit) \<times> bpf_state" where
  "load_cgroup_enrollments inode_of policy [] s = (Inr (), s)"
| "load_cgroup_enrollments inode_of policy (e # es) s =
     (case inode_of (en_path e) of
        None \<Rightarrow> load_cgroup_enrollments inode_of policy es s
      | Some cgroup_id \<Rightarrow>
          (case check_enrollable (en_path e) cgroup_id of
             Inl err \<Rightarrow> (Inl err, s)
           | Inr _ \<Rightarrow>
               load_cgroup_enrollments inode_of policy es
                 (case get_role policy (en_role e) of
                    Some r \<Rightarrow> s\<lparr>cgroup_enrollment := (cgroup_enrollment s)(cgroup_id \<mapsto> enrollment_entry e r)\<rparr>
                  | None \<Rightarrow> s)))"

definition populate_maps ::
  "(bytes \<Rightarrow> u32 list) \<Rightarrow> (bytes \<Rightarrow> u64 option) \<Rightarrow> policy_config \<Rightarrow> bpf_state \<Rightarrow> ((load_error + unit) \<times> bpf_state) option" where
  "populate_maps resolve inode_of policy s =
     (case load_all (apply_role resolve) (map snd (pol_roles policy)) s of
        None \<Rightarrow> None
      | Some (Inl e, s) \<Rightarrow> Some (Inl (Bad_rule e), s)
      | Some (Inr _, s) \<Rightarrow>
          Some (load_cgroup_enrollments inode_of policy (pol_cgroup_enrollments policy)
                  (load_exec_enrollments inode_of policy (pol_exec_enrollments policy) s)))"

section \<open>Loading role by role\<close>

text \<open>
  A store shared by roles: each load leaves the view of every other role as it was. Then after
  loading roles with distinct ids in any order, each finds what its own load has left.
\<close>

locale role_store =
  fixes load :: "'r \<Rightarrow> 's \<Rightarrow> (('e + 'a) \<times> 's) option"
    and ident :: "'r \<Rightarrow> 'id"
    and view :: "'id \<Rightarrow> 's \<Rightarrow> 'v"
  assumes load_returns: "\<exists>x. load r s = Some x"
    and load_other: "load r s = Some (x, s') \<Longrightarrow> q \<noteq> ident r \<Longrightarrow> view q s' = view q s"
begin

lemma load_all_returns: "\<exists>x. load_all load rs s = Some x"
proof (induction rs arbitrary: s)
  case (Cons r rs)
  obtain x where "load r s = Some x" using load_returns by blast
  then show ?case using Cons.IH by (cases x; cases "fst x") auto
qed simp

lemma load_all_other:
  "load_all load rs s = Some (x, s') \<Longrightarrow> q \<notin> ident ` set rs \<Longrightarrow> view q s' = view q s"
proof (induction rs arbitrary: s)
  case (Cons r rs)
  obtain y t where r: "load r s = Some (y, t)" using load_returns by fastforce
  then show ?case
    using Cons load_other [OF r, of q] by (cases y) auto
qed simp

lemma load_all_each:
  assumes "load_all load rs s = Some (Inr u, s')" and "distinct (map ident rs)" and "r \<in> set rs"
  shows "\<exists>t y t'. view (ident r) t = view (ident r) s \<and> load r t = Some (Inr y, t') \<and> view (ident r) s' = view (ident r) t'"
  using assms
proof (induction rs arbitrary: s)
  case (Cons p rs)
  obtain y t where p: "load p s = Some (Inr y, t)" "load_all load rs t = Some (Inr u, s')"
    using Cons.prems(1) by (auto split: option.splits sum.splits)
  show ?case
  proof (cases "r = p")
    case True
    then have "view (ident r) s' = view (ident r) t"
      using Cons.prems(2) by (intro load_all_other [OF p(2)]) auto
    then show ?thesis using True p(1) by blast
  next
    case False
    then have r: "r \<in> set rs" using Cons.prems(3) by simp
    have "ident p \<notin> ident ` set rs" using Cons.prems(2) by simp
    then have "ident r \<noteq> ident p" using r by (metis imageI)
    then show ?thesis using r Cons.IH [OF p(2)] Cons.prems(2) load_other [OF p(1)] by fastforce
  qed
qed simp

end

text \<open>The share of a role in the maps.\<close>

record role_view =
  rv_flags :: "u8 option"
  rv_path_states :: "u64 \<Rightarrow> u64 \<Rightarrow> path_state_value option"
  rv_exec_states :: "u64 \<Rightarrow> u64 \<Rightarrow> path_state_value option"
  rv_network_rules :: "u16 \<Rightarrow> u8 \<Rightarrow> u8 \<Rightarrow> u8 option"
  rv_ip_rules :: "u32 \<Rightarrow> u8 \<Rightarrow> u8 \<Rightarrow> u8 option"
  rv_domain_rules :: "u64 \<Rightarrow> u8 option"
  rv_dns_cache :: "u32 \<Rightarrow> dns_cache_value option"
  rv_proxy :: "proxy_config option"

definition role_share :: "u32 \<Rightarrow> bpf_state \<Rightarrow> role_view" where
  "role_share role_id s =
     \<lparr>rv_flags = role_flags s role_id,
      rv_path_states = (\<lambda>st h. path_states s (row_key role_id st h)),
      rv_exec_states = (\<lambda>st h. exec_states s (row_key role_id st h)),
      rv_network_rules = (\<lambda>port prot dir. network_rules s (net_key role_id port prot dir)),
      rv_ip_rules = (\<lambda>ip len dir. ip_rules s \<lparr>irk_role_id = role_id, irk_ip_addr = ip, irk_prefix_len = len, irk_direction = dir\<rparr>),
      rv_domain_rules = (\<lambda>h. domain_rules s \<lparr>drk_role_id = role_id, drk_domain_hash = h\<rparr>),
      rv_dns_cache = (\<lambda>ip. dns_cache s \<lparr>dck_role_id = role_id, dck_ip_addr = ip\<rparr>),
      rv_proxy = proxy_configs s role_id\<rparr>"

lemma role_share_other: "role_writes p s s' \<Longrightarrow> q \<noteq> p \<Longrightarrow> role_share q s' = role_share q s"
  by (simp add: role_writes_def own_entries_def role_share_def row_key_def net_key_def fun_eq_iff)

interpretation roles: role_store "apply_role resolve" rl_id role_share for resolve
proof
  show "\<exists>x. apply_role resolve r s = Some x" for r s by (rule apply_role_total [of resolve r s]) blast
  show "role_share q s' = role_share q s" if "apply_role resolve r s = Some (x, s')" "q \<noteq> rl_id r" for r s x s' q
    using role_share_other [OF apply_role_fields(6) [OF that(1)] that(2)] .
qed

section \<open>What the loops leave alone\<close>

lemma load_exec_keeps:
  "role_share q (load_exec_enrollments inode_of policy es s) = role_share q s"
  "cgroup_enrollment (load_exec_enrollments inode_of policy es s) = cgroup_enrollment s"
  by (induction es arbitrary: s) (simp_all add: role_share_def split: option.split)

lemma load_cgroup_keeps:
  "role_share q (snd (load_cgroup_enrollments inode_of policy es s)) = role_share q s"
  "exec_enrollment (snd (load_cgroup_enrollments inode_of policy es s)) = exec_enrollment s"
  "cgroup_enrollment (snd (load_cgroup_enrollments inode_of policy es s)) ROOT_CGROUP_INO = cgroup_enrollment s ROOT_CGROUP_INO"
  by (induction es arbitrary: s)
    (auto simp: role_share_def check_enrollable_def split: option.split)

lemma load_cgroup_root:
  "e \<in> set es \<Longrightarrow> inode_of (en_path e) = Some ROOT_CGROUP_INO \<Longrightarrow>
   \<exists>err. fst (load_cgroup_enrollments inode_of policy es s) = Inl err"
proof (induction es arbitrary: s)
  case (Cons e' es)
  show ?case
  proof (cases "inode_of (en_path e') = Some ROOT_CGROUP_INO")
    case True
    then show ?thesis by (simp add: check_enrollable_def)
  next
    case False
    then have "e \<in> set es" using Cons.prems by auto
    then show ?thesis using Cons.IH Cons.prems(2) False by (auto simp: check_enrollable_def split: option.split)
  qed
qed simp

lemma load_all_roles_keep_cgroups:
  "load_all (apply_role resolve) rs s = Some (x, s') \<Longrightarrow> cgroup_enrollment s' = cgroup_enrollment s"
proof (induction rs arbitrary: s)
  case (Cons r rs)
  obtain y t where r: "apply_role resolve r s = Some (y, t)" by (rule apply_role_total)
  have "cgroup_enrollment t = cgroup_enrollment s" using apply_role_fields(6) [OF r] by (simp add: role_writes_def)
  then show ?case using Cons r by (cases y) auto
qed simp

lemma check_network_role:
  assumes "\<And>port prot. rules (net_key role_id port prot dir) = rules' (net_key role_id port prot dir)"
  shows "check_network_access k rules role_id sock address dir = check_network_access k rules' role_id sock address dir"
  using assms by (simp add: check_network_access_def net_key_def Let_def split: option.split)

text \<open>The state in which a role was loaded, seen from the end.\<close>

lemma populated_role:
  assumes "populate_maps resolve inode_of policy s = Some (Inr u, s')"
    and "distinct (map (rl_id \<circ> snd) (pol_roles policy))" and "(name, r) \<in> set (pol_roles policy)"
  obtains t y t' where "role_share (rl_id r) t = role_share (rl_id r) s" "apply_role resolve r t = Some (Inr y, t')"
    "role_share (rl_id r) s' = role_share (rl_id r) t'"
proof -
  obtain v s1 where s1: "load_all (apply_role resolve) (map snd (pol_roles policy)) s = Some (Inr v, s1)"
    "s' = snd (load_cgroup_enrollments inode_of policy (pol_cgroup_enrollments policy)
       (load_exec_enrollments inode_of policy (pol_exec_enrollments policy) s1))"
    using assms(1) by (auto simp: populate_maps_def split: option.splits sum.splits)
  have "r \<in> set (map snd (pol_roles policy))" using assms(3) by force
  then obtain t y t' where "role_share (rl_id r) t = role_share (rl_id r) s" "apply_role resolve r t = Some (Inr y, t')"
      "role_share (rl_id r) s1 = role_share (rl_id r) t'"
    using roles.load_all_each [OF s1(1), of r] assms(2) by auto
  then show thesis using that s1(2) by (simp add: load_cgroup_keeps load_exec_keeps)
qed

definition blank_share :: role_view where
  "blank_share = \<lparr>rv_flags = None, rv_path_states = (\<lambda>_ _. None), rv_exec_states = (\<lambda>_ _. None),
     rv_network_rules = (\<lambda>_ _ _. None), rv_ip_rules = (\<lambda>_ _ _. None), rv_domain_rules = (\<lambda>_. None),
     rv_dns_cache = (\<lambda>_. None), rv_proxy = None\<rparr>"

lemma share_facts:
  assumes "role_share role_id s = role_share role_id t"
  shows "role_flags s role_id = role_flags t role_id"
    "psk_role_id key = role_id \<Longrightarrow> path_states s key = path_states t key"
    "psk_role_id key = role_id \<Longrightarrow> exec_states s key = exec_states t key"
    "network_rules s (net_key role_id port prot dir) = network_rules t (net_key role_id port prot dir)"
proof -
  have eqs: "\<forall>st h. path_states s (row_key role_id st h) = path_states t (row_key role_id st h)"
      "\<forall>st h. exec_states s (row_key role_id st h) = exec_states t (row_key role_id st h)"
    using assms by (auto simp: role_share_def fun_eq_iff)
  have key: "psk_role_id key = role_id \<Longrightarrow> key = row_key role_id (psk_state key) (psk_component_hash key)"
    by (simp add: row_key_def)
  show "role_flags s role_id = role_flags t role_id"
    and "network_rules s (net_key role_id port prot dir) = network_rules t (net_key role_id port prot dir)"
    using assms by (auto simp: role_share_def fun_eq_iff)
  show "psk_role_id key = role_id \<Longrightarrow> path_states s key = path_states t key"
    and "psk_role_id key = role_id \<Longrightarrow> exec_states s key = exec_states t key"
    using eqs key by metis+
qed

lemma blank_facts:
  assumes "role_share role_id s = blank_share"
  shows "psk_role_id key = role_id \<Longrightarrow> path_states s key = None" "psk_role_id key = role_id \<Longrightarrow> exec_states s key = None"
    "nrk_role_id nkey = role_id \<Longrightarrow> network_rules s nkey = None"
proof -
  have eqs: "\<forall>st h. path_states s (row_key role_id st h) = None" "\<forall>st h. exec_states s (row_key role_id st h) = None"
      "\<forall>port prot dir. network_rules s (net_key role_id port prot dir) = None"
    using assms by (auto simp: role_share_def blank_share_def fun_eq_iff)
  have "psk_role_id key = role_id \<Longrightarrow> key = row_key role_id (psk_state key) (psk_component_hash key)"
      "nrk_role_id nkey = role_id \<Longrightarrow> nkey = net_key role_id (nrk_port nkey) (nrk_protocol nkey) (nrk_direction nkey)"
    by (simp_all add: row_key_def net_key_def)
  with eqs show "psk_role_id key = role_id \<Longrightarrow> path_states s key = None" "psk_role_id key = role_id \<Longrightarrow> exec_states s key = None"
    "nrk_role_id nkey = role_id \<Longrightarrow> network_rules s nkey = None" by metis+
qed

text \<open>The table of a role after its rules have been written where the rules are accepted.\<close>

lemma compiled_if_free:
  assumes "\<not> conflicting rules" and "digests_apart role_id rules names"
    and "\<And>key. psk_role_id key = role_id \<Longrightarrow> table key = None"
  shows "rule_verdict (case path_state_entries_for_role role_id rules of
        Some (Inr rows) \<Rightarrow> write_rows rows table | _ \<Rightarrow> table)
      role_id PATH_STATE_ROOT (map fnv1a_hash_u64 names) = trie_verdict rules [] names"
  by (rule role_outcome [of role_id rules]) (use assms compiled_verdict in auto)

section \<open>The shipped secret patterns\<close>

text \<open>\<open>SecretPatterns::all\<close>, all of them refusals.\<close>

definition secret_patterns :: "path_pattern list" where
  "secret_patterns = map (\<lambda>p. \<lparr>pp_pattern = bytes_of p, pp_allow = False\<rparr>)
     [''/proc/'', ''/.ssh/'', ''/.aws/'', ''/.config/gcloud/'', ''/.azure/'', ''/.kube/'', ''/.docker/'',
      ''/etc/shadow'', ''/etc/gshadow'', ''/etc/ssl/private/'', ''/etc/pki/'', ''/.npmrc'', ''/.yarnrc'',
      ''/.git-credentials'', ''/.netrc'', ''/.pypirc'', ''/.gnupg/'']"

lemma secret_first_components:
  "\<not> mentioned (rules_of_paths secret_patterns) [bytes_of ''home'']"
  "\<not> mentioned (rules_of_paths secret_patterns) [bytes_of ''root'']"
  "\<not> mentioned (rules_of_paths secret_patterns) [star]"
  by code_simp+

section \<open>A sample policy\<close>

definition plain_role :: "u32 \<Rightarrow> role" where
  "plain_role role_id = sample_role\<lparr>rl_id := role_id, rl_ip_rules := [], rl_proxy := None\<rparr>"

definition sample_policy :: policy_config where
  "sample_policy = \<lparr>pol_roles = [(bytes_of ''web'', plain_role 3), (bytes_of ''db'', plain_role 4)], pol_pods = [],
     pol_exec_enrollments = [],
     pol_cgroup_enrollments = [\<lparr>en_path = bytes_of ''/sys/fs/cgroup'', en_pod_id = 9, en_role = bytes_of ''web''\<rparr>]\<rparr>"

lemma plain_role_simps [simp]:
  "rl_id (plain_role role_id) = role_id" "rl_ip_rules (plain_role role_id) = []" "rl_proxy (plain_role role_id) = None"
  by (simp_all add: plain_role_def)

lemma load_succeeds:
  assumes "rl_ip_rules r = []" and "rl_proxy r = None"
  shows "\<exists>y s'. apply_role resolve r s = Some (Inr y, s')"
proof (rule apply_role_total [of resolve r s])
  fix res s'
  assume a: "apply_role resolve r s = Some (res, s')"
  have "\<exists>y t'. apply_egress resolve r skipped t = (Inr y, t')" for skipped t
    using assms by (simp add: apply_egress_def split: prod.split)
  then show ?thesis using a by (rule_tac apply_role_stages [OF a]) (metis Pair_inject)
qed

lemma sample_policy_loads:
  assumes "inode_of (bytes_of ''/sys/fs/cgroup'') = None"
  shows "\<exists>u s'. populate_maps resolve inode_of sample_policy s = Some (Inr u, s')"
proof -
  obtain y t where 1: "apply_role resolve (plain_role 3) s = Some (Inr y, t)" using load_succeeds [of "plain_role _"] by simp blast
  obtain z t' where 2: "apply_role resolve (plain_role 4) t = Some (Inr z, t')" using load_succeeds [of "plain_role _"] by simp blast
  show ?thesis using assms 1 2 by (simp add: populate_maps_def sample_policy_def)
qed

section \<open>Properties\<close>


lemma blank_state_share: "role_share 3 (blank_state\<lparr>role_flags := Map.empty, exec_states := Map.empty,
    ip_rules := Map.empty, domain_rules := Map.empty, dns_cache := Map.empty\<rparr>) = blank_share"
  by (simp add: role_share_def blank_share_def blank_state_def)


text \<open>
  The root cgroup is never enrolled: loading a policy leaves its entry as it was, and a policy
  whose cgroup rule resolves to it is refused.
\<close>

theorem root_cgroup_not_enrolled:
  assumes "populate_maps resolve inode_of policy s = Some (res, s')"
  shows "cgroup_enrollment s' ROOT_CGROUP_INO = cgroup_enrollment s ROOT_CGROUP_INO \<and>
    (\<forall>e \<in> set (pol_cgroup_enrollments policy). inode_of (en_path e) = Some ROOT_CGROUP_INO \<longrightarrow> (\<exists>err. res = Inl err))"
proof (rule roles.load_all_returns [of resolve "map snd (pol_roles policy)" s, THEN exE])
  fix x
  assume x: "load_all (apply_role resolve) (map snd (pol_roles policy)) s = Some x"
  obtain y s1 where y: "x = (y, s1)" by (cases x)
  have "cgroup_enrollment s1 = cgroup_enrollment s" using load_all_roles_keep_cgroups x y by blast
  then show ?thesis
    using assms x y load_cgroup_keeps(3) [of inode_of policy "pol_cgroup_enrollments policy"
        "load_exec_enrollments inode_of policy (pol_exec_enrollments policy) s1"]
      load_cgroup_root [of _ "pol_cgroup_enrollments policy" inode_of policy
        "load_exec_enrollments inode_of policy (pol_exec_enrollments policy) s1"]
    by (cases y) (auto simp: populate_maps_def load_exec_keeps)
qed

theorem root_cgroup_not_enrolled_witness:
  "\<exists>err s'. populate_maps (\<lambda>_. []) (\<lambda>_. Some 1) sample_policy blank_state = Some (Inl err, s')"
proof -
  obtain x where x: "load_all (apply_role (\<lambda>_. [])) (map snd (pol_roles sample_policy)) blank_state = Some x"
    using roles.load_all_returns by blast
  then obtain res s' where p: "populate_maps (\<lambda>_. []) (\<lambda>_. Some 1) sample_policy blank_state = Some (res, s')"
    by (cases x; cases "fst x") (auto simp: populate_maps_def, metis surj_pair)
  from root_cgroup_not_enrolled [OF p] p show ?thesis by (auto simp: sample_policy_def ROOT_CGROUP_INO_def)
qed

text \<open>
  The shipped secret patterns do not reach home directories: whatever lies below \<open>/home\<close> or
  \<open>/root\<close>, such as \<open>/root/.ssh/id_rsa\<close>, is left undecided by them.
\<close>

theorem secret_patterns_miss_home_directories:
  "trie_verdict (rules_of_paths secret_patterns) [] (bytes_of ''home'' # rest) = 0 \<and>
   trie_verdict (rules_of_paths secret_patterns) [] (bytes_of ''root'' # rest) = 0"
  using secret_first_components by (simp add: rule_opinion_def)

end
