(* ===== verification/Daemon.thy ===== *)
theory Daemon
  imports Policy_Load "HOL-Library.AList"
begin

text \<open>
  The daemon: the policy manager (\<open>bpfjailer-daemon/src/policy.rs\<close>), the map writes of the process
  tracker (\<open>process_tracker.rs\<close>, \<open>bpf_loader.rs\<close>), the enrollments by executable, cgroup and extended
  attribute (\<open>enrollment_alternatives.rs\<close>), the request handler (\<open>enrollment.rs\<close>) and the start of
  the daemon (\<open>main.rs\<close>). A request is one step on the daemon's state; a failed operation is a value
  of \<open>daemon_error\<close>, one constructor per message.
\<close>

section \<open>State and environment\<close>

text \<open>
  What the daemon asks the system: the inode of a path (\<open>fs::metadata\<close>), the IPv4 addresses of a
  domain, the task a pid names (\<open>pidfd_open\<close>), and whether an operation on an extended attribute of
  a path succeeds.
\<close>

record denv =
  de_inode :: "bytes \<Rightarrow> u64 option"
  de_resolve :: "bytes \<Rightarrow> u32 list"
  de_task_of :: "u32 \<Rightarrow> u64 option"
  de_xattr_ok :: "bytes \<Rightarrow> bytes \<Rightarrow> bool"

text \<open>The policy manager, the maps, and the extended attributes of files by path and name.\<close>

record daemon =
  d_config :: policy_config
  d_role_map :: "u32 \<rightharpoonup> role"
  d_maps :: bpf_state
  d_xattrs :: "bytes \<times> bytes \<rightharpoonup> bytes"

datatype daemon_error =
    Unknown_role u32
  | No_such_path bytes
  | Overlapping_patterns u32 "bytes list"
  | No_entry
  | No_generation
  | Apply_failed codec_error
  | Unenforced bytes "bytes list"
  | Xattr_failed bytes bytes
  | Not_found_or_not_enrolled
  | No_xattr

section \<open>The policy manager\<close>

definition builtin_role :: "u32 \<Rightarrow> string \<Rightarrow> bool \<Rightarrow> role" where
  "builtin_role role_id name allow =
     \<lparr>rl_id = role_id, rl_name = bytes_of name,
      rl_flags = \<lparr>allow_file_access = allow, allow_network = allow, allow_exec = allow,
        require_signed_binary = False, allow_setuid = False, allow_ptrace = False,
        allow_module_load = allow, allow_bpf_load = allow, require_proxy = False\<rparr>,
      rl_file_paths = [], rl_network_rules = [], rl_execution_rules = [], rl_require_signed_binary = False,
      rl_ip_rules = [], rl_domain_rules = [], rl_proxy = None\<rparr>"

definition restricted_role :: role where "restricted_role = builtin_role 1 ''restricted'' False"
definition permissive_role :: role where "permissive_role = builtin_role 2 ''permissive'' True"

definition new_manager :: "bpf_state \<Rightarrow> (bytes \<times> bytes \<rightharpoonup> bytes) \<Rightarrow> daemon" where
  "new_manager s xattrs =
     \<lparr>d_config = \<lparr>pol_roles = [(bytes_of ''restricted'', restricted_role), (bytes_of ''permissive'', permissive_role)],
        pol_pods = [], pol_exec_enrollments = [], pol_cgroup_enrollments = []\<rparr>,
      d_role_map = [1 \<mapsto> restricted_role, 2 \<mapsto> permissive_role],
      d_maps = s, d_xattrs = xattrs\<rparr>"

text \<open>The first role that asks for something that is not enforced refuses the policy.\<close>

fun refused_role :: "(bytes \<times> role) list \<Rightarrow> daemon_error option" where
  "refused_role [] = None"
| "refused_role ((name, r) # rs) =
     (if unenforced_settings r \<noteq> [] then Some (Unenforced name (unenforced_settings r)) else refused_role rs)"

definition index_roles :: "role list \<Rightarrow> (u32 \<rightharpoonup> role)" where
  "index_roles rs = foldl (\<lambda>m r. m(rl_id r \<mapsto> r)) Map.empty rs"

definition load_config :: "policy_config \<Rightarrow> daemon \<Rightarrow> daemon_error + daemon" where
  "load_config config d =
     (case refused_role (pol_roles config) of
        Some e \<Rightarrow> Inl e
      | None \<Rightarrow> Inr (d\<lparr>d_config := config, d_role_map := index_roles (map snd (pol_roles config))\<rparr>))"

definition define_role :: "role \<Rightarrow> daemon \<Rightarrow> daemon" where
  "define_role r d =
     d\<lparr>d_config := (d_config d)\<lparr>pol_roles := AList.update (rl_name r) r (pol_roles (d_config d))\<rparr>,
       d_role_map := (d_role_map d)(rl_id r \<mapsto> r)\<rparr>"

text \<open>\<open>get_exec_enrollments\<close> and \<open>get_cgroup_enrollments\<close>: path, pod and the id of the named role.\<close>

definition resolved_enrollments :: "policy_config \<Rightarrow> enrollment_rule list \<Rightarrow> (bytes \<times> u64 \<times> u32) list" where
  "resolved_enrollments config es =
     List.map_filter (\<lambda>e. map_option (\<lambda>r. (en_path e, en_pod_id e, rl_id r)) (get_role config (en_role e))) es"

section \<open>Map writes\<close>

definition enroll_pending_process :: "u32 \<Rightarrow> u64 \<Rightarrow> u32 \<Rightarrow> bpf_state \<Rightarrow> bpf_state" where
  "enroll_pending_process pid pod role_id s =
     s\<lparr>pending_enrollments := (pending_enrollments s)
         (pid \<mapsto> \<lparr>pi_pod_id = pod, pi_role_id = role_id, pi_stack_depth = 0, pi_flags = 0\<rparr>)\<rparr>"

definition set_role_policy :: "u32 \<Rightarrow> policy_flags \<Rightarrow> bpf_state \<Rightarrow> bpf_state" where
  "set_role_policy role_id flags s = s\<lparr>role_flags := (role_flags s)(role_id \<mapsto> policy_flags_to_u8 flags)\<rparr>"

fun tracker_network_rules :: "u32 \<Rightarrow> network_rule list \<Rightarrow> bpf_state \<Rightarrow> bpf_state" where
  "tracker_network_rules role_id [] s = s"
| "tracker_network_rules role_id (r # rs) s =
     (case expand_network_rule (nr_protocol r) (nr_port r) (nr_port_start r) (nr_port_end r) of
        Some (protocol, ports) \<Rightarrow> tracker_network_rules role_id rs (write_ports role_id protocol (nr_allow r) ports s)
      | None \<Rightarrow> tracker_network_rules role_id rs s)"

definition write_states :: "path_row list \<Rightarrow> bpf_state \<Rightarrow> bpf_state" where
  "write_states entries s = (if entries = [] then s else s\<lparr>path_states := write_rows entries (path_states s)\<rparr>)"

definition tracker_path_rules :: "u32 \<Rightarrow> path_pattern list \<Rightarrow> bpf_state \<Rightarrow> ((daemon_error + unit) \<times> bpf_state) option" where
  "tracker_path_rules role_id rules s =
     (case path_state_entries_for_role role_id (rules_of_paths rules) of
        None \<Rightarrow> None
      | Some (Inr entries) \<Rightarrow> Some (Inr (), write_states entries s)
      | Some (Inl conflicts) \<Rightarrow> Some (Inl (Overlapping_patterns role_id conflicts), s))"

definition invalidate_cache :: "bpf_state \<Rightarrow> (daemon_error + unit) \<times> bpf_state" where
  "invalidate_cache s =
     (case cache_generation s 0 of
        None \<Rightarrow> (Inl No_generation, s)
      | Some current \<Rightarrow> (Inr (), s\<lparr>cache_generation := (cache_generation s)(0 \<mapsto> current + 1)\<rparr>))"

definition add_exec_enrollment :: "u64 \<Rightarrow> u64 \<Rightarrow> u32 \<Rightarrow> bpf_state \<Rightarrow> bpf_state" where
  "add_exec_enrollment inode pod role_id s =
     s\<lparr>exec_enrollment := (exec_enrollment s)(inode \<mapsto> \<lparr>eev_pod_id = pod, eev_role_id = role_id\<rparr>)\<rparr>"

definition add_cgroup_enrollment :: "u64 \<Rightarrow> u64 \<Rightarrow> u32 \<Rightarrow> bpf_state \<Rightarrow> bpf_state" where
  "add_cgroup_enrollment cgroup_id pod role_id s =
     s\<lparr>cgroup_enrollment := (cgroup_enrollment s)(cgroup_id \<mapsto> \<lparr>eev_pod_id = pod, eev_role_id = role_id\<rparr>)\<rparr>"

text \<open>Deleting a key that is not there is an error of the map.\<close>

definition remove_exec_enrollment :: "u64 \<Rightarrow> bpf_state \<Rightarrow> (daemon_error + unit) \<times> bpf_state" where
  "remove_exec_enrollment inode s =
     (if exec_enrollment s inode = None then (Inl No_entry, s)
      else (Inr (), s\<lparr>exec_enrollment := (exec_enrollment s)(inode := None)\<rparr>))"

definition remove_cgroup_enrollment :: "u64 \<Rightarrow> bpf_state \<Rightarrow> (daemon_error + unit) \<times> bpf_state" where
  "remove_cgroup_enrollment cgroup_id s =
     (if cgroup_enrollment s cgroup_id = None then (Inl No_entry, s)
      else (Inr (), s\<lparr>cgroup_enrollment := (cgroup_enrollment s)(cgroup_id := None)\<rparr>))"

text \<open>Removal of single rules. No request reaches these.\<close>

definition remove_network_rule :: "u32 \<Rightarrow> u16 \<Rightarrow> u8 \<Rightarrow> u8 \<Rightarrow> bpf_state \<Rightarrow> (daemon_error + unit) \<times> bpf_state" where
  "remove_network_rule role_id port protocol direction s =
     (let key = net_key role_id port protocol direction in
      if network_rules s key = None then (Inl No_entry, s)
      else (Inr (), s\<lparr>network_rules := (network_rules s)(key := None)\<rparr>))"

definition remove_ip_rule :: "u32 \<Rightarrow> bytes \<Rightarrow> u8 \<Rightarrow> bpf_state \<Rightarrow> (daemon_error + unit) \<times> bpf_state" where
  "remove_ip_rule role_id cidr direction s =
     (case parse_cidr cidr of
        Inl e \<Rightarrow> (Inl (Apply_failed e), s)
      | Inr (ip, prefix_len) \<Rightarrow>
          let key = \<lparr>irk_role_id = role_id, irk_ip_addr = bswap32 (mask_ipv4 ip prefix_len), irk_prefix_len = prefix_len,
                     irk_direction = direction\<rparr> in
          if ip_rules s key = None then (Inl No_entry, s)
          else (Inr (), s\<lparr>ip_rules := (ip_rules s)(key := None)\<rparr>))"

definition remove_proxy_config :: "u32 \<Rightarrow> bpf_state \<Rightarrow> (daemon_error + unit) \<times> bpf_state" where
  "remove_proxy_config role_id s =
     (if proxy_configs s role_id = None then (Inl No_entry, s)
      else (Inr (), s\<lparr>proxy_configs := (proxy_configs s)(role_id := None)\<rparr>))"

definition remove_domain_rule :: "u32 \<Rightarrow> bytes \<Rightarrow> bpf_state \<Rightarrow> (daemon_error + unit) \<times> bpf_state" where
  "remove_domain_rule role_id domain s =
     (let key = \<lparr>drk_role_id = role_id, drk_domain_hash = fnv1a_hash_u64 domain\<rparr> in
      if domain_rules s key = None then (Inl No_entry, s)
      else (Inr (), s\<lparr>domain_rules := (domain_rules s)(key := None)\<rparr>))"

section \<open>Enrollment by executable, cgroup and attribute\<close>

text \<open>Making sure that a role is in the maps, as every enrollment does.\<close>

definition install_role :: "u32 \<Rightarrow> role \<Rightarrow> bpf_state \<Rightarrow> ((daemon_error + unit) \<times> bpf_state) option" where
  "install_role role_id r s =
     tracker_path_rules role_id (rl_file_paths r)
       (tracker_network_rules role_id (rl_network_rules r) (set_role_policy role_id (rl_flags r) s))"

text \<open>
  \<open>enroll_by_executable_path\<close> and \<open>enroll_by_cgroup_path\<close>, which differ in the entry they add at the end.
\<close>

definition enroll_by_path ::
  "(u64 \<Rightarrow> u64 \<Rightarrow> u32 \<Rightarrow> bpf_state \<Rightarrow> bpf_state) \<Rightarrow> denv \<Rightarrow> bytes \<Rightarrow> u64 \<Rightarrow> u32 \<Rightarrow> daemon \<Rightarrow>
   ((daemon_error + unit) \<times> daemon) option" where
  "enroll_by_path add de path pod role_id d =
     (case de_inode de path of
        None \<Rightarrow> Some (Inl (No_such_path path), d)
      | Some inode \<Rightarrow>
          (case d_role_map d role_id of
             None \<Rightarrow> Some (Inl (Unknown_role role_id), d)
           | Some r \<Rightarrow>
               (case install_role role_id r (d_maps d) of
                  None \<Rightarrow> None
                | Some (Inl e, s) \<Rightarrow> Some (Inl e, d\<lparr>d_maps := s\<rparr>)
                | Some (Inr _, s) \<Rightarrow> Some (Inr (), d\<lparr>d_maps := add inode pod role_id s\<rparr>))))"

definition enroll_by_executable_path ::
  "denv \<Rightarrow> bytes \<Rightarrow> u64 \<Rightarrow> u32 \<Rightarrow> daemon \<Rightarrow> ((daemon_error + unit) \<times> daemon) option" where
  "enroll_by_executable_path = enroll_by_path add_exec_enrollment"

definition enroll_by_cgroup_path ::
  "denv \<Rightarrow> bytes \<Rightarrow> u64 \<Rightarrow> u32 \<Rightarrow> daemon \<Rightarrow> ((daemon_error + unit) \<times> daemon) option" where
  "enroll_by_cgroup_path = enroll_by_path add_cgroup_enrollment"

definition remove_by_path ::
  "(u64 \<Rightarrow> bpf_state \<Rightarrow> (daemon_error + unit) \<times> bpf_state) \<Rightarrow> denv \<Rightarrow> bytes \<Rightarrow> daemon \<Rightarrow> (daemon_error + unit) \<times> daemon" where
  "remove_by_path remove de path d =
     (case de_inode de path of
        None \<Rightarrow> (Inl (No_such_path path), d)
      | Some inode \<Rightarrow> (let (res, s) = remove inode (d_maps d) in (res, d\<lparr>d_maps := s\<rparr>)))"

definition POD_XATTR :: bytes where "POD_XATTR = bytes_of ''user.bpfjailer.pod_id''"
definition ROLE_XATTR :: bytes where "ROLE_XATTR = bytes_of ''user.bpfjailer.role_id''"

definition set_xattr_enrollment :: "denv \<Rightarrow> bytes \<Rightarrow> u64 \<Rightarrow> u32 \<Rightarrow> daemon \<Rightarrow> (daemon_error + unit) \<times> daemon" where
  "set_xattr_enrollment de path pod role_id d =
     (if de_inode de path = None then (Inl (No_such_path path), d)
      else if \<not> de_xattr_ok de path POD_XATTR then (Inl (Xattr_failed path POD_XATTR), d)
      else
        let d = d\<lparr>d_xattrs := (d_xattrs d)((path, POD_XATTR) \<mapsto> le_bytes 8 pod)\<rparr> in
        if \<not> de_xattr_ok de path ROLE_XATTR then (Inl (Xattr_failed path ROLE_XATTR), d)
        else (Inr (), d\<lparr>d_xattrs := (d_xattrs d)((path, ROLE_XATTR) \<mapsto> le_bytes 4 role_id)\<rparr>))"

definition check_xattr_enrollment :: "denv \<Rightarrow> bytes \<Rightarrow> daemon \<Rightarrow> daemon_error + (u64 \<times> u32) option" where
  "check_xattr_enrollment de path d =
     (if \<not> de_xattr_ok de path POD_XATTR then Inl (Xattr_failed path POD_XATTR)
      else
        case d_xattrs d (path, POD_XATTR) of
          None \<Rightarrow> Inr None
        | Some pod_value \<Rightarrow>
            if \<not> de_xattr_ok de path ROLE_XATTR then Inl (Xattr_failed path ROLE_XATTR)
            else
              (case d_xattrs d (path, ROLE_XATTR) of
                 None \<Rightarrow> Inr None
               | Some role_value \<Rightarrow>
                   if length pod_value \<noteq> 8 \<or> length role_value \<noteq> 4 then Inr None
                   else Inr (Some (le_word pod_value, le_word role_value))))"

definition remove_xattr_enrollment :: "denv \<Rightarrow> bytes \<Rightarrow> daemon \<Rightarrow> daemon" where
  "remove_xattr_enrollment de path d =
     (let drop_xattr = (\<lambda>name x. if de_xattr_ok de path name then x((path, name) := None) else x) in
      d\<lparr>d_xattrs := drop_xattr ROLE_XATTR (drop_xattr POD_XATTR (d_xattrs d))\<rparr>)"

section \<open>Requests\<close>

datatype request =
    Enroll u64 u32
  | Query u32
  | Enroll_executable bytes u64 u32
  | Remove_executable bytes
  | Define_role role
  | Enroll_cgroup bytes u64 u32
  | Remove_cgroup bytes
  | Set_xattr bytes u64 u32
  | Check_xattr bytes
  | Remove_xattr bytes

datatype response =
    Success
  | Error daemon_error
  | Process_info u64 u32
  | Xattr_info u64 u32

fun answer :: "daemon_error + unit \<Rightarrow> response" where
  "answer (Inl e) = Error e"
| "answer (Inr _) = Success"

definition get_process_info :: "denv \<Rightarrow> u32 \<Rightarrow> bpf_state \<Rightarrow> (u64 \<times> u32) option" where
  "get_process_info de pid s =
     (case de_task_of de pid of
        None \<Rightarrow> None
      | Some task \<Rightarrow> map_option (\<lambda>info. (pi_pod_id info, pi_role_id info)) (task_storage s task))"

text \<open>A path rule that cannot be applied is logged, and the process is enrolled all the same.\<close>

definition handle_enroll :: "u32 \<Rightarrow> u64 \<Rightarrow> u32 \<Rightarrow> daemon \<Rightarrow> (response \<times> daemon) option" where
  "handle_enroll pid pod role_id d =
     (case d_role_map d role_id of
        None \<Rightarrow> Some (Error (Unknown_role role_id), d)
      | Some r \<Rightarrow>
          (case install_role role_id r (d_maps d) of
             None \<Rightarrow> None
           | Some (_, s) \<Rightarrow> Some (Success, d\<lparr>d_maps := enroll_pending_process pid pod role_id s\<rparr>)))"

definition handle_define_role :: "denv \<Rightarrow> role \<Rightarrow> daemon \<Rightarrow> (response \<times> daemon) option" where
  "handle_define_role de r d =
     (if unenforced_settings r \<noteq> [] then Some (Error (Unenforced (rl_name r) (unenforced_settings r)), d)
      else
        let d = define_role r d in
        case apply_role (de_resolve de) r (d_maps d) of
          None \<Rightarrow> None
        | Some (Inl e, s) \<Rightarrow> Some (Error (Apply_failed e), d\<lparr>d_maps := s\<rparr>)
        | Some (Inr _, s) \<Rightarrow> Some (Success, d\<lparr>d_maps := s\<rparr>))"

fun handle_request :: "denv \<Rightarrow> u32 \<Rightarrow> request \<Rightarrow> daemon \<Rightarrow> (response \<times> daemon) option" where
  "handle_request de pid (Enroll pod role_id) d = handle_enroll pid pod role_id d"
| "handle_request de pid (Query query_pid) d =
     Some (case get_process_info de query_pid (d_maps d) of
             Some (pod, role_id) \<Rightarrow> Process_info pod role_id
           | None \<Rightarrow> Error Not_found_or_not_enrolled, d)"
| "handle_request de pid (Enroll_executable path pod role_id) d =
     map_option (map_prod answer id) (enroll_by_executable_path de path pod role_id d)"
| "handle_request de pid (Remove_executable path) d =
     Some (map_prod answer id (remove_by_path remove_exec_enrollment de path d))"
| "handle_request de pid (Define_role r) d = handle_define_role de r d"
| "handle_request de pid (Enroll_cgroup path pod role_id) d =
     map_option (map_prod answer id) (enroll_by_cgroup_path de path pod role_id d)"
| "handle_request de pid (Remove_cgroup path) d =
     Some (map_prod answer id (remove_by_path remove_cgroup_enrollment de path d))"
| "handle_request de pid (Set_xattr path pod role_id) d =
     Some (map_prod answer id (set_xattr_enrollment de path pod role_id d))"
| "handle_request de pid (Check_xattr path) d =
     Some (case check_xattr_enrollment de path d of
             Inr (Some (pod, role_id)) \<Rightarrow> Xattr_info pod role_id
           | Inr None \<Rightarrow> Error No_xattr
           | Inl e \<Rightarrow> Error e, d)"
| "handle_request de pid (Remove_xattr path) d = Some (Success, remove_xattr_enrollment de path d)"

section \<open>Starting\<close>

text \<open>Roles that fail to apply and enrollments that cannot be set up are logged and passed over.\<close>

fun apply_roles :: "denv \<Rightarrow> role list \<Rightarrow> bpf_state \<Rightarrow> bpf_state option" where
  "apply_roles de [] s = Some s"
| "apply_roles de (r # rs) s =
     (case apply_role (de_resolve de) r s of
        None \<Rightarrow> None
      | Some (_, s) \<Rightarrow> apply_roles de rs s)"

fun enroll_all ::
  "(bytes \<Rightarrow> u64 \<Rightarrow> u32 \<Rightarrow> daemon \<Rightarrow> ((daemon_error + unit) \<times> daemon) option) \<Rightarrow> (bytes \<times> u64 \<times> u32) list \<Rightarrow>
   daemon \<Rightarrow> daemon option" where
  "enroll_all enroll [] d = Some d"
| "enroll_all enroll ((path, pod, role_id) # es) d =
     (case enroll path pod role_id d of
        None \<Rightarrow> None
      | Some (_, d) \<Rightarrow> enroll_all enroll es d)"

definition load_from_policy :: "denv \<Rightarrow> daemon \<Rightarrow> daemon option" where
  "load_from_policy de d =
     (case enroll_all (enroll_by_executable_path de)
             (resolved_enrollments (d_config d) (pol_exec_enrollments (d_config d))) d of
        None \<Rightarrow> None
      | Some d' \<Rightarrow>
          enroll_all (enroll_by_cgroup_path de)
            (resolved_enrollments (d_config d) (pol_cgroup_enrollments (d_config d))) d')"

definition all_patterns :: "policy_config \<Rightarrow> bytes list" where
  "all_patterns config = concat (map (\<lambda>r. map pp_pattern (rl_file_paths r)) (map snd (pol_roles config)))"

datatype pattern_error = Empty_pattern | Not_absolute bytes | Triple_asterisk bytes

fun validate_patterns :: "bytes list \<Rightarrow> pattern_error + unit" where
  "validate_patterns [] = Inr ()"
| "validate_patterns (pattern # ps) =
     (if pattern = [] then Inl Empty_pattern
      else if hd pattern \<noteq> 47 then Inl (Not_absolute pattern)
      else if sublist (bytes_of ''***'') pattern then Inl (Triple_asterisk pattern)
      else validate_patterns ps)"

text \<open>
  Without a policy file, or with one that cannot be read, parsed or is refused, the built-in roles
  stay. The patterns are validated as well, but what that finds is only logged.
\<close>

definition daemon_policy :: "policy_config option \<Rightarrow> daemon \<Rightarrow> daemon" where
  "daemon_policy policy d =
     (case policy of
        None \<Rightarrow> d
      | Some config \<Rightarrow> (case load_config config d of Inl _ \<Rightarrow> d | Inr d \<Rightarrow> d))"

definition startup_invalidation :: "policy_config \<Rightarrow> bpf_state \<Rightarrow> bpf_state" where
  "startup_invalidation config s = (if all_patterns config \<noteq> [] then snd (invalidate_cache s) else s)"

definition start_daemon ::
  "denv \<Rightarrow> policy_config option \<Rightarrow> (bytes \<times> bytes \<rightharpoonup> bytes) \<Rightarrow> bpf_state \<Rightarrow> daemon option" where
  "start_daemon de policy xattrs s =
     (let d = daemon_policy policy (new_manager s xattrs) in
      case apply_roles de (map snd (pol_roles (d_config d))) (startup_invalidation (d_config d) (d_maps d)) of
        None \<Rightarrow> None
      | Some s \<Rightarrow> load_from_policy de (d\<lparr>d_maps := s\<rparr>))"

end
