(* ===== verification/Host_Files.thy ===== *)
theory Host_Files
  imports Daemon
begin

text \<open>
  What the two loaders find on the host: the compiled object and the policy file, each searched for
  in a list of places (\<open>bpf_object_path\<close> and \<open>load_policy\<close> of the bootstrap, \<open>BpfJailerBpf::load\<close> and \<open>main\<close>
  of the daemon), and the programs they attach, which are listed in \<open>programs.rs\<close>. The start of the
  daemon is put together here; the bootstrap has a theory of its own.
\<close>

section \<open>The host\<close>

text \<open>
  What the loaders ask the system: the parent directory of \<open>CARGO_MANIFEST_DIR\<close> and the variable
  \<open>BPFJAILER_POLICY\<close>, where they are set; whether a file exists, its bytes, and its text if it is UTF-8;
  the policy a text parses to. Of libbpf: which objects it loads, the programs and maps the loaded
  object has, and which programs can be attached. None of this changes during a run.
\<close>

record host =
  ho_workspace :: "bytes option"
  ho_policy_var :: "bytes option"
  ho_exists :: "bytes \<Rightarrow> bool"
  ho_read :: "bytes \<Rightarrow> bytes option"
  ho_read_text :: "bytes \<Rightarrow> bytes option"
  ho_parse :: "bytes \<Rightarrow> policy_config option"
  ho_load_ok :: "bytes \<Rightarrow> bool"
  ho_progs :: "bytes set"
  ho_map_names :: "bytes set"
  ho_attach_ok :: "bytes \<Rightarrow> bool"

text \<open>\<open>PathBuf::join\<close> with a relative path.\<close>

definition path_join :: "bytes \<Rightarrow> bytes \<Rightarrow> bytes" where
  "path_join p q = (if p = [] \<or> last p = 47 then p @ q else p @ 47 # q)"

definition workspace_root :: "'a host_scheme \<Rightarrow> bytes" where
  "workspace_root h = (case ho_workspace h of Some p \<Rightarrow> p | None \<Rightarrow> bytes_of ''.'')"

definition possible_paths :: "'a host_scheme \<Rightarrow> bytes list" where
  "possible_paths h =
     [bytes_of ''/usr/lib/bpfjailer/bpfjailer.bpf.o'',
      bytes_of ''/usr/share/bpfjailer/bpfjailer.bpf.o'',
      path_join (workspace_root h) (bytes_of ''target/bpfel-unknown-none/release/bpfjailer.bpf.o''),
      path_join (workspace_root h) (bytes_of ''target/bpfel-unknown-none/debug/bpfjailer.bpf.o''),
      path_join (workspace_root h) (bytes_of ''bpfjailer-bpf/target/bpfel-unknown-none/release/bpfjailer.bpf.o''),
      path_join (workspace_root h) (bytes_of ''bpfjailer-bpf/target/bpfel-unknown-none/debug/bpfjailer.bpf.o''),
      bytes_of ''target/bpfel-unknown-none/release/bpfjailer.bpf.o'',
      bytes_of ''target/bpfel-unknown-none/debug/bpfjailer.bpf.o'']"

definition bpf_object_path :: "'a host_scheme \<Rightarrow> bytes option" where
  "bpf_object_path h = List.find (ho_exists h) (possible_paths h)"

definition daemon_possible_paths :: "'a host_scheme \<Rightarrow> bytes list" where
  "daemon_possible_paths h =
     [bytes_of ''/usr/lib/bpfjailer/bpfjailer.bpf.o'',
      bytes_of ''/usr/share/bpfjailer/bpfjailer.bpf.o'',
      path_join (workspace_root h) (bytes_of ''target/bpfel-unknown-none/release/bpfjailer.bpf.o''),
      path_join (workspace_root h) (bytes_of ''target/bpfel-unknown-none/debug/bpfjailer.bpf.o''),
      path_join (workspace_root h) (bytes_of ''bpfjailer-bpf/target/bpfel-unknown-none/release/bpfjailer.bpf.o''),
      path_join (workspace_root h) (bytes_of ''bpfjailer-bpf/target/bpfel-unknown-none/debug/bpfjailer.bpf.o''),
      bytes_of ''target/bpfel-unknown-none/release/bpfjailer.bpf.o'',
      bytes_of ''target/bpfel-unknown-none/debug/bpfjailer.bpf.o'',
      bytes_of ''bpfjailer-bpf/target/bpfel-unknown-none/release/bpfjailer.bpf.o'',
      bytes_of ''bpfjailer-bpf/target/bpfel-unknown-none/debug/bpfjailer.bpf.o'']"

definition DEFAULT_POLICY_PATH :: bytes where "DEFAULT_POLICY_PATH = bytes_of ''/etc/bpfjailer/policy.json''"
definition LOCAL_POLICY_PATH :: bytes where "LOCAL_POLICY_PATH = bytes_of ''config/policy.json''"

text \<open>The variable decides even where it names no file; only without it the two places are looked at.\<close>

definition policy_path :: "'a host_scheme \<Rightarrow> bytes option" where
  "policy_path h =
     (case ho_policy_var h of
        Some p \<Rightarrow> Some p
      | None \<Rightarrow>
          if ho_exists h DEFAULT_POLICY_PATH then Some DEFAULT_POLICY_PATH
          else if ho_exists h LOCAL_POLICY_PATH then Some LOCAL_POLICY_PATH
          else None)"

section \<open>Attaching\<close>

definition LSM_PROGRAMS :: "bytes list" where
  "LSM_PROGRAMS = map bytes_of
     [''task_alloc'', ''file_open'', ''socket_bind'', ''socket_connect'', ''socket_sendmsg'', ''bprm_check_security'',
      ''path_rename'', ''sb_mount'', ''sb_umount'', ''ptrace_access_check'', ''kernel_module_request'', ''bpf'']"

text \<open>The programs of the list that the object has are attached in turn; one it lacks is passed over.\<close>

fun attach_each :: "(bytes \<Rightarrow> bool) \<Rightarrow> bytes set \<Rightarrow> bytes list \<Rightarrow> bytes + bytes list" where
  "attach_each ok progs [] = Inr []"
| "attach_each ok progs (name # names) =
     (if name \<in> progs then
        if ok name then map_sum id (\<lambda>links. name # links) (attach_each ok progs names) else Inl name
      else attach_each ok progs names)"

lemma attach_each_all:
  "attach_each ok progs names = Inr links \<Longrightarrow> set names \<subseteq> progs \<Longrightarrow> links = names"
  by (induction names arbitrary: links) (auto simp: map_sum_def split: if_splits sum.splits)

lemma attach_each_ok:
  "(\<And>name. name \<in> set names \<Longrightarrow> name \<in> progs \<Longrightarrow> ok name) \<Longrightarrow>
   attach_each ok progs names = Inr (filter (\<lambda>name. name \<in> progs) names)"
  by (induction names) simp_all

section \<open>The start of the daemon\<close>

text \<open>The maps the daemon insists on; the others are only mentioned in its log.\<close>

definition REQUIRED_MAPS :: "bytes list" where
  "REQUIRED_MAPS = map bytes_of [''role_flags'', ''pending_enrollments'', ''network_rules'', ''path_states'', ''exec_states'']"

datatype start_error = Object_missing | Object_rejected bytes | Map_missing bytes | Not_attached bytes

text \<open>\<open>BpfJailerBpf::load\<close>, with the programs it attached.\<close>

definition load_programs :: "'a host_scheme \<Rightarrow> start_error + bytes list" where
  "load_programs h =
     (case List.find (ho_exists h) (daemon_possible_paths h) of
        None \<Rightarrow> Inl Object_missing
      | Some path \<Rightarrow>
          if \<not> ho_load_ok h path then Inl (Object_rejected path)
          else
            (case List.find (\<lambda>name. name \<notin> ho_map_names h) REQUIRED_MAPS of
               Some name \<Rightarrow> Inl (Map_missing name)
             | None \<Rightarrow> map_sum Not_attached id (attach_each (ho_attach_ok h) (ho_progs h) LSM_PROGRAMS)))"

text \<open>The policy the daemon reads, if there is one it can read and parse.\<close>

definition readable_policy :: "'a host_scheme \<Rightarrow> policy_config option" where
  "readable_policy h =
     (case policy_path h of
        None \<Rightarrow> None
      | Some path \<Rightarrow> (case ho_read_text h path of None \<Rightarrow> None | Some content \<Rightarrow> ho_parse h content))"

definition daemon_main ::
  "'a host_scheme \<Rightarrow> denv \<Rightarrow> (bytes \<times> bytes \<rightharpoonup> bytes) \<Rightarrow> bpf_state \<Rightarrow> (start_error + bytes list \<times> daemon) option" where
  "daemon_main h de xattrs s =
     (case load_programs h of
        Inl e \<Rightarrow> Some (Inl e)
      | Inr links \<Rightarrow> map_option (\<lambda>d. Inr (links, d)) (start_daemon de (readable_policy h) xattrs s))"

section \<open>What the two searches have in common\<close>

lemma find_append: "List.find P (xs @ ys) = (case List.find P xs of Some x \<Rightarrow> Some x | None \<Rightarrow> List.find P ys)"
  by (induction xs) simp_all

lemma daemon_paths_extend: "\<exists>others. daemon_possible_paths h = possible_paths h @ others"
  by (simp add: daemon_possible_paths_def possible_paths_def)

lemma same_object_found: "bpf_object_path h = Some path \<Longrightarrow> List.find (ho_exists h) (daemon_possible_paths h) = Some path"
  using daemon_paths_extend [of h] by (auto simp: bpf_object_path_def find_append)

text \<open>
  An object without one of the programs does not stop the daemon: it attaches the others and runs,
  so that what the program would refuse is allowed.
\<close>

theorem missing_program_passed_over:
  assumes "bpf_object_path h = Some path" and "ho_load_ok h path" and "set REQUIRED_MAPS \<subseteq> ho_map_names h"
    and "\<And>name. name \<in> set LSM_PROGRAMS \<Longrightarrow> name \<in> ho_progs h \<Longrightarrow> ho_attach_ok h name"
  shows "load_programs h = Inr (filter (\<lambda>name. name \<in> ho_progs h) LSM_PROGRAMS)"
proof -
  have "List.find (\<lambda>name. name \<notin> ho_map_names h) REQUIRED_MAPS = None" using assms(3) by (auto simp: find_None_iff)
  then show ?thesis
    using assms(2) attach_each_ok [OF assms(4), of LSM_PROGRAMS] by (simp add: load_programs_def same_object_found [OF assms(1)])
qed

end
