(* ===== verification/Bootstrap.thy ===== *)
theory Bootstrap
  imports Host_Files
begin

text \<open>
  The daemonless bootstrap (\<open>bpfjailer-bootstrap/src/main.rs\<close>): what it finds pinned from an earlier
  run, whether that is its own, and the run that loads, fills and pins. The list of the
  maps that are pinned is in \<open>maps.rs\<close>, the digest that identifies a build in \<open>hash.rs\<close>. Both loaders
  search the host in the same way (\<open>Host_Files\<close>).
\<close>

section \<open>What is pinned\<close>

definition PINNED_MAPS :: "bytes list" where
  "PINNED_MAPS = map bytes_of
     [''task_storage'', ''role_flags'', ''pending_enrollments'', ''network_rules'', ''path_states'', ''exec_states'',
      ''path_decision_cache'', ''cache_generation'', ''exec_enrollment'', ''cgroup_enrollment'', ''audit_events'']"

text \<open>
  The pin directory, and the file that records the build it came from (\<open>None\<close>: no such file, or not
  UTF-8). White space is the ASCII one. A pinned link keeps the program it stands for attached.
\<close>

record pin_fs =
  pf_progs :: "bytes set"
  pf_maps :: "bytes set"
  pf_links :: "nat \<rightharpoonup> bytes"
  pf_build_id :: "bytes option"

record pin_state =
  ps_progs :: "bytes set"
  ps_maps :: "bytes set"
  ps_build_id :: "bytes option"

definition is_space :: "u8 \<Rightarrow> bool" where "is_space b = (b = 32 \<or> 9 \<le> b \<and> b \<le> 13)"

definition trim :: "bytes \<Rightarrow> bytes" where
  "trim s = rev (dropWhile is_space (rev (dropWhile is_space s)))"

definition read_pin_state :: "pin_fs \<Rightarrow> pin_state" where
  "read_pin_state fs =
     \<lparr>ps_progs = pf_progs fs, ps_maps = pf_maps fs,
      ps_build_id = (case pf_build_id fs of
        None \<Rightarrow> None
      | Some content \<Rightarrow> if trim content = [] then None else Some (trim content))\<rparr>"

section \<open>Builds\<close>

definition fnv1a_digest :: "bytes \<Rightarrow> u64" where
  "fnv1a_digest bs = foldl fnv_step FNV1A64_OFFSET_BASIS bs"

text \<open>Sixteen hexadecimal digits, the most significant one first.\<close>

definition hex_digit :: "nat \<Rightarrow> u8" where
  "hex_digit n = (if n < 10 then of_nat (48 + n) else of_nat (87 + n))"

definition hex16 :: "u64 \<Rightarrow> bytes" where
  "hex16 w = map (\<lambda>i. hex_digit (unat (drop_bit (4 * i) w AND 15))) (rev [0..<16])"

section \<open>The comparison\<close>

datatype difference =
    Missing string "bytes set"
  | Extra string "bytes set"
  | Build_differs bytes bytes
  | No_build_id

datatype pin_verdict = Absent | Current | Stale "difference list"

definition describe :: "string \<Rightarrow> bytes set \<Rightarrow> bytes set \<Rightarrow> difference list" where
  "describe label missing extra =
     (if missing \<noteq> {} then [Missing label missing] else []) @ (if extra \<noteq> {} then [Extra label extra] else [])"

definition compare_pins :: "pin_state \<Rightarrow> u64 \<Rightarrow> pin_verdict" where
  "compare_pins found expected_build_id =
     (if ps_progs found = {} \<and> ps_maps found = {} \<and> ps_build_id found = None then Absent
      else
        let expected = hex16 expected_build_id;
            want_progs = set LSM_PROGRAMS;
            want_maps = set PINNED_MAPS;
            differences =
              describe ''programs'' (want_progs - ps_progs found) (ps_progs found - want_progs) @
              describe ''maps'' (want_maps - ps_maps found) (ps_maps found - want_maps) @
              (case ps_build_id found of
                 Some i \<Rightarrow> if i = expected then [] else [Build_differs i expected]
               | None \<Rightarrow> [No_build_id])
        in if differences = [] then Current else Stale differences)"

section \<open>Pinning\<close>

text \<open>The pins in the order they are made; the build is recorded last.\<close>

datatype pin_step = Pin_map bytes | Pin_prog bytes | Pin_link nat bytes | Record_build_id u64

definition pin_steps :: "bytes list \<Rightarrow> u64 \<Rightarrow> pin_step list" where
  "pin_steps links build_id =
     map Pin_map PINNED_MAPS @ map Pin_prog LSM_PROGRAMS @
     map (\<lambda>(i, link). Pin_link i link) (enumerate 0 links) @ [Record_build_id build_id]"

fun pin :: "pin_step \<Rightarrow> pin_fs \<Rightarrow> pin_fs" where
  "pin (Pin_map name) fs = fs\<lparr>pf_maps := insert name (pf_maps fs)\<rparr>"
| "pin (Pin_prog name) fs = fs\<lparr>pf_progs := insert name (pf_progs fs)\<rparr>"
| "pin (Pin_link i link) fs = fs\<lparr>pf_links := (pf_links fs)(i \<mapsto> link)\<rparr>"
| "pin (Record_build_id build_id) fs = fs\<lparr>pf_build_id := Some (hex16 build_id)\<rparr>"

text \<open>Stops at the first step that fails.\<close>

fun pin_each :: "(pin_step \<Rightarrow> bool) \<Rightarrow> pin_step list \<Rightarrow> pin_fs \<Rightarrow> (pin_step + unit) \<times> pin_fs" where
  "pin_each ok [] fs = (Inr (), fs)"
| "pin_each ok (step # steps) fs = (if ok step then pin_each ok steps (pin step fs) else (Inl step, fs))"

definition pin_all :: "(pin_step \<Rightarrow> bool) \<Rightarrow> bytes list \<Rightarrow> u64 \<Rightarrow> pin_fs \<Rightarrow> (pin_step + unit) \<times> pin_fs" where
  "pin_all ok links build_id fs = pin_each ok (pin_steps links build_id) fs"

section \<open>The run\<close>

text \<open>
  What the run asks the system beside what every loader asks of the host: the resolver and the
  inodes, the contents of the maps of the loaded object, and which pins succeed.
\<close>

record boot_env = host +
  be_resolve :: "bytes \<Rightarrow> u32 list"
  be_inode :: "bytes \<Rightarrow> u64 option"
  be_maps :: bpf_state
  be_pin_ok :: "pin_step \<Rightarrow> bool"

text \<open>What outlives a run: the pins, and the contents of the pinned maps.\<close>

record boot =
  bt_pins :: pin_fs
  bt_maps :: bpf_state

datatype boot_error =
    No_object
  | Object_unreadable bytes
  | Stale_pins "difference list"
  | No_policy
  | Policy_unreadable bytes
  | Policy_unparsed bytes
  | Policy_refused daemon_error
  | Load_failed
  | Attach_failed bytes
  | Populate_failed load_error
  | Pin_failed pin_step

definition build_id_of :: "boot_env \<Rightarrow> bytes \<Rightarrow> boot_error + u64" where
  "build_id_of e path =
     (case ho_read e path of
        None \<Rightarrow> Inl (Object_unreadable path)
      | Some object_file \<Rightarrow> Inr (fnv1a_digest object_file))"

definition load_policy :: "boot_env \<Rightarrow> boot_error + policy_config" where
  "load_policy e =
     (case policy_path e of
        None \<Rightarrow> Inl No_policy
      | Some path \<Rightarrow>
          (case ho_read_text e path of
             None \<Rightarrow> Inl (Policy_unreadable path)
           | Some content \<Rightarrow>
               (case ho_parse e content of
                  None \<Rightarrow> Inl (Policy_unparsed path)
                | Some config \<Rightarrow>
                    (case refused_role (pol_roles config) of
                       Some err \<Rightarrow> Inl (Policy_refused err)
                     | None \<Rightarrow> Inr config))))"

definition load_bpf_object :: "boot_env \<Rightarrow> boot_error + bytes list" where
  "load_bpf_object e =
     (case bpf_object_path e of
        None \<Rightarrow> Inl No_object
      | Some path \<Rightarrow>
          if ho_load_ok e path then map_sum Attach_failed id (attach_each (ho_attach_ok e) (ho_progs e) LSM_PROGRAMS)
          else Inl Load_failed)"

text \<open>A map or program is looked up in the object before it is pinned.\<close>

definition pinnable :: "boot_env \<Rightarrow> pin_step \<Rightarrow> bool" where
  "pinnable e step =
     ((case step of Pin_map name \<Rightarrow> name \<in> ho_map_names e | Pin_prog name \<Rightarrow> name \<in> ho_progs e | _ \<Rightarrow> True) \<and>
      be_pin_ok e step)"

definition bootstrap_load :: "boot_env \<Rightarrow> u64 \<Rightarrow> boot \<Rightarrow> ((boot_error + unit) \<times> boot) option" where
  "bootstrap_load e build_id b =
     (case load_policy e of
        Inl err \<Rightarrow> Some (Inl err, b)
      | Inr config \<Rightarrow>
          (case load_bpf_object e of
             Inl err \<Rightarrow> Some (Inl err, b)
           | Inr links \<Rightarrow>
               (case populate_maps (be_resolve e) (be_inode e) config (be_maps e) of
                  None \<Rightarrow> None
                | Some (Inl err, _) \<Rightarrow> Some (Inl (Populate_failed err), b)
                | Some (Inr _, s) \<Rightarrow>
                    (let (res, pins) = pin_all (pinnable e) links build_id (bt_pins b) in
                     Some (map_sum Pin_failed id res, b\<lparr>bt_pins := pins, bt_maps := s\<rparr>)))))"

definition bootstrap_run :: "boot_env \<Rightarrow> boot \<Rightarrow> ((boot_error + unit) \<times> boot) option" where
  "bootstrap_run e b =
     (case bpf_object_path e of
        None \<Rightarrow> Some (Inl No_object, b)
      | Some path \<Rightarrow>
          (case build_id_of e path of
             Inl err \<Rightarrow> Some (Inl err, b)
           | Inr build_id \<Rightarrow>
               (case compare_pins (read_pin_state (bt_pins b)) build_id of
                  Absent \<Rightarrow> bootstrap_load e build_id b
                | Current \<Rightarrow> Some (Inr (), b)
                | Stale differences \<Rightarrow> Some (Inl (Stale_pins differences), b))))"

text \<open>The object a run identifies and loads.\<close>

definition be_object :: "boot_env \<Rightarrow> bytes option" where
  "be_object e = Option.bind (bpf_object_path e) (ho_read e)"

lemma bootstrap_run_object:
  assumes "be_object e = Some object_file"
  shows "bootstrap_run e b =
    (case compare_pins (read_pin_state (bt_pins b)) (fnv1a_digest object_file) of
       Absent \<Rightarrow> bootstrap_load e (fnv1a_digest object_file) b
     | Current \<Rightarrow> Some (Inr (), b)
     | Stale differences \<Rightarrow> Some (Inl (Stale_pins differences), b))"
  using assms by (auto simp: be_object_def bootstrap_run_def build_id_of_def split: bind_splits)

lemma bootstrap_run_without_object:
  "be_object e = None \<Longrightarrow> \<exists>err. bootstrap_run e b = Some (Inl err, b)"
  by (auto simp: be_object_def bootstrap_run_def build_id_of_def split: bind_splits option.split)

section \<open>The build id\<close>

lemma unat_hex_digit: "n < 16 \<Longrightarrow> unat (hex_digit n) = (if n < 10 then 48 + n else 87 + n)"
  by (cases "n < 10") (simp_all add: hex_digit_def unsigned_of_nat take_bit_nat_eq_self del: of_nat_add)

lemma hex_digit_inject:
  assumes "m < 16" and "n < 16"
  shows "hex_digit m = hex_digit n \<longleftrightarrow> m = n"
proof
  assume "hex_digit m = hex_digit n"
  then have "unat (hex_digit m) = unat (hex_digit n)" by (rule arg_cong)
  then show "m = n" unfolding unat_hex_digit [OF assms(1)] unat_hex_digit [OF assms(2)] by presburger
qed simp

lemma nibble_less: "unat (w AND 15 :: u64) < 16"
proof -
  have "w AND 15 \<le> (15 :: u64)" by (rule word_and_le1)
  then have "unat (w AND 15) \<le> unat (15 :: u64)" by (simp only: word_le_nat_alt)
  then show ?thesis by simp
qed

lemma hex16_inject: "hex16 v = hex16 w \<longleftrightarrow> v = w"
proof
  assume eq: "hex16 v = hex16 w"
  have nibbles: "drop_bit (4 * i) v AND 15 = drop_bit (4 * i) w AND 15" if "i < 16" for i
  proof -
    have "hex_digit (unat (drop_bit (4 * i) v AND 15)) = hex_digit (unat (drop_bit (4 * i) w AND 15))"
      using eq that unfolding hex16_def map_eq_conv by simp
    then show ?thesis using nibble_less hex_digit_inject by (metis unsigned_word_eqI word_unat_eq_iff)
  qed
  show "v = w"
  proof (rule bit_word_eqI)
    fix n
    assume "n < LENGTH(64)"
    then have "n div 4 < 16" by simp
    from nibbles [OF this] have "bit (drop_bit (4 * (n div 4)) v AND 15) (n mod 4) = bit (drop_bit (4 * (n div 4)) w AND 15) (n mod 4)"
      by simp
    moreover have "bit (15 :: u64) (n mod 4)"
    proof -
      have "\<forall>i \<in> {0..<4}. bit (15 :: u64) i" by code_simp
      then show ?thesis by simp
    qed
    ultimately show "bit v n \<longleftrightarrow> bit w n" by (simp add: bit_and_iff bit_drop_bit_eq)
  qed
qed simp

lemma hex16_digits: "b \<in> set (hex16 w) \<Longrightarrow> \<not> is_space b"
proof -
  have "\<forall>n \<in> {0..<16}. \<not> is_space (hex_digit n)" by code_simp
  then show "b \<in> set (hex16 w) \<Longrightarrow> \<not> is_space b" using nibble_less by (auto simp: hex16_def)
qed

lemma trim_hex16: "trim (hex16 w) = hex16 w"
proof -
  have "dropWhile is_space (hex16 w) = hex16 w" "dropWhile is_space (rev (hex16 w)) = rev (hex16 w)"
    using hex16_digits by (metis dropWhile_eq_self_iff hd_in_set, metis dropWhile_eq_self_iff hd_in_set set_rev)
  then show ?thesis by (simp add: trim_def)
qed

lemma hex16_nonempty [simp]: "hex16 w \<noteq> []"
  by (simp add: hex16_def)

lemma digest_separates_one_byte: "fnv1a_digest (xs @ [a] @ ys) = fnv1a_digest (xs @ [b] @ ys) \<longleftrightarrow> a = b"
  by (simp add: fnv1a_digest_def foldl_fnv_step_inject fnv_step_byte_inject)

section \<open>The comparison, exactly\<close>

lemma compare_absent:
  "compare_pins found i = Absent \<longleftrightarrow> ps_progs found = {} \<and> ps_maps found = {} \<and> ps_build_id found = None"
  by (simp add: compare_pins_def Let_def)

lemma describe_empty: "describe label missing extra = [] \<longleftrightarrow> missing = {} \<and> extra = {}"
  by (simp add: describe_def)

lemma compare_current:
  "compare_pins found i = Current \<longleftrightarrow>
   ps_progs found = set LSM_PROGRAMS \<and> ps_maps found = set PINNED_MAPS \<and> ps_build_id found = Some (hex16 i)"
  by (auto simp: compare_pins_def describe_empty Let_def split: option.splits)

section \<open>Pinning, step by step\<close>

lemma pin_each_prefix:
  "pin_each ok steps fs = (res, fs') \<Longrightarrow>
   \<exists>made rest. steps = made @ rest \<and> fs' = fold pin made fs \<and> (res = Inr () \<longleftrightarrow> rest = [])"
proof (induction steps arbitrary: fs)
  case (Cons step steps)
  show ?case
  proof (cases "ok step")
    case True
    then obtain made rest where "steps = made @ rest" "fs' = fold pin made (pin step fs)" "res = Inr () \<longleftrightarrow> rest = []"
      using Cons.IH [of "pin step fs"] Cons.prems by force
    then show ?thesis by (intro exI [of _ "step # made"] exI [of _ rest]) simp
  next
    case False
    then show ?thesis using Cons.prems by (intro exI [of _ "[]"] exI [of _ "step # steps"]) auto
  qed
qed simp

lemma fold_pin_progs: "pf_progs (fold pin steps fs) = pf_progs fs \<union> {n. Pin_prog n \<in> set steps}"
proof (induction steps arbitrary: fs)
  case (Cons step steps)
  then show ?case by (cases step) auto
qed simp

lemma fold_pin_maps: "pf_maps (fold pin steps fs) = pf_maps fs \<union> {n. Pin_map n \<in> set steps}"
proof (induction steps arbitrary: fs)
  case (Cons step steps)
  then show ?case by (cases step) auto
qed simp

lemma fold_pin_links: "pf_links (fold pin (map (\<lambda>(i, link). Pin_link i link) ls) fs) = pf_links fs ++ map_of (rev ls)"
  by (induction ls arbitrary: fs) (auto simp: map_add_def fun_eq_iff split: option.splits)

text \<open>Everything that was pinned had succeeded.\<close>

lemma pin_each_done: "pin_each ok steps fs = (Inr (), fs') \<longleftrightarrow> (\<forall>step \<in> set steps. ok step) \<and> fs' = fold pin steps fs"
  by (induction steps arbitrary: fs) auto

lemma fold_pin_build_id: "(\<And>i. Record_build_id i \<notin> set steps) \<Longrightarrow> pf_build_id (fold pin steps fs) = pf_build_id fs"
proof (induction steps arbitrary: fs)
  case (Cons step steps)
  then show ?case by (cases step) auto
qed simp

text \<open>A pinning that stopped short has not recorded a build; a complete one is current.\<close>

lemma pin_all_failed:
  assumes "pin_all ok links build_id fs = (Inl step, fs')"
  shows "pf_build_id fs' = pf_build_id fs"
proof -
  obtain made rest where m: "pin_steps links build_id = made @ rest" "fs' = fold pin made fs" "rest \<noteq> []"
    using pin_each_prefix assms unfolding pin_all_def by (metis Inl_Inr_False)
  then have "butlast (pin_steps links build_id) = made @ butlast rest" by (simp add: butlast_append)
  then have "set made \<subseteq> set (map Pin_map PINNED_MAPS @ map Pin_prog LSM_PROGRAMS @ 
      map (\<lambda>(i, link). Pin_link i link) (enumerate 0 links))"
    by (simp add: pin_steps_def butlast_append)
  then show ?thesis unfolding m(2) by (intro fold_pin_build_id) auto
qed

lemma pin_all_done:
  assumes "pin_all ok links build_id fs = (Inr (), fs')" and "pf_progs fs = {}" and "pf_maps fs = {}"
  shows "pf_progs fs' = set LSM_PROGRAMS" "pf_maps fs' = set PINNED_MAPS" "pf_build_id fs' = Some (hex16 build_id)"
    "i < length links \<Longrightarrow> pf_links fs' i = Some (links ! i)" "name \<in> set LSM_PROGRAMS \<Longrightarrow> ok (Pin_prog name)"
proof -
  have fs': "fs' = fold pin (pin_steps links build_id) fs" and ok: "\<forall>step \<in> set (pin_steps links build_id). ok step"
    using assms(1) by (simp_all add: pin_all_def pin_each_done)
  show "pf_progs fs' = set LSM_PROGRAMS" "pf_maps fs' = set PINNED_MAPS"
    using assms(2,3) by (auto simp: fs' fold_pin_progs fold_pin_maps pin_steps_def)
  show "pf_build_id fs' = Some (hex16 build_id)" by (simp add: fs' pin_steps_def)
  show "name \<in> set LSM_PROGRAMS \<Longrightarrow> ok (Pin_prog name)" using ok by (simp add: pin_steps_def)
  assume i: "i < length links"
  have "map_of (rev (enumerate 0 links)) i = Some (links ! i)"
    using i by (intro map_of_is_SomeI) (auto simp: rev_map [symmetric] enumerate_eq_zip in_set_zip intro!: exI [of _ i])
  then show "pf_links fs' i = Some (links ! i)" by (simp add: fs' pin_steps_def fold_pin_links)
qed

text \<open>The two ways a run from nothing can end.\<close>

lemma run_from_nothing:
  assumes "be_object e = Some obj" and "compare_pins (read_pin_state (bt_pins b)) (fnv1a_digest obj) = Absent"
    and "bootstrap_run e b = Some (res, b')"
  shows "b' = b \<and> res \<noteq> Inr () \<or>
    (\<exists>config links r w. load_policy e = Inr config \<and>
       load_bpf_object e = Inr links \<and> populate_maps (be_resolve e) (be_inode e) config (be_maps e) = Some (Inr w, bt_maps b') \<and>
       pin_all (pinnable e) links (fnv1a_digest obj) (bt_pins b) = (r, bt_pins b') \<and> (res = Inr () \<longleftrightarrow> r = Inr ()))"
  using assms(3)
  by (auto simp: bootstrap_run_object [OF assms(1)] bootstrap_load_def assms(2) Let_def split: option.splits sum.splits prod.splits)
    (auto simp: map_sum_def split: sum.splits)

lemma accepted_roles: "refused_role rs = None \<Longrightarrow> \<forall>(name, r) \<in> set rs. unenforced_settings r = []"
  by (induction rs rule: refused_role.induct) (auto split: if_splits)

lemma load_policy_accepts: "load_policy e = Inr config \<Longrightarrow> refused_role (pol_roles config) = None"
  by (auto simp: load_policy_def split: option.splits)

lemma current_after_run:
  assumes "be_object e = Some obj" and "compare_pins (read_pin_state (bt_pins b)) (fnv1a_digest obj) = Absent"
    and "bootstrap_run e b = Some (Inr (), b')"
  shows "read_pin_state (bt_pins b') =
    \<lparr>ps_progs = set LSM_PROGRAMS, ps_maps = set PINNED_MAPS, ps_build_id = Some (hex16 (fnv1a_digest obj))\<rparr>"
proof -
  obtain links where "pin_all (pinnable e) links (fnv1a_digest obj) (bt_pins b) = (Inr (), bt_pins b')"
    using run_from_nothing [OF assms] by auto
  moreover have "pf_progs (bt_pins b) = {}" "pf_maps (bt_pins b) = {}"
    using assms(2) by (simp_all add: compare_absent read_pin_state_def)
  ultimately show ?thesis using pin_all_done by (simp add: read_pin_state_def trim_hex16)
qed

section \<open>A sample run\<close>

definition sample_boot_env :: boot_env where
  "sample_boot_env = \<lparr>ho_workspace = None, ho_policy_var = None,
     ho_exists = (\<lambda>path. path \<in> {bytes_of ''/usr/lib/bpfjailer/bpfjailer.bpf.o'', DEFAULT_POLICY_PATH}),
     ho_read = (\<lambda>_. Some [127, 69, 76, 70]), ho_read_text = (\<lambda>_. Some [123, 125]), ho_parse = (\<lambda>_. Some sample_policy),
     ho_load_ok = (\<lambda>_. True), ho_progs = set LSM_PROGRAMS, ho_map_names = set PINNED_MAPS, ho_attach_ok = (\<lambda>_. True),
     be_resolve = (\<lambda>_. []), be_inode = (\<lambda>_. None), be_maps = blank_state, be_pin_ok = (\<lambda>_. True)\<rparr>"

definition nothing_pinned :: boot where
  "nothing_pinned = \<lparr>bt_pins = \<lparr>pf_progs = {}, pf_maps = {}, pf_links = Map.empty, pf_build_id = None\<rparr>, bt_maps = blank_state\<rparr>"

lemma nothing_pinned_absent: "compare_pins (read_pin_state (bt_pins nothing_pinned)) i = Absent"
  by (simp add: compare_absent read_pin_state_def nothing_pinned_def)

lemma sample_policy_not_refused: "refused_role (pol_roles sample_policy) = None"
  by code_simp

lemma sample_object_path:
  assumes "ho_exists e = ho_exists sample_boot_env"
  shows "bpf_object_path e = Some (bytes_of ''/usr/lib/bpfjailer/bpfjailer.bpf.o'')"
  by (simp add: bpf_object_path_def possible_paths_def assms) (simp add: sample_boot_env_def)

lemma sample_boot_fields:
  "be_object sample_boot_env = Some [127, 69, 76, 70]" "load_policy sample_boot_env = Inr sample_policy"
  "be_resolve sample_boot_env = (\<lambda>_. [])" "be_inode sample_boot_env = (\<lambda>_. None)" "be_maps sample_boot_env = blank_state"
  "load_bpf_object sample_boot_env = Inr LSM_PROGRAMS"
proof -
  show "load_policy sample_boot_env = Inr sample_policy"
    by (simp add: load_policy_def policy_path_def sample_boot_env_def sample_policy_not_refused)
  show "load_bpf_object sample_boot_env = Inr LSM_PROGRAMS"
    by (simp add: load_bpf_object_def sample_object_path) (simp add: sample_boot_env_def attach_each_ok)
qed (simp_all add: be_object_def sample_object_path, simp_all add: sample_boot_env_def)

lemma sample_populates: "\<exists>w s'. populate_maps (\<lambda>_. []) (\<lambda>_. None) sample_policy blank_state = Some (Inr w, s')"
  using sample_policy_loads [of "\<lambda>_. None" "\<lambda>_. []" blank_state] by blast

lemma sample_run: "\<exists>b'. bootstrap_run sample_boot_env nothing_pinned = Some (Inr (), b')"
proof -
  have "pin_all (pinnable sample_boot_env) LSM_PROGRAMS i fs = (Inr (), fold pin (pin_steps LSM_PROGRAMS i) fs)" for i fs
    unfolding pin_all_def pin_each_done by (auto simp: pinnable_def sample_boot_env_def pin_steps_def)
  then show ?thesis
    using sample_populates
    by (auto simp: bootstrap_run_object [OF sample_boot_fields(1)] bootstrap_load_def sample_boot_fields nothing_pinned_absent)
qed

text \<open>The same, where no link can be pinned.\<close>

definition unlinked_boot_env :: boot_env where
  "unlinked_boot_env = sample_boot_env\<lparr>be_pin_ok := (\<lambda>step. case step of Pin_link _ _ \<Rightarrow> False | _ \<Rightarrow> True)\<rparr>"

lemma pin_each_append:
  "(\<And>step. step \<in> set made \<Longrightarrow> ok step) \<Longrightarrow> pin_each ok (made @ rest) fs = pin_each ok rest (fold pin made fs)"
  by (induction made arbitrary: fs) simp_all

lemma unlinked_boot_fields:
  "be_object unlinked_boot_env = Some [127, 69, 76, 70]" "load_policy unlinked_boot_env = Inr sample_policy"
  "be_resolve unlinked_boot_env = (\<lambda>_. [])" "be_inode unlinked_boot_env = (\<lambda>_. None)" "be_maps unlinked_boot_env = blank_state"
  "load_bpf_object unlinked_boot_env = Inr LSM_PROGRAMS"
proof -
  have path: "bpf_object_path unlinked_boot_env = bpf_object_path sample_boot_env"
    by (simp add: sample_object_path unlinked_boot_env_def)
  have same: "policy_path unlinked_boot_env = policy_path sample_boot_env" "ho_read unlinked_boot_env = ho_read sample_boot_env"
      "ho_read_text unlinked_boot_env = ho_read_text sample_boot_env" "ho_parse unlinked_boot_env = ho_parse sample_boot_env"
      "ho_load_ok unlinked_boot_env = ho_load_ok sample_boot_env" "ho_progs unlinked_boot_env = ho_progs sample_boot_env"
      "ho_attach_ok unlinked_boot_env = ho_attach_ok sample_boot_env"
    by (simp_all add: policy_path_def unlinked_boot_env_def)
  show "load_policy unlinked_boot_env = Inr sample_policy" "load_bpf_object unlinked_boot_env = Inr LSM_PROGRAMS"
      "be_object unlinked_boot_env = Some [127, 69, 76, 70]"
    using sample_boot_fields(1,2,6) unfolding load_policy_def load_bpf_object_def be_object_def path same by blast+
qed (simp_all add: unlinked_boot_env_def sample_boot_env_def)

lemma unlinked_pins:
  "\<exists>pins. pin_all (pinnable unlinked_boot_env) LSM_PROGRAMS build_id fs = (Inl (Pin_link 0 (hd LSM_PROGRAMS)), pins)"
proof -
  have "LSM_PROGRAMS = hd LSM_PROGRAMS # tl LSM_PROGRAMS" by (simp add: LSM_PROGRAMS_def)
  then have "enumerate 0 LSM_PROGRAMS = (0, hd LSM_PROGRAMS) # enumerate 1 (tl LSM_PROGRAMS)"
    by (metis One_nat_def enumerate_simps(2))
  then have steps: "pin_steps LSM_PROGRAMS build_id = (map Pin_map PINNED_MAPS @ map Pin_prog LSM_PROGRAMS) @
      Pin_link 0 (hd LSM_PROGRAMS) # map (\<lambda>(i, link). Pin_link i link) (enumerate 1 (tl LSM_PROGRAMS)) @ [Record_build_id build_id]"
    by (simp add: pin_steps_def)
  show ?thesis unfolding pin_all_def steps
    by (subst pin_each_append) (auto simp: pinnable_def unlinked_boot_env_def sample_boot_env_def)
qed

lemma unlinked_run:
  "\<exists>b'. bootstrap_run unlinked_boot_env nothing_pinned = Some (Inl (Pin_failed (Pin_link 0 (hd LSM_PROGRAMS))), b')"
  using sample_populates unlinked_pins [of "fnv1a_digest [127, 69, 76, 70]" "bt_pins nothing_pinned"]
  by (auto simp: bootstrap_run_object [OF unlinked_boot_fields(1)] bootstrap_load_def unlinked_boot_fields nothing_pinned_absent)

section \<open>Properties\<close>






text \<open>
  C27: A second run recognises the first: after a successful run, a run of the same build succeeds and
  changes nothing, and a run of a build whose object differs in a byte is refused and changes
  nothing.
\<close>

theorem rerun_recognises_build:
  assumes "be_object e = Some (xs @ [x] @ ys)"
    and "compare_pins (read_pin_state (bt_pins b)) (fnv1a_digest (xs @ [x] @ ys)) = Absent"
    and "bootstrap_run e b = Some (Inr (), b')" and "be_object e' = Some (xs @ [y] @ ys)"
  shows "bootstrap_run e' b' =
    Some (if x = y then Inr ()
          else Inl (Stale_pins [Build_differs (hex16 (fnv1a_digest (xs @ [x] @ ys))) (hex16 (fnv1a_digest (xs @ [y] @ ys)))]), b')"
proof -
  note found = current_after_run [OF assms(1-3)]
  have d: "fnv1a_digest (xs @ [x] @ ys) = fnv1a_digest (xs @ [y] @ ys) \<longleftrightarrow> x = y" by (rule digest_separates_one_byte)
  have "compare_pins (read_pin_state (bt_pins b')) (fnv1a_digest (xs @ [y] @ ys)) =
      (if x = y then Current
       else Stale [Build_differs (hex16 (fnv1a_digest (xs @ [x] @ ys))) (hex16 (fnv1a_digest (xs @ [y] @ ys)))])"
    unfolding found compare_pins_def Let_def using d hex16_inject by (auto simp: describe_def PINNED_MAPS_def)
  then show ?thesis by (simp add: bootstrap_run_object [OF assms(4)] del: append_Cons append_Nil)
qed

theorem rerun_recognises_build_witness:
  "\<exists>b'. bootstrap_run sample_boot_env nothing_pinned = Some (Inr (), b') \<and>
        bootstrap_run (sample_boot_env\<lparr>ho_read := \<lambda>_. Some [127, 69, 76, 71]\<rparr>) b' =
        Some (Inl (Stale_pins [Build_differs (hex16 (fnv1a_digest [127, 69, 76, 70])) (hex16 (fnv1a_digest [127, 69, 76, 71]))]), b')"
proof -
  obtain b' where run: "bootstrap_run sample_boot_env nothing_pinned = Some (Inr (), b')"
    using sample_run by blast
  let ?e = "sample_boot_env\<lparr>ho_read := \<lambda>_. Some [127, 69, 76, 71]\<rparr>"
  have objects: "be_object sample_boot_env = Some ([127, 69, 76] @ [70] @ [])" "be_object ?e = Some ([127, 69, 76] @ [71] @ [])"
    by (simp_all add: sample_boot_fields) (simp add: be_object_def sample_object_path)
  show ?thesis using rerun_recognises_build [OF objects(1) nothing_pinned_absent run objects(2)] run by auto
qed

text \<open>
  Removing the pin directory is not enough to reload, although the log says so: the recorded
  build id stays, and the next run refuses what it finds as stale.
\<close>

theorem reload_refused:
  assumes "be_object e = Some obj" and "compare_pins (read_pin_state (bt_pins b)) (fnv1a_digest obj) = Absent"
    and "bootstrap_run e b = Some (Inr (), b')"
    and "b'' = b'\<lparr>bt_pins := (bt_pins b')\<lparr>pf_progs := {}, pf_maps := {}, pf_links := Map.empty\<rparr>\<rparr>"
  shows "\<exists>differences. bootstrap_run e b'' = Some (Inl (Stale_pins differences), b'')"
proof -
  have "ps_build_id (read_pin_state (bt_pins b')) = Some (hex16 (fnv1a_digest obj))"
    using current_after_run [OF assms(1-3)] by simp
  then have found: "read_pin_state (bt_pins b'') =
      \<lparr>ps_progs = {}, ps_maps = {}, ps_build_id = Some (hex16 (fnv1a_digest obj))\<rparr>"
    by (simp add: read_pin_state_def assms(4))
  have "compare_pins (read_pin_state (bt_pins b'')) (fnv1a_digest obj) \<noteq> Absent"
      "compare_pins (read_pin_state (bt_pins b'')) (fnv1a_digest obj) \<noteq> Current"
    unfolding found compare_absent compare_current by (simp_all add: LSM_PROGRAMS_def)
  then show ?thesis
    by (cases "compare_pins (read_pin_state (bt_pins b'')) (fnv1a_digest obj)") (simp_all add: bootstrap_run_object [OF assms(1)])
qed

theorem reload_refused_witness:
  "\<exists>b' differences.
     let b'' = b'\<lparr>bt_pins := (bt_pins b')\<lparr>pf_progs := {}, pf_maps := {}, pf_links := Map.empty\<rparr>\<rparr> in
     bootstrap_run sample_boot_env nothing_pinned = Some (Inr (), b') \<and>
     bootstrap_run sample_boot_env b'' = Some (Inl (Stale_pins differences), b'')"
proof -
  obtain b' where run: "bootstrap_run sample_boot_env nothing_pinned = Some (Inr (), b')"
    using sample_run by blast
  show ?thesis using reload_refused [OF sample_boot_fields(1) nothing_pinned_absent run refl] run by (auto simp: Let_def)
qed

text \<open>
  Lost links go unnoticed: the links keep the programs attached, but a run that finds programs,
  maps and build id in place reports success whatever links there are.
\<close>

theorem lost_links_unnoticed:
  assumes "be_object e = Some obj" and "compare_pins (read_pin_state (bt_pins b)) (fnv1a_digest obj) = Absent"
    and "bootstrap_run e b = Some (Inr (), b')" and "b'' = b'\<lparr>bt_pins := (bt_pins b')\<lparr>pf_links := links\<rparr>\<rparr>"
  shows "bootstrap_run e b'' = Some (Inr (), b'')"
proof -
  have "read_pin_state (bt_pins b'') = read_pin_state (bt_pins b')" by (simp add: read_pin_state_def assms(4))
  then have "compare_pins (read_pin_state (bt_pins b'')) (fnv1a_digest obj) = Current"
    using current_after_run [OF assms(1-3)] by (simp add: compare_current)
  then show ?thesis by (simp add: bootstrap_run_object [OF assms(1)])
qed

theorem lost_links_unnoticed_witness:
  "\<exists>b'. let b'' = b'\<lparr>bt_pins := (bt_pins b')\<lparr>pf_links := Map.empty\<rparr>\<rparr> in
     bootstrap_run sample_boot_env nothing_pinned = Some (Inr (), b') \<and>
     bootstrap_run sample_boot_env b'' = Some (Inr (), b'')"
proof -
  obtain b' where run: "bootstrap_run sample_boot_env nothing_pinned = Some (Inr (), b')"
    using sample_run by blast
  show ?thesis using lost_links_unnoticed [OF sample_boot_fields(1) nothing_pinned_absent run refl, of Map.empty] run by (auto simp: Let_def)
qed

end
