(* ===== verification/Hook_System.thy ===== *)
theory Hook_System
  imports Exec Network Guards
begin

text \<open>
  All programs of \<open>main.bpf.c\<close> together: the calls the kernel makes, sequences of them, and the
  life of a jail, in which hooks of any task, forks, exits and writes of userspace interleave.
\<close>

section \<open>Calls\<close>

datatype hook_call =
    TaskAlloc u64
  | FileOpen u64
  | SocketBind u64 u64
  | SocketConnect u64 u64
  | SocketSendmsg u64 u64
  | BprmCheck u64
  | PathRename u64
  | SbMount
  | SbUmount
  | PtraceAccess u64
  | ModuleRequest u64
  | BpfCmd u32

fun run_hook :: "hook_call hook" where
  "run_hook k (TaskAlloc task) s = task_alloc k task s"
| "run_hook k (FileOpen file) s = file_open k file s"
| "run_hook k (SocketBind sock address) s = socket_bind k sock address s"
| "run_hook k (SocketConnect sock address) s = socket_connect k sock address s"
| "run_hook k (SocketSendmsg sock msg) s = socket_sendmsg k sock msg s"
| "run_hook k (BprmCheck bprm) s = bprm_check_security k bprm s"
| "run_hook k (PathRename old_dentry) s = path_rename k old_dentry s"
| "run_hook k SbMount s = sb_mount k s"
| "run_hook k SbUmount s = sb_umount k s"
| "run_hook k (PtraceAccess child) s = ptrace_access_check k child s"
| "run_hook k (ModuleRequest name) s = kernel_module_request k name s"
| "run_hook k (BpfCmd cmd) s = bpf_hook k cmd s"

text \<open>The task a call is about, the task whose entry it sets up, and whether it refuses silently.\<close>

fun call_subject :: "kenv \<Rightarrow> hook_call \<Rightarrow> u64" where
  "call_subject k (PtraceAccess child) = child"
| "call_subject k c = k_task k"

fun call_renews :: "kenv \<Rightarrow> hook_call \<Rightarrow> u64 \<Rightarrow> bool" where
  "call_renews k (TaskAlloc task) t = (t = task)"
| "call_renews k c t = False"

fun call_silent :: "kenv \<Rightarrow> hook_call \<Rightarrow> bpf_state \<Rightarrow> bool" where
  "call_silent k (PtraceAccess child) s = ptrace_silent k child s"
| "call_silent k c s = False"

interpretation hooks: lsm_hook run_hook call_subject call_renews call_silent
proof
  fix k c s t
  show "same_policy s (snd (run_hook k c s))"
    by (cases c)
      (simp_all add: task_alloc.policy file_open.policy socket_bind.policy [of s k "(_, _)", simplified]
        socket_connect.policy [of s k "(_, _)", simplified] socket_sendmsg.policy [of s k "(_, _)", simplified]
        bprm_check.policy path_rename.policy sb_mount.policy sb_umount.policy ptrace.policy
        kernel_module.policy bpf.policy)
  show "entry_kept k t s (snd (run_hook k c s))" if "enrolled s t" "\<not> call_renews k c t"
    using that
    by (cases c)
      (simp_all add: task_alloc.kept file_open.kept socket_bind.kept [of s t k "(_, _)", simplified]
        socket_connect.kept [of s t k "(_, _)", simplified] socket_sendmsg.kept [of s t k "(_, _)", simplified]
        bprm_check.kept path_rename.kept sb_mount.kept sb_umount.kept ptrace.kept kernel_module.kept bpf.kept)
  show "audit_events (snd (run_hook k c s)) = audit_events s" if "fst (run_hook k c s) = 0"
    using that
    by (cases c)
      (simp_all add: task_alloc.allowed_log file_open.allowed_log
        socket_bind.allowed_log [of k "(_, _)", simplified] socket_connect.allowed_log [of k "(_, _)", simplified]
        socket_sendmsg.allowed_log [of k "(_, _)", simplified] bprm_check.allowed_log path_rename.allowed_log
        sb_mount.allowed_log sb_umount.allowed_log ptrace.allowed_log kernel_module.allowed_log bpf.allowed_log)
  show "fst (run_hook k c s) \<noteq> 0" if "call_silent k c s"
    using that ptrace.silent_denies by (cases c) simp_all
  show "\<exists>info x ht. task_storage (snd (run_hook k c s)) (call_subject k c) = Some info \<and> pi_pod_id info \<noteq> 0 \<and>
      audit_events (snd (run_hook k c s)) =
        (if call_silent k c s then audit_events s else audit_events s @ [denial_event k info ht x])"
    if "fst (run_hook k c s) \<noteq> 0"
    using that task_alloc.denied_log [of k _ s] file_open.denied_log [of k _ s]
      socket_bind.denied_log [of k "(_, _)" s, simplified] socket_connect.denied_log [of k "(_, _)" s, simplified]
      bprm_check.denied_log [of k _ s] path_rename.denied_log [of k _ s] ptrace.denied_log [of k _ s]
      kernel_module.denied_log [of k _ s] bpf.denied_log [of k _ s]
    by (cases c) (simp_all add: socket_sendmsg_def sb_mount_def sb_umount_def)
qed

section \<open>The life of a jail\<close>

text \<open>
  \<open>jail_life T s D s'\<close>: from state \<open>s\<close>, in which the tasks \<open>T\<close> are enrolled, the system has come to
  \<open>s'\<close>, and \<open>D\<close> are the live tasks of \<open>T\<close> and the live descendants of them whose storage could be
  allocated. Userspace may rewrite every map but the task storage.
\<close>

inductive jail_life :: "u64 set \<Rightarrow> bpf_state \<Rightarrow> u64 set \<Rightarrow> bpf_state \<Rightarrow> bool" for T s0 where
  start: "\<forall>t \<in> T. enrolled s0 t \<Longrightarrow> jail_life T s0 T s0"
| call: "jail_life T s0 D s \<Longrightarrow> \<forall>t \<in> D. \<not> call_renews k c t \<Longrightarrow> jail_life T s0 D (snd (run_hook k c s))"
| fork: "jail_life T s0 D s \<Longrightarrow> k_task k \<in> D \<Longrightarrow> child \<notin> D \<Longrightarrow> k_storage_alloc k child \<Longrightarrow>
    jail_life T s0 (insert child D) (snd (run_hook k (TaskAlloc child) s))"
| userspace: "jail_life T s0 D s \<Longrightarrow> task_storage s' = task_storage s \<Longrightarrow> jail_life T s0 D s'"
| exits: "jail_life T s0 D s \<Longrightarrow>
    jail_life T s0 (D - {t}) (s\<lparr>task_storage := (task_storage s)(t := None)\<rparr>)"

lemma task_alloc_child:
  assumes "k_task k \<noteq> child" and "k_storage_alloc k child" and "enrolled s (k_task k)"
  shows "task_storage (snd (task_alloc k child s)) child = task_storage s (k_task k)"
  using assms task_alloc_storage [of child k s] by (auto simp: enrolled_def)

lemma jail_life_enrolled: "jail_life T s0 D s \<Longrightarrow> t \<in> D \<Longrightarrow> enrolled s t"
proof (induction arbitrary: t rule: jail_life.induct)
  case (call D s k c)
  then show ?case using hooks.kept entry_kept_enrolled by blast
next
  case (fork D s k child)
  show ?case
  proof (cases "t = child")
    case True
    have "k_task k \<noteq> child" "enrolled s (k_task k)" using fork by auto
    then show ?thesis
      using True task_alloc_child [of k child s] fork.hyps(4) by (simp add: enrolled_def)
  next
    case False
    then show ?thesis using fork by (simp add: enrolled_def task_alloc_other)
  qed
qed (auto simp: enrolled_def)

section \<open>Properties\<close>

text \<open>
  C1: Nobody leaves a jail: whatever hooks run for whichever tasks, whatever userspace writes into
  the maps, and however often they fork, the tasks of a jail and their descendants are enrolled as
  long as they live (descendants whose task storage could be allocated when they were created).
\<close>

theorem jail_inescapable:
  assumes "jail_life T s0 D s" and "t \<in> D"
  shows "enrolled s t"
  by (rule jail_life_enrolled [OF assms])

theorem jail_inescapable_witness:
  "enrolled (snd (run_hook (sample_env\<lparr>k_task := 0x11000\<rparr>) (TaskAlloc 0x12000)
     (snd (run_hook sample_env (TaskAlloc 0x11000) sample_state)))) 0x12000"
proof -
  have "jail_life {0x10000} sample_state {0x10000} sample_state"
    by (rule jail_life.start) (simp add: enrolled_def)
  then have "jail_life {0x10000} sample_state {0x11000, 0x10000}
      (snd (run_hook sample_env (TaskAlloc 0x11000) sample_state))"
    by (rule jail_life.fork) simp_all
  then have "jail_life {0x10000} sample_state {0x12000, 0x11000, 0x10000}
      (snd (run_hook (sample_env\<lparr>k_task := 0x11000\<rparr>) (TaskAlloc 0x12000)
        (snd (run_hook sample_env (TaskAlloc 0x11000) sample_state))))"
    by (rule jail_life.fork) simp_all
  then show ?thesis by (rule jail_inescapable) simp
qed

text \<open>
  C29: Audit: over any sequence of calls the log only grows, and the events added are as many as the
  refusals, not counting the refusals of \<open>ptrace_access_check\<close> for a role without flags.
\<close>

theorem audit_log_complete:
  "\<exists>es. audit_events (snd (run_calls run_hook cs s)) = audit_events s @ es \<and>
     length es + silent_calls run_hook call_silent cs s = denials (fst (run_calls run_hook cs s))"
  using hooks.run_log_prefix [of cs s] hooks.run_log_length [of cs s] by auto

text \<open>
  No hook changes policy: the role flags, the network, path, exec, address, proxy and domain
  rules, the DNS cache and the enrollment lists are the same after any sequence of calls.
\<close>

theorem policy_untouched:
  "same_policy s (snd (run_calls run_hook cs s))"
  by (rule hooks.run_policy)

text \<open>
  C30: A hook refuses only where an enrolled task is concerned: after a call that is not answered
  with 0, the task it is about is enrolled, and the call has added an event that names its pod and
  role, unless it is a silent refusal of \<open>ptrace\<close>.
\<close>

theorem refusals_are_enrolled_and_logged:
  assumes "fst (run_hook k c s) \<noteq> 0"
  shows "\<exists>info. task_storage (snd (run_hook k c s)) (call_subject k c) = Some info \<and> pi_pod_id info \<noteq> 0 \<and>
    (call_silent k c s \<or>
     (\<exists>e. audit_events (snd (run_hook k c s)) = audit_events s @ [e] \<and> ae_decision e = AUDIT_DECISION_DENY \<and>
        ae_role_id e = pi_role_id info \<and> ae_pod_id e = pi_pod_id info \<and> ae_pid e = current_pid k))"
  using hooks.denied_log [OF assms] by (force simp: denial_event_def)

theorem refusals_are_enrolled_and_logged_witness:
  "\<exists>info. task_storage (snd (run_hook sample_env (BpfCmd 5) sample_state)) 0x10000 = Some info \<and>
     pi_pod_id info \<noteq> 0 \<and>
     (\<exists>e. audit_events (snd (run_hook sample_env (BpfCmd 5) sample_state)) = [e] \<and> ae_role_id e = pi_role_id info)"
proof -
  have "fst (run_hook sample_env (BpfCmd 5) sample_state) \<noteq> 0"
    by (simp add: bpf_hook_def)
  from refusals_are_enrolled_and_logged [OF this] show ?thesis by auto
qed

text \<open>
  C31: An enrolled task changes its pod or role in no other way than by a pending enrollment of its
  own process: a call that does not create the task leaves its entry alone or replaces it by the
  entry pending for the calling process.
\<close>

theorem entry_changes_only_by_pending:
  assumes "task_storage s t = Some info" and "pi_pod_id info \<noteq> 0" and "\<not> call_renews k c t"
  shows "task_storage (snd (run_hook k c s)) t = Some info \<or>
    (t = k_task k \<and> (\<exists>p. pending_enrollments s (current_pid k) = Some p \<and> pi_pod_id p \<noteq> 0 \<and>
       task_storage (snd (run_hook k c s)) t = Some p))"
proof -
  have "enrolled s t" using assms(1,2) by (auto simp: enrolled_def)
  then have "entry_kept k t s (snd (run_hook k c s))" using assms(3) by (rule hooks.kept)
  then show ?thesis using assms(1) by (auto simp: entry_kept_def)
qed

theorem entry_changes_only_by_pending_witness:
  "task_storage (snd (run_hook sample_env (FileOpen 0x60000) sample_state)) 0x10000 = Some sample_info"
  using entry_changes_only_by_pending [of sample_state "0x10000" sample_info sample_env "FileOpen 0x60000"]
  by simp

section \<open>Bits of the role flags\<close>

text \<open>The role flags with the bits of \<open>m\<close> flipped, for every role.\<close>

definition flip_flags :: "u8 \<Rightarrow> bpf_state \<Rightarrow> bpf_state" where
  "flip_flags m s = s\<lparr>role_flags := (\<lambda>r. map_option (\<lambda>f. f XOR m) (role_flags s r))\<rparr>"

lemma flip_flags_frame [simp]:
  "task_storage (flip_flags m s) = task_storage s" "pending_enrollments (flip_flags m s) = pending_enrollments s"
  "path_states (flip_flags m s) = path_states s" "exec_states (flip_flags m s) = exec_states s"
  "path_decision_cache (flip_flags m s) = path_decision_cache s" "path_buf (flip_flags m s) = path_buf s"
  "cache_generation (flip_flags m s) = cache_generation s" "network_rules (flip_flags m s) = network_rules s"
  "ip_rules (flip_flags m s) = ip_rules s" "proxy_configs (flip_flags m s) = proxy_configs s"
  "domain_rules (flip_flags m s) = domain_rules s" "dns_cache (flip_flags m s) = dns_cache s"
  "exec_enrollment (flip_flags m s) = exec_enrollment s" "cgroup_enrollment (flip_flags m s) = cgroup_enrollment s"
  "role_flags (flip_flags m s) r = map_option (\<lambda>f. f XOR m) (role_flags s r)"
  by (simp_all add: flip_flags_def)

lemma flip_migrated: "migrated k (flip_flags m s) = flip_flags m (migrated k s)"
  by (auto simp: migrated_def check_pending_enrollment_def task_storage_get_create_def set_info_def
      flip_flags_def Let_def split: option.splits)

lemma flip_tested:
  assumes "m AND 0xE7 = 0" and "b AND 0xE7 = b"
  shows "(f XOR m) AND b = f AND (b :: u8)"
proof (rule bit_word_eqI)
  fix n
  have "\<not> (bit m n \<and> bit (0xE7 :: u8) n)" "bit b n \<longrightarrow> bit (0xE7 :: u8) n"
    using arg_cong [OF assms(1), of "\<lambda>w. bit w n"] arg_cong [OF assms(2), of "\<lambda>w. bit w n"]
    by (auto simp only: bit_and_iff bit_0_eq bot_apply bot_bool_def)
  then show "bit ((f XOR m) AND b) n \<longleftrightarrow> bit (f AND b) n"
    by (auto simp only: bit_and_iff bit_xor_iff)
qed

lemma flip_tested_bits:
  assumes "m AND 0xE7 = (0 :: u8)"
  shows "(f XOR m) AND 1 = f AND 1" "(f XOR m) AND 2 = f AND 2" "(f XOR m) AND 4 = f AND 4"
    "(f XOR m) AND 0x20 = f AND 0x20" "(f XOR m) AND 0x40 = f AND 0x40" "(f XOR m) AND 0x80 = f AND 0x80"
  by (rule flip_tested [OF assms]; simp)+

lemma file_walk_flip:
  assumes "m AND 0xE7 = 0"
  shows "fst (file_walk k p info (f XOR m) key d v i root gen buf (flip_flags m s)) =
    fst (file_walk k p info f key d v i root gen buf s)"
  by (simp add: file_walk_def Let_def flip_tested_bits [OF assms])

lemma file_decide_flip:
  assumes "m AND 0xE7 = 0"
  shows "fst (file_decide k p info (f XOR m) file (flip_flags m s)) = fst (file_decide k p info f file s)"
  by (simp add: file_decide_def Let_def file_walk_flip [OF assms] flip_tested_bits [OF assms]
      current_generation_def file_cached_def split: option.splits)

lemma file_open_flip:
  assumes "m AND 0xE7 = 0"
  shows "fst (file_open k file (flip_flags m s)) = fst (file_open k file s)"
  unfolding file_open_def Let_def migrated_def [symmetric] flip_migrated
  by (auto simp: file_decide_flip [OF assms] split: option.splits)

lemma bprm_flip:
  assumes "m AND 0xE7 = 0"
  shows "fst (bprm_check_security k bprm (flip_flags m s)) = fst (bprm_check_security k bprm s)"
proof (cases rule: bprm_cases [of k s bprm])
  case (decide info)
  then have "bprm_check_security k bprm (flip_flags m s) =
      exec_decide k (current_pid k) info True bprm (flip_flags m (migrated k s))"
    using bprm_enrolled [of k "flip_flags m s" info bprm] by (simp add: flip_migrated)
  then show ?thesis
    by (simp add: decide(3) exec_decide_def exec_role_default_def exec_deny_def Let_def flip_tested_bits [OF assms]
        split: option.splits)
next
  case (enroll e)
  then have "\<not> enrolled (migrated k (flip_flags m s)) (k_task k)" by (simp add: flip_migrated enrolled_def)
  then show ?thesis
    using enroll by (cases rule: bprm_cases [of k "flip_flags m s" bprm]) (auto simp: enrolled_def)
next
  case (skip s')
  then have "\<not> enrolled (migrated k (flip_flags m s)) (k_task k)" by (simp add: flip_migrated enrolled_def)
  then show ?thesis
    using skip by (cases rule: bprm_cases [of k "flip_flags m s" bprm]) (auto simp: enrolled_def)
qed

lemma socket_flip:
  assumes "m AND 0xE7 = 0"
  shows "fst (socket_bind k sock address (flip_flags m s)) = fst (socket_bind k sock address s)"
    and "fst (socket_connect k sock address (flip_flags m s)) = fst (socket_connect k sock address s)"
  by (auto simp: socket_bind_def socket_connect_def connect_decide_fst Let_def flip_tested_bits [OF assms]
      split_beta split: option.splits)

text \<open>
  No hook tests bits 0x08 (\<open>require_signed_binary\<close>) and 0x10 (\<open>allow_setuid\<close>) of the role flags:
  flipping them, for all roles, changes the answer to no call.
\<close>

theorem untested_flag_bits:
  assumes "m AND 0xE7 = 0"
  shows "fst (run_hook k c (flip_flags m s)) = fst (run_hook k c s)"
  by (cases c)
    (auto simp: file_open_flip [OF assms] bprm_flip [OF assms] socket_flip [OF assms] socket_sendmsg_def
      path_rename_def sb_mount_def sb_umount_def ptrace_access_check_def kernel_module_request_def
      bpf_hook_def Let_def flip_tested_bits [OF assms] split: option.splits)

theorem untested_flag_bits_witness:
  "fst (run_hook sample_env (FileOpen 0x60000) (flip_flags 0x18 sample_state)) =
   fst (run_hook sample_env (FileOpen 0x60000) sample_state)"
  by (rule untested_flag_bits) simp

section \<open>Enrollment properties\<close>

text \<open>
  A task created by an enrolled task starts with its parent's entry, and one created by a task
  that is not enrolled starts with a zero entry; no other task is affected.
\<close>

theorem task_alloc_inherits:
  assumes "task \<noteq> k_task k" and "task_storage s task \<noteq> None \<or> k_storage_alloc k task"
  shows "fst (task_alloc k task s) = 0 \<and> task_storage (snd (task_alloc k task s)) =
    (task_storage s)(task \<mapsto>
      (case task_storage s (k_task k) of
         Some p \<Rightarrow> if pi_pod_id p \<noteq> 0 then p else zero_info
       | None \<Rightarrow> zero_info))"
  using task_alloc_storage [OF assms] by simp

theorem task_alloc_inherits_witness:
  "task_storage (snd (task_alloc sample_env 0x11000 sample_state)) 0x11000 = Some sample_info"
  using task_alloc_inherits [of "0x11000" sample_env sample_state] by simp

text \<open>
  Where the storage of a new task cannot be allocated, the creation is allowed and the child of
  an enrolled task is not enrolled.
\<close>

theorem task_alloc_failure_escapes:
  assumes "task_storage s task = None" and "\<not> k_storage_alloc k task"
  shows "fst (task_alloc k task s) = 0 \<and> \<not> enrolled (snd (task_alloc k task s)) task"
  using task_alloc_no_storage [OF assms] assms(1) by (simp add: enrolled_def)

theorem task_alloc_failure_escapes_witness:
  "enrolled sample_state 0x10000 \<and>
   \<not> enrolled (snd (task_alloc (sample_env\<lparr>k_storage_alloc := (\<lambda>_. False)\<rparr>) 0x11000 sample_state)) 0x11000"
  using task_alloc_failure_escapes [of sample_state "0x11000" "sample_env\<lparr>k_storage_alloc := (\<lambda>_. False)\<rparr>"]
  by (simp add: enrolled_def)

text \<open>
  A pending enrollment takes effect exactly once: it is moved into the task's entry and removed
  from the pending map, and doing it again changes nothing.
\<close>

theorem pending_migrates_once:
  assumes "pending_enrollments s pid = Some p" and "pi_pod_id p \<noteq> 0"
    and "task_storage s task \<noteq> None \<or> k_storage_alloc k task"
  shows "task_storage (check_pending_enrollment k task pid s) = (task_storage s)(task \<mapsto> p) \<and>
    pending_enrollments (check_pending_enrollment k task pid s) = (pending_enrollments s)(pid := None) \<and>
    check_pending_enrollment k task pid (check_pending_enrollment k task pid s) =
      check_pending_enrollment k task pid s"
  using assms by (simp add: pending_storage pending_consumed pending_idempotent)

definition sample_pending :: bpf_state where
  "sample_pending = sample_state\<lparr>pending_enrollments :=
     [42 \<mapsto> \<lparr>pi_pod_id = 20, pi_role_id = 6, pi_stack_depth = 1, pi_flags = 0\<rparr>]\<rparr>"

theorem pending_migrates_once_witness:
  "task_storage (check_pending_enrollment sample_env 0x10000 42 sample_pending) 0x10000 =
   Some \<lparr>pi_pod_id = 20, pi_role_id = 6, pi_stack_depth = 1, pi_flags = 0\<rparr>"
  using pending_migrates_once [of sample_pending 42
      "\<lparr>pi_pod_id = 20, pi_role_id = 6, pi_stack_depth = 1, pi_flags = 0\<rparr>" "0x10000" sample_env]
  by (simp add: sample_pending_def)

text \<open>
  A pending enrollment whose task storage cannot be allocated is removed all the same: it is
  lost, and the task stays outside the jail.
\<close>

theorem pending_lost_without_storage:
  assumes "pending_enrollments s pid = Some p" and "pi_pod_id p \<noteq> 0"
    and "task_storage s task = None" and "\<not> k_storage_alloc k task"
  shows "pending_enrollments (check_pending_enrollment k task pid s) pid = None \<and>
    \<not> enrolled (check_pending_enrollment k task pid s) task"
  using assms by (simp add: pending_storage pending_consumed enrolled_def)

theorem pending_lost_without_storage_witness:
  "pending_enrollments (check_pending_enrollment (sample_env\<lparr>k_storage_alloc := (\<lambda>_. False)\<rparr>) 0x13000 42
     sample_pending) 42 = None"
  using pending_lost_without_storage [of sample_pending 42
      "\<lparr>pi_pod_id = 20, pi_role_id = 6, pi_stack_depth = 1, pi_flags = 0\<rparr>" "0x13000"
      "sample_env\<lparr>k_storage_alloc := (\<lambda>_. False)\<rparr>"]
  by (simp add: sample_pending_def)

end
