(* ===== verification/Hook_Typing.thy ===== *)
theory Hook_Typing
  imports Hook_System
begin

text \<open>
  The shape of the state and of the answers: the per-CPU buffer, the cache and the audit log stay
  well formed through every sequence of calls, and a hook answers 0, \<open>-EPERM\<close> or \<open>-EACCES\<close>. And what
  eventually happens: a pending enrollment takes effect at its process's next file open or exec.
\<close>

section \<open>Well-formed states\<close>

definition wf_event :: "audit_event \<Rightarrow> bool" where
  "wf_event e =
     (ae_decision e = AUDIT_DECISION_DENY \<and> ae_pod_id e \<noteq> 0 \<and>
      (ae_hook_type e = AUDIT_HOOK_FILE_OPEN \<or> ae_hook_type e = AUDIT_HOOK_SOCKET_BIND \<or>
       ae_hook_type e = AUDIT_HOOK_SOCKET_CONNECT \<or> ae_hook_type e = AUDIT_HOOK_BPRM_CHECK))"

definition wf_state :: "bpf_state \<Rightarrow> bool" where
  "wf_state s \<longleftrightarrow>
     buf_ready s \<and>
     (\<forall>key c. path_decision_cache s key = Some c \<longrightarrow> pcv_decision c = 0 \<or> pcv_decision c = 1) \<and>
     (\<forall>e \<in> set (audit_events s). wf_event e)"

lemma wf_state_cong:
  "path_buf s' = path_buf s \<Longrightarrow> path_decision_cache s' = path_decision_cache s \<Longrightarrow>
   audit_events s' = audit_events s \<Longrightarrow> wf_state s' \<longleftrightarrow> wf_state s"
  by (simp add: wf_state_def buf_ready_def)

lemma wf_emit:
  assumes "wf_state s" and "pod \<noteq> 0"
    and "ht = AUDIT_HOOK_FILE_OPEN \<or> ht = AUDIT_HOOK_SOCKET_BIND \<or> ht = AUDIT_HOOK_SOCKET_CONNECT \<or> ht = AUDIT_HOOK_BPRM_CHECK"
  shows "wf_state (emit_audit_event k pid role pod AUDIT_DECISION_DENY ht c s)"
  using assms by (auto simp: wf_state_def buf_ready_def emit_audit_event_def wf_event_def)

lemma wf_migrated: "wf_state (migrated k s) \<longleftrightarrow> wf_state s"
  by (rule wf_state_cong) simp_all

lemma wf_collected:
  assumes "wf_state s" and "path_buf s 0 = Some buf"
  shows "wf_state (s\<lparr>path_buf := (path_buf s)(0 \<mapsto> snd (collect_path_components k d v root buf))\<rparr>)"
proof -
  have buf: "wf_components buf" using assms by (auto simp: wf_state_def buf_ready_def)
  have "wf_components (snd (collect_path_components k d v root buf))" by (rule view_collect(3) [OF buf buf])
  then show ?thesis using assms(1) by (simp add: wf_state_def buf_ready_def)
qed

lemma wf_cache_update:
  "wf_state s \<Longrightarrow> pcv_decision c = 0 \<or> pcv_decision c = 1 \<Longrightarrow> wf_state (cache_update k key c s)"
  by (auto simp: wf_state_def buf_ready_def cache_update_def)

text \<open>What a hook gives back.\<close>

definition wf_answer :: "int \<times> bpf_state \<Rightarrow> bool" where
  "wf_answer r \<longleftrightarrow> (fst r = 0 \<or> fst r = - 1 \<or> fst r = - 13) \<and> wf_state (snd r)"

lemma wf_file_deny: "wf_state s \<Longrightarrow> pi_pod_id info \<noteq> 0 \<Longrightarrow> wf_answer (file_deny k pid info c s)"
  by (simp add: wf_answer_def file_deny_def wf_emit)

lemma wf_file_role_default: "wf_state s \<Longrightarrow> pi_pod_id info \<noteq> 0 \<Longrightarrow> wf_answer (file_role_default k pid info flags s)"
  by (auto simp: file_role_default_def wf_file_deny) (simp add: wf_answer_def)

lemma wf_file_walk:
  assumes "wf_state s" and "pi_pod_id info \<noteq> 0" and "path_buf s 0 = Some buf"
  shows "wf_answer (file_walk k pid info flags key d v i root gen buf s)"
proof -
  let ?s = "s\<lparr>path_buf := (path_buf s)(0 \<mapsto> snd (collect_path_components k d v root buf))\<rparr>"
  have s: "wf_state ?s" using assms(1,3) by (rule wf_collected)
  let ?t = "if i \<noteq> 0 then cache_update k key \<lparr>pcv_decision = (if r = 1 then 1 else 0), pcv_generation = gen\<rparr> ?s else ?s"
  have t: "wf_state (if i \<noteq> 0 then cache_update k key \<lparr>pcv_decision = (if r = 1 then 1 else 0), pcv_generation = gen\<rparr> ?s else ?s)"
    for r :: int using s by (simp add: wf_cache_update)
  show ?thesis
    using wf_file_role_default [OF s assms(2)] wf_file_deny [OF t assms(2)] t
    unfolding file_walk_def Let_def by (simp add: wf_answer_def)
qed

lemma wf_file_open: "wf_state s \<Longrightarrow> wf_answer (file_open k file s)"
  unfolding file_open_def Let_def migrated_def [symmetric] file_decide_def
  by (auto simp: wf_file_deny wf_file_role_default wf_file_walk wf_migrated wf_answer_def [of "(0, _)"] split: option.split)

lemma wf_exec_deny: "wf_state s \<Longrightarrow> pi_pod_id info \<noteq> 0 \<Longrightarrow> wf_answer (exec_deny k pid info s)"
  by (simp add: wf_answer_def exec_deny_def wf_emit)

lemma wf_exec_role_default: "wf_state s \<Longrightarrow> pi_pod_id info \<noteq> 0 \<Longrightarrow> wf_answer (exec_role_default k pid info flags s)"
  by (auto simp: exec_role_default_def wf_exec_deny) (simp add: wf_answer_def)

lemma wf_exec_decide:
  assumes "wf_state s" and "pi_pod_id info \<noteq> 0"
  shows "wf_answer (exec_decide k pid info was_enrolled bprm s)"
  using assms wf_exec_deny [OF wf_collected [OF assms(1)] assms(2)] wf_exec_role_default [OF wf_collected [OF assms(1)] assms(2)]
  unfolding exec_decide_def Let_def
  by (auto simp: wf_exec_deny wf_exec_role_default wf_collected wf_answer_def [of "(0, _)"] split: option.split)

lemma wf_created: "wf_state (created k s) \<longleftrightarrow> wf_state s"
  by (rule wf_state_cong)
    (auto simp: created_def task_storage_get_create_def split: option.split)

lemma wf_auto_enroll: "wf_state (auto_enroll t e s) \<longleftrightarrow> wf_state s"
  by (rule wf_state_cong) simp_all

lemma wf_bprm:
  assumes "wf_state s"
  shows "wf_answer (bprm_check_security k bprm s)"
proof (cases rule: bprm_cases [of k s bprm])
  case (decide info)
  then show ?thesis using assms by (simp add: wf_exec_decide wf_migrated)
next
  case (enroll e)
  then show ?thesis using assms by (simp add: wf_answer_def wf_auto_enroll wf_created)
next
  case (skip s')
  then show ?thesis using assms by (auto simp: wf_answer_def wf_created wf_migrated)
qed

lemma wf_net_deny:
  "wf_state s \<Longrightarrow> pi_pod_id info \<noteq> 0 \<Longrightarrow> ht = AUDIT_HOOK_SOCKET_BIND \<or> ht = AUDIT_HOOK_SOCKET_CONNECT \<Longrightarrow>
   wf_answer (net_deny k pid info ht c s)"
  by (auto simp: wf_answer_def net_deny_def intro!: wf_emit)

lemma wf_sockets:
  assumes "wf_state s"
  shows "wf_answer (socket_bind k sock address s)" "wf_answer (socket_connect k sock address s)"
    "wf_answer (socket_sendmsg k sock msg s)"
  unfolding socket_bind_def socket_connect_def connect_decide_def socket_sendmsg_def Let_def split_beta
  using assms by (auto simp: wf_net_deny wf_answer_def [of "(0, _)"] split: option.split)

lemma wf_guards:
  assumes "wf_state s"
  shows "wf_answer (ptrace_access_check k child s)" "wf_answer (kernel_module_request k name s)"
    "wf_answer (bpf_hook k cmd s)"
  using assms
  by (auto simp: ptrace_access_check_def kernel_module_request_def bpf_hook_def guard_deny_def Let_def wf_answer_def
      intro!: wf_emit split: option.split)

lemma wf_bump: "wf_state (bump_generation s) \<longleftrightarrow> wf_state s"
  by (rule wf_state_cong) (auto simp: bump_generation_def split: option.split)

lemma wf_task_alloc: "wf_state s \<Longrightarrow> wf_answer (task_alloc k task s)"
proof -
  assume s: "wf_state s"
  have "wf_state (snd (task_alloc k task s)) \<longleftrightarrow> wf_state s"
    by (rule wf_state_cong)
      (auto simp: task_alloc_def task_storage_get_create_def set_info_def Let_def split: option.split)
  then show ?thesis using s by (simp add: wf_answer_def)
qed

lemma wf_run_hook: "wf_state s \<Longrightarrow> wf_answer (run_hook k c s)"
  by (cases c)
    (auto simp: wf_file_open wf_bprm wf_sockets wf_guards wf_task_alloc path_rename_def sb_mount_def sb_umount_def
      wf_answer_def [of "(0, _)"] wf_bump)

section \<open>What becomes of a pending enrollment\<close>

text \<open>The calls that look for one.\<close>

fun consumes_pending :: "hook_call \<Rightarrow> bool" where
  "consumes_pending (FileOpen f) = True"
| "consumes_pending (BprmCheck b) = True"
| "consumes_pending c = False"

lemma pending_created: "pending_enrollments (created k s) = pending_enrollments (migrated k s)"
  by (auto simp: created_def task_storage_get_create_def split: option.split)

lemma pending_bprm: "pending_enrollments (snd (bprm_check_security k b s)) = pending_enrollments (migrated k s)"
proof (cases rule: bprm_cases [of k s b])
  case (decide info)
  then show ?thesis
    by (simp add: exec_decide_def exec_role_default_def exec_deny_def emit_audit_event_def Let_def split: option.split)
next
  case (enroll e)
  then show ?thesis by (simp add: pending_created)
next
  case (skip s')
  then show ?thesis by (auto simp: pending_created)
qed

lemma pending_other:
  assumes "\<not> consumes_pending c"
  shows "pending_enrollments (snd (run_hook k c s)) = pending_enrollments s"
  using assms
  by (cases c)
    (auto simp: task_alloc_def task_storage_get_create_def set_info_def socket_bind_def socket_connect_def
      connect_decide_def net_deny_def socket_sendmsg_def path_rename_def sb_mount_def sb_umount_def bump_generation_def
      ptrace_access_check_def kernel_module_request_def bpf_hook_def guard_deny_def emit_audit_event_def Let_def
      split_beta split: option.split)

lemma pending_migrated_other: "pid \<noteq> current_pid k \<Longrightarrow> pending_enrollments (migrated k s) pid = pending_enrollments s pid"
  by (auto simp: migrated_def check_pending_enrollment_def task_storage_get_create_def set_info_def Let_def split: option.split)

lemma pending_stays:
  assumes "current_pid k = pid \<longrightarrow> \<not> consumes_pending c"
  shows "pending_enrollments (snd (run_hook k c s)) pid = pending_enrollments s pid"
proof (cases "consumes_pending c")
  case True
  then have "pid \<noteq> current_pid k" using assms by auto
  then show ?thesis
    using True by (cases c) (simp_all add: file_open_pending pending_bprm pending_migrated_other)
qed (simp add: pending_other)

lemma pending_stays_run:
  assumes "\<forall>(k, c) \<in> set cs. current_pid k = pid \<longrightarrow> \<not> consumes_pending c"
  shows "pending_enrollments (snd (run_calls run_hook cs s)) pid = pending_enrollments s pid"
  using assms
proof (induction cs arbitrary: s)
  case (Cons call cs)
  obtain k c where "call = (k, c)" by (cases call)
  then show ?case using Cons by (simp add: split_beta pending_stays)
qed simp

lemma run_calls_snoc: "snd (run_calls h (cs @ [(k, c)]) s) = snd (h k c (snd (run_calls h cs s)))"
  by (induction cs arbitrary: s) (auto simp: split_beta)

lemma storage_bprm:
  assumes "enrolled (migrated k s) (k_task k)"
  shows "task_storage (snd (bprm_check_security k b s)) = task_storage (migrated k s)"
  by (cases rule: bprm_cases [of k s b]) (use assms exec_decide_frame in auto)

section \<open>Properties\<close>

text \<open>
  C25: The state stays well formed and the answers are the ones the kernel expects: through any
  sequence of calls the buffer keeps its size and count, every cached decision is 0 or 1, every
  event is a refusal of an enrolled task by a known hook, and every answer is 0, \<open>-EPERM\<close> or \<open>-EACCES\<close>.
\<close>

theorem hooks_well_typed:
  assumes "wf_state s"
  shows "wf_state (snd (run_calls run_hook cs s)) \<and>
    (\<forall>r \<in> set (fst (run_calls run_hook cs s)). r = 0 \<or> r = - 1 \<or> r = - 13)"
  using assms
proof (induction cs arbitrary: s)
  case (Cons call cs)
  obtain k c where "call = (k, c)" by (cases call)
  then show ?case
    using Cons.IH [of "snd (run_hook k c s)"] wf_run_hook [OF Cons.prems, of k c]
    by (auto simp: split_beta wf_answer_def)
qed simp

theorem hooks_well_typed_witness:
  "wf_state (snd (run_calls run_hook [(sample_env, FileOpen 0x60000), (sample_env, BpfCmd 5)] sample_state))"
proof -
  have "wf_state sample_state"
    by (simp add: wf_state_def buf_ready_def wf_components_def MAX_COMPONENTS_def)
  then show ?thesis
    using hooks_well_typed [of sample_state "[(sample_env, FileOpen 0x60000), (sample_env, BpfCmd 5)]"] by blast
qed

text \<open>
  A pending enrollment takes effect: whatever calls come before, the first file open or exec of
  the process it is for moves it into the entry of the calling task and takes it out of the map.
\<close>

theorem pending_takes_effect:
  assumes "pending_enrollments s pid = Some p" and "pi_pod_id p \<noteq> 0"
    and "\<forall>(k, c) \<in> set before. current_pid k = pid \<longrightarrow> \<not> consumes_pending c"
    and "current_pid k = pid" and "consumes_pending c" and "k_storage_alloc k (k_task k)"
  shows "task_storage (snd (run_calls run_hook (before @ [(k, c)]) s)) (k_task k) = Some p \<and>
    pending_enrollments (snd (run_calls run_hook (before @ [(k, c)]) s)) pid = None"
proof -
  define t where "t = snd (run_calls run_hook before s)"
  have t: "pending_enrollments t pid = Some p" using pending_stays_run [OF assms(3)] assms(1) by (simp add: t_def)
  then have m: "task_storage (migrated k t) (k_task k) = Some p" "pending_enrollments (migrated k t) pid = None"
    using assms(2,4,6) by (simp_all add: migrated_def pending_storage pending_consumed)
  then have e: "enrolled (migrated k t) (k_task k)" using assms(2) by (simp add: enrolled_def)
  have "task_storage (snd (run_hook k c t)) (k_task k) = Some p \<and> pending_enrollments (snd (run_hook k c t)) pid = None"
    using assms(5) m by (cases c) (simp_all add: file_open_frame storage_bprm [OF e] file_open_pending pending_bprm)
  then show ?thesis by (simp add: run_calls_snoc t_def)
qed

theorem pending_takes_effect_witness:
  "task_storage (snd (run_calls run_hook [(sample_env, BpfCmd 5), (sample_env, FileOpen 0x60000)] sample_pending)) 0x10000 =
   Some \<lparr>pi_pod_id = 20, pi_role_id = 6, pi_stack_depth = 1, pi_flags = 0\<rparr>"
  using pending_takes_effect [of sample_pending 42 "\<lparr>pi_pod_id = 20, pi_role_id = 6, pi_stack_depth = 1, pi_flags = 0\<rparr>"
      "[(sample_env, BpfCmd 5)]" sample_env "FileOpen 0x60000"]
  by (simp add: sample_pending_def)

end
