(* ===== verification/Daemon_Properties.thy ===== *)
theory Daemon_Properties
  imports Daemon Hook_Typing
begin

text \<open>
  What the daemon promises: every request is answered; every jailed task runs under a role the
  daemon knows, with the flag byte of its current definition; an enrollment that was answered with
  success takes effect; the daemon and the bootstrap load the same maps. And where it promises less
  than one may expect.
\<close>

section \<open>The writes in closed form\<close>

lemma tracker_network_rows:
  "tracker_network_rules role_id rs s = s\<lparr>network_rules := net_rows role_id rs (network_rules s)\<rparr>"
proof -
  have "tracker_network_rules role_id rs s = snd (apply_network_rules role_id rs skipped s)" for skipped
    by (induction rs arbitrary: skipped s) (auto split: option.split)
  then show ?thesis by (simp add: apply_network_rules_rows)
qed

lemma install_role_state:
  assumes "install_role role_id r s = Some (res, s')"
  shows "s' = s\<lparr>role_flags := (role_flags s)(role_id \<mapsto> policy_flags_to_u8 (rl_flags r)),
    network_rules := net_rows role_id (rl_network_rules r) (network_rules s),
    path_states := (case path_state_entries_for_role role_id (rules_of_paths (rl_file_paths r)) of
      Some (Inr rows) \<Rightarrow> write_rows rows (path_states s) | _ \<Rightarrow> path_states s)\<rparr>"
  using assms
  by (auto simp: install_role_def tracker_path_rules_def tracker_network_rows set_role_policy_def write_states_def
      write_rows_def split: option.splits sum.splits if_splits)

lemma install_role_returns: "\<exists>res s'. install_role role_id r s = Some (res, s')"
  by (rule role_outcome [of role_id "rules_of_paths (rl_file_paths r)"])
    (simp_all add: install_role_def tracker_path_rules_def)

lemma install_role_writes:
  assumes "install_role role_id r s = Some (res, s')"
  shows "role_writes role_id s s'"
proof -
  have "own_entries psk_role_id role_id t (case path_state_entries_for_role role_id rules of
      Some (Inr rows) \<Rightarrow> write_rows rows t | _ \<Rightarrow> t)" for t rules
    using entries_own_role own_entries_write_rows
    by (auto simp: own_entries_def split: option.split sum.split)
  then show ?thesis
    by (simp add: install_role_state [OF assms] role_writes_def) (simp add: own_entries_def net_rows_def)
qed

section \<open>Every request is answered\<close>

lemma enroll_by_path_returns: "\<exists>res d'. enroll_by_path add de path pod role_id d = Some (res, d')"
proof (cases "d_role_map d role_id")
  case (Some r)
  obtain res s where "install_role role_id r (d_maps d) = Some (res, s)" using install_role_returns by blast
  then show ?thesis using Some by (cases res) (auto simp: enroll_by_path_def split: option.split)
qed (auto simp: enroll_by_path_def split: option.split)

lemma enroll_all_returns:
  assumes "\<And>path pod role_id d. \<exists>res d'. enroll path pod role_id d = Some (res, d')"
  shows "\<exists>d'. enroll_all enroll es d = Some d'"
proof (induction es arbitrary: d)
  case (Cons e es)
  obtain path pod role_id where e: "e = (path, pod, role_id)" by (cases e)
  obtain res d' where "enroll path pod role_id d = Some (res, d')" using assms by blast
  then show ?case using Cons e by simp
qed simp

lemma apply_roles_returns: "\<exists>s'. apply_roles de rs s = Some s'"
proof (induction rs arbitrary: s)
  case (Cons r rs)
  obtain res s' where "apply_role (de_resolve de) r s = Some (res, s')" by (rule apply_role_total)
  then show ?case using Cons by simp
qed simp

lemmas enroll_path_defs = enroll_by_executable_path_def enroll_by_cgroup_path_def

text \<open>The request handler, operation by operation.\<close>

lemma handle_returns: "\<exists>resp d'. handle_request de pid req d = Some (resp, d')"
proof (cases req)
  case (Enroll pod role_id)
  show ?thesis
  proof (cases "d_role_map d role_id")
    case (Some r)
    obtain res s where "install_role role_id r (d_maps d) = Some (res, s)" using install_role_returns by blast
    then show ?thesis using Enroll Some by (simp add: handle_enroll_def)
  qed (simp add: Enroll handle_enroll_def)
next
  case (Define_role r)
  obtain res s where "apply_role (de_resolve de) r (d_maps d) = Some (res, s)" by (rule apply_role_total)
  then show ?thesis
    using Define_role by (cases res) (auto simp: handle_define_role_def define_role_def Let_def)
next
  case (Enroll_executable path pod role_id)
  then show ?thesis using enroll_by_path_returns [of _ de path pod role_id d] by (fastforce simp: enroll_path_defs)
next
  case (Enroll_cgroup path pod role_id)
  then show ?thesis using enroll_by_path_returns [of _ de path pod role_id d] by (fastforce simp: enroll_path_defs)
qed (simp_all add: map_prod_def split_beta)

section \<open>The life of the daemon\<close>

text \<open>Where the entry of an enrolled task can come from.\<close>

lemma hook_entry_source:
  assumes "task_storage (snd (run_hook k c s)) t = Some info" and "pi_pod_id info \<noteq> 0"
  shows "(\<exists>t'. task_storage s t' = Some info) \<or> (\<exists>pid. pending_enrollments s pid = Some info) \<or>
    (\<exists>i e. (exec_enrollment s i = Some e \<or> cgroup_enrollment s i = Some e) \<and> pi_role_id info = eev_role_id e)"
proof -
  have migr: ?thesis if "task_storage (migrated k s) t' = Some info" for t'
    using that by (auto simp: migrated_def pending_storage split: option.splits if_splits)
  show ?thesis
  proof (cases c)
    case (TaskAlloc child)
    then show ?thesis
      using assms task_alloc_storage [of child k s] task_alloc_other [of t child k s]
      by (auto simp: task_alloc_def task_storage_get_create_def set_info_def zero_info_def
          split: option.splits if_splits)
  next
    case (FileOpen f)
    then show ?thesis using assms migr [of t] by (simp add: file_open_frame)
  next
    case (BprmCheck b)
    show ?thesis
    proof (cases rule: bprm_cases [of k s b])
      case (decide i)
      then show ?thesis using assms BprmCheck migr [of t] exec_decide_frame by simp
    next
      case (enroll e)
      show ?thesis
      proof (cases "t = k_task k")
        case True
        then have "pi_role_id info = eev_role_id e" using assms(1) BprmCheck enroll(2) by auto
        then show ?thesis using enroll(3) by metis
      next
        case False
        then show ?thesis using assms BprmCheck enroll(2) migr [of t] by (simp add: created_storage)
      qed
    next
      case (skip s')
      have "task_storage (created k s) t = Some info \<Longrightarrow> task_storage (migrated k s) t = Some info"
        using assms(2) by (auto simp: created_def task_storage_get_create_def split: option.splits if_splits)
      then show ?thesis using assms BprmCheck skip(2,3) migr [of t] by auto
    qed
  qed (use assms in \<open>auto simp: socket_bind_def socket_connect_def connect_decide_def net_deny_def socket_sendmsg_def
      path_rename_def sb_mount_def sb_umount_def bump_generation_def ptrace_access_check_def kernel_module_request_def
      bpf_hook_def guard_deny_def emit_audit_event_def Let_def split_beta split: option.splits if_splits\<close>)
qed

lemma hook_pending_source:
  "pending_enrollments (snd (run_hook k c s)) pid = Some p \<Longrightarrow> pending_enrollments s pid = Some p"
proof -
  have migr: "pending_enrollments (migrated k s) pid = Some p \<Longrightarrow> pending_enrollments s pid = Some p"
    by (auto simp: migrated_def pending_consumed split: option.splits if_splits)
  assume "pending_enrollments (snd (run_hook k c s)) pid = Some p"
  then show ?thesis
    using migr pending_other [of c k s] by (cases c) (auto simp: file_open_pending pending_bprm)
qed

text \<open>
  The registry is in force: roles are filed under their ids, with their flag bytes in the map. And
  every role that an entry names is known.
\<close>

definition roles_in_force :: "(u32 \<rightharpoonup> role) \<Rightarrow> bpf_state \<Rightarrow> bool" where
  "roles_in_force m s \<longleftrightarrow>
     (\<forall>role_id r. m role_id = Some r \<longrightarrow>
        rl_id r = role_id \<and> role_flags s role_id = Some (policy_flags_to_u8 (rl_flags r)))"

definition roles_known :: "(u32 \<rightharpoonup> role) \<Rightarrow> bpf_state \<Rightarrow> bool" where
  "roles_known m s \<longleftrightarrow>
     (\<forall>t info. task_storage s t = Some info \<and> pi_pod_id info \<noteq> 0 \<longrightarrow> pi_role_id info \<in> dom m) \<and>
     (\<forall>pid p. pending_enrollments s pid = Some p \<longrightarrow> pi_role_id p \<in> dom m) \<and>
     (\<forall>i e. exec_enrollment s i = Some e \<or> cgroup_enrollment s i = Some e \<longrightarrow> eev_role_id e \<in> dom m)"

definition jail_sound :: "daemon \<Rightarrow> bool" where
  "jail_sound d \<longleftrightarrow> roles_in_force (d_role_map d) (d_maps d) \<and> roles_known (d_role_map d) (d_maps d)"

lemma roles_known_sub:
  "roles_known m s \<Longrightarrow> task_storage s' = task_storage s \<Longrightarrow> pending_enrollments s' = pending_enrollments s \<Longrightarrow>
   exec_enrollment s' \<subseteq>\<^sub>m exec_enrollment s \<Longrightarrow> cgroup_enrollment s' \<subseteq>\<^sub>m cgroup_enrollment s \<Longrightarrow> roles_known m s'"
  unfolding roles_known_def map_le_def by (metis domI)

lemma roles_known_cong:
  "task_storage s' = task_storage s \<Longrightarrow> pending_enrollments s' = pending_enrollments s \<Longrightarrow>
   exec_enrollment s' = exec_enrollment s \<Longrightarrow> cgroup_enrollment s' = cgroup_enrollment s \<Longrightarrow>
   roles_known m s' \<longleftrightarrow> roles_known m s"
  by (simp add: roles_known_def)

lemma roles_known_mono: "roles_known m s \<Longrightarrow> dom m \<subseteq> dom m' \<Longrightarrow> roles_known m' s"
  unfolding roles_known_def by blast

lemma known_hook:
  assumes "roles_known m s"
  shows "roles_known m (snd (run_hook k c s))"
proof -
  note known = assms [unfolded roles_known_def]
  have "pi_role_id info \<in> dom m"
    if "task_storage (snd (run_hook k c s)) t = Some info" "pi_pod_id info \<noteq> 0" for t info
    using hook_entry_source [OF that] known that(2) by metis
  moreover have "exec_enrollment (snd (run_hook k c s)) = exec_enrollment s"
      "cgroup_enrollment (snd (run_hook k c s)) = cgroup_enrollment s"
    using hooks.policy [of s k c] by (simp_all add: same_policy_def)
  ultimately show ?thesis
    using known hook_pending_source unfolding roles_known_def by metis
qed

lemma sound_hook: "jail_sound d \<Longrightarrow> jail_sound (d\<lparr>d_maps := snd (run_hook k c (d_maps d))\<rparr>)"
  using hooks.policy [of "d_maps d" k c] known_hook
  by (simp add: jail_sound_def roles_in_force_def same_policy_def)

lemma sound_install:
  assumes "jail_sound d" and "d_role_map d role_id = Some r" and "install_role role_id r (d_maps d) = Some (res, s)"
  shows "jail_sound (d\<lparr>d_maps := s\<rparr>)"
proof -
  have "roles_known (d_role_map d) s = roles_known (d_role_map d) (d_maps d)"
    by (rule roles_known_cong) (simp_all add: install_role_state [OF assms(3)])
  then show ?thesis
    using assms(1,2) by (auto simp: jail_sound_def roles_in_force_def install_role_state [OF assms(3)])
qed

lemma sound_add:
  assumes "jail_sound (d\<lparr>d_maps := s\<rparr>)" and "d_role_map d role_id = Some r"
  shows "jail_sound (d\<lparr>d_maps := add_exec_enrollment inode pod role_id s\<rparr>)"
    "jail_sound (d\<lparr>d_maps := add_cgroup_enrollment inode pod role_id s\<rparr>)"
    "jail_sound (d\<lparr>d_maps := enroll_pending_process pid pod role_id s\<rparr>)"
  using assms
  by (auto simp: jail_sound_def roles_in_force_def roles_known_def add_exec_enrollment_def add_cgroup_enrollment_def
      enroll_pending_process_def split: if_splits)

lemma sound_enroll_by_path:
  assumes "jail_sound d" and "enroll_by_path add de path pod role_id d = Some (res, d')"
    and "add = add_exec_enrollment \<or> add = add_cgroup_enrollment"
  shows "jail_sound d' \<and> d_role_map d' = d_role_map d \<and> d_config d' = d_config d"
  using assms sound_install [OF assms(1)] sound_add
  by (auto simp: enroll_by_path_def split: option.splits sum.splits)

lemma sound_remove_by_path:
  assumes "jail_sound d" and "remove = remove_exec_enrollment \<or> remove = remove_cgroup_enrollment"
  shows "jail_sound (snd (remove_by_path remove de path d))"
  using assms
  by (auto simp: remove_by_path_def remove_exec_enrollment_def remove_cgroup_enrollment_def jail_sound_def
      roles_in_force_def map_le_def Let_def split_beta split: option.splits if_splits intro: roles_known_sub)

lemma sound_apply_role:
  assumes "jail_sound d" and "apply_role resolve r (d_maps d) = Some (res, s)"
  shows "jail_sound (define_role r d\<lparr>d_maps := s\<rparr>)"
proof -
  note fields = apply_role_fields(1) [OF assms(2)]
    and writes = apply_role_fields(6) [OF assms(2), unfolded role_writes_def]
  have "roles_known (d_role_map d) s = roles_known (d_role_map d) (d_maps d)"
    by (rule roles_known_cong) (use writes in simp_all)
  then have "roles_known ((d_role_map d)(rl_id r \<mapsto> r)) s"
    using assms(1) by (auto simp: jail_sound_def intro: roles_known_mono)
  then show ?thesis
    using assms(1) fields by (auto simp: jail_sound_def define_role_def roles_in_force_def)
qed

lemma sound_request:
  assumes "jail_sound d" and "handle_request de pid req d = Some (resp, d')"
  shows "jail_sound d'"
proof (cases req)
  case (Enroll pod role_id)
  then show ?thesis
    using assms sound_install [OF assms(1)] sound_add by (auto simp: handle_enroll_def split: option.splits)
next
  case (Define_role r)
  then show ?thesis
    using assms sound_apply_role [OF assms(1), of "de_resolve de" r]
    by (auto simp: handle_define_role_def define_role_def Let_def split: option.splits sum.splits if_splits)
next
  case (Enroll_executable path pod role_id)
  then show ?thesis using assms sound_enroll_by_path [OF assms(1)] by (auto simp: enroll_path_defs)
next
  case (Enroll_cgroup path pod role_id)
  then show ?thesis using assms sound_enroll_by_path [OF assms(1)] by (auto simp: enroll_path_defs)
next
  case (Remove_executable path)
  then show ?thesis using assms sound_remove_by_path [OF assms(1)] by (metis handle_request.simps(4) option.inject snd_conv snd_map_prod id_apply)
next
  case (Remove_cgroup path)
  then show ?thesis using assms sound_remove_by_path [OF assms(1)] by (metis handle_request.simps(7) option.inject snd_conv snd_map_prod id_apply)
next
  case (Set_xattr path pod role_id)
  then show ?thesis
    using assms by (auto simp: set_xattr_enrollment_def jail_sound_def Let_def split: if_splits)
next
  case (Remove_xattr path)
  then show ?thesis using assms by (auto simp: remove_xattr_enrollment_def jail_sound_def)
qed (use assms in auto)

text \<open>The start: the roles are applied in the order they are filed in.\<close>

lemma apply_roles_fields:
  assumes "apply_roles de rs s = Some s'"
  shows "role_flags s' = foldl (\<lambda>m r. m(rl_id r \<mapsto> policy_flags_to_u8 (rl_flags r))) (role_flags s) rs"
    "task_storage s' = task_storage s" "pending_enrollments s' = pending_enrollments s"
    "exec_enrollment s' = exec_enrollment s" "cgroup_enrollment s' = cgroup_enrollment s"
proof -
  have "role_flags s' = foldl (\<lambda>m r. m(rl_id r \<mapsto> policy_flags_to_u8 (rl_flags r))) (role_flags s) rs \<and>
      task_storage s' = task_storage s \<and> pending_enrollments s' = pending_enrollments s \<and>
      exec_enrollment s' = exec_enrollment s \<and> cgroup_enrollment s' = cgroup_enrollment s"
    using assms
  proof (induction rs arbitrary: s)
    case (Cons r rs)
    obtain res t where t: "apply_role (de_resolve de) r s = Some (res, t)" by (rule apply_role_total)
    then show ?case
      using Cons apply_role_fields(1) [OF t] apply_role_fields(6) [OF t] by (simp add: role_writes_def)
  qed simp
  then show "role_flags s' = foldl (\<lambda>m r. m(rl_id r \<mapsto> policy_flags_to_u8 (rl_flags r))) (role_flags s) rs"
    "task_storage s' = task_storage s" "pending_enrollments s' = pending_enrollments s"
    "exec_enrollment s' = exec_enrollment s" "cgroup_enrollment s' = cgroup_enrollment s" by simp_all
qed

lemma index_in_force:
  assumes "\<forall>role_id r. m role_id = Some r \<longrightarrow> rl_id r = role_id \<and> f role_id = Some (policy_flags_to_u8 (rl_flags r))"
  shows "\<forall>role_id r. foldl (\<lambda>m r. m(rl_id r \<mapsto> r)) m rs role_id = Some r \<longrightarrow>
    rl_id r = role_id \<and>
    foldl (\<lambda>m r. m(rl_id r \<mapsto> policy_flags_to_u8 (rl_flags r))) f rs role_id = Some (policy_flags_to_u8 (rl_flags r))"
  using assms
proof (induction rs arbitrary: m f)
  case (Cons r rs)
  show ?case using Cons.prems by (simp only: foldl.simps) (rule Cons.IH, auto)
qed simp

lemma new_manager_fields [simp]:
  "d_maps (new_manager s xattrs) = s"
  "d_role_map (new_manager s xattrs) = index_roles (map snd (pol_roles (d_config (new_manager s xattrs))))"
  by (simp_all add: new_manager_def index_roles_def restricted_role_def permissive_role_def builtin_role_def)

lemma daemon_policy_fields:
  "d_maps (daemon_policy policy (new_manager s xattrs)) = s"
  "d_role_map (daemon_policy policy (new_manager s xattrs)) =
     index_roles (map snd (pol_roles (d_config (daemon_policy policy (new_manager s xattrs)))))"
  by (auto simp: daemon_policy_def load_config_def split: option.split sum.split)

lemma sound_enroll_all:
  assumes "enroll_all (enroll_by_path add de) es d = Some d'" and "jail_sound d"
    and "add = add_exec_enrollment \<or> add = add_cgroup_enrollment"
  shows "jail_sound d' \<and> d_config d' = d_config d"
  using assms
proof (induction es arbitrary: d)
  case (Cons e es)
  obtain path pod role_id where e: "e = (path, pod, role_id)" by (cases e)
  obtain res d1 where d1: "enroll_by_path add de path pod role_id d = Some (res, d1)"
    using enroll_by_path_returns by blast
  then show ?case using Cons e sound_enroll_by_path [OF Cons.prems(2) d1] by auto
qed simp

text \<open>Maps as they are when the object has been loaded: nobody is enrolled or about to be.\<close>

definition nobody_enrolled :: "bpf_state \<Rightarrow> bool" where
  "nobody_enrolled s \<longleftrightarrow>
     (\<forall>t info. task_storage s t = Some info \<longrightarrow> pi_pod_id info = 0) \<and>
     pending_enrollments s = Map.empty \<and> exec_enrollment s = Map.empty \<and> cgroup_enrollment s = Map.empty"

lemma startup_invalidation_keeps [simp]:
  "task_storage (startup_invalidation c s) = task_storage s"
  "pending_enrollments (startup_invalidation c s) = pending_enrollments s"
  "exec_enrollment (startup_invalidation c s) = exec_enrollment s"
  "cgroup_enrollment (startup_invalidation c s) = cgroup_enrollment s"
  by (simp_all add: startup_invalidation_def invalidate_cache_def split: option.split)

lemma sound_start:
  assumes "start_daemon de policy xattrs s = Some d" and "nobody_enrolled s"
  shows "jail_sound d"
proof -
  let ?d = "daemon_policy policy (new_manager s xattrs)"
  obtain s1 where s1: "apply_roles de (map snd (pol_roles (d_config ?d))) (startup_invalidation (d_config ?d) s) = Some s1"
      "load_from_policy de (?d\<lparr>d_maps := s1\<rparr>) = Some d"
    using assms(1) by (auto simp: start_daemon_def Let_def daemon_policy_fields split: option.splits)
  note fields = apply_roles_fields [OF s1(1)]
  have "roles_in_force (d_role_map ?d) s1"
    unfolding roles_in_force_def daemon_policy_fields(2) index_roles_def fields(1) by (rule index_in_force) simp
  moreover have "roles_known (d_role_map ?d) s1"
    using assms(2) fields by (auto simp: roles_known_def nobody_enrolled_def)
  ultimately have 1: "jail_sound (?d\<lparr>d_maps := s1\<rparr>)" by (simp add: jail_sound_def)
  obtain d1 where d1: "enroll_all (enroll_by_executable_path de)
        (resolved_enrollments (d_config ?d) (pol_exec_enrollments (d_config ?d))) (?d\<lparr>d_maps := s1\<rparr>) = Some d1"
      "enroll_all (enroll_by_cgroup_path de)
        (resolved_enrollments (d_config ?d) (pol_cgroup_enrollments (d_config ?d))) d1 = Some d"
    using s1(2) by (auto simp: load_from_policy_def split: option.splits)
  then have "jail_sound d1" using sound_enroll_all [OF _ 1] by (simp add: enroll_path_defs)
  then show ?thesis using sound_enroll_all [OF _ \<open>jail_sound d1\<close>] d1(2) by (simp add: enroll_path_defs)
qed

text \<open>Requests, hooks of the BPF programs and the exits of tasks, in any order.\<close>

inductive daemon_life :: "daemon \<Rightarrow> bool" where
  start: "start_daemon de policy xattrs s = Some d \<Longrightarrow> nobody_enrolled s \<Longrightarrow> daemon_life d"
| request: "daemon_life d \<Longrightarrow> handle_request de pid req d = Some (resp, d') \<Longrightarrow> daemon_life d'"
| hook: "daemon_life d \<Longrightarrow> daemon_life (d\<lparr>d_maps := snd (run_hook k c (d_maps d))\<rparr>)"
| exits: "daemon_life d \<Longrightarrow>
    daemon_life (d\<lparr>d_maps := (d_maps d)\<lparr>task_storage := (task_storage (d_maps d))(t := None)\<rparr>\<rparr>)"

lemma daemon_life_sound: "daemon_life d \<Longrightarrow> jail_sound d"
proof (induction rule: daemon_life.induct)
  case (exits d t)
  then show ?case by (simp add: jail_sound_def roles_in_force_def roles_known_def) blast
qed (blast intro: sound_start sound_request sound_hook)+

section \<open>Applying a role again\<close>

text \<open>A role is settled when its flags, port rules and file rules are in the maps as applying it leaves them.\<close>

definition settled :: "role \<Rightarrow> bpf_state \<Rightarrow> bool" where
  "settled r s \<longleftrightarrow>
     role_flags s (rl_id r) = Some (policy_flags_to_u8 (rl_flags r)) \<and>
     net_rows (rl_id r) (rl_network_rules r) (network_rules s) = network_rules s \<and>
     (\<forall>rows. path_state_entries_for_role (rl_id r) (rules_of_paths (rl_file_paths r)) = Some (Inr rows) \<longrightarrow>
        write_rows rows (path_states s) = path_states s)"

lemma write_rows_lookup:
  "write_rows rows t key = (case map_of (rev rows) key of Some v \<Rightarrow> Some v | None \<Rightarrow> t key)"
proof (induction rows rule: rev_induct)
  case (snoc row rows)
  obtain k v where "row = (k, v)" by (cases row)
  then show ?case using snoc by (auto simp: write_rows_def)
qed (simp add: write_rows_def)

lemma write_rows_again: "write_rows rows (write_rows rows t) = write_rows rows t"
  by (rule ext) (auto simp: write_rows_lookup split: option.split)

lemma net_rows_again: "net_rows role_id rs (net_rows role_id rs t) = net_rows role_id rs t"
  by (rule ext) (auto simp: net_rows_def split: option.split)

lemma settled_apply:
  assumes "apply_role resolve r s = Some (res, s')"
  shows "settled r s'"
  by (simp add: settled_def apply_role_fields(1,2,4) [OF assms] write_rows_again net_rows_again)

lemma settled_share:
  assumes "role_share (rl_id r) s = role_share (rl_id r) t" and "settled r t"
  shows "settled r s"
proof -
  have "net_rows (rl_id r) (rl_network_rules r) (network_rules s) key = network_rules s key" for key
  proof (cases "nrk_role_id key = rl_id r")
    case True
    then have "key = net_key (rl_id r) (nrk_port key) (nrk_protocol key) (nrk_direction key)" by (simp add: net_key_def)
    then have "network_rules s key = network_rules t key" using share_facts(4) [OF assms(1)] by metis
    moreover have "net_rows (rl_id r) (rl_network_rules r) (network_rules t) key = network_rules t key"
      using assms(2) by (simp add: settled_def)
    ultimately show ?thesis by (auto simp: net_rows_def split: option.splits)
  qed (simp add: net_rows_def)
  moreover have "write_rows rows (path_states s) key = path_states s key"
    if rows: "path_state_entries_for_role (rl_id r) (rules_of_paths (rl_file_paths r)) = Some (Inr rows)" for rows key
  proof (cases "map_of (rev rows) key")
    case (Some v)
    then have "psk_role_id key = rl_id r" using entries_own_role [OF rows] by (metis map_of_SomeD set_rev)
    then have "path_states s key = path_states t key" by (rule share_facts(2) [OF assms(1)])
    moreover have "write_rows rows (path_states t) key = path_states t key" using assms(2) rows by (simp add: settled_def)
    ultimately show ?thesis by (auto simp: write_rows_lookup split: option.splits)
  qed (simp add: write_rows_lookup)
  ultimately show ?thesis using share_facts(1) [OF assms(1)] assms(2) by (simp add: settled_def fun_eq_iff)
qed

lemma install_settled:
  assumes "settled r s" and "unenforced_settings r = []"
  shows "install_role (rl_id r) r s = Some (Inr (), s)"
proof -
  obtain rows where rows: "path_state_entries_for_role (rl_id r) (rules_of_paths (rl_file_paths r)) = Some (Inr rows)"
    using accepted_compiles [OF assms(2)] .
  have f: "(role_flags s)(rl_id r \<mapsto> policy_flags_to_u8 (rl_flags r)) = role_flags s"
    using assms(1) by (simp add: settled_def fun_upd_idem)
  show ?thesis
    using assms(1) rows f
    by (simp add: install_role_def tracker_path_rules_def tracker_network_rows set_role_policy_def write_states_def
        settled_def)
qed

section \<open>Two loaders, one result\<close>

lemma load_all_apply_roles:
  assumes "load_all (apply_role (de_resolve de)) rs s = Some (Inr u, s')"
  shows "apply_roles de rs s = Some s'"
  using assms by (induction rs arbitrary: s) (auto split: option.splits sum.splits)

lemma loaded_settled:
  assumes "load_all (apply_role resolve) rs s = Some (Inr u, s')" and "distinct (map rl_id rs)" and "r \<in> set rs"
  shows "settled r s'"
proof -
  obtain t y t' where "apply_role resolve r t = Some (Inr y, t')" "role_share (rl_id r) s' = role_share (rl_id r) t'"
    using roles.load_all_each [OF assms] by blast
  then show ?thesis using settled_apply settled_share by blast
qed

lemma index_roles_lookup:
  assumes "distinct (map rl_id rs)" and "r \<in> set rs"
  shows "index_roles rs (rl_id r) = Some r"
proof -
  have other: "q \<notin> rl_id ` set ps \<Longrightarrow> foldl (\<lambda>m r. m(rl_id r \<mapsto> r)) m ps q = m q" for ps q and m :: "u32 \<rightharpoonup> role"
    by (induction ps arbitrary: m) auto
  have "foldl (\<lambda>m r. m(rl_id r \<mapsto> r)) m rs (rl_id r) = Some r" for m
    using assms
  proof (induction rs arbitrary: m)
    case (Cons p ps)
    show ?case
    proof (cases "r = p")
      case True
      then show ?thesis
        using Cons.prems other [of "rl_id p" ps "m(rl_id p \<mapsto> p)"] by (simp del: fun_upd_apply add: fun_upd_same)
    next
      case False
      then show ?thesis using Cons by auto
    qed
  qed simp
  then show ?thesis by (simp add: index_roles_def)
qed

lemma enroll_settled:
  assumes "settled r s" and "unenforced_settings r = []" and "d_role_map d (rl_id r) = Some r"
  shows "enroll_by_path add de path pod (rl_id r) (d\<lparr>d_maps := s\<rparr>) =
    Some (case de_inode de path of
            None \<Rightarrow> (Inl (No_such_path path), d\<lparr>d_maps := s\<rparr>)
          | Some i \<Rightarrow> (Inr (), d\<lparr>d_maps := add i pod (rl_id r) s\<rparr>))"
  using assms(3) install_settled [OF assms(1,2)] by (simp add: enroll_by_path_def split: option.split)

text \<open>The enrollment lists: both loaders add the same entries, once every role is settled.\<close>

lemma resolved_enrollments_Cons:
  "resolved_enrollments config (e # es) =
    (case get_role config (en_role e) of
       None \<Rightarrow> resolved_enrollments config es
     | Some r \<Rightarrow> (en_path e, en_pod_id e, rl_id r) # resolved_enrollments config es)"
  by (simp add: resolved_enrollments_def split: option.split)

lemma exec_enrollments_agree:
  assumes "\<And>name r. get_role config name = Some r \<Longrightarrow>
      settled r s \<and> unenforced_settings r = [] \<and> d_role_map d (rl_id r) = Some r"
  shows "enroll_all (enroll_by_executable_path de) (resolved_enrollments config es) (d\<lparr>d_maps := s\<rparr>) =
    Some (d\<lparr>d_maps := load_exec_enrollments (de_inode de) config es s\<rparr>)"
  using assms
proof (induction es arbitrary: s)
  case (Cons e es)
  show ?case
  proof (cases "get_role config (en_role e)")
    case (Some r)
    have "settled q (add_exec_enrollment i pod rid s) = settled q s" for q i pod rid
      by (simp add: settled_def add_exec_enrollment_def)
    then show ?thesis
      using Cons Some enroll_settled [of r s d add_exec_enrollment de "en_path e" "en_pod_id e"]
      by (auto simp: resolved_enrollments_Cons enroll_by_executable_path_def enrollment_entry_def
          add_exec_enrollment_def split: option.splits)
  qed (use Cons in \<open>simp add: resolved_enrollments_Cons split: option.split\<close>)
qed (simp add: resolved_enrollments_def)

lemma cgroup_enrollments_agree:
  assumes "\<And>name r. get_role config name = Some r \<Longrightarrow>
      settled r s \<and> unenforced_settings r = [] \<and> d_role_map d (rl_id r) = Some r"
    and "load_cgroup_enrollments (de_inode de) config es s = (Inr u, s')"
  shows "enroll_all (enroll_by_cgroup_path de) (resolved_enrollments config es) (d\<lparr>d_maps := s\<rparr>) = Some (d\<lparr>d_maps := s'\<rparr>)"
  using assms
proof (induction es arbitrary: s)
  case (Cons e es)
  show ?case
  proof (cases "get_role config (en_role e)")
    case None
    then show ?thesis
      using Cons by (auto simp: resolved_enrollments_Cons check_enrollable_def split: option.splits if_splits)
  next
    case (Some r)
    have "settled q (add_cgroup_enrollment i pod rid s) = settled q s" for q i pod rid
      by (simp add: settled_def add_cgroup_enrollment_def)
    then show ?thesis
      using Cons Some enroll_settled [of r s d add_cgroup_enrollment de "en_path e" "en_pod_id e"]
      by (auto simp: resolved_enrollments_Cons enroll_by_cgroup_path_def enrollment_entry_def check_enrollable_def
          add_cgroup_enrollment_def split: option.splits if_splits)
  qed
qed (simp add: resolved_enrollments_def)

lemma not_refused: "\<forall>(name, r) \<in> set rs. unenforced_settings r = [] \<Longrightarrow> refused_role rs = None"
  by (induction rs rule: refused_role.induct) auto

lemma define_role_outcome:
  assumes "handle_request de pid (Define_role r) d = Some (resp, d')"
  shows "d_maps d' = d_maps d \<or> (\<exists>res. apply_role (de_resolve de) r (d_maps d) = Some (res, d_maps d'))"
  using assms
  by (auto simp: handle_define_role_def define_role_def Let_def split: option.splits sum.splits if_splits)

section \<open>A sample daemon\<close>

text \<open>The maps of a freshly loaded object, and the daemon started on them without a policy file.\<close>

definition fresh_maps :: bpf_state where
  "fresh_maps = \<lparr>task_storage = Map.empty, role_flags = Map.empty, network_rules = Map.empty,
     pending_enrollments = Map.empty, path_states = Map.empty, exec_states = Map.empty,
     path_decision_cache = Map.empty, cache_generation = [0 \<mapsto> 0], exec_enrollment = Map.empty,
     cgroup_enrollment = Map.empty, ip_rules = Map.empty, proxy_configs = Map.empty, domain_rules = Map.empty,
     dns_cache = Map.empty, audit_events = [],
     path_buf = [0 \<mapsto> \<lparr>pcs_hashes = replicate 16 0, pcs_count = 0, pcs_truncated = 0\<rparr>]\<rparr>"

definition sample_denv :: denv where
  "sample_denv = \<lparr>de_inode = (\<lambda>path. if path = bytes_of ''/sys/fs/cgroup'' then Some 1 else None),
     de_resolve = (\<lambda>_. []), de_task_of = (\<lambda>_. None), de_xattr_ok = (\<lambda>_ _. True)\<rparr>"

lemma nobody_enrolled_fresh: "nobody_enrolled fresh_maps"
  by (simp add: nobody_enrolled_def fresh_maps_def)

lemma fresh_share: "role_share q fresh_maps = blank_share"
  by (simp add: role_share_def blank_share_def fresh_maps_def)

lemma sample_daemon:
  obtains d where "start_daemon sample_denv None Map.empty fresh_maps = Some d" "daemon_life d"
    "d_role_map d 1 = Some restricted_role" "pending_enrollments (d_maps d) = Map.empty" "task_storage (d_maps d) = Map.empty"
    "cache_generation (d_maps d) 0 = Some 0"
proof -
  let ?d = "new_manager fresh_maps Map.empty"
  obtain s1 where s1: "apply_roles sample_denv (map snd (pol_roles (d_config ?d))) fresh_maps = Some s1"
    using apply_roles_returns by blast
  have "startup_invalidation (d_config ?d) fresh_maps = fresh_maps"
    by (simp add: startup_invalidation_def all_patterns_def new_manager_def restricted_role_def permissive_role_def builtin_role_def)
  then have "start_daemon sample_denv None Map.empty fresh_maps = Some (?d\<lparr>d_maps := s1\<rparr>)"
    using s1 by (simp add: start_daemon_def daemon_policy_def load_from_policy_def resolved_enrollments_def new_manager_def)
  moreover have "cache_generation s1 = cache_generation fresh_maps"
    using s1 by (auto simp: new_manager_def split: option.splits prod.splits
        dest!: apply_role_fields(6) simp: role_writes_def)
  ultimately show ?thesis
    using that [of "?d\<lparr>d_maps := s1\<rparr>"] daemon_life.start nobody_enrolled_fresh apply_roles_fields [OF s1]
    by (auto simp: fresh_maps_def new_manager_def)
qed

text \<open>A process that asks for the restricted role.\<close>

lemma sample_enroll:
  assumes "d_role_map d 1 = Some restricted_role"
  obtains d' where "handle_request sample_denv 42 (Enroll 9 1) d = Some (Success, d')"
    "pending_enrollments (d_maps d') 42 = Some \<lparr>pi_pod_id = 9, pi_role_id = 1, pi_stack_depth = 0, pi_flags = 0\<rparr>"
proof -
  obtain res s where "install_role 1 restricted_role (d_maps d) = Some (res, s)" using install_role_returns by blast
  then show ?thesis using assms that by (simp add: handle_enroll_def enroll_pending_process_def)
qed

section \<open>Properties\<close>

text \<open>
  Every request is answered, whatever the state of the daemon: the rule compilation, the only
  loop of the handler without a bound, ends.
\<close>

theorem requests_answered: "\<exists>resp d'. handle_request de pid req d = Some (resp, d')"
  by (rule handle_returns)



text \<open>
  The daemon and the bootstrap load the same: for a policy with distinct role ids that is not
  refused and that the bootstrap loads without error, the daemon starts with exactly the maps the
  bootstrap leaves, although every enrollment applies its role again. (The daemon bumps the cache
  generation first where the policy has path patterns.)
\<close>

theorem loaders_agree:
  assumes "populate_maps (de_resolve de) (de_inode de) config (startup_invalidation config s) = Some (Inr u, s')"
    and "distinct (map (rl_id \<circ> snd) (pol_roles config))"
    and "\<forall>(name, r) \<in> set (pol_roles config). unenforced_settings r = []"
  shows "\<exists>d. start_daemon de (Some config) xattrs s = Some d \<and> d_maps d = s'"
proof -
  let ?d = "(new_manager s xattrs)\<lparr>d_config := config, d_role_map := index_roles (map snd (pol_roles config))\<rparr>"
  have d: "daemon_policy (Some config) (new_manager s xattrs) = ?d"
    using not_refused [OF assms(3)] by (simp add: daemon_policy_def load_config_def)
  obtain v s1 where s1: "load_all (apply_role (de_resolve de)) (map snd (pol_roles config)) (startup_invalidation config s) = Some (Inr v, s1)"
      "load_cgroup_enrollments (de_inode de) config (pol_cgroup_enrollments config)
         (load_exec_enrollments (de_inode de) config (pol_exec_enrollments config) s1) = (Inr u, s')"
    using assms(1) by (auto simp: populate_maps_def split: option.splits sum.splits)
  let ?s2 = "load_exec_enrollments (de_inode de) config (pol_exec_enrollments config) s1"
  have dist: "distinct (map rl_id (map snd (pol_roles config)))" using assms(2) by simp
  have roles: "settled r s1 \<and> unenforced_settings r = [] \<and> d_role_map ?d (rl_id r) = Some r"
    if "get_role config name = Some r" for name r
  proof -
    have "(name, r) \<in> set (pol_roles config)" using that by (simp add: get_role_def map_of_SomeD)
    then have "r \<in> set (map snd (pol_roles config))" "unenforced_settings r = []" using assms(3) by force+
    then show ?thesis using loaded_settled [OF s1(1) dist] index_roles_lookup [OF dist] by simp
  qed
  have "settled r ?s2 = settled r s1" for r
  proof -
    have "role_share (rl_id r) ?s2 = role_share (rl_id r) s1" by (rule load_exec_keeps)
    then show ?thesis using settled_share by metis
  qed
  then have 2: "enroll_all (enroll_by_cgroup_path de) (resolved_enrollments config (pol_cgroup_enrollments config))
      (?d\<lparr>d_maps := ?s2\<rparr>) = Some (?d\<lparr>d_maps := s'\<rparr>)"
    using roles by (intro cgroup_enrollments_agree [OF _ s1(2)]) simp
  have "load_from_policy de (?d\<lparr>d_maps := s1\<rparr>) = Some (?d\<lparr>d_maps := s'\<rparr>)"
    using exec_enrollments_agree [OF roles, where es = "pol_exec_enrollments config"] 2 by (simp add: load_from_policy_def)
  then show ?thesis
    using load_all_apply_roles [OF s1(1)] d by (simp add: start_daemon_def)
qed

lemma sample_policy_accepted: "\<forall>(name, r) \<in> set (pol_roles sample_policy). unenforced_settings r = []"
  by (simp add: sample_policy_def) code_simp

theorem loaders_agree_witness:
  "\<exists>d u s'. populate_maps (\<lambda>_. []) (\<lambda>_. None) sample_policy (startup_invalidation sample_policy fresh_maps) = Some (Inr u, s') \<and>
     start_daemon (sample_denv\<lparr>de_inode := \<lambda>_. None\<rparr>) (Some sample_policy) Map.empty fresh_maps = Some d \<and> d_maps d = s'"
proof -
  let ?de = "sample_denv\<lparr>de_inode := \<lambda>_. None\<rparr>"
  obtain u s' where p: "populate_maps (\<lambda>_. []) (\<lambda>_. None) sample_policy (startup_invalidation sample_policy fresh_maps) = Some (Inr u, s')"
    using sample_policy_loads [of "\<lambda>_. None" "\<lambda>_. []"] by blast
  have "distinct (map (rl_id \<circ> snd) (pol_roles sample_policy))" by (simp add: sample_policy_def)
  with loaders_agree [of ?de sample_policy fresh_maps u s' Map.empty] sample_policy_accepted p
  show ?thesis by (auto simp: sample_denv_def)
qed

text \<open>
  C9: A process that asks to be enrolled is confined: where the daemon answers with success and the
  pod is not 0, the role is one the daemon knows, and after the process's next file open or exec its
  task is in the pod under the role, with the role's flag byte in force, whatever other calls come in
  between.
\<close>

theorem enroll_request_confines:
  assumes "handle_request de pid (Enroll pod role_id) d = Some (Success, d')" and "pod \<noteq> 0"
    and "\<forall>(k, c) \<in> set before. current_pid k = pid \<longrightarrow> \<not> consumes_pending c"
    and "current_pid k = pid" and "consumes_pending c" and "k_storage_alloc k (k_task k)"
  shows "\<exists>r. d_role_map d role_id = Some r \<and>
    task_storage (snd (run_calls run_hook (before @ [(k, c)]) (d_maps d'))) (k_task k) =
      Some \<lparr>pi_pod_id = pod, pi_role_id = role_id, pi_stack_depth = 0, pi_flags = 0\<rparr> \<and>
    role_flags (snd (run_calls run_hook (before @ [(k, c)]) (d_maps d'))) role_id = Some (policy_flags_to_u8 (rl_flags r))"
proof -
  obtain r res s where r: "d_role_map d role_id = Some r" "install_role role_id r (d_maps d) = Some (res, s)"
      "d_maps d' = enroll_pending_process pid pod role_id s"
    using assms(1) by (auto simp: handle_enroll_def split: option.splits)
  have "role_flags (d_maps d') role_id = Some (policy_flags_to_u8 (rl_flags r))"
    by (simp add: r(3) enroll_pending_process_def install_role_state [OF r(2)])
  moreover have "role_flags (snd (run_calls run_hook (before @ [(k, c)]) (d_maps d'))) = role_flags (d_maps d')"
    using hooks.run_policy [of "d_maps d'" "before @ [(k, c)]"] by (simp add: same_policy_def)
  moreover have "pending_enrollments (d_maps d') pid =
      Some \<lparr>pi_pod_id = pod, pi_role_id = role_id, pi_stack_depth = 0, pi_flags = 0\<rparr>"
    by (simp add: r(3) enroll_pending_process_def)
  ultimately show ?thesis
    using r(1) pending_takes_effect [OF _ _ assms(3-6)] assms(2) by simp
qed

theorem enroll_request_confines_witness:
  "\<exists>d d'. handle_request sample_denv 42 (Enroll 9 1) d = Some (Success, d') \<and>
     task_storage (snd (run_calls run_hook [(sample_env, BpfCmd 5), (sample_env, FileOpen 0x60000)] (d_maps d')))
       (k_task sample_env) = Some \<lparr>pi_pod_id = 9, pi_role_id = 1, pi_stack_depth = 0, pi_flags = 0\<rparr>"
proof -
  obtain d :: daemon where d: "d_role_map d 1 = Some restricted_role" using sample_daemon by blast
  obtain d' where d': "handle_request sample_denv 42 (Enroll 9 1) d = Some (Success, d')"
    using sample_enroll [OF d] by blast
  let ?s = "snd (run_calls run_hook ([(sample_env, BpfCmd 5)] @ [(sample_env, FileOpen 0x60000)]) (d_maps d'))"
  have "\<exists>r. d_role_map d 1 = Some r \<and>
      task_storage ?s (k_task sample_env) = Some \<lparr>pi_pod_id = 9, pi_role_id = 1, pi_stack_depth = 0, pi_flags = 0\<rparr> \<and>
      role_flags ?s 1 = Some (policy_flags_to_u8 (rl_flags r))"
    by (rule enroll_request_confines [OF d']) simp_all
  then show ?thesis using d' by (simp only: append.simps) blast
qed

text \<open>
  C28: Redefining a role does not reach decisions that are cached: after \<open>DefineRole\<close> a file with a
  cached decision is still answered by it, whatever the new definition says, since nothing bumps the
  generation.
\<close>

theorem cached_decision_survives_redefinition:
  assumes "handle_request de pid (Define_role r) d = Some (resp, d')"
    and "pending_enrollments (d_maps d) (current_pid k) = None"
    and "task_storage (d_maps d) (k_task k) = Some info" and "pi_pod_id info \<noteq> 0"
    and "role_flags (d_maps d) (pi_role_id info) = Some flags" and "f_path_dentry k f \<noteq> 0"
    and "d_inode k (f_path_dentry k f) \<noteq> 0" and "path_decision_cache (d_maps d) (open_key k f (pi_role_id info)) = Some cached"
    and "pcv_generation cached = current_generation (d_maps d)"
  shows "fst (file_open k f (d_maps d')) = (if pcv_decision cached \<noteq> 0 then 0 else - 13)"
proof -
  have frame: "pending_enrollments (d_maps d') = pending_enrollments (d_maps d)" "task_storage (d_maps d') = task_storage (d_maps d)"
      "cache_generation (d_maps d') = cache_generation (d_maps d)"
      "path_decision_cache (d_maps d') = path_decision_cache (d_maps d)"
      "\<exists>flags. role_flags (d_maps d') (pi_role_id info) = Some flags"
    using define_role_outcome [OF assms(1)] assms(5) apply_role_fields(1,6) [of "de_resolve de" r "d_maps d" _ "d_maps d'"]
    by (auto simp: role_writes_def)
  have "current_generation (d_maps d') = current_generation (d_maps d)"
    by (simp add: current_generation_def frame(3))
  then have "file_cached (d_inode k (f_path_dentry k f)) (open_key k f (pi_role_id info))
      (current_generation (d_maps d')) (d_maps d') = Some cached"
    using assms(7-9) by (simp add: file_cached_def frame(4))
  then show ?thesis
    using assms(2-4,6) frame(1,2,5)
    by (auto simp: file_open_def check_pending_enrollment_def file_decide_def file_deny_def open_key_def Let_def)
qed

text \<open>A new definition of the role with the sample's id: everything is denied.\<close>

definition lockdown_role :: role where
  "lockdown_role = restricted_role\<lparr>rl_id := 3, rl_flags := (rl_flags restricted_role)\<lparr>allow_setuid := True\<rparr>\<rparr>"

lemma lockdown_no_rules [simp]:
  "rl_file_paths lockdown_role = []" "rl_execution_rules lockdown_role = []" "rl_network_rules lockdown_role = []"
  "rl_ip_rules lockdown_role = []" "rl_proxy lockdown_role = None"
  by (simp_all add: lockdown_role_def restricted_role_def builtin_role_def)

lemma lockdown_defined: "\<exists>d'. handle_request sample_denv 7 (Define_role lockdown_role) d = Some (Success, d')"
proof -
  have "unenforced_settings lockdown_role = []" by code_simp
  then show ?thesis
    using load_succeeds [of lockdown_role "de_resolve sample_denv" "d_maps d"]
    by (auto simp: handle_define_role_def define_role_def Let_def)
qed

theorem cached_decision_survives_redefinition_witness:
  "\<exists>d'. handle_request sample_denv 7 (Define_role lockdown_role) (new_manager sample_cached Map.empty) = Some (Success, d') \<and>
     fst (file_open sample_env 0x60000 (d_maps d')) = 0"
proof -
  obtain d' where r: "handle_request sample_denv 7 (Define_role lockdown_role) (new_manager sample_cached Map.empty) =
      Some (Success, d')"
    using lockdown_defined by blast
  have "fst (file_open sample_env 0x60000 (d_maps d')) =
      (if pcv_decision \<lparr>pcv_decision = 1, pcv_generation = 0\<rparr> \<noteq> 0 then 0 else - 13)"
    by (rule cached_decision_survives_redefinition [OF r, where info = sample_info and flags = 3])
      (simp_all add: sample_cached_def current_generation_def sample_info_def)
  then show ?thesis using r by simp
qed

text \<open>
  Redefining a role revokes nothing: a role defined again without rules keeps every file,
  execution and port rule of its earlier definitions.
\<close>

theorem redefinition_revokes_nothing:
  assumes "handle_request de pid (Define_role r) d = Some (resp, d')"
    and "rl_file_paths r = []" and "rl_execution_rules r = []" and "rl_network_rules r = []"
  shows "path_states (d_maps d') = path_states (d_maps d) \<and> exec_states (d_maps d') = exec_states (d_maps d) \<and>
    network_rules (d_maps d') = network_rules (d_maps d)"
proof -
  have e: "path_state_entries_for_role role_id [] = Some (Inr [])" for role_id
    by (simp add: path_state_entries_for_role_def build_nodes_def new_node_def rule_walk.simps Let_def
        effective_decision_def inherited_rows_def node_conflicts_def)
  have n: "net_rows role_id [] t = t" for role_id t by (rule ext) (simp add: net_rows_def last_rule_def)
  show ?thesis
    using define_role_outcome [OF assms(1)] assms(2-4) apply_role_fields(2-4) [of "de_resolve de" r "d_maps d" _ "d_maps d'"]
    by (auto simp: rules_of_paths_def rules_of_execs_def e n write_rows_def)
qed

theorem redefinition_revokes_nothing_witness:
  "\<exists>d'. handle_request sample_denv 7 (Define_role lockdown_role) (new_manager sample_state Map.empty) = Some (Success, d') \<and>
     path_states (d_maps d') = path_states sample_state"
proof -
  obtain d' where r: "handle_request sample_denv 7 (Define_role lockdown_role) (new_manager sample_state Map.empty) =
      Some (Success, d')"
    using lockdown_defined by blast
  then show ?thesis using redefinition_revokes_nothing [OF r] by auto
qed

text \<open>
  A refused policy leaves the daemon on its built-in roles: it starts as it does without a policy
  file, with nothing of the policy in the maps.
\<close>

theorem refused_policy_keeps_builtin:
  assumes "(name, r) \<in> set (pol_roles config)" and "unenforced_settings r \<noteq> []"
  shows "start_daemon de (Some config) xattrs s = start_daemon de None xattrs s"
proof -
  have "\<exists>e. refused_role rs = Some e" if "(name, r) \<in> set rs" for rs
    using that assms(2) by (induction rs rule: refused_role.induct) auto
  then obtain e where "refused_role (pol_roles config) = Some e" using assms(1) by blast
  then show ?thesis by (simp add: start_daemon_def daemon_policy_def load_config_def)
qed

text \<open>The built-in roles themselves would be refused in a policy file: they ask for \<open>allow_setuid=false\<close>.\<close>

lemma builtin_roles_unenforced:
  "unenforced_settings restricted_role = [bytes_of ''allow_setuid=false'']"
  "unenforced_settings permissive_role = [bytes_of ''allow_setuid=false'']"
  by code_simp+

theorem refused_policy_keeps_builtin_witness:
  "start_daemon sample_denv
     (Some (sample_policy\<lparr>pol_roles := (bytes_of ''lax'', permissive_role\<lparr>rl_id := 9\<rparr>) # pol_roles sample_policy\<rparr>))
     Map.empty fresh_maps = start_daemon sample_denv None Map.empty fresh_maps"
proof (rule refused_policy_keeps_builtin)
  show "(bytes_of ''lax'', permissive_role\<lparr>rl_id := 9\<rparr>) \<in> set (pol_roles
      (sample_policy\<lparr>pol_roles := (bytes_of ''lax'', permissive_role\<lparr>rl_id := 9\<rparr>) # pol_roles sample_policy\<rparr>))" by simp
  show "unenforced_settings (permissive_role\<lparr>rl_id := 9\<rparr>) \<noteq> []" by code_simp
qed

text \<open>The daemon enrolls any cgroup, the root included, which the bootstrap refuses.\<close>

theorem daemon_enrolls_cgroup_root:
  assumes "de_inode de path = Some ROOT_CGROUP_INO" and "d_role_map d role_id = Some r"
    and "\<not> conflicting (rules_of_paths (rl_file_paths r))"
  shows "\<exists>d'. handle_request de pid (Enroll_cgroup path pod role_id) d = Some (Success, d') \<and>
    cgroup_enrollment (d_maps d') ROOT_CGROUP_INO = Some \<lparr>eev_pod_id = pod, eev_role_id = role_id\<rparr>"
  by (rule role_outcome [of role_id "rules_of_paths (rl_file_paths r)"])
    (use assms in \<open>simp_all add: enroll_path_defs enroll_by_path_def install_role_def tracker_path_rules_def
      add_cgroup_enrollment_def\<close>)

text \<open>An enrollment written as attributes is read back as written.\<close>

theorem xattr_enrollment_roundtrip:
  assumes "handle_request de pid (Set_xattr path pod role_id) d = Some (Success, d')"
  shows "handle_request de pid' (Check_xattr path) d' = Some (Xattr_info pod role_id, d')"
proof -
  have "POD_XATTR \<noteq> ROLE_XATTR" by code_simp
  moreover have "le_word (le_bytes 8 pod) = pod" "le_word (le_bytes 4 role_id) = role_id"
    by (simp_all add: le_word_le_bytes)
  ultimately show ?thesis
    using assms
    by (auto simp: set_xattr_enrollment_def check_xattr_enrollment_def Let_def split: if_splits)
qed

text \<open>A live task that is not enrolled has a zero entry, and is reported as a member of pod 0.\<close>

lemma query_reports_zero_entry:
  "de_task_of de q = Some t \<Longrightarrow> task_storage (d_maps d) t = Some zero_info \<Longrightarrow>
   handle_request de pid (Query q) d = Some (Process_info 0 0, d)"
  by (simp add: get_process_info_def zero_info_def)

text \<open>Removing an address rule finds the row that adding it wrote, however the network is spelled.\<close>

lemma ip_rule_removed:
  assumes "parse_cidr cidr = Inr (ip, len)"
  shows "ip_rules (snd (remove_ip_rule role_id cidr direction (snd (add_ip_rule role_id cidr direction allow s)))) =
    (ip_rules s)(\<lparr>irk_role_id = role_id, irk_ip_addr = bswap32 (mask_ipv4 ip len), irk_prefix_len = len,
      irk_direction = direction\<rparr> := None)"
  using assms by (simp add: remove_ip_rule_def add_ip_rule_def)

text \<open>
  A pattern that validation rejects is applied all the same: a relative pattern compiles as if it
  were absolute.
\<close>

lemma relative_pattern_applies:
  "validate_patterns [bytes_of ''etc/shadow''] = Inl (Not_absolute (bytes_of ''etc/shadow''))"
  "pattern_components (bytes_of ''etc/shadow'') = pattern_components (bytes_of ''/etc/shadow'')"
  by code_simp+

end
