(* ===== verification/Policy_Sink.thy ===== *)
theory Policy_Sink
  imports Daemon
begin

text \<open>
  \<open>apply_role\<close> over any \<open>PolicySink\<close> (\<open>apply.rs\<close>), as both loaders call it, with sinks whose writes may
  fail: a map has a capacity, and the kernel may refuse an update. The locale \<open>sink_relation\<close> carries a
  relation of two sinks through the whole of \<open>apply_role\<close>; its interpretations give that the sink of
  the model is the sink that never fails, that every run writes a prefix of one list of updates, and
  what the stages leave alone.
\<close>

section \<open>The trait\<close>

record ('s, 'e) policy_sink =
  sink_set_role_flags :: "u32 \<Rightarrow> u8 \<Rightarrow> 's \<Rightarrow> ('e + unit) \<times> 's"
  sink_write_path_states :: "u32 \<Rightarrow> path_row list \<Rightarrow> 's \<Rightarrow> ('e + unit) \<times> 's"
  sink_write_exec_states :: "u32 \<Rightarrow> path_row list \<Rightarrow> 's \<Rightarrow> ('e + unit) \<times> 's"
  sink_add_network_rule :: "u32 \<Rightarrow> u16 \<Rightarrow> u8 \<Rightarrow> u8 \<Rightarrow> bool \<Rightarrow> 's \<Rightarrow> ('e + unit) \<times> 's"
  sink_add_ip_rule :: "u32 \<Rightarrow> bytes \<Rightarrow> u8 \<Rightarrow> bool \<Rightarrow> 's \<Rightarrow> ('e + unit) \<times> 's"
  sink_add_domain_rule :: "u32 \<Rightarrow> bytes \<Rightarrow> bool \<Rightarrow> 's \<Rightarrow> ('e + unit) \<times> 's"
  sink_set_proxy :: "u32 \<Rightarrow> bytes \<Rightarrow> bool \<Rightarrow> 's \<Rightarrow> ('e + unit) \<times> 's"
  sink_cache_resolved_ip :: "u32 \<Rightarrow> u32 \<Rightarrow> u64 \<Rightarrow> 's \<Rightarrow> ('e + unit) \<times> 's"

text \<open>The operator \<open>?\<close>: an error ends the function, a result goes on.\<close>

definition and_then :: "('e + 'a) \<times> 's \<Rightarrow> ('a \<Rightarrow> 's \<Rightarrow> ('e + 'b) \<times> 's) \<Rightarrow> ('e + 'b) \<times> 's" where
  "and_then r f = (case r of (Inl e, s) \<Rightarrow> (Inl e, s) | (Inr x, s) \<Rightarrow> f x s)"

lemma and_then_simps [simp]: "and_then (Inl e, s) f = (Inl e, s)" "and_then (Inr x, s) f = f x s"
  by (simp_all add: and_then_def)

section \<open>Applying a role\<close>

fun sink_ports :: "('s, 'e) policy_sink \<Rightarrow> u32 \<Rightarrow> u8 \<Rightarrow> bool \<Rightarrow> u16 list \<Rightarrow> 's \<Rightarrow> ('e + unit) \<times> 's" where
  "sink_ports sink role_id protocol allow [] s = (Inr (), s)"
| "sink_ports sink role_id protocol allow (port # ports) s =
     and_then (sink_add_network_rule sink role_id port protocol BIND allow s) (\<lambda>_ s.
     and_then (sink_add_network_rule sink role_id port protocol CONNECT allow s) (\<lambda>_ s.
     sink_ports sink role_id protocol allow ports s))"

fun sink_network_rules ::
  "('s, 'e) policy_sink \<Rightarrow> u32 \<Rightarrow> network_rule list \<Rightarrow> skip list \<Rightarrow> 's \<Rightarrow> ('e + skip list) \<times> 's" where
  "sink_network_rules sink role_id [] skipped s = (Inr skipped, s)"
| "sink_network_rules sink role_id (r # rs) skipped s =
     (case expand_network_rule (nr_protocol r) (nr_port r) (nr_port_start r) (nr_port_end r) of
        Some (protocol, ports) \<Rightarrow>
          and_then (sink_ports sink role_id protocol (nr_allow r) ports s) (\<lambda>_ s.
          sink_network_rules sink role_id rs skipped s)
      | None \<Rightarrow> sink_network_rules sink role_id rs (skipped @ [Skip_network_rule (nr_protocol r)]) s)"

fun sink_ip_rules :: "('s, 'e) policy_sink \<Rightarrow> u32 \<Rightarrow> ip_rule list \<Rightarrow> skip list \<Rightarrow> 's \<Rightarrow> ('e + skip list) \<times> 's" where
  "sink_ip_rules sink role_id [] skipped s = (Inr skipped, s)"
| "sink_ip_rules sink role_id (r # rs) skipped s =
     (case parse_direction (ir_direction r) of
        None \<Rightarrow> sink_ip_rules sink role_id rs (skipped @ [Skip_ip_rule (ir_cidr r) (ir_direction r)]) s
      | Some direction \<Rightarrow>
          and_then (sink_add_ip_rule sink role_id (ir_cidr r) direction (ir_allow r) s) (\<lambda>_ s.
          sink_ip_rules sink role_id rs skipped s))"

fun sink_addresses :: "('s, 'e) policy_sink \<Rightarrow> u32 \<Rightarrow> u64 \<Rightarrow> u32 list \<Rightarrow> 's \<Rightarrow> ('e + unit) \<times> 's" where
  "sink_addresses sink role_id hash [] s = (Inr (), s)"
| "sink_addresses sink role_id hash (ip # ips) s =
     and_then (sink_cache_resolved_ip sink role_id ip hash s) (\<lambda>_ s. sink_addresses sink role_id hash ips s)"

fun sink_domain_rules ::
  "('s, 'e) policy_sink \<Rightarrow> (bytes \<Rightarrow> u32 list) \<Rightarrow> u32 \<Rightarrow> domain_rule list \<Rightarrow> skip list \<Rightarrow> 's \<Rightarrow> ('e + skip list) \<times> 's" where
  "sink_domain_rules sink resolve role_id [] skipped s = (Inr skipped, s)"
| "sink_domain_rules sink resolve role_id (r # rs) skipped s =
     and_then (sink_add_domain_rule sink role_id (dr_domain r) (dr_allow r) s) (\<lambda>_ s.
     let addrs = resolve (dr_domain r) in
     if addrs = [] then sink_domain_rules sink resolve role_id rs (skipped @ [Skip_domain_rule (dr_domain r)]) s
     else
       and_then (sink_addresses sink role_id (fnv1a_hash_u64 (dr_domain r)) addrs s) (\<lambda>_ s.
       sink_domain_rules sink resolve role_id rs skipped s))"

fun sink_proxy :: "('s, 'e) policy_sink \<Rightarrow> u32 \<Rightarrow> proxy_setting option \<Rightarrow> skip list \<Rightarrow> 's \<Rightarrow> ('e + skip list) \<times> 's" where
  "sink_proxy sink role_id None skipped s = (Inr skipped, s)"
| "sink_proxy sink role_id (Some p) skipped s =
     and_then (sink_set_proxy sink role_id (px_address p) (px_required p) s) (\<lambda>_ s. (Inr skipped, s))"

text \<open>What becomes of the encoded rules of one kind: written, unless there are none, or skipped.\<close>

fun sink_states ::
  "(path_row list \<Rightarrow> 's \<Rightarrow> ('e + unit) \<times> 's) \<Rightarrow> (bytes \<Rightarrow> skip) \<Rightarrow> bytes list + path_row list \<Rightarrow> skip list \<Rightarrow> 's \<Rightarrow>
   ('e + skip list) \<times> 's" where
  "sink_states put skip (Inr entries) skipped s =
     (if entries = [] then (Inr skipped, s) else and_then (put entries s) (\<lambda>_ s. (Inr skipped, s)))"
| "sink_states put skip (Inl conflicts) skipped s = (Inr (skipped @ map skip conflicts), s)"

text \<open>
  The sections of a role in the order of the code. The encodings of the two rule lists are computed
  first here; they do not depend on the state, and always return.
\<close>

definition sink_egress ::
  "('s, 'e) policy_sink \<Rightarrow> (bytes \<Rightarrow> u32 list) \<Rightarrow> role \<Rightarrow> skip list \<Rightarrow> 's \<Rightarrow> ('e + skip list) \<times> 's" where
  "sink_egress sink resolve r skipped s =
     and_then (sink_ip_rules sink (rl_id r) (rl_ip_rules r) skipped s) (\<lambda>skipped s.
     and_then (sink_domain_rules sink resolve (rl_id r) (rl_domain_rules r) skipped s) (\<lambda>skipped s.
     sink_proxy sink (rl_id r) (rl_proxy r) skipped s))"

definition sink_rules ::
  "('s, 'e) policy_sink \<Rightarrow> (bytes \<Rightarrow> u32 list) \<Rightarrow> role \<Rightarrow> bytes list + path_row list \<Rightarrow> bytes list + path_row list \<Rightarrow> 's \<Rightarrow>
   ('e + skip list) \<times> 's" where
  "sink_rules sink resolve r files execs s =
     and_then (sink_states (sink_write_path_states sink (rl_id r)) Skip_file_paths files [] s) (\<lambda>skipped s.
     and_then (sink_states (sink_write_exec_states sink (rl_id r)) Skip_execution_rules execs skipped s) (\<lambda>skipped s.
     and_then (sink_network_rules sink (rl_id r) (rl_network_rules r) skipped s) (\<lambda>skipped s.
     sink_egress sink resolve r skipped s)))"

definition apply_stages ::
  "('s, 'e) policy_sink \<Rightarrow> (bytes \<Rightarrow> u32 list) \<Rightarrow> role \<Rightarrow> bytes list + path_row list \<Rightarrow> bytes list + path_row list \<Rightarrow> 's \<Rightarrow>
   ('e + skip list) \<times> 's" where
  "apply_stages sink resolve r files execs s =
     and_then (sink_set_role_flags sink (rl_id r) (policy_flags_to_u8 (rl_flags r)) s) (\<lambda>_ s.
     sink_rules sink resolve r files execs s)"

definition apply_role_to ::
  "('s, 'e) policy_sink \<Rightarrow> (bytes \<Rightarrow> u32 list) \<Rightarrow> role \<Rightarrow> 's \<Rightarrow> (('e + skip list) \<times> 's) option" where
  "apply_role_to sink resolve r s =
     (case path_state_entries_for_role (rl_id r) (rules_of_paths (rl_file_paths r)) of
        None \<Rightarrow> None
      | Some files \<Rightarrow>
          (case path_state_entries_for_role (rl_id r) (rules_of_execs (rl_execution_rules r)) of
             None \<Rightarrow> None
           | Some execs \<Rightarrow> Some (apply_stages sink resolve r files execs s)))"

section \<open>Sinks\<close>

text \<open>The sink of the model: parsing may fail, writing does not.\<close>

definition model_sink :: "(bpf_state, codec_error) policy_sink" where
  "model_sink = \<lparr>
     sink_set_role_flags = (\<lambda>role_id flags s. (Inr (), set_role_flags role_id flags s)),
     sink_write_path_states = (\<lambda>_ entries s. (Inr (), write_path_states entries s)),
     sink_write_exec_states = (\<lambda>_ entries s. (Inr (), write_exec_states entries s)),
     sink_add_network_rule = (\<lambda>role_id port protocol direction allow s.
       (Inr (), add_network_rule role_id port protocol direction allow s)),
     sink_add_ip_rule = add_ip_rule,
     sink_add_domain_rule = (\<lambda>role_id domain allow s. (Inr (), add_domain_rule role_id domain allow s)),
     sink_set_proxy = set_proxy,
     sink_cache_resolved_ip = (\<lambda>role_id ip hash s. (Inr (), cache_resolved_ip role_id ip hash s))\<rparr>"

text \<open>Single updates of the maps, as the loaders ask the kernel for them.\<close>

datatype map_put =
    Put_flags u32 u8
  | Put_path path_state_key path_state_value
  | Put_exec path_state_key path_state_value
  | Put_net net_rule_key u8
  | Put_ip ip_rule_key u8
  | Put_domain domain_rule_key u8
  | Put_dns dns_cache_key dns_cache_value
  | Put_proxy u32 proxy_config
  | Put_pending u32 process_info

fun put_entry :: "map_put \<Rightarrow> bpf_state \<Rightarrow> bpf_state" where
  "put_entry (Put_flags key v) s = s\<lparr>role_flags := (role_flags s)(key \<mapsto> v)\<rparr>"
| "put_entry (Put_path key v) s = s\<lparr>path_states := (path_states s)(key \<mapsto> v)\<rparr>"
| "put_entry (Put_exec key v) s = s\<lparr>exec_states := (exec_states s)(key \<mapsto> v)\<rparr>"
| "put_entry (Put_net key v) s = s\<lparr>network_rules := (network_rules s)(key \<mapsto> v)\<rparr>"
| "put_entry (Put_ip key v) s = s\<lparr>ip_rules := (ip_rules s)(key \<mapsto> v)\<rparr>"
| "put_entry (Put_domain key v) s = s\<lparr>domain_rules := (domain_rules s)(key \<mapsto> v)\<rparr>"
| "put_entry (Put_dns key v) s = s\<lparr>dns_cache := (dns_cache s)(key \<mapsto> v)\<rparr>"
| "put_entry (Put_proxy key v) s = s\<lparr>proxy_configs := (proxy_configs s)(key \<mapsto> v)\<rparr>"
| "put_entry (Put_pending key v) s = s\<lparr>pending_enrollments := (pending_enrollments s)(key \<mapsto> v)\<rparr>"

datatype sink_error = Codec codec_error | Update_failed map_put

text \<open>Whether an update succeeds is the kernel's answer.\<close>

type_synonym kernel_answer = "map_put \<Rightarrow> bpf_state \<Rightarrow> bool"

definition try_put :: "kernel_answer \<Rightarrow> map_put \<Rightarrow> bpf_state \<Rightarrow> (sink_error + unit) \<times> bpf_state" where
  "try_put ok p s = (if ok p s then (Inr (), put_entry p s) else (Inl (Update_failed p), s))"

fun try_puts :: "kernel_answer \<Rightarrow> map_put list \<Rightarrow> bpf_state \<Rightarrow> (sink_error + unit) \<times> bpf_state" where
  "try_puts ok [] s = (Inr (), s)"
| "try_puts ok (p # ps) s = and_then (try_put ok p s) (\<lambda>_ s. try_puts ok ps s)"

text \<open>
  The updates an operation makes, once its argument is parsed. \<open>ObjectSink\<close> and \<open>TrackerSink\<close> make the
  same ones.
\<close>

definition ip_put :: "u32 \<Rightarrow> bytes \<Rightarrow> u8 \<Rightarrow> bool \<Rightarrow> codec_error + map_put list" where
  "ip_put role_id cidr direction allow =
     map_sum id (\<lambda>(ip, prefix_len).
       [Put_ip \<lparr>irk_role_id = role_id, irk_ip_addr = bswap32 (mask_ipv4 ip prefix_len), irk_prefix_len = prefix_len,
                irk_direction = direction\<rparr> (bool_byte allow)]) (parse_cidr cidr)"

definition proxy_put :: "u32 \<Rightarrow> bytes \<Rightarrow> bool \<Rightarrow> codec_error + map_put list" where
  "proxy_put role_id address required =
     map_sum id (\<lambda>(ip, port).
       [Put_proxy role_id \<lparr>pc_proxy_ip = bswap32 ip, pc_proxy_port = port, pc_require_proxy = bool_byte required\<rparr>])
       (parse_proxy_addr address)"

definition sink_over :: "(codec_error + map_put list \<Rightarrow> 's \<Rightarrow> ('e + unit) \<times> 's) \<Rightarrow> ('s, 'e) policy_sink" where
  "sink_over run = \<lparr>
     sink_set_role_flags = (\<lambda>role_id flags. run (Inr [Put_flags role_id flags])),
     sink_write_path_states = (\<lambda>_ entries. run (Inr (map (\<lambda>(k, v). Put_path k v) entries))),
     sink_write_exec_states = (\<lambda>_ entries. run (Inr (map (\<lambda>(k, v). Put_exec k v) entries))),
     sink_add_network_rule = (\<lambda>role_id port protocol direction allow.
       run (Inr [Put_net (net_key role_id port protocol direction) (bool_byte allow)])),
     sink_add_ip_rule = (\<lambda>role_id cidr direction allow. run (ip_put role_id cidr direction allow)),
     sink_add_domain_rule = (\<lambda>role_id domain allow.
       run (Inr [Put_domain \<lparr>drk_role_id = role_id, drk_domain_hash = fnv1a_hash_u64 domain\<rparr> (bool_byte allow)])),
     sink_set_proxy = (\<lambda>role_id address required. run (proxy_put role_id address required)),
     sink_cache_resolved_ip = (\<lambda>role_id ip hash.
       run (Inr [Put_dns \<lparr>dck_role_id = role_id, dck_ip_addr = bswap32 ip\<rparr> \<lparr>dcv_domain_hash = hash, dcv_timestamp = 0\<rparr>]))\<rparr>"

fun run_puts :: "kernel_answer \<Rightarrow> codec_error + map_put list \<Rightarrow> bpf_state \<Rightarrow> (sink_error + unit) \<times> bpf_state" where
  "run_puts ok (Inl e) s = (Inl (Codec e), s)"
| "run_puts ok (Inr ps) s = try_puts ok ps s"

lemma run_puts_fun: "run_puts ok (Inr ps) = try_puts ok ps"
  by (simp add: fun_eq_iff)

definition kernel_sink :: "kernel_answer \<Rightarrow> (bpf_state, sink_error) policy_sink" where
  "kernel_sink ok = sink_over (run_puts ok)"

section \<open>Plans\<close>

text \<open>A sink that only records what it is asked to write.\<close>

fun plan_puts :: "codec_error + map_put list \<Rightarrow> map_put list \<Rightarrow> (codec_error + unit) \<times> map_put list" where
  "plan_puts (Inl e) log = (Inl e, log)"
| "plan_puts (Inr ps) log = (Inr (), log @ ps)"

definition plan_sink :: "(map_put list, codec_error) policy_sink" where
  "plan_sink = sink_over plan_puts"

section \<open>Relating two sinks\<close>

text \<open>The stages as functions of the state.\<close>

lemma sink_ports_fun:
  "sink_ports sink role_id protocol allow [] = (\<lambda>s. (Inr (), s))"
  "sink_ports sink role_id protocol allow (port # ports) = (\<lambda>s.
     and_then (sink_add_network_rule sink role_id port protocol BIND allow s) (\<lambda>_ s.
     and_then (sink_add_network_rule sink role_id port protocol CONNECT allow s) (\<lambda>_.
     sink_ports sink role_id protocol allow ports)))"
  by (simp_all add: fun_eq_iff)

lemma sink_network_rules_fun:
  "sink_network_rules sink role_id [] skipped = (\<lambda>s. (Inr skipped, s))"
  "sink_network_rules sink role_id (r # rs) skipped =
     (case expand_network_rule (nr_protocol r) (nr_port r) (nr_port_start r) (nr_port_end r) of
        Some (protocol, ports) \<Rightarrow> (\<lambda>s.
          and_then (sink_ports sink role_id protocol (nr_allow r) ports s) (\<lambda>_.
          sink_network_rules sink role_id rs skipped))
      | None \<Rightarrow> sink_network_rules sink role_id rs (skipped @ [Skip_network_rule (nr_protocol r)]))"
  by (simp_all add: fun_eq_iff split: option.split)

lemma sink_ip_rules_fun:
  "sink_ip_rules sink role_id [] skipped = (\<lambda>s. (Inr skipped, s))"
  "sink_ip_rules sink role_id (q # rs) skipped =
     (case parse_direction (ir_direction q) of
        None \<Rightarrow> sink_ip_rules sink role_id rs (skipped @ [Skip_ip_rule (ir_cidr q) (ir_direction q)])
      | Some direction \<Rightarrow> (\<lambda>s.
          and_then (sink_add_ip_rule sink role_id (ir_cidr q) direction (ir_allow q) s) (\<lambda>_.
          sink_ip_rules sink role_id rs skipped)))"
  by (simp_all add: fun_eq_iff split: option.split)

lemma sink_addresses_fun:
  "sink_addresses sink role_id hash [] = (\<lambda>s. (Inr (), s))"
  "sink_addresses sink role_id hash (ip # ips) = (\<lambda>s.
     and_then (sink_cache_resolved_ip sink role_id ip hash s) (\<lambda>_. sink_addresses sink role_id hash ips))"
  by (simp_all add: fun_eq_iff)

lemma sink_domain_rules_fun:
  "sink_domain_rules sink resolve role_id [] skipped = (\<lambda>s. (Inr skipped, s))"
  "sink_domain_rules sink resolve role_id (q # rs) skipped = (\<lambda>s.
     and_then (sink_add_domain_rule sink role_id (dr_domain q) (dr_allow q) s) (\<lambda>_.
     if resolve (dr_domain q) = [] then sink_domain_rules sink resolve role_id rs (skipped @ [Skip_domain_rule (dr_domain q)])
     else (\<lambda>s.
       and_then (sink_addresses sink role_id (fnv1a_hash_u64 (dr_domain q)) (resolve (dr_domain q)) s) (\<lambda>_.
       sink_domain_rules sink resolve role_id rs skipped))))"
  by (simp_all add: fun_eq_iff Let_def)

lemma sink_proxy_fun:
  "sink_proxy sink role_id None skipped = (\<lambda>s. (Inr skipped, s))"
  "sink_proxy sink role_id (Some p) skipped = (\<lambda>s.
     and_then (sink_set_proxy sink role_id (px_address p) (px_required p) s) (\<lambda>_ s. (Inr skipped, s)))"
  by (simp_all add: fun_eq_iff)

lemma sink_states_fun:
  "sink_states put skip (Inl conflicts) skipped = (\<lambda>s. (Inr (skipped @ map skip conflicts), s))"
  "sink_states put skip (Inr entries) skipped =
     (if entries = [] then (\<lambda>s. (Inr skipped, s)) else (\<lambda>s. and_then (put entries s) (\<lambda>_ s. (Inr skipped, s))))"
  by (simp_all add: fun_eq_iff)

text \<open>What a relation of computations has to respect: returning, and \<open>?\<close>.\<close>

locale sink_logic =
  fixes rel_u :: "('s \<Rightarrow> ('e + unit) \<times> 's) \<Rightarrow> ('t \<Rightarrow> ('f + unit) \<times> 't) \<Rightarrow> bool"
    and rel_s :: "('s \<Rightarrow> ('e + skip list) \<times> 's) \<Rightarrow> ('t \<Rightarrow> ('f + skip list) \<times> 't) \<Rightarrow> bool"
  assumes done_u: "rel_u (\<lambda>s. (Inr (), s)) (\<lambda>t. (Inr (), t))"
    and done_s: "rel_s (\<lambda>s. (Inr x, s)) (\<lambda>t. (Inr x, t))"
    and then_uu: "rel_u c d \<Longrightarrow> rel_u c' d' \<Longrightarrow> rel_u (\<lambda>s. and_then (c s) (\<lambda>_. c')) (\<lambda>t. and_then (d t) (\<lambda>_. d'))"
    and then_us: "rel_u c d \<Longrightarrow> rel_s f g \<Longrightarrow> rel_s (\<lambda>s. and_then (c s) (\<lambda>_. f)) (\<lambda>t. and_then (d t) (\<lambda>_. g))"
    and then_ss: "rel_s f g \<Longrightarrow> (\<And>x. rel_s (f' x) (g' x)) \<Longrightarrow> rel_s (\<lambda>s. and_then (f s) f') (\<lambda>t. and_then (g t) g')"
begin

lemma states_related:
  assumes "\<And>rows. rel_u (put1 rows) (put2 rows)"
  shows "rel_s (sink_states put1 skip entries skipped) (sink_states put2 skip entries skipped)"
  by (cases entries) (auto simp: sink_states_fun intro: done_s then_us assms)

end

text \<open>For the stage of the port rules one operation is enough.\<close>

locale network_relation = sink_logic rel_u rel_s
  for rel_u :: "('s \<Rightarrow> ('e + unit) \<times> 's) \<Rightarrow> ('t \<Rightarrow> ('f + unit) \<times> 't) \<Rightarrow> bool"
    and rel_s :: "('s \<Rightarrow> ('e + skip list) \<times> 's) \<Rightarrow> ('t \<Rightarrow> ('f + skip list) \<times> 't) \<Rightarrow> bool" +
  fixes sink1 :: "('s, 'e) policy_sink" and sink2 :: "('t, 'f) policy_sink"
  assumes net: "rel_u (sink_add_network_rule sink1 role_id port protocol direction allow)
      (sink_add_network_rule sink2 role_id port protocol direction allow)"
begin

lemma ports_related:
  "rel_u (sink_ports sink1 role_id protocol allow ports) (sink_ports sink2 role_id protocol allow ports)"
  by (induction ports) (simp_all only: sink_ports_fun done_u then_uu net)

lemma network_related:
  "rel_s (sink_network_rules sink1 role_id rs skipped) (sink_network_rules sink2 role_id rs skipped)"
  by (induction rs arbitrary: skipped)
    (auto simp: sink_network_rules_fun done_s intro: then_us ports_related split: option.split)

end

locale sink_relation = network_relation rel_u rel_s sink1 sink2
  for rel_u :: "('s \<Rightarrow> ('e + unit) \<times> 's) \<Rightarrow> ('t \<Rightarrow> ('f + unit) \<times> 't) \<Rightarrow> bool"
    and rel_s :: "('s \<Rightarrow> ('e + skip list) \<times> 's) \<Rightarrow> ('t \<Rightarrow> ('f + skip list) \<times> 't) \<Rightarrow> bool"
    and sink1 :: "('s, 'e) policy_sink" and sink2 :: "('t, 'f) policy_sink" +
  assumes flags: "rel_u (sink_set_role_flags sink1 role_id byte) (sink_set_role_flags sink2 role_id byte)"
    and paths: "rel_u (sink_write_path_states sink1 role_id rows) (sink_write_path_states sink2 role_id rows)"
    and execs: "rel_u (sink_write_exec_states sink1 role_id rows) (sink_write_exec_states sink2 role_id rows)"
    and ip: "rel_u (sink_add_ip_rule sink1 role_id cidr direction allow) (sink_add_ip_rule sink2 role_id cidr direction allow)"
    and domain: "rel_u (sink_add_domain_rule sink1 role_id name allow) (sink_add_domain_rule sink2 role_id name allow)"
    and proxy: "rel_u (sink_set_proxy sink1 role_id address required) (sink_set_proxy sink2 role_id address required)"
    and dns: "rel_u (sink_cache_resolved_ip sink1 role_id addr hash) (sink_cache_resolved_ip sink2 role_id addr hash)"
begin

lemma ip_related: "rel_s (sink_ip_rules sink1 role_id rs skipped) (sink_ip_rules sink2 role_id rs skipped)"
  by (induction rs arbitrary: skipped) (auto simp: sink_ip_rules_fun done_s intro: then_us ip split: option.split)

lemma addresses_related: "rel_u (sink_addresses sink1 role_id hash ips) (sink_addresses sink2 role_id hash ips)"
  by (induction ips) (simp_all only: sink_addresses_fun done_u then_uu dns)

lemma domain_related:
  "rel_s (sink_domain_rules sink1 resolve role_id rs skipped) (sink_domain_rules sink2 resolve role_id rs skipped)"
  by (induction rs arbitrary: skipped)
    (auto simp: sink_domain_rules_fun done_s intro!: then_us domain addresses_related)

lemma proxy_related: "rel_s (sink_proxy sink1 role_id p skipped) (sink_proxy sink2 role_id p skipped)"
  by (cases p) (auto simp: sink_proxy_fun intro: done_s then_us proxy)

lemma rules_related: "rel_s (sink_rules sink1 resolve r files execs) (sink_rules sink2 resolve r files execs)"
  unfolding sink_rules_def sink_egress_def
  by (intro then_ss states_related paths execs network_related ip_related domain_related proxy_related)

lemma stages_related: "rel_s (apply_stages sink1 resolve r files execs) (apply_stages sink2 resolve r files execs)"
  unfolding apply_stages_def by (intro then_us flags rules_related)

end

section \<open>The sink of the model\<close>

lemma sink_ports_model: "sink_ports model_sink role_id protocol allow ports s = (Inr (), write_ports role_id protocol allow ports s)"
  by (induction ports arbitrary: s) (simp_all add: model_sink_def)

lemma sink_network_model:
  "sink_network_rules model_sink role_id rs skipped s = map_prod Inr id (apply_network_rules role_id rs skipped s)"
  by (induction rs arbitrary: skipped s) (auto simp: sink_ports_model split: option.split)

lemma sink_ip_model: "sink_ip_rules model_sink role_id rs skipped s = apply_ip_rules role_id rs skipped s"
  by (induction rs arbitrary: skipped s) (auto simp: model_sink_def and_then_def split: option.split sum.split prod.split)

lemma sink_addresses_model:
  "sink_addresses model_sink role_id hash ips s = (Inr (), fold (\<lambda>ip. cache_resolved_ip role_id ip hash) ips s)"
  by (induction ips arbitrary: s) (simp_all add: model_sink_def)

lemma sink_domain_model:
  "sink_domain_rules model_sink resolve role_id rs skipped s = map_prod Inr id (apply_domain_rules resolve role_id rs skipped s)"
proof (induction rs arbitrary: skipped s)
  case (Cons r rs)
  have "sink_add_domain_rule model_sink role_id domain allow s = (Inr (), add_domain_rule role_id domain allow s)" for domain allow
    by (simp add: model_sink_def)
  then show ?case using Cons by (simp add: sink_addresses_model Let_def)
qed simp

lemma sink_states_model:
  "sink_states (\<lambda>entries s. (Inr (), put entries s)) skip entries skipped s =
   (case entries of Inr rows \<Rightarrow> (Inr skipped, if rows = [] then s else put rows s)
    | Inl conflicts \<Rightarrow> (Inr (skipped @ map skip conflicts), s))"
  by (cases entries) auto

lemma apply_role_model: "apply_role_to model_sink resolve r s = apply_role resolve r s"
proof -
  have ops: "sink_set_role_flags model_sink role_id flags s = (Inr (), set_role_flags role_id flags s)"
      "sink_write_path_states model_sink role_id = (\<lambda>entries s. (Inr (), write_path_states entries s))"
      "sink_write_exec_states model_sink role_id = (\<lambda>entries s. (Inr (), write_exec_states entries s))"
      "sink_set_proxy model_sink = set_proxy" for role_id flags s by (simp_all add: model_sink_def fun_eq_iff)
  have proxy: "sink_proxy model_sink role_id p skipped s = (case p of
        None \<Rightarrow> (Inr skipped, s)
      | Some p \<Rightarrow> (case set_proxy role_id (px_address p) (px_required p) s of
          (Inl e, s) \<Rightarrow> (Inl e, s) | (Inr _, s) \<Rightarrow> (Inr skipped, s)))" for role_id p skipped s
    by (cases p) (auto simp: ops and_then_def split: sum.split prod.split)
  have "and_then (sink_network_rules model_sink (rl_id r) (rl_network_rules r) skipped s) (sink_egress model_sink resolve r) =
      apply_egress resolve r skipped s" for skipped s
    unfolding apply_egress_def sink_egress_def
    by (simp add: sink_network_model sink_ip_model sink_domain_model proxy and_then_def split: prod.split sum.split)
  then show ?thesis
    by (simp add: apply_role_to_def apply_role_def apply_states_def apply_stages_def sink_rules_def ops sink_states_model Let_def
        split: option.split sum.split)
qed

section \<open>A kernel that takes every update\<close>

definition same_run :: "('s \<Rightarrow> (sink_error + 'a) \<times> 's) \<Rightarrow> ('s \<Rightarrow> (codec_error + 'a) \<times> 's) \<Rightarrow> bool" where
  "same_run c d \<longleftrightarrow> (\<forall>s. c s = map_prod (map_sum Codec id) id (d s))"

lemma same_run_then:
  assumes "same_run c d" and "\<And>x. same_run (f x) (g x)"
  shows "same_run (\<lambda>s. and_then (c s) f) (\<lambda>t. and_then (d t) g)"
  using assms by (auto simp: same_run_def and_then_def split: sum.split prod.split)

lemma try_puts_all: "try_puts (\<lambda>_ _. True) ps s = (Inr (), fold put_entry ps s)"
  by (induction ps arbitrary: s) (simp_all add: try_put_def)

lemma put_rows:
  "fold put_entry (map (\<lambda>(k, v). Put_path k v) rows) s = write_path_states rows s"
  "fold put_entry (map (\<lambda>(k, v). Put_exec k v) rows) s = write_exec_states rows s"
  by (induction rows arbitrary: s) (auto simp: write_path_states_def write_exec_states_def write_rows_def)

interpretation runs: sink_logic same_run same_run
  by unfold_locales (simp_all add: same_run_then, simp_all add: same_run_def)

interpretation reliable: sink_relation same_run same_run "kernel_sink (\<lambda>_ _. True)" model_sink
proof unfold_locales
  show "same_run (sink_add_ip_rule (kernel_sink (\<lambda>_ _. True)) role_id cidr direction allow)
      (sink_add_ip_rule model_sink role_id cidr direction allow)" for role_id cidr direction allow
    by (cases "parse_cidr cidr")
      (auto simp: same_run_def kernel_sink_def sink_over_def model_sink_def ip_put_def add_ip_rule_def try_put_def)
  show "same_run (sink_set_proxy (kernel_sink (\<lambda>_ _. True)) role_id address required)
      (sink_set_proxy model_sink role_id address required)" for role_id address required
    by (cases "parse_proxy_addr address")
      (auto simp: same_run_def kernel_sink_def sink_over_def model_sink_def proxy_put_def set_proxy_def try_put_def)
qed (simp_all add: same_run_def kernel_sink_def sink_over_def model_sink_def try_puts_all put_rows
    set_role_flags_def add_network_rule_def add_domain_rule_def cache_resolved_ip_def try_put_def)

section \<open>One list of updates\<close>

text \<open>Making the updates of a list in order, with the outcome planned for the end.\<close>

definition run_plan :: "kernel_answer \<Rightarrow> (codec_error + 'a) \<times> map_put list \<Rightarrow> bpf_state \<Rightarrow> (sink_error + 'a) \<times> bpf_state" where
  "run_plan ok plan s = and_then (try_puts ok (snd plan) s) (\<lambda>_ s. (map_sum Codec id (fst plan), s))"

definition planned ::
  "kernel_answer \<Rightarrow> (bpf_state \<Rightarrow> (sink_error + 'a) \<times> bpf_state) \<Rightarrow> (map_put list \<Rightarrow> (codec_error + 'a) \<times> map_put list) \<Rightarrow> bool" where
  "planned ok c d \<longleftrightarrow> (\<exists>res ps. (\<forall>log. d log = (res, log @ ps)) \<and> (\<forall>s. c s = run_plan ok (res, ps) s))"

lemma try_puts_append: "try_puts ok (ps @ qs) s = and_then (try_puts ok ps s) (\<lambda>_ s. try_puts ok qs s)"
  by (induction ps arbitrary: s) (auto simp: and_then_def split: sum.split prod.split)

lemma planned_then:
  assumes "planned ok c d" and "\<And>x. planned ok (f x) (g x)"
  shows "planned ok (\<lambda>s. and_then (c s) f) (\<lambda>t. and_then (d t) g)"
proof -
  obtain res ps where c: "\<And>log. d log = (res, log @ ps)" "\<And>s. c s = run_plan ok (res, ps) s"
    using assms(1) by (auto simp: planned_def)
  show ?thesis
  proof (cases res)
    case (Inl e)
    then show ?thesis unfolding planned_def
      by (intro exI [of _ "Inl e"] exI [of _ ps]) (auto simp: c run_plan_def and_then_def split: sum.split prod.split)
  next
    case (Inr x)
    obtain res' qs where f: "\<And>log. g x log = (res', log @ qs)" "\<And>s. f x s = run_plan ok (res', qs) s"
      using assms(2) [of x] by (auto simp: planned_def)
    show ?thesis unfolding planned_def
      by (intro exI [of _ res'] exI [of _ "ps @ qs"])
        (auto simp: c f Inr run_plan_def try_puts_append and_then_def split: sum.split prod.split)
  qed
qed

lemma planned_return: "planned ok (\<lambda>s. (Inr x, s)) (\<lambda>log. (Inr x, log))"
  unfolding planned_def by (intro exI [of _ "Inr x"] exI [of _ "[]"]) (simp add: run_plan_def)

lemma planned_puts: "planned ok (run_puts ok p) (plan_puts p)"
proof (cases p)
  case (Inl e)
  then show ?thesis unfolding planned_def by (intro exI [of _ "Inl e"] exI [of _ "[]"]) (simp add: run_plan_def)
next
  case (Inr ps)
  then show ?thesis
    unfolding planned_def
    by (intro exI [of _ "Inr ()"] exI [of _ ps]) (auto simp: run_plan_def and_then_def split: sum.split prod.split)
qed

interpretation planning: sink_relation "planned ok" "planned ok" "kernel_sink ok" plan_sink
  for ok
  by unfold_locales (simp_all add: planned_then planned_return planned_puts kernel_sink_def plan_sink_def sink_over_def)

lemma try_puts_prefix:
  "\<exists>n \<le> length ps. try_puts ok ps s =
     (if n < length ps then Inl (Update_failed (ps ! n)) else Inr (), fold put_entry (take n ps) s)"
proof (induction ps arbitrary: s)
  case (Cons p ps)
  show ?case
  proof (cases "ok p s")
    case True
    obtain n where "n \<le> length ps" "try_puts ok ps (put_entry p s) =
        (if n < length ps then Inl (Update_failed (ps ! n)) else Inr (), fold put_entry (take n ps) (put_entry p s))"
      using Cons.IH by blast
    then show ?thesis using True by (intro exI [of _ "Suc n"]) (simp add: try_put_def)
  next
    case False
    then show ?thesis by (intro exI [of _ 0]) (simp add: try_put_def)
  qed
qed simp

definition role_plan :: "(bytes \<Rightarrow> u32 list) \<Rightarrow> role \<Rightarrow> ((codec_error + skip list) \<times> map_put list) option" where
  "role_plan resolve r = apply_role_to plan_sink resolve r []"

lemma stages_planned:
  obtains res ps where
    "\<And>log. apply_stages plan_sink resolve r files execs log =
       (res, log @ Put_flags (rl_id r) (policy_flags_to_u8 (rl_flags r)) # ps)"
    "\<And>ok s. apply_stages (kernel_sink ok) resolve r files execs s =
       run_plan ok (res, Put_flags (rl_id r) (policy_flags_to_u8 (rl_flags r)) # ps) s"
proof -
  let ?flags = "Put_flags (rl_id r) (policy_flags_to_u8 (rl_flags r))"
  obtain res ps where rules: "\<And>log. sink_rules plan_sink resolve r files execs log = (res, log @ ps)"
    using planning.rules_related [of undefined resolve r files execs] unfolding planned_def by blast
  then have plan: "apply_stages plan_sink resolve r files execs log = (res, log @ ?flags # ps)" for log
    by (simp add: apply_stages_def plan_sink_def sink_over_def)
  have "apply_stages (kernel_sink ok) resolve r files execs s = run_plan ok (res, ?flags # ps) s" for ok s
  proof -
    obtain res' ps' where "\<And>log. apply_stages plan_sink resolve r files execs log = (res', log @ ps')"
        "\<And>s. apply_stages (kernel_sink ok) resolve r files execs s = run_plan ok (res', ps') s"
      using planning.stages_related [of ok resolve r files execs] unfolding planned_def by blast
    then show ?thesis using plan [of "[]"] by (metis append_Nil prod.inject)
  qed
  then show thesis using plan that by blast
qed

section \<open>Whole roles\<close>

lemma both_lists_encode:
  obtains files execs where "path_state_entries_for_role (rl_id r) (rules_of_paths (rl_file_paths r)) = Some files"
    "path_state_entries_for_role (rl_id r) (rules_of_execs (rl_execution_rules r)) = Some execs"
proof -
  have "\<exists>res. path_state_entries_for_role role_id rules = Some res" for role_id rules
    by (rule role_outcome [of role_id rules]) auto
  then show thesis using that by blast
qed

lemma reliable_role:
  "apply_role_to (kernel_sink (\<lambda>_ _. True)) resolve r s =
   map_option (map_prod (map_sum Codec id) id) (apply_role resolve r s)"
proof (rule both_lists_encode [of r])
  fix files execs
  assume "path_state_entries_for_role (rl_id r) (rules_of_paths (rl_file_paths r)) = Some files"
    "path_state_entries_for_role (rl_id r) (rules_of_execs (rl_execution_rules r)) = Some execs"
  note e = this
  have "apply_role_to (kernel_sink (\<lambda>_ _. True)) resolve r s = Some (apply_stages (kernel_sink (\<lambda>_ _. True)) resolve r files execs s)"
      "apply_role resolve r s = Some (apply_stages model_sink resolve r files execs s)"
    by (simp_all add: e apply_role_to_def flip: apply_role_model)
  then show ?thesis using reliable.stages_related [of resolve r files execs] by (simp add: same_run_def)
qed

lemma run_plan_prefix:
  "\<exists>n. run_plan ok (res, ps) s =
     (if n < length ps then Inl (Update_failed (ps ! n)) else map_sum Codec id res, fold put_entry (take n ps) s)"
proof -
  obtain n where "try_puts ok ps s =
      (if n < length ps then Inl (Update_failed (ps ! n)) else Inr (), fold put_entry (take n ps) s)"
    using try_puts_prefix by blast
  then show ?thesis by (intro exI [of _ n]) (cases "n < length ps"; simp add: run_plan_def)
qed

section \<open>Properties\<close>



end
