(* ===== verification/Loaders.thy ===== *)
theory Loaders
  imports Bootstrap Daemon_Properties Policy_Sink
begin

text \<open>
  Both loaders on one host. They find the same object and the same policy (\<open>Host_Files\<close>), attach the
  same programs and leave the same maps, apart from the cache generation, which only the daemon
  counts up. That the generation makes no difference to applying a role comes from the locale
  \<open>sink_relation\<close>.
\<close>

section \<open>The generation is left alone\<close>

definition restamp :: "(u32 \<rightharpoonup> u32) \<Rightarrow> bpf_state \<Rightarrow> bpf_state" where
  "restamp g s = s\<lparr>cache_generation := g\<rparr>"

lemma restamp_fields [simp]:
  "role_flags (restamp g s) = role_flags s" "path_states (restamp g s) = path_states s" "exec_states (restamp g s) = exec_states s"
  "network_rules (restamp g s) = network_rules s" "ip_rules (restamp g s) = ip_rules s" "domain_rules (restamp g s) = domain_rules s"
  "dns_cache (restamp g s) = dns_cache s" "proxy_configs (restamp g s) = proxy_configs s"
  "exec_enrollment (restamp g s) = exec_enrollment s" "cgroup_enrollment (restamp g s) = cgroup_enrollment s"
  by (simp_all add: restamp_def)

lemma restamp_updates [simp]:
  "(restamp g s)\<lparr>role_flags := a\<rparr> = restamp g (s\<lparr>role_flags := a\<rparr>)"
  "(restamp g s)\<lparr>path_states := p\<rparr> = restamp g (s\<lparr>path_states := p\<rparr>)"
  "(restamp g s)\<lparr>exec_states := p\<rparr> = restamp g (s\<lparr>exec_states := p\<rparr>)"
  "(restamp g s)\<lparr>network_rules := n\<rparr> = restamp g (s\<lparr>network_rules := n\<rparr>)"
  "(restamp g s)\<lparr>ip_rules := i\<rparr> = restamp g (s\<lparr>ip_rules := i\<rparr>)"
  "(restamp g s)\<lparr>domain_rules := d\<rparr> = restamp g (s\<lparr>domain_rules := d\<rparr>)"
  "(restamp g s)\<lparr>dns_cache := c\<rparr> = restamp g (s\<lparr>dns_cache := c\<rparr>)"
  "(restamp g s)\<lparr>proxy_configs := q\<rparr> = restamp g (s\<lparr>proxy_configs := q\<rparr>)"
  "(restamp g s)\<lparr>exec_enrollment := x\<rparr> = restamp g (s\<lparr>exec_enrollment := x\<rparr>)"
  "(restamp g s)\<lparr>cgroup_enrollment := x\<rparr> = restamp g (s\<lparr>cgroup_enrollment := x\<rparr>)"
  by (simp_all add: restamp_def)

definition ignores_stamp :: "(u32 \<rightharpoonup> u32) \<Rightarrow> (bpf_state \<Rightarrow> 'r \<times> bpf_state) \<Rightarrow> (bpf_state \<Rightarrow> 'r \<times> bpf_state) \<Rightarrow> bool" where
  "ignores_stamp g c d \<longleftrightarrow> (\<forall>s. d (restamp g s) = map_prod id (restamp g) (c s))"

lemma ignores_stamp_then:
  assumes "ignores_stamp g c d" and "\<And>x. ignores_stamp g (f x) (f' x)"
  shows "ignores_stamp g (\<lambda>s. and_then (c s) f) (\<lambda>t. and_then (d t) f')"
  using assms by (auto simp: ignores_stamp_def and_then_def split: sum.split prod.split)

interpretation stamp: sink_relation "ignores_stamp g" "ignores_stamp g" model_sink model_sink
  for g
  by unfold_locales
    (simp_all add: ignores_stamp_then,
     auto simp: ignores_stamp_def model_sink_def write_path_states_def write_exec_states_def set_role_flags_def add_network_rule_def add_ip_rule_def
       add_domain_rule_def set_proxy_def cache_resolved_ip_def split: sum.split)

lemma apply_role_restamp: "apply_role resolve r (restamp g s) = map_option (map_prod id (restamp g)) (apply_role resolve r s)"
proof (rule both_lists_encode [of r])
  fix files execs
  assume e: "path_state_entries_for_role (rl_id r) (rules_of_paths (rl_file_paths r)) = Some files"
    "path_state_entries_for_role (rl_id r) (rules_of_execs (rl_execution_rules r)) = Some execs"
  have "apply_role resolve r s = Some (apply_stages model_sink resolve r files execs s)" for s
    by (simp add: e apply_role_to_def flip: apply_role_model)
  then show ?thesis using stamp.stages_related [of g resolve r files execs] by (simp add: ignores_stamp_def)
qed

lemma load_all_restamp:
  "load_all (apply_role resolve) rs (restamp g s) = map_option (map_prod id (restamp g)) (load_all (apply_role resolve) rs s)"
  by (induction rs arbitrary: s) (auto simp: apply_role_restamp split: option.split sum.split)

lemma load_exec_restamp:
  "load_exec_enrollments inode_of policy es (restamp g s) = restamp g (load_exec_enrollments inode_of policy es s)"
  by (induction es arbitrary: s) (auto split: option.split)

lemma load_cgroup_restamp:
  "load_cgroup_enrollments inode_of policy es (restamp g s) = map_prod id (restamp g) (load_cgroup_enrollments inode_of policy es s)"
  by (induction es arbitrary: s) (auto split: option.split sum.split)

lemma populate_restamp:
  "populate_maps resolve inode_of config (restamp g s) =
   map_option (map_prod id (restamp g)) (populate_maps resolve inode_of config s)"
  by (auto simp: populate_maps_def load_all_restamp load_exec_restamp load_cgroup_restamp split: option.split sum.split)

lemma startup_restamp: "startup_invalidation config s = restamp (cache_generation (startup_invalidation config s)) s"
  by (auto simp: startup_invalidation_def invalidate_cache_def restamp_def split: option.split)

section \<open>One host\<close>

lemma readable_policy_loaded: "load_policy e = Inr config \<Longrightarrow> readable_policy e = Some config"
  by (auto simp: load_policy_def readable_policy_def split: option.splits)

lemma required_maps_pinned: "set REQUIRED_MAPS \<subseteq> set PINNED_MAPS"
  by (simp add: REQUIRED_MAPS_def PINNED_MAPS_def)

text \<open>What a complete run of the bootstrap shows of the host.\<close>

lemma complete_run_host:
  assumes "load_bpf_object e = Inr links" and "pin_all (pinnable e) links i fs = (Inr (), fs')"
  shows "load_programs e = Inr LSM_PROGRAMS"
proof -
  obtain path where path: "bpf_object_path e = Some path" "ho_load_ok e path"
      "attach_each (ho_attach_ok e) (ho_progs e) LSM_PROGRAMS = Inr links"
    using assms(1) by (auto simp: load_bpf_object_def map_sum_def split: option.splits if_splits sum.splits)
  have "\<forall>step \<in> set (pin_steps links i). pinnable e step" using assms(2) by (simp add: pin_all_def pin_each_done)
  then have pinned: "set PINNED_MAPS \<subseteq> ho_map_names e" "set LSM_PROGRAMS \<subseteq> ho_progs e"
    by (auto simp: pin_steps_def pinnable_def ball_Un)
  have "links = LSM_PROGRAMS" using attach_each_all [OF path(3) pinned(2)] .
  moreover have "List.find (\<lambda>name. name \<notin> ho_map_names e) REQUIRED_MAPS = None"
    using pinned(1) required_maps_pinned by (auto simp: find_None_iff)
  ultimately show ?thesis using path by (simp add: load_programs_def same_object_found)
qed

section \<open>Properties\<close>



end
