(* ===== verification/Client.thy ===== *)
theory Client
  imports Daemon_Properties
begin

text \<open>
  The two ends of the enrollment socket: \<open>EnrollmentClient\<close> of \<open>bpfjailer-client\<close> and \<open>handle_client\<close> of
  the daemon. One connection carries one request line and one response line, both JSON.
\<close>

section \<open>Messages\<close>

text \<open>Printing and parsing of messages is serde's; the parser fails with \<open>None\<close>.\<close>

record wire =
  w_print_request :: "request \<Rightarrow> bytes"
  w_parse_request :: "bytes \<Rightarrow> request option"
  w_print_response :: "response \<Rightarrow> bytes"
  w_parse_response :: "bytes \<Rightarrow> response option"

text \<open>\<open>read_line\<close>: up to and including the first newline, or all there is.\<close>

definition read_line :: "bytes \<Rightarrow> bytes" where
  "read_line input = takeWhile (\<lambda>b. b \<noteq> 10) input @ (if 10 \<in> set input then [10] else [])"

section \<open>The daemon's end\<close>

text \<open>
  One connection: the credentials of the peer (\<open>None\<close>: the kernel does not tell; a peer without a
  process id counts as 0), what it wrote, and what is written back before the connection is closed. A
  request that does not parse closes it without a word.
\<close>

definition handle_client ::
  "wire \<Rightarrow> denv \<Rightarrow> u32 option option \<Rightarrow> bytes \<Rightarrow> daemon \<Rightarrow> (bytes \<times> daemon) option" where
  "handle_client w de peer_cred input d =
     (case peer_cred of
        None \<Rightarrow> Some ([], d)
      | Some peer \<Rightarrow>
          let pid = (case peer of Some pid \<Rightarrow> pid | None \<Rightarrow> 0) in
          (case w_parse_request w (read_line input) of
             None \<Rightarrow> Some ([], d)
           | Some request \<Rightarrow>
               map_option (\<lambda>(response, d). (w_print_response w response @ [10], d)) (handle_request de pid request d)))"

section \<open>The client's end\<close>

datatype client_error =
    Connect_failed
  | Unparsed
  | Refused daemon_error
  | Unexpected_response

text \<open>The bytes of a request.\<close>

definition request_line :: "wire \<Rightarrow> request \<Rightarrow> bytes" where
  "request_line w request = w_print_request w request @ [10]"

text \<open>
  \<open>enroll\<close> and \<open>query\<close>, given what the connection brings back for the bytes written to it (\<open>None\<close>: it
  could not be made, or broke).
\<close>

definition client_enroll :: "wire \<Rightarrow> (bytes \<Rightarrow> bytes option) \<Rightarrow> u64 \<Rightarrow> u32 \<Rightarrow> client_error + unit" where
  "client_enroll w exchange pod role_id =
     (case exchange (request_line w (Enroll pod role_id)) of
        None \<Rightarrow> Inl Connect_failed
      | Some reply \<Rightarrow>
          (case w_parse_response w reply of
             None \<Rightarrow> Inl Unparsed
           | Some Success \<Rightarrow> Inr ()
           | Some (Error e) \<Rightarrow> Inl (Refused e)
           | Some _ \<Rightarrow> Inl Unexpected_response))"

definition client_query :: "wire \<Rightarrow> (bytes \<Rightarrow> bytes option) \<Rightarrow> u32 \<Rightarrow> client_error + u64 \<times> u32" where
  "client_query w exchange pid =
     (case exchange (request_line w (Query pid)) of
        None \<Rightarrow> Inl Connect_failed
      | Some reply \<Rightarrow>
          (case w_parse_response w reply of
             None \<Rightarrow> Inl Unparsed
           | Some (Process_info pod role_id) \<Rightarrow> Inr (pod, role_id)
           | Some (Error e) \<Rightarrow> Inl (Refused e)
           | Some _ \<Rightarrow> Inl Unexpected_response))"

section \<open>Both ends\<close>

text \<open>A connection to the daemon in state \<open>d\<close>.\<close>

definition served :: "wire \<Rightarrow> denv \<Rightarrow> u32 option option \<Rightarrow> daemon \<Rightarrow> bytes \<Rightarrow> bytes option" where
  "served w de peer_cred d input = map_option fst (handle_client w de peer_cred input d)"

text \<open>
  What the two ends rely on for a message: that it is printed on one line and parses, with the
  newline, to what was printed, as serde's documentation has it.
\<close>

definition carries_request :: "wire \<Rightarrow> request \<Rightarrow> bool" where
  "carries_request w request \<longleftrightarrow>
     10 \<notin> set (w_print_request w request) \<and> w_parse_request w (w_print_request w request @ [10]) = Some request"

definition carries_response :: "wire \<Rightarrow> response \<Rightarrow> bool" where
  "carries_response w response \<longleftrightarrow> w_parse_response w (w_print_response w response @ [10]) = Some response"

lemma read_line_request: "carries_request w request \<Longrightarrow> w_parse_request w (read_line (request_line w request)) = Some request"
  by (auto simp: carries_request_def read_line_def request_line_def takeWhile_append takeWhile_eq_all_conv)

lemma served_response:
  assumes "carries_request w request" and "handle_request de pid request d = Some (response, d')"
  shows "served w de (Some (Some pid)) d (request_line w request) = Some (w_print_response w response @ [10])"
    "handle_client w de (Some (Some pid)) (request_line w request) d = Some (w_print_response w response @ [10], d')"
  using assms by (simp_all add: served_def handle_client_def read_line_request)

section \<open>Properties\<close>


definition sample_wire :: wire where
  "sample_wire = \<lparr>w_print_request = (\<lambda>_. [123, 125]), w_parse_request = (\<lambda>_. Some (Enroll 9 1)),
     w_print_response = (\<lambda>resp. case resp of Success \<Rightarrow> [49] | _ \<Rightarrow> [48]),
     w_parse_response = (\<lambda>bs. Some (if hd bs = 49 then Success else Error (Unknown_role 1)))\<rparr>"


text \<open>
  A query brings back the entry of the process's task, or the daemon's refusal.
\<close>

theorem client_query_truthful:
  assumes "carries_request w (Query pid)" and "\<And>pod role_id. carries_response w (Process_info pod role_id)"
    and "carries_response w (Error Not_found_or_not_enrolled)"
  shows "client_query w (served w de (Some (Some peer)) d) pid =
    (case get_process_info de pid (d_maps d) of
       Some entry \<Rightarrow> Inr entry
     | None \<Rightarrow> Inl (Refused Not_found_or_not_enrolled))"
proof -
  let ?resp = "case get_process_info de pid (d_maps d) of Some (pod, role_id) \<Rightarrow> Process_info pod role_id | None \<Rightarrow> Error Not_found_or_not_enrolled"
  have "handle_request de peer (Query pid) d = Some (?resp, d)" by simp
  from served_response(1) [OF assms(1) this] show ?thesis
    using assms(2,3) by (auto simp: client_query_def carries_response_def split: option.split)
qed

text \<open>
  A request that does not parse, and a peer the kernel does not identify, leave the daemon as it was;
  the client is told so only by an empty reply.
\<close>

theorem unreadable_request_harmless:
  "w_parse_request w (read_line input) = None \<Longrightarrow> handle_client w de peer_cred input d = Some ([], d)"
  "handle_client w de None input d = Some ([], d)"
  by (auto simp: handle_client_def Let_def split: option.split)

text \<open>
  A peer without a process id is answered all the same: its enrollment is filed under process 0,
  and reported as a success.
\<close>

theorem unidentified_peer_enrolled_as_zero:
  assumes "carries_request w (Enroll pod role_id)" and "d_role_map d role_id = Some r"
  shows "\<exists>d'. handle_client w de (Some None) (request_line w (Enroll pod role_id)) d = Some (w_print_response w Success @ [10], d') \<and>
    pending_enrollments (d_maps d') 0 = Some \<lparr>pi_pod_id = pod, pi_role_id = role_id, pi_stack_depth = 0, pi_flags = 0\<rparr>"
proof -
  obtain res s where "install_role role_id r (d_maps d) = Some (res, s)" using install_role_returns by blast
  then show ?thesis
    using assms by (simp add: handle_client_def read_line_request handle_enroll_def enroll_pending_process_def)
qed

end
