(* ===== verification/Map_Bytes.thy ===== *)
theory Map_Bytes
  imports Daemon
begin

text \<open>
  The maps as userspace writes them: arrays of bytes under arrays of bytes. \<open>codec.rs\<close> encodes the
  values, \<open>bpf_loader.rs\<close> and the bootstrap's \<open>ObjectSink\<close> hand them to the maps; the BPF programs read
  the members back at the offsets of their structures. The locale \<open>byte_table\<close> is what a map of bytes
  promises to be a map of records; \<open>view_maps\<close> reads all maps that way, and every write of userspace
  is shown to be the write of the model on what the programs see.
\<close>

section \<open>Values\<close>

text \<open>\<open>codec.rs\<close> on a little-endian host.\<close>

definition rust_path_state_value :: "u64 \<Rightarrow> bool \<Rightarrow> bool \<Rightarrow> bool \<Rightarrow> u8 list" where
  "rust_path_state_value next_state is_terminal allow wildcard =
     (put_bytes 0 (le_bytes 8 next_state) (replicate 16 0))
       [8 := bool_byte is_terminal, 9 := bool_byte allow, 10 := bool_byte wildcard, 11 := 0]"

definition rust_enrollment_value :: "u64 \<Rightarrow> u32 \<Rightarrow> u8 list" where
  "rust_enrollment_value pod role_id =
     put_bytes 8 (le_bytes 4 role_id) (put_bytes 0 (le_bytes 8 pod) (replicate 16 0))"

definition rust_process_info_value :: "u64 \<Rightarrow> u32 \<Rightarrow> u8 \<Rightarrow> u8 \<Rightarrow> u8 list" where
  "rust_process_info_value pod role_id stack_depth flags =
     (put_bytes 8 (le_bytes 4 role_id) (put_bytes 0 (le_bytes 8 pod) (replicate 16 0)))
       [12 := stack_depth, 13 := flags]"

definition rust_proxy_config_value :: "u32 \<Rightarrow> u16 \<Rightarrow> bool \<Rightarrow> u8 list" where
  "rust_proxy_config_value ip port required =
     (put_bytes 4 (le_bytes 2 port) (put_bytes 0 (octets_be ip) (replicate 8 0)))[6 := bool_byte required]"

definition rust_dns_cache_value :: "u64 \<Rightarrow> u64 \<Rightarrow> u8 list" where
  "rust_dns_cache_value domain_hash timestamp =
     put_bytes 8 (le_bytes 8 timestamp) (put_bytes 0 (le_bytes 8 domain_hash) (replicate 16 0))"

text \<open>The BPF side: a member of the value a lookup points to.\<close>

definition load_member :: "ctype \<Rightarrow> string \<Rightarrow> u8 list \<Rightarrow> u8 list" where
  "load_member t x buf =
     (case offset_of t [x] of Some (off, t') \<Rightarrow> take (csize t') (drop off buf) | None \<Rightarrow> [])"

definition load_path_state_value :: "u8 list \<Rightarrow> path_state_value" where
  "load_path_state_value buf =
     (let t = struct_path_state_value in
      \<lparr>psv_next_state = le_word (load_member t ''next_state'' buf), psv_is_terminal = le_word (load_member t ''is_terminal'' buf),
       psv_decision = le_word (load_member t ''decision'' buf), psv_wildcard = le_word (load_member t ''wildcard'' buf)\<rparr>)"

definition load_exec_enrollment_value :: "u8 list \<Rightarrow> exec_enrollment_value" where
  "load_exec_enrollment_value buf =
     (let t = struct_exec_enrollment_value in
      \<lparr>eev_pod_id = le_word (load_member t ''pod_id'' buf), eev_role_id = le_word (load_member t ''role_id'' buf)\<rparr>)"

definition load_process_info :: "u8 list \<Rightarrow> process_info" where
  "load_process_info buf =
     (let t = struct_process_info in
      \<lparr>pi_pod_id = le_word (load_member t ''pod_id'' buf), pi_role_id = le_word (load_member t ''role_id'' buf),
       pi_stack_depth = le_word (load_member t ''stack_depth'' buf), pi_flags = le_word (load_member t ''flags'' buf)\<rparr>)"

definition load_proxy_config :: "u8 list \<Rightarrow> proxy_config" where
  "load_proxy_config buf =
     (let t = struct_proxy_config in
      \<lparr>pc_proxy_ip = le_word (load_member t ''proxy_ip'' buf), pc_proxy_port = le_word (load_member t ''proxy_port'' buf),
       pc_require_proxy = le_word (load_member t ''require_proxy'' buf)\<rparr>)"

definition load_dns_cache_value :: "u8 list \<Rightarrow> dns_cache_value" where
  "load_dns_cache_value buf =
     (let t = struct_dns_cache_value in
      \<lparr>dcv_domain_hash = le_word (load_member t ''domain_hash'' buf), dcv_timestamp = le_word (load_member t ''timestamp'' buf)\<rparr>)"

section \<open>Maps of bytes\<close>

text \<open>The maps by name, as userspace looks them up in the loaded object.\<close>

type_synonym byte_maps = "string \<Rightarrow> u8 list \<rightharpoonup> u8 list"

definition map_update :: "string \<Rightarrow> u8 list \<Rightarrow> u8 list \<Rightarrow> byte_maps \<Rightarrow> byte_maps" where
  "map_update name key v m = m(name := (m name)(key \<mapsto> v))"

definition map_delete :: "string \<Rightarrow> u8 list \<Rightarrow> byte_maps \<Rightarrow> (daemon_error + unit) \<times> byte_maps" where
  "map_delete name key m =
     (if m name key = None then (Inl No_entry, m) else (Inr (), m(name := (m name)(key := None))))"

text \<open>A row as \<open>path_state_entries_for_role\<close> encodes it.\<close>

fun rust_row :: "path_row \<Rightarrow> u8 list \<times> u8 list" where
  "rust_row (k, v) =
     (rust_path_state_key (psk_role_id k) (psk_state k) (psk_component_hash k),
      rust_path_state_value (psv_next_state v) (psv_is_terminal v \<noteq> 0) (psv_decision v \<noteq> 0) (psv_wildcard v \<noteq> 0))"

fun raw_write_states :: "string \<Rightarrow> (u8 list \<times> u8 list) list \<Rightarrow> byte_maps \<Rightarrow> byte_maps" where
  "raw_write_states name [] m = m"
| "raw_write_states name ((key, v) # entries) m = raw_write_states name entries (map_update name key v m)"

text \<open>The writes of userspace. Rows come already encoded; addresses are parsed here.\<close>

datatype map_write =
    Set_role_flags u32 u8
  | Write_path_states "path_row list"
  | Write_exec_states "path_row list"
  | Add_network_rule u32 u16 u8 u8 bool
  | Remove_network_rule u32 u16 u8 u8
  | Add_ip_rule u32 bytes u8 bool
  | Remove_ip_rule u32 bytes u8
  | Add_domain_rule u32 bytes bool
  | Remove_domain_rule u32 bytes
  | Cache_resolved_ip u32 u32 u64
  | Set_proxy u32 bytes bool
  | Remove_proxy u32
  | Add_exec_enrollment u64 u64 u32
  | Remove_exec_enrollment u64
  | Add_cgroup_enrollment u64 u64 u32
  | Remove_cgroup_enrollment u64
  | Enroll_pending u32 u64 u32
  | Invalidate_cache

fun raw_write :: "map_write \<Rightarrow> byte_maps \<Rightarrow> (daemon_error + unit) \<times> byte_maps" where
  "raw_write (Set_role_flags role_id flags) m = (Inr (), map_update ''role_flags'' (le_bytes 4 role_id) [flags] m)"
| "raw_write (Write_path_states rows) m = (Inr (), raw_write_states ''path_states'' (map rust_row rows) m)"
| "raw_write (Write_exec_states rows) m = (Inr (), raw_write_states ''exec_states'' (map rust_row rows) m)"
| "raw_write (Add_network_rule role_id port protocol direction allow) m =
     (Inr (), map_update ''network_rules'' (rust_net_rule_key role_id port protocol direction) [bool_byte allow] m)"
| "raw_write (Remove_network_rule role_id port protocol direction) m =
     map_delete ''network_rules'' (rust_net_rule_key role_id port protocol direction) m"
| "raw_write (Add_ip_rule role_id cidr direction allow) m =
     (case parse_cidr cidr of
        Inl e \<Rightarrow> (Inl (Apply_failed e), m)
      | Inr (ip, prefix_len) \<Rightarrow>
          (Inr (), map_update ''ip_rules'' (rust_ip_rule_key role_id ip prefix_len direction) [bool_byte allow] m))"
| "raw_write (Remove_ip_rule role_id cidr direction) m =
     (case parse_cidr cidr of
        Inl e \<Rightarrow> (Inl (Apply_failed e), m)
      | Inr (ip, prefix_len) \<Rightarrow> map_delete ''ip_rules'' (rust_ip_rule_key role_id ip prefix_len direction) m)"
| "raw_write (Add_domain_rule role_id domain allow) m =
     (Inr (), map_update ''domain_rules'' (rust_domain_rule_key role_id domain) [bool_byte allow] m)"
| "raw_write (Remove_domain_rule role_id domain) m = map_delete ''domain_rules'' (rust_domain_rule_key role_id domain) m"
| "raw_write (Cache_resolved_ip role_id ip domain_hash) m =
     (Inr (), map_update ''dns_cache'' (rust_dns_cache_key role_id ip) (rust_dns_cache_value domain_hash 0) m)"
| "raw_write (Set_proxy role_id address required) m =
     (case parse_proxy_addr address of
        Inl e \<Rightarrow> (Inl (Apply_failed e), m)
      | Inr (ip, port) \<Rightarrow> (Inr (), map_update ''proxy_config'' (le_bytes 4 role_id) (rust_proxy_config_value ip port required) m))"
| "raw_write (Remove_proxy role_id) m = map_delete ''proxy_config'' (le_bytes 4 role_id) m"
| "raw_write (Add_exec_enrollment inode pod role_id) m =
     (Inr (), map_update ''exec_enrollment'' (le_bytes 8 inode) (rust_enrollment_value pod role_id) m)"
| "raw_write (Remove_exec_enrollment inode) m = map_delete ''exec_enrollment'' (le_bytes 8 inode) m"
| "raw_write (Add_cgroup_enrollment cgroup_id pod role_id) m =
     (Inr (), map_update ''cgroup_enrollment'' (le_bytes 8 cgroup_id) (rust_enrollment_value pod role_id) m)"
| "raw_write (Remove_cgroup_enrollment cgroup_id) m = map_delete ''cgroup_enrollment'' (le_bytes 8 cgroup_id) m"
| "raw_write (Enroll_pending pid pod role_id) m =
     (Inr (), map_update ''pending_enrollments'' (le_bytes 4 pid) (rust_process_info_value pod role_id 0 0) m)"
| "raw_write Invalidate_cache m =
     (case m ''cache_generation'' (le_bytes 4 (0 :: u32)) of
        None \<Rightarrow> (Inl No_generation, m)
      | Some current_gen \<Rightarrow>
          (Inr (), map_update ''cache_generation'' (le_bytes 4 (0 :: u32)) (le_bytes 4 (le_word (take 4 current_gen) + 1 :: u32)) m))"

text \<open>The same writes on the records of the model.\<close>

fun model_write :: "map_write \<Rightarrow> bpf_state \<Rightarrow> (daemon_error + unit) \<times> bpf_state" where
  "model_write (Set_role_flags role_id flags) s = (Inr (), set_role_flags role_id flags s)"
| "model_write (Write_path_states rows) s = (Inr (), write_path_states rows s)"
| "model_write (Write_exec_states rows) s = (Inr (), write_exec_states rows s)"
| "model_write (Add_network_rule role_id port protocol direction allow) s =
     (Inr (), add_network_rule role_id port protocol direction allow s)"
| "model_write (Remove_network_rule role_id port protocol direction) s = remove_network_rule role_id port protocol direction s"
| "model_write (Add_ip_rule role_id cidr direction allow) s =
     map_prod (map_sum Apply_failed id) id (add_ip_rule role_id cidr direction allow s)"
| "model_write (Remove_ip_rule role_id cidr direction) s = remove_ip_rule role_id cidr direction s"
| "model_write (Add_domain_rule role_id domain allow) s = (Inr (), add_domain_rule role_id domain allow s)"
| "model_write (Remove_domain_rule role_id domain) s = remove_domain_rule role_id domain s"
| "model_write (Cache_resolved_ip role_id ip domain_hash) s = (Inr (), cache_resolved_ip role_id ip domain_hash s)"
| "model_write (Set_proxy role_id address required) s =
     map_prod (map_sum Apply_failed id) id (set_proxy role_id address required s)"
| "model_write (Remove_proxy role_id) s = remove_proxy_config role_id s"
| "model_write (Add_exec_enrollment inode pod role_id) s = (Inr (), add_exec_enrollment inode pod role_id s)"
| "model_write (Remove_exec_enrollment inode) s = remove_exec_enrollment inode s"
| "model_write (Add_cgroup_enrollment cgroup_id pod role_id) s = (Inr (), add_cgroup_enrollment cgroup_id pod role_id s)"
| "model_write (Remove_cgroup_enrollment cgroup_id) s = remove_cgroup_enrollment cgroup_id s"
| "model_write (Enroll_pending pid pod role_id) s = (Inr (), enroll_pending_process pid pod role_id s)"
| "model_write Invalidate_cache s = invalidate_cache s"

fun run_writes :: "(map_write \<Rightarrow> 'a \<Rightarrow> (daemon_error + unit) \<times> 'a) \<Rightarrow> map_write list \<Rightarrow> 'a \<Rightarrow> (daemon_error + unit) list \<times> 'a" where
  "run_writes f [] x = ([], x)"
| "run_writes f (w # ws) x = (let (r, y) = f w x; (rs, z) = run_writes f ws y in (r # rs, z))"

text \<open>A task storage entry as the daemon reads it; one that is too short is reported with its length.\<close>

definition raw_process_info :: "u8 list option \<Rightarrow> nat + (u64 \<times> u32) option" where
  "raw_process_info entry =
     (case entry of
        None \<Rightarrow> Inr None
      | Some raw \<Rightarrow>
          if length raw < 12 then Inl (length raw)
          else Inr (Some (le_word (take 8 raw), le_word (take 4 (drop 8 raw)))))"

section \<open>What the programs see\<close>

definition view_table :: "('k \<Rightarrow> u8 list) \<Rightarrow> (u8 list \<Rightarrow> 'v) \<Rightarrow> (u8 list \<rightharpoonup> u8 list) \<Rightarrow> 'k \<rightharpoonup> 'v" where
  "view_table encode load t = (\<lambda>k. map_option load (t (encode k)))"

text \<open>The maps userspace writes; those only the programs write are kept.\<close>

definition view_maps :: "byte_maps \<Rightarrow> bpf_state \<Rightarrow> bpf_state" where
  "view_maps m s = s\<lparr>
     role_flags := view_table (le_bytes 4) le_word (m ''role_flags''),
     network_rules := view_table net_rule_key_bytes le_word (m ''network_rules''),
     pending_enrollments := view_table (le_bytes 4) load_process_info (m ''pending_enrollments''),
     path_states := view_table path_state_key_bytes load_path_state_value (m ''path_states''),
     exec_states := view_table path_state_key_bytes load_path_state_value (m ''exec_states''),
     cache_generation := view_table (le_bytes 4) (\<lambda>buf. le_word (take 4 buf)) (m ''cache_generation''),
     exec_enrollment := view_table (le_bytes 8) load_exec_enrollment_value (m ''exec_enrollment''),
     cgroup_enrollment := view_table (le_bytes 8) load_exec_enrollment_value (m ''cgroup_enrollment''),
     ip_rules := view_table ip_rule_key_bytes le_word (m ''ip_rules''),
     proxy_configs := view_table (le_bytes 4) load_proxy_config (m ''proxy_config''),
     domain_rules := view_table domain_rule_key_bytes le_word (m ''domain_rules''),
     dns_cache := view_table dns_cache_key_bytes load_dns_cache_value (m ''dns_cache'')\<rparr>"

section \<open>The contract\<close>

text \<open>Keys that are told apart by their bytes, and values that are read back as they were put.\<close>

locale byte_table = byte_key encode key_size
  for encode :: "'k \<Rightarrow> u8 list" and key_size :: nat +
  fixes put :: "'v \<Rightarrow> u8 list" and load :: "u8 list \<Rightarrow> 'v"
  assumes load_put: "load (put v) = v"
begin

lemma view_update: "view_table encode load (t(encode k \<mapsto> put v)) = (view_table encode load t)(k \<mapsto> v)"
  by (auto simp: view_table_def fun_eq_iff load_put encode_eq)

lemma view_delete: "view_table encode load (t(encode k := None)) = (view_table encode load t)(k := None)"
  by (auto simp: view_table_def fun_eq_iff encode_eq)

lemma view_absent: "view_table encode load t k = None \<longleftrightarrow> t (encode k) = None"
  by (simp add: view_table_def)

end


section \<open>The values in bytes\<close>

definition path_state_value_bytes :: "path_state_value \<Rightarrow> u8 list" where
  "path_state_value_bytes v =
     le_bytes 8 (psv_next_state v) @ [psv_is_terminal v, psv_decision v, psv_wildcard v, 0, 0, 0, 0, 0]"

definition exec_enrollment_value_bytes :: "exec_enrollment_value \<Rightarrow> u8 list" where
  "exec_enrollment_value_bytes v = le_bytes 8 (eev_pod_id v) @ le_bytes 4 (eev_role_id v) @ [0, 0, 0, 0]"

definition process_info_bytes :: "process_info \<Rightarrow> u8 list" where
  "process_info_bytes v =
     le_bytes 8 (pi_pod_id v) @ le_bytes 4 (pi_role_id v) @ [pi_stack_depth v, pi_flags v, 0, 0]"

definition proxy_config_bytes :: "proxy_config \<Rightarrow> u8 list" where
  "proxy_config_bytes v = le_bytes 4 (pc_proxy_ip v) @ le_bytes 2 (pc_proxy_port v) @ [pc_require_proxy v, 0]"

definition dns_cache_value_bytes :: "dns_cache_value \<Rightarrow> u8 list" where
  "dns_cache_value_bytes v = le_bytes 8 (dcv_domain_hash v) @ le_bytes 8 (dcv_timestamp v)"

lemmas value_bytes_defs =
  path_state_value_bytes_def exec_enrollment_value_bytes_def process_info_bytes_def proxy_config_bytes_def dns_cache_value_bytes_def

lemma load_members:
  "load_member struct_path_state_value ''next_state'' buf = take 8 buf"
  "load_member struct_path_state_value ''is_terminal'' buf = take 1 (drop 8 buf)"
  "load_member struct_path_state_value ''decision'' buf = take 1 (drop 9 buf)"
  "load_member struct_path_state_value ''wildcard'' buf = take 1 (drop 10 buf)"
  "load_member struct_exec_enrollment_value ''pod_id'' buf = take 8 buf"
  "load_member struct_exec_enrollment_value ''role_id'' buf = take 4 (drop 8 buf)"
  "load_member struct_process_info ''pod_id'' buf = take 8 buf"
  "load_member struct_process_info ''role_id'' buf = take 4 (drop 8 buf)"
  "load_member struct_process_info ''stack_depth'' buf = take 1 (drop 12 buf)"
  "load_member struct_process_info ''flags'' buf = take 1 (drop 13 buf)"
  "load_member struct_proxy_config ''proxy_ip'' buf = take 4 buf"
  "load_member struct_proxy_config ''proxy_port'' buf = take 2 (drop 4 buf)"
  "load_member struct_proxy_config ''require_proxy'' buf = take 1 (drop 6 buf)"
  "load_member struct_dns_cache_value ''domain_hash'' buf = take 8 buf"
  "load_member struct_dns_cache_value ''timestamp'' buf = take 8 (drop 8 buf)"
  by (simp_all add: load_member_def bpf_struct_defs layout)

lemma le_word_byte [simp]: "le_word [b] = (b :: u8)"
  by simp

lemma load_values:
  "load_path_state_value (path_state_value_bytes psv) = psv"
  "load_exec_enrollment_value (exec_enrollment_value_bytes eev) = eev"
  "load_process_info (process_info_bytes pi) = pi"
  "load_proxy_config (proxy_config_bytes pc) = pc"
  "load_dns_cache_value (dns_cache_value_bytes dcv) = dcv"
  by (simp_all add: load_path_state_value_def load_exec_enrollment_value_def load_process_info_def load_proxy_config_def
      load_dns_cache_value_def load_members value_bytes_defs le_word_le_bytes)

lemma replicate_8: "replicate 8 x = [x, x, x, x, x, x, x, x]"
  by (simp add: numeral_eq_Suc)

lemma rust_values_agree:
  "rust_path_state_value next_state is_terminal allow wildcard = path_state_value_bytes
     \<lparr>psv_next_state = next_state, psv_is_terminal = bool_byte is_terminal, psv_decision = bool_byte allow,
      psv_wildcard = bool_byte wildcard\<rparr>"
  "rust_enrollment_value pod role_id = exec_enrollment_value_bytes \<lparr>eev_pod_id = pod, eev_role_id = role_id\<rparr>"
  "rust_process_info_value pod role_id depth flags = process_info_bytes
     \<lparr>pi_pod_id = pod, pi_role_id = role_id, pi_stack_depth = depth, pi_flags = flags\<rparr>"
  "rust_proxy_config_value ip port required = proxy_config_bytes
     \<lparr>pc_proxy_ip = bswap32 ip, pc_proxy_port = port, pc_require_proxy = bool_byte required\<rparr>"
  "rust_dns_cache_value h ts = dns_cache_value_bytes \<lparr>dcv_domain_hash = h, dcv_timestamp = ts\<rparr>"
  "rust_ip_rule_key role_id ip p direction = ip_rule_key_bytes
     \<lparr>irk_role_id = role_id, irk_ip_addr = bswap32 (mask_ipv4 ip p), irk_prefix_len = p, irk_direction = direction\<rparr>"
  by (simp_all add: rust_path_state_value_def rust_enrollment_value_def rust_process_info_value_def rust_proxy_config_value_def
      rust_dns_cache_value_def rust_ip_rule_key_def key_bytes value_bytes_defs put_bytes_def octets_bswap
      list_update_append replicate_small replicate_8)

interpretation role_flags_table: byte_table "le_bytes 4 :: u32 \<Rightarrow> u8 list" 4 "\<lambda>b. [b :: u8]" le_word
  by unfold_locales (simp_all add: le_bytes_inject)

interpretation network_rules_table: byte_table net_rule_key_bytes 8 "\<lambda>b. [b :: u8]" le_word
  by unfold_locales simp

interpretation pending_table: byte_table "le_bytes 4 :: u32 \<Rightarrow> u8 list" 4 process_info_bytes load_process_info
  by unfold_locales (rule load_values)

interpretation states_table: byte_table path_state_key_bytes 24 path_state_value_bytes load_path_state_value
  by unfold_locales (rule load_values)

interpretation generation_table:
  byte_table "le_bytes 4 :: u32 \<Rightarrow> u8 list" 4 "le_bytes 4 :: u32 \<Rightarrow> u8 list" "\<lambda>buf. le_word (take 4 buf)"
  by unfold_locales (simp add: le_word_le_bytes)

interpretation enrollment_table: byte_table "le_bytes 8 :: u64 \<Rightarrow> u8 list" 8 exec_enrollment_value_bytes load_exec_enrollment_value
  by unfold_locales (simp_all add: le_bytes_inject load_values)

interpretation ip_rules_table: byte_table ip_rule_key_bytes 12 "\<lambda>b. [b :: u8]" le_word
  by unfold_locales simp

interpretation proxy_table: byte_table "le_bytes 4 :: u32 \<Rightarrow> u8 list" 4 proxy_config_bytes load_proxy_config
  by unfold_locales (rule load_values)

interpretation domain_rules_table: byte_table domain_rule_key_bytes 16 "\<lambda>b. [b :: u8]" le_word
  by unfold_locales simp

interpretation dns_table: byte_table dns_cache_key_bytes 8 dns_cache_value_bytes load_dns_cache_value
  by unfold_locales (rule load_values)

section \<open>Rows\<close>

text \<open>The rows the compiler emits have booleans for their flags, so nothing is lost in their bytes.\<close>

definition boolean_row :: "path_row \<Rightarrow> bool" where
  "boolean_row row \<longleftrightarrow> rust_row row = map_prod path_state_key_bytes path_state_value_bytes row"

lemma boolean_values:
  "boolean_row (k, terminal_value decision wildcard)" "boolean_row (k, step_value next_state wildcard)"
  by (cases k; simp add: boolean_row_def rust_keys_agree rust_values_agree terminal_value_def step_value_def bool_byte_def)+

lemma role_row_boolean: "role_row role_id rules p k v \<Longrightarrow> boolean_row (k, v)"
  by (auto simp: role_row_def edge_value_def wildcard_value_def boolean_values split: if_splits)

lemma compiled_rows_boolean:
  assumes "path_state_entries_for_role role_id rules = Some (Inr rows)" and "row \<in> set rows"
  shows "boolean_row row"
  using role_outcome [of role_id rules]
proof cases
  case (ok rows')
  then show ?thesis using assms role_row_boolean by (cases row) auto
qed (use assms in simp)

lemma raw_states_other: "name \<noteq> name' \<Longrightarrow> raw_write_states name entries m name' = m name'"
  by (induction name entries m rule: raw_write_states.induct) (simp_all add: map_update_def)

lemma raw_states_view:
  assumes "\<And>row. row \<in> set rows \<Longrightarrow> boolean_row row"
  shows "view_table path_state_key_bytes load_path_state_value (raw_write_states name (map rust_row rows) m name) =
    write_rows rows (view_table path_state_key_bytes load_path_state_value (m name))"
  using assms
proof (induction rows arbitrary: m)
  case (Cons row rows)
  obtain k v where row: "row = (k, v)" by (cases row)
  then have "rust_row (k, v) = (path_state_key_bytes k, path_state_value_bytes v)"
    using Cons.prems [of row] by (simp add: boolean_row_def del: rust_row.simps)
  moreover have "map_update name key x m name = (m name)(key \<mapsto> x)" for key x by (simp add: map_update_def)
  ultimately show ?case
    using Cons by (simp add: row states_table.view_update write_rows_def del: rust_row.simps fun_upd_apply)
qed (simp add: write_rows_def)

section \<open>Every write\<close>

definition compiled_write :: "map_write \<Rightarrow> bool" where
  "compiled_write w \<longleftrightarrow>
     (case w of
        Write_path_states rows \<Rightarrow> \<exists>role_id rules. path_state_entries_for_role role_id rules = Some (Inr rows)
      | Write_exec_states rows \<Rightarrow> \<exists>role_id rules. path_state_entries_for_role role_id rules = Some (Inr rows)
      | _ \<Rightarrow> True)"

lemmas table_views =
  role_flags_table.view_update network_rules_table.view_update network_rules_table.view_delete network_rules_table.view_absent
  pending_table.view_update generation_table.view_update enrollment_table.view_update enrollment_table.view_delete
  enrollment_table.view_absent ip_rules_table.view_update ip_rules_table.view_delete ip_rules_table.view_absent
  proxy_table.view_update proxy_table.view_delete proxy_table.view_absent domain_rules_table.view_update
  domain_rules_table.view_delete domain_rules_table.view_absent dns_table.view_update

lemmas model_write_defs =
  set_role_flags_def write_path_states_def write_exec_states_def add_network_rule_def remove_network_rule_def net_key_def
  add_ip_rule_def remove_ip_rule_def add_domain_rule_def remove_domain_rule_def cache_resolved_ip_def set_proxy_def
  remove_proxy_config_def add_exec_enrollment_def remove_exec_enrollment_def add_cgroup_enrollment_def
  remove_cgroup_enrollment_def enroll_pending_process_def

lemma raw_write_refines:
  assumes "compiled_write w"
  shows "map_prod id (\<lambda>m. view_maps m s) (raw_write w m) = model_write w (view_maps m s)"
proof (cases w)
  case (Write_path_states rows)
  then have "\<And>row. row \<in> set rows \<Longrightarrow> boolean_row row" using assms compiled_rows_boolean by (auto simp: compiled_write_def)
  note raw_states_view [OF this]
  then show ?thesis by (simp add: Write_path_states view_maps_def model_write_defs raw_states_other)
next
  case (Write_exec_states rows)
  then have "\<And>row. row \<in> set rows \<Longrightarrow> boolean_row row" using assms compiled_rows_boolean by (auto simp: compiled_write_def)
  note raw_states_view [OF this]
  then show ?thesis by (simp add: Write_exec_states view_maps_def model_write_defs raw_states_other)
next
  case Invalidate_cache
  then show ?thesis
    by (auto simp: view_maps_def invalidate_cache_def map_update_def view_table_def fun_eq_iff le_word_le_bytes le_bytes_inject
        split: option.splits)
qed (auto simp: view_maps_def map_update_def map_delete_def table_views model_write_defs rust_keys_agree rust_values_agree Let_def
    split: sum.splits prod.splits)


section \<open>Properties\<close>

text \<open>
  C11: The bytes userspace writes are the records the programs read. After any sequence of writes and
  removals by the daemon and the bootstrap (flags, compiled path and execution rows, port, address
  and domain rules, resolved addresses, proxies, enrollments, pending enrollments and cache
  invalidations), with keys and values encoded by the codec of userspace, the programs, which build
  their own keys and read members at the offsets of their structures, see the maps of the model
  after the same sequence, and every single write has succeeded or failed as in the model.
\<close>

theorem byte_writes_refine_model:
  assumes "\<forall>w \<in> set ws. compiled_write w"
  shows "map_prod id (\<lambda>m. view_maps m s) (run_writes raw_write ws m) = run_writes model_write ws (view_maps m s)"
  using assms
proof (induction ws arbitrary: m)
  case (Cons w ws)
  obtain r m' where m': "raw_write w m = (r, m')" by force
  then have "model_write w (view_maps m s) = (r, view_maps m' s)"
    using raw_write_refines [of w s m] Cons.prems by simp
  moreover have "run_writes model_write ws (view_maps m' s) = map_prod id (\<lambda>m. view_maps m s) (run_writes raw_write ws m')"
    using Cons.IH Cons.prems by (metis list.set_intros(2))
  ultimately show ?case using m' by (simp add: case_prod_unfold Let_def)
qed simp

theorem byte_writes_refine_model_witness:
  "\<exists>rows. path_state_entries_for_role 3 sample_rules = Some (Inr rows) \<and>
     (let ws = [Set_role_flags 3 1, Write_path_states rows, Add_ip_rule 3 (bytes_of ''10.0.0.0/8'') 1 False,
                Remove_ip_rule 3 (bytes_of ''10.1.2.3/8'') 1, Remove_proxy 3, Enroll_pending 42 7 3]
      in map_prod id (\<lambda>m. view_maps m blank_state) (run_writes raw_write ws (\<lambda>_. Map.empty)) =
         run_writes model_write ws (view_maps (\<lambda>_. Map.empty) blank_state))"
proof (rule star_free_compiles [of sample_rules 3, OF sample_rules_star_free])
  fix rows
  assume rows: "path_state_entries_for_role 3 sample_rules = Some (Inr rows)"
  then show ?thesis
    unfolding Let_def by (intro exI [of _ rows] conjI byte_writes_refine_model) (auto simp: compiled_write_def)
qed

text \<open>
  What the daemon reads back is what the programs keep: from the bytes of an entry the daemon gets the
  pod and role that \<open>get_process_info\<close> reports.
\<close>

theorem raw_process_info_reads_entry:
  "de_task_of de pid = Some task \<Longrightarrow>
   raw_process_info (map_option process_info_bytes (task_storage s task)) = Inr (get_process_info de pid s)"
  by (cases "task_storage s task")
    (simp_all add: raw_process_info_def get_process_info_def process_info_bytes_def le_word_le_bytes)

end
