(* ===== verification/Presets.thy ===== *)
theory Presets
  imports Policy_Load
begin

text \<open>
  The other presets of \<open>policy.rs\<close>: subsets of the secret patterns, the deny set of the shipped
  \<open>cis_*\<close> roles, and the domains of \<open>AllowedDomains\<close>; and what a list of refusals decides in general.
\<close>

section \<open>The presets\<close>

definition denied_patterns :: "string list \<Rightarrow> path_pattern list" where
  "denied_patterns ps = map (\<lambda>p. \<lparr>pp_pattern = bytes_of p, pp_allow = False\<rparr>) ps"

definition ssh_keys :: "path_pattern list" where
  "ssh_keys = denied_patterns [''/.ssh/'']"

definition cloud_credentials :: "path_pattern list" where
  "cloud_credentials = denied_patterns [''/.aws/'', ''/.config/gcloud/'', ''/.azure/'', ''/.kube/'']"

definition process_info_patterns :: "path_pattern list" where
  "process_info_patterns = denied_patterns [''/proc/'']"

definition cis_hardening :: "path_pattern list" where
  "cis_hardening = denied_patterns
     [''/etc/shadow'', ''/etc/gshadow'', ''/etc/shadow-'', ''/etc/gshadow-'', ''/root/'', ''/boot/'', ''/etc/audit/'',
      ''/etc/sudoers'', ''/etc/sudoers.d/'', ''/etc/ssh/'']"

definition allowed_domains :: "string list \<Rightarrow> domain_rule list" where
  "allowed_domains ds = map (\<lambda>d. \<lparr>dr_domain = bytes_of d, dr_allow = True\<rparr>) ds"

definition openai :: "domain_rule list" where
  "openai = allowed_domains [''api.openai.com'']"

definition anthropic :: "domain_rule list" where
  "anthropic = allowed_domains [''api.anthropic.com'']"

definition google_ai :: "domain_rule list" where
  "google_ai = allowed_domains [''generativelanguage.googleapis.com'', ''aiplatform.googleapis.com'']"

definition all_llm_providers :: "domain_rule list" where
  "all_llm_providers = openai @ anthropic @ google_ai @ allowed_domains [''api.cohere.ai'', ''api.mistral.ai'']"

text \<open>\<open>PolicyConfig::new\<close> and the lookup by id, which takes the first role in the order of the map.\<close>

definition new_policy :: policy_config where
  "new_policy = \<lparr>pol_roles = [], pol_pods = [], pol_exec_enrollments = [], pol_cgroup_enrollments = []\<rparr>"

definition get_role_by_id :: "policy_config \<Rightarrow> u32 \<Rightarrow> role option" where
  "get_role_by_id config role_id = find (\<lambda>r. rl_id r = role_id) (map snd (pol_roles config))"

section \<open>Lists of refusals\<close>

text \<open>
  Refusals without star components decide exactly the paths at and below their patterns, and leave
  all others to the role flags.
\<close>

lemma refusals_decide:
  assumes "star_free rules" and "\<forall>(pattern, allow) \<in> set rules. \<not> allow \<and> pattern_components pattern \<noteq> []"
  shows "trie_verdict rules [] names =
    (if \<exists>(pattern, allow) \<in> set rules. prefix (pattern_components pattern) names then - 13 else 0)"
proof (cases "nearest rules names")
  case None
  then have none: "decided rules q = None" if "prefix q names" for q using that by (simp add: nearest_None_iff)
  have "\<not> prefix (pattern_components pattern) names" if "(pattern, allow) \<in> set rules" for pattern allow
  proof -
    have "decided rules (pattern_components pattern) \<noteq> None" using that assms(2) by (intro decided_iff [THEN iffD2] conjI bexI [OF _ that]) auto
    then show ?thesis by (rule contrapos_nn) (rule none)
  qed
  then have "\<not> (\<exists>(pattern, allow) \<in> set rules. prefix (pattern_components pattern) names)" by auto
  then show ?thesis using None trie_verdict_star_free [OF assms(1), of "[]" names] by (simp add: rule_opinion_def)
next
  case (Some x)
  then obtain q pattern d where q: "prefix q names" "decided rules q = Some (d, pattern)" "x = (d, pattern)"
    using nearest_longest by (metis surj_pair)
  then have "(pattern, d) \<in> set rules" "pattern_components pattern = q" using decidedD by blast+
  moreover have "\<not> d" using calculation assms(2) by auto
  ultimately show ?thesis
    using Some q trie_verdict_star_free [OF assms(1), of "[]" names] by (auto simp: rule_opinion_def decision_verdict_def)
qed

lemma refused_patterns:
  "list_all (\<lambda>(pattern, allow). \<not> allow \<and> pattern_components pattern \<noteq> []) (rules_of_paths cis_hardening)"
  "list_all (\<lambda>(pattern, allow). \<not> allow \<and> pattern_components pattern \<noteq> []) (rules_of_paths secret_patterns)"
  "star_free (rules_of_paths cis_hardening)" "star_free (rules_of_paths secret_patterns)"
  by code_simp+

lemma cis_components:
  "map (pattern_components \<circ> fst) (rules_of_paths cis_hardening) = map (map bytes_of)
     [[''etc'', ''shadow''], [''etc'', ''gshadow''], [''etc'', ''shadow-''], [''etc'', ''gshadow-''], [''root''], [''boot''],
      [''etc'', ''audit''], [''etc'', ''sudoers''], [''etc'', ''sudoers.d''], [''etc'', ''ssh'']]"
  by code_simp

text \<open>
  What a role with the CIS deny set refuses: everything at and below \<open>/root\<close>, \<open>/boot\<close>, and the listed
  entries of \<open>/etc\<close>, and nothing else by a rule. In particular \<open>/etc/passwd\<close> and \<open>/etc/group\<close> are left
  to the flags.
\<close>

theorem cis_hardening_exact:
  "trie_verdict (rules_of_paths cis_hardening) [] names =
   (if names \<noteq> [] \<and> (hd names \<in> bytes_of ` {''root'', ''boot''} \<or>
       hd names = bytes_of ''etc'' \<and> tl names \<noteq> [] \<and>
       hd (tl names) \<in> bytes_of ` {''shadow'', ''gshadow'', ''shadow-'', ''gshadow-'', ''audit'', ''sudoers'', ''sudoers.d'', ''ssh''})
    then - 13 else 0)"
proof -
  let ?rules = "rules_of_paths cis_hardening"
  have "(\<exists>(pattern, allow) \<in> set ?rules. prefix (pattern_components pattern) names) \<longleftrightarrow>
      (\<exists>q \<in> set (map (pattern_components \<circ> fst) ?rules). prefix q names)" by force
  also have "\<dots> \<longleftrightarrow> names \<noteq> [] \<and> (hd names \<in> bytes_of ` {''root'', ''boot''} \<or>
       hd names = bytes_of ''etc'' \<and> tl names \<noteq> [] \<and>
       hd (tl names) \<in> bytes_of ` {''shadow'', ''gshadow'', ''shadow-'', ''gshadow-'', ''audit'', ''sudoers'', ''sudoers.d'', ''ssh''})"
    unfolding cis_components by (cases names; cases "tl names") auto
  finally show ?thesis
    using refusals_decide [of ?rules names] refused_patterns by (simp add: list_all_iff)
qed

lemma role_by_idD: "get_role_by_id config role_id = Some r \<Longrightarrow> r \<in> snd ` set (pol_roles config) \<and> rl_id r = role_id"
  unfolding get_role_by_id_def find_Some_iff by (metis list.set_map nth_mem)

text \<open>With distinct ids the lookup by id and the one by name find the same roles.\<close>

theorem roles_by_id_and_name:
  assumes "distinct (map fst (pol_roles config))" and "distinct (map (rl_id \<circ> snd) (pol_roles config))"
  shows "get_role_by_id config role_id = Some r \<longleftrightarrow> (\<exists>name. get_role config name = Some r \<and> rl_id r = role_id)"
proof -
  have "get_role_by_id config role_id = Some r" if r: "r \<in> snd ` set (pol_roles config)" "rl_id r = role_id"
  proof -
    obtain x where x: "get_role_by_id config role_id = Some x"
      using r by (cases "get_role_by_id config role_id") (auto simp: get_role_by_id_def find_None_iff)
    then have "x = r" using role_by_idD [OF x] r assms(2) by (auto simp: distinct_map inj_on_def)
    then show ?thesis using x by simp
  qed
  then have "get_role_by_id config role_id = Some r \<longleftrightarrow> r \<in> snd ` set (pol_roles config) \<and> rl_id r = role_id"
    using role_by_idD by blast
  then show ?thesis using assms(1) by (force simp: get_role_def)
qed

text \<open>The preset domains get rules of their own: no two of them share a hash.\<close>

theorem preset_domains_apart: "distinct (map (fnv1a_hash_u64 \<circ> dr_domain) all_llm_providers)"
  by code_simp

text \<open>The smaller presets are part of the full set of secret patterns.\<close>

theorem secret_presets_included:
  "set ssh_keys \<union> set cloud_credentials \<union> set process_info_patterns \<subseteq> set secret_patterns"
  by (simp add: ssh_keys_def cloud_credentials_def process_info_patterns_def secret_patterns_def denied_patterns_def)

end
