(* ===== verification/Sink_Capacity.thy ===== *)
theory Sink_Capacity
  imports Policy_Sink
begin

text \<open>
  What the capacity of the maps does to a role, and the requests \<open>DefineRole\<close> and \<open>Enroll\<close> where
  writes may fail. The sections of a role before its address rules are shown to leave the egress
  maps alone by the locale \<open>network_relation\<close>; a role whose port rules do not fit ends there.
\<close>

section \<open>Requests where writes may fail\<close>

text \<open>
  The handlers of \<open>DefineRole\<close> and \<open>Enroll\<close>. A failed update of the role's flags or of the pending
  entry is answered with an error (\<open>Inl\<close>); the failures of the rules in between are only logged, and a
  role stays registered although it could not be applied.
\<close>

definition handle_define_role_to ::
  "kernel_answer \<Rightarrow> denv \<Rightarrow> role \<Rightarrow> daemon \<Rightarrow> ((sink_error + response) \<times> daemon) option" where
  "handle_define_role_to ok de r d =
     (if unenforced_settings r \<noteq> [] then Some (Inr (Error (Unenforced (rl_name r) (unenforced_settings r))), d)
      else
        let d = define_role r d in
        case apply_role_to (kernel_sink ok) (de_resolve de) r (d_maps d) of
          None \<Rightarrow> None
        | Some (Inl e, s) \<Rightarrow> Some (Inl e, d\<lparr>d_maps := s\<rparr>)
        | Some (Inr _, s) \<Rightarrow> Some (Inr Success, d\<lparr>d_maps := s\<rparr>))"

definition handle_enroll_to ::
  "kernel_answer \<Rightarrow> u32 \<Rightarrow> u64 \<Rightarrow> u32 \<Rightarrow> daemon \<Rightarrow> ((sink_error + response) \<times> daemon) option" where
  "handle_enroll_to ok pid pod role_id d =
     (case d_role_map d role_id of
        None \<Rightarrow> Some (Inr (Error (Unknown_role role_id)), d)
      | Some r \<Rightarrow>
          (case try_put ok (Put_flags role_id (policy_flags_to_u8 (rl_flags r))) (d_maps d) of
             (Inl e, s) \<Rightarrow> Some (Inl e, d\<lparr>d_maps := s\<rparr>)
           | (Inr _, s) \<Rightarrow>
               let s = snd (sink_network_rules (kernel_sink ok) role_id (rl_network_rules r) [] s) in
               (case path_state_entries_for_role role_id (rules_of_paths (rl_file_paths r)) of
                  None \<Rightarrow> None
                | Some entries \<Rightarrow>
                    let s = snd (sink_states (sink_write_path_states (kernel_sink ok) role_id) Skip_file_paths entries [] s);
                        (res, s) = try_put ok (Put_pending pid
                          \<lparr>pi_pod_id = pod, pi_role_id = role_id, pi_stack_depth = 0, pi_flags = 0\<rparr>) s
                    in Some (map_sum id (\<lambda>_. Success) res, d\<lparr>d_maps := s\<rparr>))))"

section \<open>Capacity\<close>

text \<open>A hash map refuses a new key when it is full; \<open>max_entries\<close> is in the declaration.\<close>

definition room :: "nat \<Rightarrow> ('k \<rightharpoonup> 'v) \<Rightarrow> 'k \<Rightarrow> bool" where
  "room cap t key \<longleftrightarrow> t key \<noteq> None \<or> card (dom t) < cap"

fun has_capacity :: "map_put \<Rightarrow> bpf_state \<Rightarrow> bool" where
  "has_capacity (Put_flags key _) s = room (md_max_entries map_role_flags) (role_flags s) key"
| "has_capacity (Put_path key _) s = room (md_max_entries map_path_states) (path_states s) key"
| "has_capacity (Put_exec key _) s = room (md_max_entries map_exec_states) (exec_states s) key"
| "has_capacity (Put_net key _) s = room (md_max_entries map_network_rules) (network_rules s) key"
| "has_capacity (Put_ip key _) s = room (md_max_entries map_ip_rules) (ip_rules s) key"
| "has_capacity (Put_domain key _) s = room (md_max_entries map_domain_rules) (domain_rules s) key"
| "has_capacity (Put_dns key _) s = room (md_max_entries map_dns_cache) (dns_cache s) key"
| "has_capacity (Put_proxy key _) s = room (md_max_entries map_proxy_config) (proxy_configs s) key"
| "has_capacity (Put_pending key _) s = room (md_max_entries map_pending_enrollments) (pending_enrollments s) key"

text \<open>A kernel that keeps to the capacities, and may refuse further updates for reasons of its own.\<close>

definition limited :: "kernel_answer \<Rightarrow> kernel_answer" where
  "limited other p s \<longleftrightarrow> has_capacity p s \<and> other p s"

definition egress_maps where
  "egress_maps s = (ip_rules s, domain_rules s, dns_cache s, proxy_configs s, pending_enrollments s)"

definition net_bounded :: "bpf_state \<Rightarrow> bool" where
  "net_bounded s \<longleftrightarrow> finite (dom (network_rules s)) \<and> card (dom (network_rules s)) \<le> md_max_entries map_network_rules"

text \<open>What the sections before the address rules leave alone, and keep.\<close>

definition net_effect ::
  "(bpf_state \<Rightarrow> (sink_error + 'a) \<times> bpf_state) \<Rightarrow> (bpf_state \<Rightarrow> (sink_error + 'a) \<times> bpf_state) \<Rightarrow> bool" where
  "net_effect c d \<longleftrightarrow> (\<forall>s. let s' = snd (c s) in
     egress_maps s' = egress_maps s \<and> (net_bounded s \<longrightarrow> net_bounded s') \<and> dom (network_rules s) \<subseteq> dom (network_rules s') \<and>
     dom (role_flags s) \<subseteq> dom (role_flags s'))"

lemma net_effectI:
  assumes "\<And>s. egress_maps (snd (c s)) = egress_maps s" and "\<And>s. net_bounded s \<Longrightarrow> net_bounded (snd (c s))"
    and "\<And>s. dom (network_rules s) \<subseteq> dom (network_rules (snd (c s)))"
    and "\<And>s. dom (role_flags s) \<subseteq> dom (role_flags (snd (c s)))"
  shows "net_effect c d"
  using assms by (simp add: net_effect_def Let_def)

lemma net_effect_then:
  assumes "net_effect c d" and "\<And>x. net_effect (f x) (g x)"
  shows "net_effect (\<lambda>s. and_then (c s) f) (\<lambda>t. and_then (d t) g)"
proof -
  have "let s' = snd (and_then (c s) f) in
     egress_maps s' = egress_maps s \<and> (net_bounded s \<longrightarrow> net_bounded s') \<and> dom (network_rules s) \<subseteq> dom (network_rules s') \<and>
     dom (role_flags s) \<subseteq> dom (role_flags s')" for s
  proof (cases "c s")
    case (Pair r t)
    note c = assms(1) [unfolded net_effect_def Let_def, rule_format, of s]
    show ?thesis
    proof (cases r)
      case (Inl e)
      then show ?thesis using c Pair by (simp add: Let_def)
    next
      case (Inr x)
      note f = assms(2) [unfolded net_effect_def Let_def, rule_format, of x t]
      have "dom (network_rules s) \<subseteq> dom (network_rules t)" "dom (role_flags s) \<subseteq> dom (role_flags t)" using c Pair by simp_all
      then have "dom (network_rules s) \<subseteq> dom (network_rules (snd (f x t)))" "dom (role_flags s) \<subseteq> dom (role_flags (snd (f x t)))"
        using f by (meson subset_trans)+
      then show ?thesis using c f Pair Inr by (simp add: Let_def)
    qed
  qed
  then show ?thesis by (simp add: net_effect_def)
qed

lemma net_effect_put:
  assumes "\<And>key v. p \<noteq> Put_ip key v" "\<And>key v. p \<noteq> Put_domain key v" "\<And>key v. p \<noteq> Put_dns key v" "\<And>key v. p \<noteq> Put_proxy key v"
    "\<And>key v. p \<noteq> Put_pending key v"
  shows "net_effect (try_put (limited other) p) d"
proof (rule net_effectI)
  fix s
  show "egress_maps (snd (try_put (limited other) p s)) = egress_maps s"
    using assms by (cases p) (auto simp: try_put_def egress_maps_def)
  show "dom (network_rules s) \<subseteq> dom (network_rules (snd (try_put (limited other) p s)))"
      "dom (role_flags s) \<subseteq> dom (role_flags (snd (try_put (limited other) p s)))"
    by (cases p; auto simp: try_put_def)+
  show "net_bounded (snd (try_put (limited other) p s))" if "net_bounded s"
    using that by (cases p) (auto simp: try_put_def net_bounded_def limited_def room_def card_insert_if)
qed

lemma net_effect_return: "net_effect (\<lambda>s. (Inr x, s)) d"
  by (rule net_effectI) simp_all

lemma net_effect_puts:
  assumes "\<And>p. p \<in> set ps \<Longrightarrow> \<forall>d. net_effect (try_put (limited other) p) d"
  shows "net_effect (try_puts (limited other) ps) (try_puts (limited other) ps)"
  using assms
proof (induction ps)
  case (Cons p ps)
  have eta: "try_puts (limited other) (p # ps) = (\<lambda>s. and_then (try_put (limited other) p s) (\<lambda>_. try_puts (limited other) ps))"
    by (simp add: fun_eq_iff)
  show ?case unfolding eta using Cons by (intro net_effect_then) auto
qed (rule net_effectI, simp_all)

interpretation net_effects: network_relation net_effect net_effect "kernel_sink (limited other)" "kernel_sink (limited other)"
  for other
proof unfold_locales
  show "net_effect (sink_add_network_rule (kernel_sink (limited other)) role_id port protocol direction allow)
      (sink_add_network_rule (kernel_sink (limited other)) role_id port protocol direction allow)" for role_id port protocol direction allow
    using net_effect_puts [of "[Put_net (net_key role_id port protocol direction) (bool_byte allow)]" other]
    by (simp add: kernel_sink_def sink_over_def net_effect_put run_puts_fun)
qed (simp_all add: net_effect_then net_effect_return)

section \<open>Wide port ranges\<close>

lemma net_rule_written:
  assumes "sink_add_network_rule (kernel_sink (limited other)) role_id port protocol direction allow s = (Inr (), s')"
  shows "net_key role_id port protocol direction \<in> dom (network_rules s')"
  using assms by (auto simp: kernel_sink_def sink_over_def try_put_def split: if_splits)

lemma and_then_done: "and_then r f = (Inr y, t) \<longleftrightarrow> (\<exists>x s. r = (Inr x, s) \<and> f x s = (Inr y, t))"
  by (auto simp: and_then_def split: sum.splits prod.splits)

lemma net_effect_dom: "net_effect c d \<Longrightarrow> c s = (r, s') \<Longrightarrow> dom (network_rules s) \<subseteq> dom (network_rules s')"
  by (force simp: net_effect_def Let_def)

lemma ports_written:
  assumes "sink_ports (kernel_sink (limited other)) role_id protocol allow ports s = (Inr (), s')"
    and "port \<in> set ports" and "direction = BIND \<or> direction = CONNECT"
  shows "net_key role_id port protocol direction \<in> dom (network_rules s')"
  using assms
proof (induction ports arbitrary: s)
  case (Cons q ports)
  let ?sink = "kernel_sink (limited other)"
  obtain s1 s2 where w: "sink_add_network_rule ?sink role_id q protocol BIND allow s = (Inr (), s1)"
      "sink_add_network_rule ?sink role_id q protocol CONNECT allow s1 = (Inr (), s2)"
      "sink_ports ?sink role_id protocol allow ports s2 = (Inr (), s')"
    using Cons.prems(1) by (auto simp: and_then_done)
  have mono: "dom (network_rules s1) \<subseteq> dom (network_rules s2)" "dom (network_rules s2) \<subseteq> dom (network_rules s')"
    using net_effect_dom [OF net_effects.net w(2)] net_effect_dom [OF net_effects.ports_related w(3)] .
  show ?case
  proof (cases "port = q")
    case True
    then show ?thesis using net_rule_written [OF w(1)] net_rule_written [OF w(2)] mono Cons.prems(3) by blast
  next
    case False
    then show ?thesis using Cons.IH [OF w(3)] Cons.prems(2,3) by simp
  qed
qed simp

lemma rules_written:
  assumes "sink_network_rules (kernel_sink (limited other)) role_id rs skipped s = (Inr skipped', s')" and "r \<in> set rs"
    and "expand_network_rule (nr_protocol r) (nr_port r) (nr_port_start r) (nr_port_end r) = Some (protocol, ports)"
    and "port \<in> set ports" and "direction = BIND \<or> direction = CONNECT"
  shows "net_key role_id port protocol direction \<in> dom (network_rules s')"
  using assms
proof (induction rs arbitrary: skipped s)
  case (Cons q rs)
  show ?case
  proof (cases "q = r")
    case True
    then obtain s1 where w: "sink_ports (kernel_sink (limited other)) role_id protocol (nr_allow r) ports s = (Inr (), s1)"
        "sink_network_rules (kernel_sink (limited other)) role_id rs skipped s1 = (Inr skipped', s')"
      using Cons.prems(1,3) by (auto simp: and_then_done)
    have "net_key role_id port protocol direction \<in> dom (network_rules s1)" by (rule ports_written [OF w(1) Cons.prems(4,5)])
    then show ?thesis using net_effect_dom [OF net_effects.network_related w(2)] by (rule rev_subsetD)
  next
    case False
    obtain skipped1 s1 where "sink_network_rules (kernel_sink (limited other)) role_id rs skipped1 s1 = (Inr skipped', s')"
      using Cons.prems(1) by (auto simp: and_then_done split: option.splits)
    then show ?thesis using Cons.prems(2-5) False by (intro Cons.IH) simp_all
  qed
qed simp

lemma wide_range_fails:
  assumes "net_bounded s" and "r \<in> set rs"
    and "expand_network_rule (nr_protocol r) (nr_port r) (nr_port_start r) (nr_port_end r) = Some (protocol, ports)"
    and "md_max_entries map_network_rules < 2 * card (set ports)"
  shows "\<exists>e s'. sink_network_rules (kernel_sink (limited other)) role_id rs skipped s = (Inl e, s') \<and> egress_maps s' = egress_maps s"
proof -
  obtain res s' where run: "sink_network_rules (kernel_sink (limited other)) role_id rs skipped s = (res, s')" by force
  have effect: "egress_maps s' = egress_maps s" "net_bounded s'"
    using net_effects.network_related [of other role_id rs skipped, unfolded net_effect_def Let_def, rule_format, of s] run assms(1)
    by auto
  have "\<exists>e. res = Inl e"
  proof (cases res)
    case (Inr skipped')
    let ?keys = "(\<lambda>(port, direction). net_key role_id port protocol direction) ` (set ports \<times> {BIND, CONNECT})"
    have "net_key role_id port protocol direction \<in> dom (network_rules s')"
      if "port \<in> set ports" "direction = BIND \<or> direction = CONNECT" for port direction
      using run [unfolded Inr] assms(2,3) that by (rule rules_written)
    then have "?keys \<subseteq> dom (network_rules s')" by (intro image_subsetI) (auto simp del: domIff)
    then have "card ?keys \<le> card (dom (network_rules s'))" using effect(2) by (intro card_mono) (auto simp: net_bounded_def)
    moreover have "card ?keys = card (set ports \<times> {BIND, CONNECT})"
      by (intro card_image) (auto simp: inj_on_def net_key_def)
    ultimately show ?thesis using effect(2) assms(4) by (simp add: net_bounded_def card_cartesian_product BIND_def CONNECT_def)
  qed simp
  then show ?thesis using run effect(1) by blast
qed

text \<open>The sections before the address rules, whichever way they end.\<close>

lemma early_sections_effect:
  "net_effect (sink_set_role_flags (kernel_sink (limited other)) role_id flags)
     (sink_set_role_flags (kernel_sink (limited other)) role_id flags)"
  "net_effect (sink_states (sink_write_path_states (kernel_sink (limited other)) role_id) skip entries skipped)
     (sink_states (sink_write_path_states (kernel_sink (limited other)) role_id) skip entries skipped)"
  "net_effect (sink_states (sink_write_exec_states (kernel_sink (limited other)) role_id) skip entries skipped)
     (sink_states (sink_write_exec_states (kernel_sink (limited other)) role_id) skip entries skipped)"
proof -
  have puts: "net_effect (try_puts (limited other) ps) (try_puts (limited other) ps)"
    if "\<And>p. p \<in> set ps \<Longrightarrow> (\<exists>k v. p = Put_flags k v) \<or> (\<exists>k v. p = Put_path k v) \<or> (\<exists>k v. p = Put_exec k v)" for ps
    using that by (intro net_effect_puts allI) (force intro: net_effect_put)
  show "net_effect (sink_set_role_flags (kernel_sink (limited other)) role_id flags)
     (sink_set_role_flags (kernel_sink (limited other)) role_id flags)"
    using puts [of "[Put_flags role_id flags]"] by (simp add: kernel_sink_def sink_over_def run_puts_fun)
  show "net_effect (sink_states (sink_write_path_states (kernel_sink (limited other)) role_id) skip entries skipped)
     (sink_states (sink_write_path_states (kernel_sink (limited other)) role_id) skip entries skipped)"
    "net_effect (sink_states (sink_write_exec_states (kernel_sink (limited other)) role_id) skip entries skipped)
     (sink_states (sink_write_exec_states (kernel_sink (limited other)) role_id) skip entries skipped)"
    by (auto intro!: net_effects.states_related puts simp: kernel_sink_def sink_over_def run_puts_fun)
qed

text \<open>A computation that fails before the address rules, from every state within the capacity.\<close>

definition bound_to_fail :: "(bpf_state \<Rightarrow> (sink_error + 'a) \<times> bpf_state) \<Rightarrow> bool" where
  "bound_to_fail f \<longleftrightarrow>
     (\<forall>s. net_bounded s \<longrightarrow> (\<exists>e s'. f s = (Inl e, s') \<and> egress_maps s' = egress_maps s \<and> net_bounded s' \<and>
        dom (role_flags s) \<subseteq> dom (role_flags s')))"

lemma bound_to_fail_first: "bound_to_fail c \<Longrightarrow> bound_to_fail (\<lambda>s. and_then (c s) f)"
  unfolding bound_to_fail_def by (metis and_then_simps(1))

lemma bound_to_fail_later:
  assumes "net_effect c d" and "\<And>x. bound_to_fail (f x)"
  shows "bound_to_fail (\<lambda>s. and_then (c s) f)"
  unfolding bound_to_fail_def
proof (intro allI impI)
  fix s
  assume s: "net_bounded s"
  obtain r t where t: "c s = (r, t)" by force
  have c: "egress_maps t = egress_maps s" "net_bounded t" "dom (role_flags s) \<subseteq> dom (role_flags t)"
    using assms(1) [unfolded net_effect_def Let_def, rule_format, of s] s t by auto
  show "\<exists>e s'. and_then (c s) f = (Inl e, s') \<and> egress_maps s' = egress_maps s \<and> net_bounded s' \<and>
      dom (role_flags s) \<subseteq> dom (role_flags s')"
  proof (cases r)
    case (Inl e)
    then show ?thesis using t c by simp
  next
    case (Inr x)
    obtain e s' where "f x t = (Inl e, s')" "egress_maps s' = egress_maps t" "net_bounded s'"
        "dom (role_flags t) \<subseteq> dom (role_flags s')"
      using assms(2) c(2) unfolding bound_to_fail_def by blast
    moreover from this have "dom (role_flags s) \<subseteq> dom (role_flags s')" using c(3) by (blast intro: subset_trans)
    ultimately show ?thesis using t c Inr by simp
  qed
qed

lemma wide_rules_fail:
  assumes "rule \<in> set (rl_network_rules r)"
    and "expand_network_rule (nr_protocol rule) (nr_port rule) (nr_port_start rule) (nr_port_end rule) = Some (protocol, ports)"
    and "md_max_entries map_network_rules < 2 * card (set ports)"
  shows "bound_to_fail (sink_rules (kernel_sink (limited other)) resolve r files execs)"
proof -
  have net: "bound_to_fail (sink_network_rules (kernel_sink (limited other)) (rl_id r) (rl_network_rules r) skipped)" for skipped
    using wide_range_fails [OF _ assms(1-3), of _ other "rl_id r" skipped]
      net_effects.network_related [of other "rl_id r" "rl_network_rules r" skipped, unfolded net_effect_def Let_def, rule_format]
    unfolding bound_to_fail_def by (metis snd_conv)
  show ?thesis
    unfolding sink_rules_def
    by (rule bound_to_fail_later [OF early_sections_effect(2)], rule bound_to_fail_later [OF early_sections_effect(3)],
        rule bound_to_fail_first [OF net])
qed

section \<open>Requests\<close>

lemma reliable_network:
  "snd (sink_network_rules (kernel_sink (\<lambda>_ _. True)) role_id rs skipped s) = tracker_network_rules role_id rs s"
proof -
  have "snd (apply_network_rules role_id rs skipped s) = tracker_network_rules role_id rs s"
    by (induction rs arbitrary: skipped s) (auto split: option.split)
  then show ?thesis
    using reliable.network_related [of role_id rs skipped] by (simp add: same_run_def sink_network_model)
qed

lemma reliable_paths:
  "snd (sink_states (sink_write_path_states (kernel_sink (\<lambda>_ _. True)) role_id) skip entries skipped s) =
   (case entries of Inl _ \<Rightarrow> s | Inr rows \<Rightarrow> write_states rows s)"
  by (cases entries) (auto simp: kernel_sink_def sink_over_def try_puts_all put_rows write_states_def write_path_states_def)

text \<open>Where no write fails these are the handlers of the model.\<close>

theorem reliable_requests:
  "handle_enroll_to (\<lambda>_ _. True) pid pod role_id d = map_option (map_prod Inr id) (handle_enroll pid pod role_id d)"
  "handle_define_role_to (\<lambda>_ _. True) de r d =
     map_option (map_prod (\<lambda>x. case x of Error (Apply_failed e) \<Rightarrow> Inl (Codec e) | _ \<Rightarrow> Inr x) id) (handle_define_role de r d)"
proof -
  show "handle_enroll_to (\<lambda>_ _. True) pid pod role_id d = map_option (map_prod Inr id) (handle_enroll pid pod role_id d)"
    by (auto simp: handle_enroll_to_def handle_enroll_def install_role_def tracker_path_rules_def set_role_policy_def
        enroll_pending_process_def try_put_def reliable_network reliable_paths Let_def split: option.split sum.split)
  show "handle_define_role_to (\<lambda>_ _. True) de r d =
     map_option (map_prod (\<lambda>x. case x of Error (Apply_failed e) \<Rightarrow> Inl (Codec e) | _ \<Rightarrow> Inr x) id) (handle_define_role de r d)"
    by (auto simp: handle_define_role_to_def handle_define_role_def reliable_role Let_def split: option.split sum.split)
qed

text \<open>A kernel that refuses an update only for want of room.\<close>

lemma limited_True [simp]: "limited (\<lambda>_ _. True) = has_capacity"
  by (simp add: fun_eq_iff limited_def)

lemma define_wide_role:
  assumes "net_bounded (d_maps d)" and "unenforced_settings r = []" and "rule \<in> set (rl_network_rules r)"
    and "expand_network_rule (nr_protocol rule) (nr_port rule) (nr_port_start rule) (nr_port_end rule) = Some (protocol, ports)"
    and "md_max_entries map_network_rules < 2 * card (set ports)"
    and "room (md_max_entries map_role_flags) (role_flags (d_maps d)) (rl_id r)"
  obtains e s' where "handle_define_role_to has_capacity de r d = Some (Inl e, (define_role r d)\<lparr>d_maps := s'\<rparr>)"
    "egress_maps s' = egress_maps (d_maps d)" "rl_id r \<in> dom (role_flags s')"
proof (rule both_lists_encode [of r])
  fix files execs
  assume e: "path_state_entries_for_role (rl_id r) (rules_of_paths (rl_file_paths r)) = Some files"
    "path_state_entries_for_role (rl_id r) (rules_of_execs (rl_execution_rules r)) = Some execs"
  let ?flags = "Put_flags (rl_id r) (policy_flags_to_u8 (rl_flags r))" and ?sink = "kernel_sink has_capacity"
  let ?s = "put_entry ?flags (d_maps d)"
  have "net_bounded ?s" "egress_maps ?s = egress_maps (d_maps d)" "rl_id r \<in> dom (role_flags ?s)"
    using assms(1) by (simp_all add: net_bounded_def egress_maps_def)
  moreover from this(1) obtain err s' where
      "sink_rules ?sink (de_resolve de) r files execs ?s = (Inl err, s')" "egress_maps s' = egress_maps ?s"
      "dom (role_flags ?s) \<subseteq> dom (role_flags s')"
    using wide_rules_fail [OF assms(3-5), of "\<lambda>_ _. True" "de_resolve de" files execs] unfolding bound_to_fail_def limited_True by blast
  moreover have "apply_stages ?sink (de_resolve de) r files execs (d_maps d) = sink_rules ?sink (de_resolve de) r files execs ?s"
    using assms(6) by (simp add: apply_stages_def kernel_sink_def sink_over_def try_put_def)
  moreover have "d_maps (define_role r d) = d_maps d" by (simp add: define_role_def)
  ultimately show thesis
    using assms(2) e by (intro that [of err s']) (auto simp: handle_define_role_to_def apply_role_to_def Let_def simp del: put_entry.simps)
qed

lemma enroll_in_defined_role:
  assumes "d_role_map d role_id = Some r" and "role_id \<in> dom (role_flags (d_maps d))"
    and "room (md_max_entries map_pending_enrollments) (pending_enrollments (d_maps d)) pid"
  obtains d' where "handle_enroll_to has_capacity pid pod role_id d = Some (Inr Success, d')"
    "ip_rules (d_maps d') = ip_rules (d_maps d)" "domain_rules (d_maps d') = domain_rules (d_maps d)"
    "proxy_configs (d_maps d') = proxy_configs (d_maps d)"
    "pending_enrollments (d_maps d') pid = Some \<lparr>pi_pod_id = pod, pi_role_id = role_id, pi_stack_depth = 0, pi_flags = 0\<rparr>"
proof -
  let ?sink = "kernel_sink has_capacity"
  let ?s1 = "put_entry (Put_flags role_id (policy_flags_to_u8 (rl_flags r))) (d_maps d)"
  let ?s2 = "snd (sink_network_rules ?sink role_id (rl_network_rules r) [] ?s1)"
  obtain entries where e: "path_state_entries_for_role role_id (rules_of_paths (rl_file_paths r)) = Some entries"
    using role_outcome [of role_id "rules_of_paths (rl_file_paths r)"] by metis
  let ?s3 = "snd (sink_states (sink_write_path_states ?sink role_id) Skip_file_paths entries [] ?s2)"
  have "egress_maps ?s1 = egress_maps (d_maps d)" by (simp add: egress_maps_def)
  moreover have "egress_maps ?s2 = egress_maps ?s1"
    using net_effects.network_related [of "\<lambda>_ _. True" role_id "rl_network_rules r" "[]"] by (simp add: net_effect_def Let_def)
  moreover have "egress_maps ?s3 = egress_maps ?s2"
    using early_sections_effect(2) [of "\<lambda>_ _. True" role_id Skip_file_paths entries "[]"] by (simp add: net_effect_def Let_def)
  ultimately have "egress_maps ?s3 = egress_maps (d_maps d)" by simp
  moreover have "has_capacity (Put_flags role_id (policy_flags_to_u8 (rl_flags r))) (d_maps d)"
    using assms(2) by (auto simp: room_def)
  ultimately show thesis
    using assms(1,3) e
    by (intro that [of "d\<lparr>d_maps := put_entry (Put_pending pid
          \<lparr>pi_pod_id = pod, pi_role_id = role_id, pi_stack_depth = 0, pi_flags = 0\<rparr>) ?s3\<rparr>"])
      (simp_all add: handle_enroll_to_def try_put_def egress_maps_def Let_def)
qed

section \<open>A role with a wide range\<close>

definition wide_role :: role where
  "wide_role = sample_role\<lparr>rl_network_rules := [\<lparr>nr_protocol = bytes_of ''tcp'', nr_address = None, nr_port = None,
     nr_port_start = Some 1024, nr_port_end = Some 65535, nr_allow = True\<rparr>]\<rparr>"

definition wide_daemon :: daemon where
  "wide_daemon = \<lparr>d_config = sample_policy, d_role_map = Map.empty, d_maps = blank_state, d_xattrs = Map.empty\<rparr>"

lemma wide_role_accepted: "unenforced_settings wide_role = []" by code_simp

definition quiet_denv :: denv where
  "quiet_denv = \<lparr>de_inode = (\<lambda>_. None), de_resolve = (\<lambda>_. []), de_task_of = (\<lambda>_. None), de_xattr_ok = (\<lambda>_ _. True)\<rparr>"

lemma range_expands:
  assumes "parse_protocol p = Some protocol" and "lo \<le> hi"
  shows "\<exists>ports. expand_network_rule p port (Some lo) (Some hi) = Some (protocol, ports) \<and>
    card (set ports) = Suc (unat hi) - unat lo"
proof -
  have "unat hi < 65536" using unsigned_less [of hi] by simp
  then have "inj_on (of_nat :: nat \<Rightarrow> u16) {unat lo..<Suc (unat hi)}"
    by (intro inj_onI) (simp add: word_of_nat_eq_iff take_bit_nat_eq_self)
  then have "card (set (map of_nat [unat lo..<Suc (unat hi)] :: u16 list)) = Suc (unat hi) - unat lo"
    by (simp only: set_map set_upt card_image card_atLeastLessThan)
  moreover have "expand_network_rule p port (Some lo) (Some hi) = Some (protocol, map of_nat [unat lo..<Suc (unat hi)])"
    using assms by (simp add: expand_network_rule_def del: upt_Suc)
  ultimately show ?thesis by blast
qed

lemma tcp_protocol: "parse_protocol (bytes_of ''tcp'') = Some 6" by code_simp

section \<open>Properties\<close>

text \<open>
  C38: A role with a port range of more than 2048 ports cannot be loaded, since every port takes two
  of the 4096 entries of the map. \<open>DefineRole\<close> fails on it, but leaves the role registered, and a
  process can then be enrolled in it with success: without the address rules, the domain rules and
  the proxy of the role.
\<close>

theorem wide_port_range_loses_egress:
  assumes "net_bounded (d_maps d)" and "unenforced_settings r = []" and "rule \<in> set (rl_network_rules r)"
    and "expand_network_rule (nr_protocol rule) (nr_port rule) (nr_port_start rule) (nr_port_end rule) = Some (protocol, ports)"
    and "2048 < card (set ports)"
    and "room (md_max_entries map_role_flags) (role_flags (d_maps d)) (rl_id r)"
    and "room (md_max_entries map_pending_enrollments) (pending_enrollments (d_maps d)) pid"
  shows "\<exists>e d1 d2. handle_define_role_to has_capacity de r d = Some (Inl e, d1) \<and>
    handle_enroll_to has_capacity pid pod (rl_id r) d1 = Some (Inr Success, d2) \<and>
    pending_enrollments (d_maps d2) pid = Some \<lparr>pi_pod_id = pod, pi_role_id = rl_id r, pi_stack_depth = 0, pi_flags = 0\<rparr> \<and>
    ip_rules (d_maps d2) = ip_rules (d_maps d) \<and> domain_rules (d_maps d2) = domain_rules (d_maps d) \<and>
    proxy_configs (d_maps d2) = proxy_configs (d_maps d)"
proof -
  have "md_max_entries map_network_rules < 2 * card (set ports)" using assms(5) by (simp add: map_network_rules_def)
  then obtain e s' where d: "handle_define_role_to has_capacity de r d = Some (Inl e, (define_role r d)\<lparr>d_maps := s'\<rparr>)"
      "egress_maps s' = egress_maps (d_maps d)" "rl_id r \<in> dom (role_flags s')"
    by (rule define_wide_role [OF assms(1-4) _ assms(6)])
  let ?d1 = "(define_role r d)\<lparr>d_maps := s'\<rparr>"
  have "d_role_map ?d1 (rl_id r) = Some r" by (simp add: define_role_def)
  moreover have "rl_id r \<in> dom (role_flags (d_maps ?d1))" using d(3) by simp
  moreover have "room (md_max_entries map_pending_enrollments) (pending_enrollments (d_maps ?d1)) pid"
    using assms(7) d(2) by (simp add: egress_maps_def)
  ultimately show ?thesis
    by (rule enroll_in_defined_role [where pod = pod]) (use d in \<open>auto simp: egress_maps_def\<close>)
qed

theorem wide_port_range_loses_egress_witness:
  "\<exists>e d1 d2. handle_define_role_to has_capacity quiet_denv wide_role wide_daemon = Some (Inl e, d1) \<and>
    handle_enroll_to has_capacity 42 7 3 d1 = Some (Inr Success, d2) \<and> proxy_configs (d_maps d2) = Map.empty"
proof -
  let ?rule = "\<lparr>nr_protocol = bytes_of ''tcp'', nr_address = None, nr_port = None, nr_port_start = Some 1024,
    nr_port_end = Some 65535, nr_allow = True\<rparr>"
  have "(1024 :: u16) \<le> 65535" by simp
  from range_expands [OF tcp_protocol this, of None] obtain ports where
    ports: "expand_network_rule (bytes_of ''tcp'') None (Some 1024) (Some 65535) = Some (6, ports)" "2048 < card (set ports)" by auto
  have r: "rl_id wide_role = 3" "rl_network_rules wide_role = [?rule]" by (simp_all add: wide_role_def)
  have bounded: "net_bounded (d_maps wide_daemon)" by (simp add: net_bounded_def wide_daemon_def blank_state_def)
  have room: "room (md_max_entries map_role_flags) (role_flags (d_maps wide_daemon)) (rl_id wide_role)"
      "room (md_max_entries map_pending_enrollments) (pending_enrollments (d_maps wide_daemon)) 42"
    by (simp_all add: r room_def wide_daemon_def blank_state_def sample_state_def map_role_flags_def map_pending_enrollments_def)
  have "?rule \<in> set (rl_network_rules wide_role)"
    "expand_network_rule (nr_protocol ?rule) (nr_port ?rule) (nr_port_start ?rule) (nr_port_end ?rule) = Some (6, ports)"
    using r ports by simp_all
  from wide_port_range_loses_egress [OF bounded wide_role_accepted this ports(2) room, of quiet_denv 7]
  have "\<exists>e d1 d2. handle_define_role_to has_capacity quiet_denv wide_role wide_daemon = Some (Inl e, d1) \<and>
    handle_enroll_to has_capacity 42 7 3 d1 = Some (Inr Success, d2) \<and> proxy_configs (d_maps d2) = proxy_configs (d_maps wide_daemon)"
    unfolding r by blast
  then show ?thesis by (simp add: wide_daemon_def blank_state_def)
qed

end
