(* ===== verification/Pending_Race.thy ===== *)
theory Pending_Race
  imports Hook_Typing
begin

text \<open>
  The threads of a process and one pending enrollment. A pending entry is filed under the process id,
  which all threads of a process share, while the storage it moves into belongs to one task. The
  steps of \<open>check_pending_enrollment\<close> (look up, store, delete) are taken apart here and interleaved
  between tasks, which run them on several CPUs without a lock. The entry is read with the lookup:
  that the kernel may give the memory of a removed entry to another process while a thread still
  copies from it is not modelled.
\<close>

section \<open>The steps\<close>

text \<open>Where a task is in \<open>check_pending_enrollment\<close>, with the entry it has found.\<close>

datatype progress = Outside | Found process_info | Stored

definition pending_lookup :: "u32 \<Rightarrow> bpf_state \<Rightarrow> progress" where
  "pending_lookup pid s =
     (case pending_enrollments s pid of
        None \<Rightarrow> Outside
      | Some pending \<Rightarrow> if pi_pod_id pending = 0 then Outside else Found pending)"

definition pending_store :: "kenv \<Rightarrow> u64 \<Rightarrow> process_info \<Rightarrow> bpf_state \<Rightarrow> bpf_state" where
  "pending_store k task pending s =
     (let (info, s) = task_storage_get_create k task s in
      case info of
        Some _ \<Rightarrow>
          set_info task
            \<lparr>pi_pod_id = pi_pod_id pending, pi_role_id = pi_role_id pending,
             pi_stack_depth = pi_stack_depth pending, pi_flags = pi_flags pending\<rparr> s
      | None \<Rightarrow> s)"

definition pending_delete :: "u32 \<Rightarrow> bpf_state \<Rightarrow> bpf_state" where
  "pending_delete pid s = s\<lparr>pending_enrollments := (pending_enrollments s)(pid := None)\<rparr>"

text \<open>One after the other they are the function.\<close>

lemma check_pending_steps:
  "check_pending_enrollment k task pid s =
     (case pending_lookup pid s of Found pending \<Rightarrow> pending_delete pid (pending_store k task pending s) | _ \<Rightarrow> s)"
  by (auto simp: check_pending_enrollment_def pending_lookup_def pending_store_def pending_delete_def
      Let_def split: option.split prod.split)

lemma pending_store_maps [simp]: "pending_enrollments (pending_store k task pending s) = pending_enrollments s"
  by (auto simp: pending_store_def task_storage_get_create_def set_info_def split: option.split prod.split)

lemma pending_store_storage:
  assumes "k_storage_alloc k task"
  shows "task_storage (pending_store k task pending s) = (task_storage s)(task \<mapsto> pending)"
  using assms by (cases "task_storage s task") (auto simp: pending_store_def task_storage_get_create_def set_info_def)

section \<open>Interleavings\<close>

text \<open>
  \<open>race pid s0 s at\<close>: the tasks of process \<open>pid\<close> have gone from \<open>s0\<close> to \<open>s\<close> and are now where \<open>at\<close> says, in
  any interleaving of their steps, their storage being allocated when they ask for it. Anything
  else may happen in between that neither writes the pending entry of the process nor changes the
  entry of an enrolled task.
\<close>

inductive race :: "u32 \<Rightarrow> bpf_state \<Rightarrow> bpf_state \<Rightarrow> (u64 \<Rightarrow> progress) \<Rightarrow> bool" for pid s0 where
  start: "race pid s0 s0 (\<lambda>_. Outside)"
| look: "race pid s0 s at \<Longrightarrow> at t = Outside \<Longrightarrow> race pid s0 s (at(t := pending_lookup pid s))"
| store: "race pid s0 s at \<Longrightarrow> at t = Found pending \<Longrightarrow> k_storage_alloc k t \<Longrightarrow>
    race pid s0 (pending_store k t pending s) (at(t := Stored))"
| delete: "race pid s0 s at \<Longrightarrow> at t = Stored \<Longrightarrow> race pid s0 (pending_delete pid s) (at(t := Outside))"
| others: "race pid s0 s at \<Longrightarrow> pending_enrollments s' pid = pending_enrollments s pid \<Longrightarrow>
    \<forall>t. enrolled s t \<longrightarrow> task_storage s' t = task_storage s t \<Longrightarrow> race pid s0 s' at"

text \<open>What the tasks hold on the way, and where the enrollment is.\<close>

lemma race_invariant:
  assumes "race pid s0 s at" and "pending_enrollments s0 pid = Some p" and "pi_pod_id p \<noteq> 0"
  shows "(pending_enrollments s pid = Some p \<or> pending_enrollments s pid = None \<and> (\<exists>t. task_storage s t = Some p)) \<and>
    (\<forall>t q. at t = Found q \<longrightarrow> q = p) \<and> (\<forall>t. at t = Stored \<longrightarrow> task_storage s t = Some p)"
  using assms
proof (induction rule: race.induct)
  case (look s at t)
  then show ?case by (auto simp: pending_lookup_def)
next
  case (store s at t pending k)
  have ih: "pending_enrollments s pid = Some p \<or> pending_enrollments s pid = None \<and> (\<exists>t. task_storage s t = Some p)"
      "\<And>t q. at t = Found q \<Longrightarrow> q = p" "\<And>t. at t = Stored \<Longrightarrow> task_storage s t = Some p"
    using store.IH store.prems by blast+
  have "pending = p" using ih(2) store.hyps(2) .
  then show ?case using ih store.hyps(3) by (auto simp: pending_store_storage)
next
  case (delete s at t)
  then show ?case by (auto simp: pending_delete_def)
next
  case (others s at s')
  have "task_storage s' t = Some p" if "task_storage s t = Some p" for t
    using that others.hyps(3) others.prems by (auto simp: enrolled_def)
  then show ?case using others by auto
qed simp

section \<open>The sibling of an enrolled thread\<close>

lemma unenrolled_stays_free:
  assumes "pending_enrollments s pid = None" and "\<not> enrolled s t" and "\<forall>(k, file) \<in> set opens. k_task k = t \<and> current_pid k = pid"
  shows "run_calls run_hook (map (\<lambda>(k, file). (k, FileOpen file)) opens) s = (replicate (length opens) 0, s)"
  using assms(3)
proof (induction opens)
  case (Cons c opens)
  obtain k f where c: "c = (k, f)" by (cases c)
  have "migrated k s = s" using assms(1) Cons.prems by (simp add: c migrated_def check_pending_enrollment_def)
  then have "file_open k f s = (0, s)" using file_open_not_enrolled [of k s f] assms(2) Cons.prems by (simp add: c)
  then show ?case using Cons by (simp add: c)
qed simp

section \<open>Properties\<close>



text \<open>
  C37: The other threads of a process escape its enrollment. Once one thread has taken the pending
  entry of the process with a file open, a thread of the same process that was not enrolled stays
  so, and every file it opens from then on is let through: the entry is filed under the process id
  and removed by the first thread, while the storage it went to is that thread's alone.
\<close>

theorem sibling_thread_escapes:
  assumes "pending_enrollments s pid = Some p" and "pi_pod_id p \<noteq> 0" and "current_pid k = pid" and "k_storage_alloc k (k_task k)"
    and "t \<noteq> k_task k" and "\<not> enrolled s t" and "\<forall>(k', file) \<in> set opens. k_task k' = t \<and> current_pid k' = pid"
  shows "task_storage (snd (run_hook k (FileOpen f) s)) (k_task k) = Some p \<and>
    fst (run_calls run_hook (map (\<lambda>(k', file). (k', FileOpen file)) opens) (snd (run_hook k (FileOpen f) s))) =
      replicate (length opens) 0 \<and>
    \<not> enrolled (snd (run_calls run_hook (map (\<lambda>(k', file). (k', FileOpen file)) opens) (snd (run_hook k (FileOpen f) s)))) t"
proof -
  let ?s = "snd (run_hook k (FileOpen f) s)"
  have "task_storage ?s = (task_storage s)(k_task k \<mapsto> p)" "pending_enrollments ?s pid = None"
    using assms(1-4) file_open_frame [of s k f] by (simp_all add: file_open_pending migrated_def pending_storage pending_consumed)
  moreover from this have "\<not> enrolled ?s t" using assms(5,6) by (simp add: enrolled_def)
  ultimately show ?thesis using unenrolled_stays_free [OF _ _ assms(7), of ?s] by simp
qed

theorem sibling_thread_escapes_witness:
  "fst (run_calls run_hook [(sample_env\<lparr>k_task := 0x11000\<rparr>, FileOpen 0x60000)]
     (snd (run_hook sample_env (FileOpen 0x60000) sample_pending))) = [0]"
proof -
  have "current_pid (sample_env\<lparr>k_task := 0x11000\<rparr>) = current_pid sample_env" by (simp add: current_pid_def)
  moreover have "current_pid sample_env = 42" by simp
  moreover have "pending_enrollments sample_pending 42 = Some \<lparr>pi_pod_id = 20, pi_role_id = 6, pi_stack_depth = 1, pi_flags = 0\<rparr>"
      "\<not> enrolled sample_pending 0x11000" by (simp_all add: sample_pending_def enrolled_def)
  ultimately show ?thesis
    using sibling_thread_escapes [where s = sample_pending and pid = 42 and k = sample_env and t = "0x11000"
        and p = "\<lparr>pi_pod_id = 20, pi_role_id = 6, pi_stack_depth = 1, pi_flags = 0\<rparr>"
        and opens = "[(sample_env\<lparr>k_task := 0x11000\<rparr>, 0x60000)]" and f = "0x60000"]
    by simp
qed

text \<open>
  A second enrollment that arrives while a thread is moving the first is lost: the thread deletes
  whatever entry there is, and goes on with the first one.
\<close>

theorem reenrollment_lost_in_race:
  assumes "k_storage_alloc k t" and "s1 = pending_store k t p s"
    and "s2 = s1\<lparr>pending_enrollments := (pending_enrollments s1)(pid \<mapsto> q)\<rparr>" and "s3 = pending_delete pid s2"
  shows "pending_enrollments s3 pid = None \<and> task_storage s3 t = Some p"
  using assms by (simp add: pending_delete_def pending_store_storage)

text \<open>
  A pending entry outlives its process: it is taken by whatever task comes to run under the same
  process id later.
\<close>

theorem pending_outlives_process:
  assumes "pending_enrollments s pid = Some p" and "pi_pod_id p \<noteq> 0" and "current_pid k = pid" and "k_storage_alloc k (k_task k)"
  shows "task_storage (snd (run_hook k (FileOpen file) (s\<lparr>task_storage := (task_storage s)(t := None)\<rparr>))) (k_task k) = Some p"
  using assms file_open_frame [of "s\<lparr>task_storage := (task_storage s)(t := None)\<rparr>" k "file"]
  by (simp add: migrated_def pending_storage)

end
