(* ===== verification/Stubs.thy ===== *)
theory Stubs
  imports Sample Hook_Contract
begin

text \<open>
  The BPF objects beside \<open>main.bpf.c\<close>: \<open>process_tracking.bpf.c\<close> with its own copy of \<open>task_alloc\<close>, the
  placeholders \<open>networking.bpf.c\<close>, \<open>path_matching.bpf.c\<close> and \<open>signed_binary.bpf.c\<close>, and the
  task-storage experiment in \<open>test_task_storage\<close>.
\<close>

section \<open>process_tracking.bpf.c\<close>

definition struct_pt_process_info :: ctype where
  "struct_pt_process_info = CStruct [
     Fld ''pod_id'' td_u64, Fld ''role_id'' td_u32, Fld ''stack_depth'' td_u8, Fld ''flags'' td_u8]"

definition map_pt_task_storage :: map_def where
  "map_pt_task_storage = \<lparr>md_type = ''BPF_MAP_TYPE_TASK_STORAGE'', md_key = CBase TInt,
     md_value = struct_pt_process_info, md_max_entries = 0, md_flags = [''BPF_F_NO_PREALLOC'']\<rparr>"

definition map_pod_to_role :: map_def where
  "map_pod_to_role = \<lparr>md_type = ''BPF_MAP_TYPE_HASH'', md_key = td_u64, md_value = td_u32,
     md_max_entries = 1024, md_flags = []\<rparr>"

definition process_tracking_task_alloc :: "kenv \<Rightarrow> u64 \<Rightarrow> bpf_state \<Rightarrow> int \<times> bpf_state" where
  "process_tracking_task_alloc k task s =
     (let (info, s) = task_storage_get_create k task s in
      case info of
        None \<Rightarrow> (0, s)
      | Some info \<Rightarrow>
          let current_task = k_task k in
          (case task_storage s current_task of
             Some parent_info \<Rightarrow>
               if pi_pod_id parent_info \<noteq> 0 then
                 (0, set_info task
                       (info\<lparr>pi_pod_id := pi_pod_id parent_info, pi_role_id := pi_role_id parent_info,
                             pi_stack_depth := pi_stack_depth parent_info,
                             pi_flags := pi_flags parent_info\<rparr>) s)
               else (0, set_info task
                       (info\<lparr>pi_pod_id := 0, pi_role_id := 0, pi_stack_depth := 0, pi_flags := 0\<rparr>) s)
           | None \<Rightarrow> (0, set_info task
                       (info\<lparr>pi_pod_id := 0, pi_role_id := 0, pi_stack_depth := 0, pi_flags := 0\<rparr>) s)))"

section \<open>networking.bpf.c\<close>

definition map_allowed_ports :: map_def where
  "map_allowed_ports = \<lparr>md_type = ''BPF_MAP_TYPE_HASH'', md_key = td_u32, md_value = td_u16,
     md_max_entries = 1024, md_flags = []\<rparr>"

definition map_allowed_addresses :: map_def where
  "map_allowed_addresses = \<lparr>md_type = ''BPF_MAP_TYPE_HASH'', md_key = td_u32, md_value = td_u8,
     md_max_entries = 1024, md_flags = []\<rparr>"

definition networking_socket_bind :: "u64 \<Rightarrow> u64 \<Rightarrow> bpf_state \<Rightarrow> int \<times> bpf_state" where
  "networking_socket_bind sock address s = (0, s)"

definition networking_socket_connect :: "u64 \<Rightarrow> u64 \<Rightarrow> bpf_state \<Rightarrow> int \<times> bpf_state" where
  "networking_socket_connect sock address s = (0, s)"

definition networking_socket_sendmsg :: "u64 \<Rightarrow> u64 \<Rightarrow> bpf_state \<Rightarrow> int \<times> bpf_state" where
  "networking_socket_sendmsg sock msg s = (0, s)"

definition networking_socket_recvmsg :: "u64 \<Rightarrow> u64 \<Rightarrow> bpf_state \<Rightarrow> int \<times> bpf_state" where
  "networking_socket_recvmsg sock msg s = (0, s)"

section \<open>path_matching.bpf.c\<close>

definition MAX_PATH_COMPONENTS :: nat where "MAX_PATH_COMPONENTS = 255"
definition MAX_COMPONENT_LEN :: nat where "MAX_COMPONENT_LEN = 255"

definition struct_path_component :: ctype where
  "struct_path_component = CStruct [Fld ''name'' (CArr 256 (CBase TChar)), Fld ''len'' td_u16]"

definition map_pm_path_decision_cache :: map_def where
  "map_pm_path_decision_cache = \<lparr>md_type = ''BPF_MAP_TYPE_HASH'', md_key = td_u64, md_value = td_u32,
     md_max_entries = 1024, md_flags = []\<rparr>"

definition map_path_patterns :: map_def where
  "map_path_patterns = \<lparr>md_type = ''BPF_MAP_TYPE_HASH'', md_key = td_u32, md_value = td_u8,
     md_max_entries = 10240, md_flags = []\<rparr>"

definition path_matching_file_open :: "u64 \<Rightarrow> bpf_state \<Rightarrow> int \<times> bpf_state" where
  "path_matching_file_open file s = (0, s)"

section \<open>signed_binary.bpf.c\<close>

definition map_verified_binaries :: map_def where
  "map_verified_binaries = \<lparr>md_type = ''BPF_MAP_TYPE_HASH'', md_key = td_u64, md_value = td_u8,
     md_max_entries = 1024, md_flags = []\<rparr>"

definition signed_binary_mmap_file :: "u64 \<Rightarrow> u64 \<Rightarrow> u64 \<Rightarrow> u64 \<Rightarrow> bpf_state \<Rightarrow> int \<times> bpf_state" where
  "signed_binary_mmap_file file reqprot prot flags s = (0, s)"

section \<open>test_task_storage\<close>

record test_value =
  tv_counter :: u64
  tv_flags :: u32

definition struct_test_value :: ctype where
  "struct_test_value = CStruct [Fld ''counter'' (CBase TULLong), Fld ''flags'' (CBase TUInt)]"

definition map_test_task_storage :: map_def where
  "map_test_task_storage = \<lparr>md_type = ''BPF_MAP_TYPE_TASK_STORAGE'', md_key = CBase TInt,
     md_value = struct_test_value, md_max_entries = 0, md_flags = [''BPF_F_NO_PREALLOC'']\<rparr>"

definition test_task_alloc :: "kenv \<Rightarrow> u64 \<Rightarrow> (u64 \<rightharpoonup> test_value) \<Rightarrow> int \<times> (u64 \<rightharpoonup> test_value)" where
  "test_task_alloc k task m =
     (let current_task = k_task k;
          val = (case m current_task of
                   Some v \<Rightarrow> Some v
                 | None \<Rightarrow> if k_storage_alloc k current_task
                           then Some \<lparr>tv_counter = 0, tv_flags = 0\<rparr> else None) in
      case val of
        Some v \<Rightarrow> (0, m(current_task \<mapsto> v\<lparr>tv_counter := 1, tv_flags := 0\<rparr>))
      | None \<Rightarrow> (0, m))"

section \<open>Properties\<close>

text \<open>
  The copy of \<open>task_alloc\<close> in \<open>process_tracking.bpf.c\<close> does what \<open>main.bpf.c\<close> does, in every state.
\<close>

theorem process_tracking_equivalent: "process_tracking_task_alloc k task s = task_alloc k task s"
  by (auto simp: process_tracking_task_alloc_def task_alloc_def Let_def split_beta zero_info_def
      intro!: arg_cong [of _ _ "\<lambda>i. set_info task i _"] split: option.splits)

end
